(* ===== verification/Prelude.thy ===== *)
theory Prelude
  imports Main
begin

text \<open>
  Shared vocabulary of the development.

  The Go code reports failure by returning an error value early. A function that can fail is
  modelled as a value of a sum type: \<open>Inl\<close> carries the error, \<open>Inr\<close> the result. The Go idiom
  \<^verbatim>\<open>
    x, err := m
    if err != nil { return h(err) }
    ... x ...
  \<close>
  is \<open>attempt m h (\<lambda>x. \<dots>)\<close>, and \<open>require\<close> is the same for an optional value, so a body is a
  chain of \<open>attempt\<close>, \<open>require\<close> and \<open>if\<close> in the order of the source. The collection \<open>run\<close> holds
  the rewrite rules that read a successful run of such a chain as the conjunction of what each
  step returned. The collection \<open>keys\<close> collects facts on ledger keys.

  The second half of the theory is about finite maps: the sum of a measure over all entries of a
  map, and how it changes under an update. The conservation theorems rest on it.
\<close>

named_theorems run \<open>a chain of fallible steps that succeeds\<close>
named_theorems keys \<open>ledger keys, their prefixes and their disjointness\<close>

section \<open>Chains of fallible steps\<close>

definition attempt :: "'e + 'a \<Rightarrow> ('e \<Rightarrow> 'f) \<Rightarrow> ('a \<Rightarrow> 'f + 'b) \<Rightarrow> 'f + 'b" where
  "attempt m h k = (case m of Inl e \<Rightarrow> Inl (h e) | Inr x \<Rightarrow> k x)"

definition require :: "'a option \<Rightarrow> 'f \<Rightarrow> ('a \<Rightarrow> 'f + 'b) \<Rightarrow> 'f + 'b" where
  "require m e k = (case m of None \<Rightarrow> Inl e | Some x \<Rightarrow> k x)"

lemma attempt_simps [simp]:
  "attempt (Inl e) h k = Inl (h e)"
  "attempt (Inr x) h k = k x"
  by (simp_all add: attempt_def)

lemma require_simps [simp]:
  "require None e k = Inl e"
  "require (Some x) e k = k x"
  by (simp_all add: require_def)

lemma attempt_run [run]: "attempt m h k = Inr y \<longleftrightarrow> (\<exists>x. m = Inr x \<and> k x = Inr y)"
  by (cases m) simp_all

lemma require_run [run]: "require m e k = Inr y \<longleftrightarrow> (\<exists>x. m = Some x \<and> k x = Inr y)"
  by (cases m) simp_all

lemma if_run [run]: "((if c then Inl e else m) = Inr y) \<longleftrightarrow> \<not> c \<and> m = Inr y"
  by simp

lemma if_run_else [run]: "((if c then m else Inl e) = Inr y) \<longleftrightarrow> c \<and> m = Inr y"
  by simp

lemma Let_run [run]: "(Let x g = Inr y) \<longleftrightarrow> (g x = Inr y)"
  by simp

text \<open>\<open>if _, err := m; err != nil { \<dots> } else { return h }\<close>: going on only when \<open>m\<close> failed.\<close>

lemma failed_run [run]:
  "(case m of Inl e \<Rightarrow> f e | Inr x \<Rightarrow> Inl (h x)) = Inr y \<longleftrightarrow> (\<exists>e. m = Inl e \<and> f e = Inr y)"
  by (cases m) simp_all

section \<open>Lists\<close>

lemma suffix_self_append: "drop (length (xs @ ys) - length ys) (xs @ ys) = ys"
  by simp

lemma take_length_append: "take (length (xs @ ys) - length ys) (xs @ ys) = xs"
  by simp

lemma sum_list_map_append [simp]:
  "sum_list (map f (xs @ ys)) = sum_list (map f xs) + sum_list (map f ys)"
  for f :: "'a \<Rightarrow> int"
  by simp

section \<open>Sums over finite maps\<close>

definition total_of :: "('v \<Rightarrow> int) \<Rightarrow> ('k \<rightharpoonup> 'v) \<Rightarrow> int" where
  "total_of f m = (\<Sum>k\<in>dom m. f (the (m k)))"

definition entry :: "('v \<Rightarrow> int) \<Rightarrow> ('k \<rightharpoonup> 'v) \<Rightarrow> 'k \<Rightarrow> int" where
  "entry f m k = (case m k of None \<Rightarrow> 0 | Some v \<Rightarrow> f v)"

lemma total_empty [simp]: "total_of f Map.empty = 0"
  by (simp add: total_of_def)

lemma total_split:
  assumes "finite (dom m)"
  shows "total_of f m = entry f m k + (\<Sum>j\<in>dom m - {k}. f (the (m j)))"
proof (cases "k \<in> dom m")
  case True
  then show ?thesis
    using assms by (auto simp: total_of_def entry_def sum.remove)
next
  case False
  then show ?thesis
    by (simp add: total_of_def entry_def domIff)
qed

lemma total_update:
  assumes "finite (dom m)"
  shows "total_of f (m(k \<mapsto> v)) = total_of f m - entry f m k + f v"
proof -
  let ?rest = "\<lambda>m. \<Sum>j\<in>dom m - {k}. f (the (m j))"
  have "?rest (m(k \<mapsto> v)) = ?rest m"
    by (rule sum.cong) auto
  moreover have "entry f (m(k \<mapsto> v)) k = f v"
    by (simp add: entry_def)
  ultimately show ?thesis
    using total_split [of "m(k \<mapsto> v)" f k] total_split [of m f k] assms by simp
qed

lemma total_remove:
  assumes "finite (dom m)"
  shows "total_of f (m(k := None)) = total_of f m - entry f m k"
proof -
  let ?rest = "\<lambda>m. \<Sum>j\<in>dom m - {k}. f (the (m j))"
  have "?rest (m(k := None)) = ?rest m"
    by (rule sum.cong) auto
  moreover have "entry f (m(k := None)) k = 0"
    by (simp add: entry_def)
  ultimately show ?thesis
    using total_split [of "m(k := None)" f k] total_split [of m f k] assms by simp
qed

lemma entry_upd_other [simp]: "j \<noteq> k \<Longrightarrow> entry f (m(k := v)) j = entry f m j"
  by (simp add: entry_def)

lemma entry_upd: "entry f (m(k \<mapsto> v)) j = (if j = k then f v else entry f m j)"
  by (simp add: entry_def)

lemma entry_removed: "entry f (m(k := None)) j = (if j = k then 0 else entry f m j)"
  by (simp add: entry_def)

lemma entry_none [simp]: "m k = None \<Longrightarrow> entry f m k = 0"
  by (simp add: entry_def)

lemma entry_some [simp]: "m k = Some v \<Longrightarrow> entry f m k = f v"
  by (simp add: entry_def)

end
