(* ===== verification/GoStrings.thy ===== *)
theory GoStrings
  imports Prelude "HOL-Library.Word"
begin

text \<open>
  What the source uses of Go's standard library on strings, integers and bytes: \<open>strings.ToUpper\<close>
  and \<open>ToLower\<close> (ASCII), decimal printing and parsing (\<open>%d\<close>, \<open>strconv.ParseInt\<close>, \<open>Atoi\<close>,
  \<open>ParseBool\<close>, \<open>big.Int.SetString\<close>, \<open>big.Rat.SetString\<close>), \<open>encoding/hex\<close>, \<open>strings.Split\<close>, and
  the 64-bit wrap-around of \<open>int64\<close>. A Go string is a sequence of bytes, here a \<open>char list\<close>.
\<close>

type_synonym byte = "8 word"

section \<open>Signed 64-bit integers\<close>

definition swrap64 :: "int \<Rightarrow> int" where
  "swrap64 n = (n + 2 ^ 63) mod 2 ^ 64 - 2 ^ 63"

lemma swrap64_id: "- (2 ^ 63) \<le> n \<Longrightarrow> n < 2 ^ 63 \<Longrightarrow> swrap64 n = n"
  by (simp add: swrap64_def)

lemma swrap64_sint: "swrap64 n = sint (word_of_int n :: 64 word)"
  by (simp add: swrap64_def sint_uint uint_word_of_int signed_take_bit_eq_take_bit_shift
      take_bit_eq_mod mod_simps)

section \<open>Characters and case\<close>

definition chr :: "nat \<Rightarrow> char" where
  "chr n = char_of n"

definition ord :: "char \<Rightarrow> nat" where
  "ord c = of_char c"

lemma ord_chr [simp]: "n < 256 \<Longrightarrow> ord (chr n) = n"
  by (simp add: ord_def chr_def)

lemma chr_ord [simp]: "chr (ord c) = c"
  by (simp add: ord_def chr_def)

lemma ord_less [simp]: "ord c < 256"
  by (simp add: ord_def)

lemma ord_inject [simp]: "ord c = ord d \<longleftrightarrow> c = d"
  by (metis chr_ord)

definition upper_char :: "char \<Rightarrow> char" where
  "upper_char c = (if 97 \<le> ord c \<and> ord c \<le> 122 then chr (ord c - 32) else c)"

definition lower_char :: "char \<Rightarrow> char" where
  "lower_char c = (if 65 \<le> ord c \<and> ord c \<le> 90 then chr (ord c + 32) else c)"

definition ToUpper :: "string \<Rightarrow> string" where
  "ToUpper s = map upper_char s"

definition ToLower :: "string \<Rightarrow> string" where
  "ToLower s = map lower_char s"

lemma length_ToUpper [simp]: "length (ToUpper s) = length s"
  by (simp add: ToUpper_def)

lemma length_ToLower [simp]: "length (ToLower s) = length s"
  by (simp add: ToLower_def)

lemma ToUpper_append [simp]: "ToUpper (s @ t) = ToUpper s @ ToUpper t"
  by (simp add: ToUpper_def)

lemma upper_char_idem [simp]: "upper_char (upper_char c) = upper_char c"
  by (auto simp: upper_char_def)

lemma ToUpper_idem [simp]: "ToUpper (ToUpper s) = ToUpper s"
  by (simp add: ToUpper_def)

definition is_digit :: "char \<Rightarrow> bool" where
  "is_digit c \<longleftrightarrow> 48 \<le> ord c \<and> ord c \<le> 57"

definition is_upper :: "char \<Rightarrow> bool" where
  "is_upper c \<longleftrightarrow> 65 \<le> ord c \<and> ord c \<le> 90"

section \<open>Decimal numbers\<close>

definition digit_char :: "nat \<Rightarrow> char" where
  "digit_char d = chr (48 + d)"

definition digit_val :: "char \<Rightarrow> nat" where
  "digit_val c = ord c - 48"

lemma digit_val_char [simp]: "d < 10 \<Longrightarrow> digit_val (digit_char d) = d"
  by (simp add: digit_val_def digit_char_def)

lemma is_digit_char [simp]: "d < 10 \<Longrightarrow> is_digit (digit_char d)"
  by (simp add: is_digit_def digit_char_def)

fun dec_nat :: "nat \<Rightarrow> string" where
  "dec_nat n = (if n < 10 then [digit_char n] else dec_nat (n div 10) @ [digit_char (n mod 10)])"

declare dec_nat.simps [simp del]

definition dec_val :: "string \<Rightarrow> nat" where
  "dec_val s = foldl (\<lambda>v c. 10 * v + digit_val c) 0 s"

lemma foldl_dec:
  "foldl (\<lambda>v c. 10 * v + digit_val c) a s = a * 10 ^ length s + dec_val s"
proof (induction s arbitrary: a)
  case Nil
  then show ?case by (simp add: dec_val_def)
next
  case (Cons c s)
  have "dec_val (c # s) = digit_val c * 10 ^ length s + dec_val s"
    using Cons.IH [of "digit_val c"] by (simp add: dec_val_def)
  then show ?case
    using Cons.IH [of "10 * a + digit_val c"] by (simp add: algebra_simps)
qed

lemma dec_val_Nil [simp]: "dec_val [] = 0"
  by (simp add: dec_val_def)

lemma dec_val_append: "dec_val (s @ t) = dec_val s * 10 ^ length t + dec_val t"
  by (metis dec_val_def foldl_append foldl_dec)

lemma dec_val_single [simp]: "dec_val [c] = digit_val c"
  by (simp add: dec_val_def)

lemma dec_val_dec_nat [simp]: "dec_val (dec_nat n) = n"
proof (induction n rule: dec_nat.induct)
  case (1 n)
  show ?case
  proof (cases "n < 10")
    case True
    then show ?thesis by (subst dec_nat.simps) simp
  next
    case False
    with 1 show ?thesis by (subst dec_nat.simps) (simp add: dec_val_append)
  qed
qed

lemma dec_nat_inject [simp]: "dec_nat m = dec_nat n \<longleftrightarrow> m = n"
  by (metis dec_val_dec_nat)

lemma dec_nat_not_Nil [simp]: "dec_nat n \<noteq> []"
  by (subst dec_nat.simps) simp

lemma dec_nat_digits [simp]: "list_all is_digit (dec_nat n)"
proof (induction n rule: dec_nat.induct)
  case (1 n)
  then show ?case by (subst dec_nat.simps) simp
qed

lemma dec_val_bound: "list_all is_digit s \<Longrightarrow> dec_val s < 10 ^ length s"
proof (induction s rule: rev_induct)
  case Nil
  then show ?case by simp
next
  case (snoc c s)
  then have "dec_val s < 10 ^ length s" and "digit_val c < 10"
    by (auto simp: is_digit_def digit_val_def)
  then show ?case by (simp add: dec_val_append)
qed

lemma dec_nat_length: "10 ^ k \<le> n \<Longrightarrow> n < 10 ^ Suc k \<Longrightarrow> length (dec_nat n) = Suc k"
proof (induction k arbitrary: n)
  case 0
  then show ?case by (subst dec_nat.simps) simp
next
  case (Suc k)
  from Suc.prems have "10 ^ k \<le> n div 10" and "n div 10 < 10 ^ Suc k"
    by (auto simp: less_mult_imp_div_less)
  then have "length (dec_nat (n div 10)) = Suc k" by (rule Suc.IH)
  moreover have "\<not> n < 10"
    using Suc.prems(1) by (metis (mono_tags) not_le one_le_numeral order_trans power_increasing
        power_one_right le_add1 plus_1_eq_Suc)
  ultimately show ?case by (subst dec_nat.simps) simp
qed

text \<open>\<open>%d\<close> and \<open>big.Int.String\<close>.\<close>

definition dec_int :: "int \<Rightarrow> string" where
  "dec_int n = (if n < 0 then CHR ''-'' # dec_nat (nat (- n)) else dec_nat (nat n))"

lemma not_digit_sign [simp]: "\<not> is_digit (CHR ''-'')" "\<not> is_digit (CHR ''+'')"
  by (simp_all add: is_digit_def ord_def)

lemma dec_nat_head: "\<exists>c s. dec_nat n = c # s \<and> is_digit c \<and> list_all is_digit s"
  using dec_nat_digits [of n] dec_nat_not_Nil [of n] by (cases "dec_nat n") auto

lemma dec_int_inject [simp]: "dec_int m = dec_int n \<longleftrightarrow> m = n"
proof -
  have neg: "dec_nat a \<noteq> CHR ''-'' # s" for a s
    by (metis dec_nat_digits list.pred_inject(2) not_digit_sign(1))
  have "m = n" if "dec_int m = dec_int n"
    using that neg [of "nat m" "dec_nat (nat (- n))"] neg [of "nat n" "dec_nat (nat (- m))"]
    by (auto simp: dec_int_def split: if_splits)
  then show ?thesis by auto
qed

text \<open>A signed decimal numeral, as both \<open>strconv.ParseInt\<close> in base 10 and
  \<open>big.Int.SetString\<close> in base 10 read it: an optional sign and at least one digit.\<close>

definition parse_digits :: "string \<Rightarrow> nat option" where
  "parse_digits s = (if s \<noteq> [] \<and> list_all is_digit s then Some (dec_val s) else None)"

fun parse_int :: "string \<Rightarrow> int option" where
  "parse_int [] = None"
| "parse_int (c # s) =
     (if c = CHR ''-'' then map_option (\<lambda>n. - int n) (parse_digits s)
      else if c = CHR ''+'' then map_option int (parse_digits s)
      else map_option int (parse_digits (c # s)))"

lemma parse_digits_dec_nat [simp]: "parse_digits (dec_nat n) = Some n"
  by (simp add: parse_digits_def)

lemma parse_int_dec_nat [simp]: "parse_int (dec_nat n) = Some (int n)"
proof -
  obtain c s where cs: "dec_nat n = c # s" and "is_digit c"
    using dec_nat_head by blast
  then have "c \<noteq> CHR ''-''" and "c \<noteq> CHR ''+''" by auto
  moreover have "parse_digits (c # s) = Some n"
    using parse_digits_dec_nat [of n] cs by simp
  ultimately show ?thesis by (simp add: cs)
qed

lemma parse_int_dec_int [simp]: "parse_int (dec_int n) = Some n"
  by (simp add: dec_int_def)

text \<open>\<open>strconv.ParseInt(s, 10, bits)\<close>: the value it returns, which the caller may go on to use,
  and whether it returns an error. A syntax error returns 0, an out-of-range one the nearest
  bound.\<close>

definition ParseInt :: "string \<Rightarrow> nat \<Rightarrow> int \<times> bool" where
  "ParseInt s bits =
     (case parse_int s of
        None \<Rightarrow> (0, False)
      | Some n \<Rightarrow>
          if n \<ge> 2 ^ (bits - 1) then (2 ^ (bits - 1) - 1, False)
          else if n < - (2 ^ (bits - 1)) then (- (2 ^ (bits - 1)), False)
          else (n, True))"

lemma ParseInt_dec_int: "- (2 ^ 63) \<le> n \<Longrightarrow> n < 2 ^ 63 \<Longrightarrow> ParseInt (dec_int n) 64 = (n, True)"
  by (simp add: ParseInt_def)

lemma ParseInt_range:
  assumes "ParseInt s 64 = (n, ok)"
  shows "- (2 ^ 63) \<le> n \<and> n < 2 ^ 63"
  using assms by (auto simp: ParseInt_def split: option.splits if_splits)

text \<open>\<open>strconv.Atoi\<close> on a 64-bit platform.\<close>

definition Atoi :: "string \<Rightarrow> int option" where
  "Atoi s = (case ParseInt s 64 of (n, ok) \<Rightarrow> if ok then Some n else None)"

definition ParseBool :: "string \<Rightarrow> bool option" where
  "ParseBool s =
     (if s \<in> {''1'', ''t'', ''T'', ''TRUE'', ''true'', ''True''} then Some True
      else if s \<in> {''0'', ''f'', ''F'', ''FALSE'', ''false'', ''False''} then Some False
      else None)"

section \<open>Bytes and hexadecimal\<close>

definition byte_of_char :: "char \<Rightarrow> byte" where
  "byte_of_char c = word_of_nat (ord c)"

text \<open>The conversion \<open>[]byte(s)\<close>.\<close>

definition bytes_of :: "string \<Rightarrow> byte list" where
  "bytes_of s = map byte_of_char s"

lemma length_bytes_of [simp]: "length (bytes_of s) = length s"
  by (simp add: bytes_of_def)

definition hex_lower :: "nat \<Rightarrow> char" where
  "hex_lower d = (if d < 10 then chr (48 + d) else chr (87 + d))"

definition hex_upper :: "nat \<Rightarrow> char" where
  "hex_upper d = (if d < 10 then chr (48 + d) else chr (55 + d))"

definition unhex :: "char \<Rightarrow> nat option" where
  "unhex c =
     (let n = ord c in
      if 48 \<le> n \<and> n \<le> 57 then Some (n - 48)
      else if 97 \<le> n \<and> n \<le> 102 then Some (n - 87)
      else if 65 \<le> n \<and> n \<le> 70 then Some (n - 55)
      else None)"

text \<open>\<open>hex.EncodeToString\<close> is \<open>hex_encode hex_lower\<close>; the verb \<open>%X\<close> is \<open>hex_encode hex_upper\<close>.\<close>

definition hex_byte :: "(nat \<Rightarrow> char) \<Rightarrow> byte \<Rightarrow> string" where
  "hex_byte h b = [h (unat b div 16), h (unat b mod 16)]"

definition hex_encode :: "(nat \<Rightarrow> char) \<Rightarrow> byte list \<Rightarrow> string" where
  "hex_encode h bs = concat (map (hex_byte h) bs)"

fun hex_decode :: "string \<Rightarrow> byte list option" where
  "hex_decode [] = Some []"
| "hex_decode [c] = None"
| "hex_decode (c # d # s) =
     (case (unhex c, unhex d, hex_decode s) of
        (Some m, Some n, Some bs) \<Rightarrow> Some (word_of_nat (16 * m + n) # bs)
      | _ \<Rightarrow> None)"

lemma unhex_lower [simp]: "d < 16 \<Longrightarrow> unhex (hex_lower d) = Some d"
  by (auto simp: unhex_def hex_lower_def)

lemma unhex_upper [simp]: "d < 16 \<Longrightarrow> unhex (hex_upper d) = Some d"
  by (auto simp: unhex_def hex_upper_def)

lemma unhex_bound: "unhex c = Some d \<Longrightarrow> d < 16"
  by (auto simp: unhex_def Let_def split: if_splits)

lemma hex_upper_unhex: "unhex c = Some d \<Longrightarrow> hex_upper d = upper_char c"
proof -
  assume "unhex c = Some d"
  then have "48 \<le> ord c \<and> ord c \<le> 57 \<and> d = ord c - 48
      \<or> 97 \<le> ord c \<and> ord c \<le> 102 \<and> d = ord c - 87
      \<or> 65 \<le> ord c \<and> ord c \<le> 70 \<and> d = ord c - 55"
    by (auto simp: unhex_def Let_def split: if_splits)
  then show ?thesis
    by (auto simp: hex_upper_def upper_char_def)
qed

lemma byte_nibbles: "unat (b :: byte) div 16 < 16"
proof -
  have "unat b < 2 ^ LENGTH(8)" by (rule unsigned_less)
  then show ?thesis by (simp add: less_mult_imp_div_less)
qed

lemma length_hex_encode [simp]: "length (hex_encode h bs) = 2 * length bs"
  by (induction bs) (simp_all add: hex_encode_def hex_byte_def)

lemma hex_encode_Nil [simp]: "hex_encode h [] = []"
  by (simp add: hex_encode_def)

lemma hex_encode_Cons: "hex_encode h (b # bs) = hex_byte h b @ hex_encode h bs"
  by (simp add: hex_encode_def)

lemma hex_encode_append: "hex_encode h (as @ bs) = hex_encode h as @ hex_encode h bs"
  by (simp add: hex_encode_def)

lemma hex_decode_encode:
  assumes "\<And>d. d < 16 \<Longrightarrow> unhex (h d) = Some d"
  shows "hex_decode (hex_encode h bs) = Some bs"
proof (induction bs)
  case Nil
  then show ?case by simp
next
  case (Cons b bs)
  have "word_of_nat (16 * (unat b div 16) + unat b mod 16) = b"
    by simp
  then show ?case
    using Cons byte_nibbles [of b]
    by (simp add: hex_encode_Cons hex_byte_def assms)
qed

lemmas hex_decode_lower [simp] = hex_decode_encode [of hex_lower, OF unhex_lower]
lemmas hex_decode_upper [simp] = hex_decode_encode [of hex_upper, OF unhex_upper]

lemma hex_decode_length: "hex_decode s = Some bs \<Longrightarrow> length s = 2 * length bs"
  by (induction s arbitrary: bs rule: hex_decode.induct) (auto split: option.splits)

lemma hex_encode_decode: "hex_decode s = Some bs \<Longrightarrow> hex_encode hex_upper bs = ToUpper s"
proof (induction s arbitrary: bs rule: hex_decode.induct)
  case (3 c d s)
  then obtain m n bs' where mn: "unhex c = Some m" "unhex d = Some n"
    and s: "hex_decode s = Some bs'" and bs: "bs = word_of_nat (16 * m + n) # bs'"
    by (auto split: option.splits)
  have "m < 16" and "n < 16"
    using mn by (auto dest: unhex_bound)
  then have "unat (word_of_nat (16 * m + n) :: byte) = 16 * m + n"
    by (simp add: unat_of_nat del: of_nat_add of_nat_mult)
  then show ?case
    using 3 s bs mn \<open>n < 16\<close>
    by (simp add: hex_encode_Cons hex_byte_def ToUpper_def hex_upper_unhex)
qed (simp_all add: ToUpper_def)

lemma lower_hex_upper: "d < 16 \<Longrightarrow> lower_char (hex_upper d) = hex_lower d"
  by (auto simp: lower_char_def hex_upper_def hex_lower_def)

lemma ToLower_hex: "ToLower (hex_encode hex_upper bs) = hex_encode hex_lower bs"
  using byte_nibbles
  by (induction bs) (simp_all add: ToLower_def hex_encode_def hex_byte_def lower_hex_upper)

lemma upper_hex_upper: "d < 16 \<Longrightarrow> upper_char (hex_upper d) = hex_upper d"
  by (auto simp: upper_char_def hex_upper_def)

lemma ToUpper_hex [simp]: "ToUpper (hex_encode hex_upper bs) = hex_encode hex_upper bs"
  using byte_nibbles
  by (induction bs) (simp_all add: ToUpper_def hex_encode_def hex_byte_def upper_hex_upper)

section \<open>Splitting\<close>

text \<open>\<open>strings.Split\<close> at a separator of one byte.\<close>

fun split_at :: "char \<Rightarrow> string \<Rightarrow> string list" where
  "split_at c [] = [[]]"
| "split_at c (x # xs) =
     (if x = c then [] # split_at c xs
      else (case split_at c xs of [] \<Rightarrow> [[x]] | y # ys \<Rightarrow> (x # y) # ys))"

lemma split_at_not_Nil [simp]: "split_at c s \<noteq> []"
  by (induction s) (auto split: list.splits)

lemma split_at_none: "c \<notin> set s \<Longrightarrow> split_at c s = [s]"
  by (induction s) auto

lemma split_at_append: "c \<notin> set s \<Longrightarrow> split_at c (s @ c # t) = s # split_at c t"
  by (induction s) auto

end
