(* ===== verification/TxTime.thy ===== *)
theory TxTime
  imports GoStrings "HOL-Library.Monad_Syntax"
begin

text \<open>
  Package \<open>txtime\<close>: \<open>Time\<close> with \<open>Unix\<close>, \<open>Cmp\<close>, \<open>String\<close> and \<open>Parse\<close>. A \<open>time.Time\<close> is the exact
  number of nanoseconds since 1970-01-01T00:00:00Z; the wrap-around of its 64-bit second counter in
  \<open>time.Unix\<close> is written out. \<open>String\<close> and \<open>Parse\<close> follow Go's calendar computation
  (\<open>absDate\<close>: cycles of 400, 100, 4 and 1 years counted from the year 1) for the layout
  \<open>RFC3339NanoFixed\<close>; the process runs in UTC. \<open>Parse_String\<close> is the round trip on the years
  0 to 9999, and \<open>Parse_String_None\<close> says that no other time survives it.
\<close>

type_synonym time = int

definition nanos :: int where
  "nanos = 10 ^ 9"

definition unix_to_internal :: int where
  "unix_to_internal = 62135596800"

definition Unix :: "int \<Rightarrow> int \<Rightarrow> time" where
  "Unix sec nsec =
     (swrap64 (sec + nsec div nanos + unix_to_internal) - unix_to_internal) * nanos + nsec mod nanos"

definition UnixNano :: "time \<Rightarrow> int" where
  "UnixNano t = swrap64 t"

definition time_Cmp :: "time \<Rightarrow> time \<Rightarrow> int" where
  "time_Cmp t c = (if t < c then - 1 else if t > c then 1 else 0)"

lemma time_Cmp_simps [simp]:
  "time_Cmp t c > 0 \<longleftrightarrow> t > c" "time_Cmp t c \<ge> 0 \<longleftrightarrow> t \<ge> c" "time_Cmp t c < 0 \<longleftrightarrow> t < c"
  by (auto simp: time_Cmp_def)

lemma Unix_small:
  assumes "0 \<le> nsec" "nsec < nanos" "- (2 ^ 62) \<le> sec" "sec < 2 ^ 62"
  shows "Unix sec nsec = sec * nanos + nsec"
proof -
  have "nsec div nanos = 0" and "nsec mod nanos = nsec"
    using assms(1,2) by simp_all
  moreover have "swrap64 (sec + unix_to_internal) = sec + unix_to_internal"
    using assms(3,4) by (intro swrap64_id) (simp_all add: unix_to_internal_def)
  ultimately show ?thesis by (simp add: Unix_def)
qed

section \<open>Calendar\<close>

definition is_leap :: "int \<Rightarrow> bool" where
  "is_leap y \<longleftrightarrow> y mod 4 = 0 \<and> (y mod 100 \<noteq> 0 \<or> y mod 400 = 0)"

definition days_before :: "int \<Rightarrow> int" where
  "days_before m = [0, 31, 59, 90, 120, 151, 181, 212, 243, 273, 304, 334, 365] ! nat m"

text \<open>Days from 0001-01-01 to 1970-01-01.\<close>

definition epoch_days :: int where
  "epoch_days = 719162"

text \<open>The year and the day of the year (from 0) of a day counted from 0001-01-01.\<close>

definition year_yday :: "int \<Rightarrow> int \<times> int" where
  "year_yday d =
     (let a = d div 146097; r = d mod 146097;
          c = min 3 (r div 36524); r2 = r - 36524 * c;
          q = r2 div 1461; r3 = r2 mod 1461;
          y1 = min 3 (r3 div 365)
      in (400 * a + 100 * c + 4 * q + y1 + 1, r3 - 365 * y1))"

definition month_day :: "bool \<Rightarrow> int \<Rightarrow> int \<times> int" where
  "month_day leap yd =
     (if leap \<and> yd = 59 then (2, 29)
      else let d = (if leap \<and> yd > 59 then yd - 1 else yd); m = d div 31 in
        if d \<ge> days_before (m + 1) then (m + 2, d - days_before (m + 1) + 1)
        else (m + 1, d - days_before m + 1))"

definition days_of_year :: "int \<Rightarrow> int" where
  "days_of_year y = 365 * (y - 1) + (y - 1) div 4 - (y - 1) div 100 + (y - 1) div 400"

definition days_in_month :: "int \<Rightarrow> int \<Rightarrow> int" where
  "days_in_month y m =
     (if m = 2 \<and> is_leap y then 29 else days_before m - days_before (m - 1))"

definition days_of_date :: "int \<Rightarrow> int \<Rightarrow> int \<Rightarrow> int" where
  "days_of_date y m d =
     days_of_year y + days_before (m - 1) + (if is_leap y \<and> m > 2 then 1 else 0) + d - 1"

lemma year_yday_parts:
  assumes "year_yday d = (y, yd)"
  obtains a c q y1 where "y - 1 = 400 * a + 100 * c + 4 * q + y1"
    and "d = 146097 * a + 36524 * c + 1461 * q + 365 * y1 + yd"
    and "0 \<le> c" "c \<le> 3" "0 \<le> q" "q \<le> 24" "0 \<le> y1" "y1 \<le> 3" "0 \<le> yd" "yd \<le> 365"
    and "yd = 365 \<Longrightarrow> y1 = 3 \<and> (q = 24 \<longrightarrow> c = 3)"
proof -
  define a where "a = d div 146097"
  define r where "r = d mod 146097"
  define c where "c = min 3 (r div 36524)"
  define r2 where "r2 = r - 36524 * c"
  define q where "q = r2 div 1461"
  define r3 where "r3 = r2 mod 1461"
  define y1 where "y1 = min 3 (r3 div 365)"
  have "(400 * a + 100 * c + 4 * q + y1 + 1, r3 - 365 * y1) = (y, yd)"
    unfolding a_def c_def q_def y1_def r3_def r2_def r_def c_def
    by (rule assms [unfolded year_yday_def Let_def])
  then have y: "y = 400 * a + 100 * c + 4 * q + y1 + 1" and yd: "yd = r3 - 365 * y1"
    by simp_all
  have d: "d = 146097 * a + r" and r: "0 \<le> r" "r < 146097"
    by (simp_all add: a_def r_def)
  define k where "k = r div 36524"
  have k: "36524 * k \<le> r" "r < 36524 * k + 36524"
    by (simp_all add: k_def)
  then have "0 \<le> k" "k \<le> 4"
    using r by auto
  then have c: "0 \<le> c" "c \<le> 3" and r2: "0 \<le> r2" "r2 \<le> 36524" "r2 = 36524 \<Longrightarrow> c = 3"
    using k r unfolding c_def r2_def k_def [symmetric] by (auto simp: min_def split: if_splits)
  have r2': "r2 = 1461 * q + r3" and r3: "0 \<le> r3" "r3 < 1461"
    by (simp_all add: q_def r3_def)
  have q: "0 \<le> q" "q \<le> 24"
    using r2 r2' r3 by linarith+
  have y1: "0 \<le> y1" "y1 \<le> 3" and yd': "0 \<le> yd" "yd \<le> 365" "yd = 365 \<Longrightarrow> y1 = 3"
    using r3 yd by (auto simp: y1_def min_def split: if_splits)
  have "q = 24 \<longrightarrow> c = 3" if "yd = 365"
    using that yd yd' r2 r2' by auto
  then show thesis
    using that [of a c q y1] y d r2_def r2' yd c q y1 yd' by simp
qed

lemma year_parts_div:
  assumes "z = 400 * a + 100 * c + 4 * q + y1"
    and "0 \<le> c" "c \<le> 3" "0 \<le> q" "q \<le> 24" "0 \<le> y1" "y1 \<le> (3::int)"
  shows "z div 4 = 100 * a + 25 * c + q" "z div 100 = 4 * a + c" "z div 400 = a"
    "(z + 1) mod 4 = (y1 + 1) mod 4" "(z + 1) mod 100 = (4 * q + y1 + 1) mod 100"
    "(z + 1) mod 400 = (100 * c + 4 * q + y1 + 1) mod 400"
proof -
  have "z = 4 * (100 * a + 25 * c + q) + y1" and "z = 100 * (4 * a + c) + (4 * q + y1)"
    and "z = 400 * a + (100 * c + 4 * q + y1)"
    using assms(1) by simp_all
  then show "z div 4 = 100 * a + 25 * c + q" "z div 100 = 4 * a + c" "z div 400 = a"
    using assms(2-) by simp_all
  have e4: "z + 1 = (y1 + 1) + 4 * (100 * a + 25 * c + q)"
    and e100: "z + 1 = (4 * q + y1 + 1) + 100 * (4 * a + c)"
    and e400: "z + 1 = (100 * c + 4 * q + y1 + 1) + 400 * a"
    using assms(1) by simp_all
  show "(z + 1) mod 4 = (y1 + 1) mod 4" by (simp only: e4 mod_mult_self2)
  show "(z + 1) mod 100 = (4 * q + y1 + 1) mod 100" by (simp only: e100 mod_mult_self2)
  show "(z + 1) mod 400 = (100 * c + 4 * q + y1 + 1) mod 400" by (simp only: e400 mod_mult_self2)
qed

lemma year_yday_inverse:
  assumes "year_yday d = (y, yd)"
  shows "days_of_year y + yd = d" "0 \<le> yd" "yd \<le> 365" "yd = 365 \<Longrightarrow> is_leap y"
proof -
  obtain a c q y1 where y: "y - 1 = 400 * a + 100 * c + 4 * q + y1"
    and d: "d = 146097 * a + 36524 * c + 1461 * q + 365 * y1 + yd"
    and b: "0 \<le> c" "c \<le> 3" "0 \<le> q" "q \<le> 24" "0 \<le> y1" "y1 \<le> 3"
    and yd: "0 \<le> yd" "yd \<le> 365" and last: "yd = 365 \<Longrightarrow> y1 = 3 \<and> (q = 24 \<longrightarrow> c = 3)"
    using year_yday_parts [OF assms] by metis
  note parts = year_parts_div [OF y b]
  show "days_of_year y + yd = d"
    using parts(1-3) y d by (simp add: days_of_year_def)
  show "0 \<le> yd" "yd \<le> 365" by (fact yd)+
  show "is_leap y" if "yd = 365"
  proof -
    from last [OF that] have y1: "y1 = 3" and q24: "q = 24 \<longrightarrow> c = 3" by auto
    have "y mod 4 = 0" using parts(4) y1 by simp
    moreover have "y mod 100 = (4 * q + 4) mod 100" using parts(5) y1 by (simp add: add.commute)
    moreover have "y mod 400 = (100 * c + 4 * q + 4) mod 400"
      using parts(6) y1 by (simp add: ac_simps)
    ultimately show ?thesis
      using q24 b(3,4) by (cases "q = 24") (auto simp: is_leap_def)
  qed
qed

lemma days_before_simps [simp]:
  "days_before 0 = 0" "days_before 1 = 31" "days_before 2 = 59" "days_before 3 = 90"
  "days_before 4 = 120" "days_before 5 = 151" "days_before 6 = 181" "days_before 7 = 212"
  "days_before 8 = 243" "days_before 9 = 273" "days_before 10 = 304" "days_before 11 = 334"
  "days_before 12 = 365"
  by (simp_all add: days_before_def)

lemma twelve: "0 \<le> x \<Longrightarrow> x \<le> 11 \<Longrightarrow> x \<in> {0, 1, 2, 3, 4, 5, 6, 7, 8, 9, 10, 11 :: int}"
  by (simp only: insert_iff empty_iff) presburger

text \<open>The table lookup finds the month whose day range holds the day of the year.\<close>

lemma month_table:
  assumes "0 \<le> d" "d < (365::int)"
  shows "\<exists>m \<in> {0..11}. days_before m \<le> d \<and> d < days_before (m + 1) \<and>
    month_day False d = (m + 1, d - days_before m + 1)"
proof -
  define x where "x = d div 31"
  have x: "31 * x \<le> d" "d < 31 * x + 31"
    by (simp_all add: x_def)
  then have x0: "0 \<le> x" "x \<le> 11"
    using assms by auto
  note cases12 = twelve [OF x0, unfolded insert_iff empty_iff]
  from cases12 x assms(2)
  have range: "days_before (x + 1) \<le> d \<Longrightarrow> x < 11 \<and> d < days_before (x + 2)"
    by (elim disjE FalseE) simp_all
  from cases12 x have low: "days_before x \<le> d"
    by (elim disjE FalseE) simp_all
  have md: "month_day False d =
      (if d \<ge> days_before (x + 1) then (x + 2, d - days_before (x + 1) + 1)
       else (x + 1, d - days_before x + 1))"
    by (simp add: month_day_def x_def Let_def)
  show ?thesis
  proof (cases "d < days_before (x + 1)")
    case True
    then show ?thesis
      using low md x0 by (intro bexI [of _ x]) simp_all
  next
    case False
    then show ?thesis
      using range md x0 by (intro bexI [of _ "x + 1"]) (simp_all add: add.assoc)
  qed
qed

lemma days_before_59:
  assumes "m \<in> {0..11}"
  shows "59 < days_before (m + 1) \<longleftrightarrow> 2 \<le> m" "days_before m < 59 \<longleftrightarrow> m < 2"
    "days_before (m + 1) - days_before m \<le> 31"
  using twelve [of m] assms by (auto simp del: One_nat_def)

lemma month_day_inverse:
  assumes "month_day leap yd = (m, d)" and yd: "0 \<le> yd" "yd \<le> 365" "yd = 365 \<Longrightarrow> leap"
  shows "days_before (m - 1) + (if leap \<and> m > 2 then 1 else 0) + d - 1 = yd"
    "1 \<le> m" "m \<le> 12" "1 \<le> d" "d \<le> 31"
    "d \<le> (if m = 2 \<and> leap then 29 else days_before m - days_before (m - 1))"
proof -
  have "days_before (m - 1) + (if leap \<and> m > 2 then 1 else 0) + d - 1 = yd \<and>
    1 \<le> m \<and> m \<le> 12 \<and> 1 \<le> d \<and> d \<le> 31 \<and>
    d \<le> (if m = 2 \<and> leap then 29 else days_before m - days_before (m - 1))"
  proof (cases "leap \<and> yd = 59")
    case True
    then show ?thesis using assms(1) by (auto simp: month_day_def)
  next
    case False
    define e where "e = (if leap \<and> yd > 59 then yd - 1 else yd)"
    have "month_day leap yd = month_day False e"
      using False by (simp add: month_day_def e_def)
    moreover have "0 \<le> e" "e < 365"
      using yd by (cases "yd = 365"; auto simp: e_def)+
    ultimately obtain m' where m': "m' \<in> {0..11}" "days_before m' \<le> e" "e < days_before (m' + 1)"
      and md: "m = m' + 1" "d = e - days_before m' + 1"
      using month_table [of e] assms(1) by auto
    note b = days_before_59 [OF m'(1)]
    consider "leap" "59 < yd" | "leap" "yd < 59" | "\<not> leap"
      using False by linarith
    then show ?thesis
    proof cases
      case 1
      then have "2 \<le> m'" using m' b by (simp add: e_def)
      with 1 show ?thesis using m' md b(3) by (simp add: e_def)
    next
      case 2
      then have "m' < 2" using m' b by (simp add: e_def)
      with 2 show ?thesis using m' md b(3) by (auto simp: e_def)
    next
      case 3
      then show ?thesis using m' md b(3) by (auto simp: e_def)
    qed
  qed
  then show "days_before (m - 1) + (if leap \<and> m > 2 then 1 else 0) + d - 1 = yd"
    "1 \<le> m" "m \<le> 12" "1 \<le> d" "d \<le> 31"
    "d \<le> (if m = 2 \<and> leap then 29 else days_before m - days_before (m - 1))"
    by blast+
qed

section \<open>Formatting and parsing\<close>

definition pad :: "nat \<Rightarrow> nat \<Rightarrow> string" where
  "pad w n = replicate (w - length (dec_nat n)) (CHR ''0'') @ dec_nat n"

text \<open>The civil time of an instant: year, month, day, second of the day, nanosecond.\<close>

definition civil :: "time \<Rightarrow> int \<times> int \<times> int \<times> int \<times> int" where
  "civil t =
     (let secs = t div nanos; (y, yd) = year_yday (secs div 86400 + epoch_days);
          (m, d) = month_day (is_leap y) yd
      in (y, m, d, secs mod 86400, t mod nanos))"

definition time_year :: "time \<Rightarrow> int" where
  "time_year t = fst (civil t)"

definition time_String :: "time \<Rightarrow> string" where
  "time_String t =
     (case civil t of (y, m, d, s, ns) \<Rightarrow>
        (if y < 0 then CHR ''-'' # pad 4 (nat (- y)) else pad 4 (nat y)) @
        CHR ''-'' # pad 2 (nat m) @ CHR ''-'' # pad 2 (nat d) @ CHR ''T'' # pad 2 (nat (s div 3600)) @
        CHR '':'' # pad 2 (nat (s div 60 mod 60)) @ CHR '':'' # pad 2 (nat (s mod 60)) @
        CHR ''.'' # pad 9 (nat ns) @ ''Z'')"

definition scan_num :: "nat \<Rightarrow> string \<Rightarrow> (int \<times> string) option" where
  "scan_num w s =
     (let t = take w s in
      if length t = w \<and> list_all is_digit t then Some (int (dec_val t), drop w s) else None)"

text \<open>The hour is read from one digit where there are not two.\<close>

definition scan_hour :: "string \<Rightarrow> (int \<times> string) option" where
  "scan_hour s = (case scan_num 2 s of None \<Rightarrow> scan_num 1 s | Some r \<Rightarrow> Some r)"

fun scan_char :: "char \<Rightarrow> string \<Rightarrow> string option" where
  "scan_char c [] = None"
| "scan_char c (d # s) = (if c = d then Some s else None)"

definition time_Parse :: "string \<Rightarrow> time option" where
  "time_Parse s0 = do {
     (y, s1) \<leftarrow> scan_num 4 s0;
     s2 \<leftarrow> scan_char (CHR ''-'') s1;
     (m, s3) \<leftarrow> scan_num 2 s2;
     s4 \<leftarrow> scan_char (CHR ''-'') s3;
     (d, s5) \<leftarrow> scan_num 2 s4;
     s6 \<leftarrow> scan_char (CHR ''T'') s5;
     (hh, s7) \<leftarrow> scan_hour s6;
     s8 \<leftarrow> scan_char (CHR '':'') s7;
     (mm, s9) \<leftarrow> scan_num 2 s8;
     s10 \<leftarrow> scan_char (CHR '':'') s9;
     (ss, s11) \<leftarrow> scan_num 2 s10;
     s12 \<leftarrow> scan_char (CHR ''.'') s11;
     (ns, s13) \<leftarrow> scan_num 9 s12;
     if s13 = ''Z'' \<and> 1 \<le> m \<and> m \<le> 12 \<and> 1 \<le> d \<and> d \<le> days_in_month y m
        \<and> hh < 24 \<and> mm < 60 \<and> ss < 60
     then Some (((days_of_date y m d - epoch_days) * 86400 + hh * 3600 + mm * 60 + ss) * nanos + ns)
     else None
   }"

lemma dec_nat_length_le: "n < 10 ^ Suc k \<Longrightarrow> length (dec_nat n) \<le> Suc k"
proof (induction k arbitrary: n)
  case 0
  then show ?case by (subst dec_nat.simps) simp
next
  case (Suc k)
  then have "n div 10 < 10 ^ Suc k"
    by (auto simp: less_mult_imp_div_less)
  then show ?case
    using Suc.IH by (subst dec_nat.simps) simp
qed

lemma replicate_zero: "dec_val (replicate k (CHR ''0'') @ s) = dec_val s"
  "list_all is_digit (replicate k (CHR ''0'') @ s) = list_all is_digit s"
proof -
  have "digit_val (CHR ''0'') = 0" and "is_digit (CHR ''0'')"
    by (simp_all add: digit_val_def is_digit_def ord_def)
  then show "dec_val (replicate k (CHR ''0'') @ s) = dec_val s"
    "list_all is_digit (replicate k (CHR ''0'') @ s) = list_all is_digit s"
    by (induction k) (simp_all add: dec_val_def)
qed

lemma pad_facts:
  assumes "n < 10 ^ Suc k"
  shows "length (pad (Suc k) n) = Suc k" "list_all is_digit (pad (Suc k) n)" "dec_val (pad (Suc k) n) = n"
  using dec_nat_length_le [OF assms] by (simp_all add: pad_def replicate_zero del: list_all_append)

lemma scan_pad: "n < 10 ^ Suc k \<Longrightarrow> scan_num (Suc k) (pad (Suc k) n @ r) = Some (int n, r)"
  by (simp add: scan_num_def pad_facts)

lemma scan_pads:
  "n < 100 \<Longrightarrow> scan_num 2 (pad 2 n @ r) = Some (int n, r)"
  "n < 10000 \<Longrightarrow> scan_num 4 (pad 4 n @ r) = Some (int n, r)"
  "n < 1000000000 \<Longrightarrow> scan_num 9 (pad 9 n @ r) = Some (int n, r)"
  using scan_pad [of n 1 r] scan_pad [of n 3 r] scan_pad [of n 8 r]
  by (simp_all del: One_nat_def)

lemma civil_inverse:
  assumes "civil t = (y, m, d, s, ns)"
  shows "((days_of_date y m d - epoch_days) * 86400 + s) * nanos + ns = t"
    "1 \<le> m" "m \<le> 12" "1 \<le> d" "d \<le> 31" "d \<le> days_in_month y m"
    "0 \<le> s" "s < 86400" "0 \<le> ns" "ns < nanos"
proof -
  define D where "D = t div nanos div 86400 + epoch_days"
  obtain yd where yd: "year_yday D = (y, yd)" and md: "month_day (is_leap y) yd = (m, d)"
    and s: "s = t div nanos mod 86400" and ns: "ns = t mod nanos"
    using assms by (auto simp: civil_def Let_def D_def split: prod.splits)
  note Y = year_yday_inverse [OF yd]
  note M = month_day_inverse [OF md Y(2,3,4)]
  have "days_of_date y m d = D"
    using Y(1) M(1) by (simp add: days_of_date_def conj_commute)
  then have "(days_of_date y m d - epoch_days) * 86400 + s = t div nanos"
    by (simp add: D_def s)
  then show "((days_of_date y m d - epoch_days) * 86400 + s) * nanos + ns = t"
    by (simp add: ns)
  show "1 \<le> m" "m \<le> 12" "1 \<le> d" "d \<le> 31" using M(2-5) by blast+
  show "d \<le> days_in_month y m"
    using M(6) by (simp add: days_in_month_def)
  show "0 \<le> s" "s < 86400" "0 \<le> ns" "ns < nanos"
    by (simp_all add: s ns nanos_def)
qed

theorem Parse_String:
  assumes "0 \<le> time_year t" "time_year t \<le> 9999"
  shows "time_Parse (time_String t) = Some t"
proof -
  obtain y m d s ns where c: "civil t = (y, m, d, s, ns)"
    by (cases "civil t") auto
  note C = civil_inverse [OF c]
  have y: "0 \<le> y" "nat y < 10000"
    using assms c by (auto simp: time_year_def)
  have ns: "nat ns < 1000000000"
    using C(9,10) by (simp add: nanos_def)
  define hh mm ss where "hh = s div 3600" and "mm = s div 60 mod 60" and "ss = s mod 60"
  have "s div 60 = s div 3600 * 60 + s div 60 mod 60"
    using div_mult_mod_eq [of "s div 60" 60] by (simp add: zdiv_zmult2_eq [symmetric])
  then have hms: "hh * 3600 + mm * 60 + ss = s"
    using div_mult_mod_eq [of s 60] unfolding hh_def mm_def ss_def by linarith
  have b: "0 \<le> hh" "hh < 24" "0 \<le> mm" "mm < 60" "0 \<le> ss" "ss < 60"
    using C(7,8) by (auto simp: hh_def mm_def ss_def)
  have "time_String t = pad 4 (nat y) @ CHR ''-'' # pad 2 (nat m) @ CHR ''-'' # pad 2 (nat d) @
      CHR ''T'' # pad 2 (nat hh) @ CHR '':'' # pad 2 (nat mm) @ CHR '':'' # pad 2 (nat ss) @
      CHR ''.'' # pad 9 (nat ns) @ ''Z''"
    using y(1) by (simp add: time_String_def c hh_def mm_def ss_def)
  moreover have "(days_of_date y m d - epoch_days) * 86400 + hh * 3600 + mm * 60 + ss =
      (days_of_date y m d - epoch_days) * 86400 + s"
    using hms by linarith
  then have "((days_of_date y m d - epoch_days) * 86400 + hh * 3600 + mm * 60 + ss) * nanos + ns = t"
    using C(1) by (simp only:)
  ultimately show ?thesis
    using y ns b C(2-6,9) by (simp add: time_Parse_def scan_hour_def scan_pads)
qed

text \<open>A year outside 0 to 9999 is printed with a sign or with a fifth digit, which the layout
  does not read back.\<close>

theorem Parse_String_None:
  assumes "\<not> (0 \<le> time_year t \<and> time_year t \<le> 9999)"
  shows "time_Parse (time_String t) = None"
proof -
  obtain y m d s ns where c: "civil t = (y, m, d, s, ns)"
    by (cases "civil t") auto
  show ?thesis
  proof (cases "y < 0")
    case True
    then show ?thesis
      by (simp add: time_Parse_def time_String_def c scan_num_def)
  next
    case False
    with assms c have "10 ^ 4 \<le> nat y"
      by (simp add: time_year_def)
    then have len: "4 < length (dec_nat (nat y))"
      using dec_val_bound [OF dec_nat_digits, of "nat y"] by (metis dec_val_dec_nat leD
          le_less_trans not_less one_le_numeral power_increasing)
    obtain a b e where abe: "dec_nat (nat y) = a @ b # e" "length a = 4"
      using id_take_nth_drop [OF len] len by (metis length_take min.absorb2 less_imp_le_nat)
    have "is_digit b" "list_all is_digit a"
      using dec_nat_digits [of "nat y"] abe by simp_all
    then have "CHR ''-'' \<noteq> b"
      by auto
    then show ?thesis
      using False abe len by (simp add: time_Parse_def time_String_def c scan_num_def pad_def)
  qed
qed

end
