(* ===== verification/Errors.thy ===== *)
theory Errors
  imports GoStrings
begin

text \<open>
  \<open>errors.go\<close> and the error side of \<open>main.go\<close>. The typed errors of the source are constructors;
  an error made by \<open>errors.New\<close> or \<open>errors.Wrap\<close> is \<open>Plain\<close> with its text. \<open>GoPanic\<close> is not an
  error value of the source: it stands for a run-time panic (a failed type assertion, an index or
  slice out of range, a nil dereference, a division by zero), which no handler recovers from, and
  every conversion of an error passes it on.

  A handler answers with \<open>shim.Error(msg)\<close>, with a panic, or with a payload.
\<close>

datatype err =
    NotIssuedTokenError string
  | NotInitLastPrunedFeeIDError string
  | InvalidAccessError
  | SupplyError string
  | InvalidAccountAddrError string
  | ExistedAccountError string
  | NotExistedAccountError string
  | NotExistedPayError string
  | NotExistedFeeError string
  | Plain string
  | GoPanic

definition brackets :: "string \<Rightarrow> string" where
  "brackets s = ''['' @ s @ '']''"

fun err_Error :: "err \<Rightarrow> string" where
  "err_Error (NotIssuedTokenError code) = ''the token '' @ brackets code @ '' is not issued''"
| "err_Error (NotInitLastPrunedFeeIDError code) =
     ''the last pruned fee id of the token '' @ brackets code @ '' is not initialized''"
| "err_Error InvalidAccessError = ''invalid access''"
| "err_Error (SupplyError reason) = reason"
| "err_Error (InvalidAccountAddrError reason) =
     (if length reason > 0 then ''invalid account address: '' @ brackets reason
      else ''invalid account address'')"
| "err_Error (ExistedAccountError addr) = ''the account '' @ brackets addr @ '' already exists''"
| "err_Error (NotExistedAccountError addr) =
     (if length addr > 0 then ''the account '' @ brackets addr @ '' doest not exist''
      else ''the account does not exist'')"
| "err_Error (NotExistedPayError pid) =
     (if length pid > 0 then ''the pay id '' @ brackets pid @ '' does not exist''
      else ''the pay does not exist'')"
| "err_Error (NotExistedFeeError pid) =
     (if length pid > 0 then ''the fee id '' @ brackets pid @ '' does not exist''
      else ''the fee does not exist'')"
| "err_Error (Plain msg) = msg"
| "err_Error GoPanic = []"

text \<open>The type switch \<open>err.(ResponsibleError)\<close>: the typed errors embed
  \<open>ResponsibleErrorImpl\<close>; a wrapped error has lost its type.\<close>

fun is_responsible :: "err \<Rightarrow> bool" where
  "is_responsible (Plain _) = False"
| "is_responsible GoPanic = False"
| "is_responsible _ = True"

text \<open>The type assertions \<open>err.(NotIssuedTokenError)\<close>, \<open>err.(NotInitLastPrunedFeeIDError)\<close> and
  \<open>err.(NotExistedAccountError)\<close>.\<close>

definition is_NotIssuedTokenError :: "err \<Rightarrow> bool" where
  "is_NotIssuedTokenError e \<longleftrightarrow> (case e of NotIssuedTokenError _ \<Rightarrow> True | _ \<Rightarrow> False)"

definition is_NotInitLastPrunedFeeIDError :: "err \<Rightarrow> bool" where
  "is_NotInitLastPrunedFeeIDError e \<longleftrightarrow> (case e of NotInitLastPrunedFeeIDError _ \<Rightarrow> True | _ \<Rightarrow> False)"

definition is_NotExistedAccountError :: "err \<Rightarrow> bool" where
  "is_NotExistedAccountError e \<longleftrightarrow> (case e of NotExistedAccountError _ \<Rightarrow> True | _ \<Rightarrow> False)"

lemma error_types:
  "is_NotIssuedTokenError e \<longleftrightarrow> (\<exists>c. e = NotIssuedTokenError c)"
  "is_NotInitLastPrunedFeeIDError e \<longleftrightarrow> (\<exists>c. e = NotInitLastPrunedFeeIDError c)"
  "is_NotExistedAccountError e \<longleftrightarrow> (\<exists>c. e = NotExistedAccountError c)"
  by (cases e; simp add: is_NotIssuedTokenError_def is_NotInitLastPrunedFeeIDError_def
      is_NotExistedAccountError_def)+

text \<open>\<open>errors.Wrap(err, msg)\<close> of \<open>github.com/pkg/errors\<close>.\<close>

definition wrap :: "string \<Rightarrow> err \<Rightarrow> err" where
  "wrap msg e = (if e = GoPanic then GoPanic else Plain (msg @ '': '' @ err_Error e))"

section \<open>Failed responses\<close>

datatype failure = Error string | Panic

text \<open>\<open>responseError(err, msg)\<close> of \<open>main.go\<close> for a non-nil error.\<close>

definition responseError :: "string \<Rightarrow> err \<Rightarrow> failure" where
  "responseError msg e =
     (if e = GoPanic then Panic
      else if is_responsible e
        then Error (if length msg > 0 then msg @ ''|'' @ err_Error e else err_Error e)
      else Error msg)"

text \<open>\<open>shim.Error(err.Error())\<close> and \<open>shim.Error(msg)\<close> as the answer to an error.\<close>

definition shimError :: "err \<Rightarrow> failure" where
  "shimError e = (if e = GoPanic then Panic else Error (err_Error e))"

definition failWith :: "string \<Rightarrow> err \<Rightarrow> failure" where
  "failWith msg e = (if e = GoPanic then Panic else Error msg)"

lemma responseError_wrap [simp]:
  "responseError msg (wrap w e) = (if e = GoPanic then Panic else Error msg)"
  by (simp add: responseError_def wrap_def)

lemma responseError_Plain [simp]: "responseError msg (Plain m) = Error msg"
  by (simp add: responseError_def)

lemma failure_panics:
  "responseError msg e = Panic \<longleftrightarrow> e = GoPanic" "shimError e = Panic \<longleftrightarrow> e = GoPanic"
  "failWith msg e = Panic \<longleftrightarrow> e = GoPanic" "wrap msg e = GoPanic \<longleftrightarrow> e = GoPanic"
  by (auto simp: responseError_def shimError_def failWith_def wrap_def)

text \<open>An error is reported to the client with its own text exactly when its type survived up to
  the handler: wrapping it on the way hides it.\<close>

lemma responseError_shows:
  assumes "is_responsible e" and "0 < length msg"
  shows "responseError msg e = Error (msg @ ''|'' @ err_Error e)"
    and "responseError msg (wrap w e) = Error msg"
proof -
  have "e \<noteq> GoPanic"
    using assms(1) by auto
  then show "responseError msg e = Error (msg @ ''|'' @ err_Error e)"
    and "responseError msg (wrap w e) = Error msg"
    using assms by (simp_all add: responseError_def [of msg e])
qed

end
