(* ===== verification/Amount.thy ===== *)
theory Amount
  imports Complex_Main Errors
begin

text \<open>
  \<open>amount.go\<close>: amounts are unbounded integers (\<open>big.Int\<close>), printed and parsed in base 10. Methods
  that update their receiver in place (\<open>Add\<close>, \<open>Neg\<close>, \<open>MulRat\<close>) return the new value here.
  A rate is a \<open>big.Rat\<close>, modelled by HOL's \<open>rat\<close>, whose \<open>quotient_of\<close> is the reduced pair of
  \<open>Num\<close> and \<open>Denom\<close>; \<open>Rat_SetString\<close> reads decimal fractions with an optional exponent and
  quotients \<open>a/b\<close> of integers with an optional prefix of the base.
\<close>

type_synonym amount = int

definition NewAmount :: "string \<Rightarrow> err + amount" where
  "NewAmount val =
     (if length val > 0
      then require (parse_int val) (Plain ''invalid amount value: must be integer'') (\<lambda>n. Inr n)
      else Inr 0)"

definition ZeroAmount :: amount where
  "ZeroAmount = 0"

definition Amount_Add :: "amount \<Rightarrow> amount \<Rightarrow> amount" where
  "Amount_Add a x = a + x"

definition Amount_Cmp :: "amount \<Rightarrow> amount \<Rightarrow> int" where
  "Amount_Cmp a x = (if a < x then - 1 else if a > x then 1 else 0)"

definition Amount_Copy :: "amount \<Rightarrow> amount" where
  "Amount_Copy a = Amount_Add ZeroAmount a"

definition Amount_Neg :: "amount \<Rightarrow> amount" where
  "Amount_Neg a = - a"

definition Amount_Sign :: "amount \<Rightarrow> int" where
  "Amount_Sign a = sgn a"

definition Amount_MulRat :: "amount \<Rightarrow> rat \<Rightarrow> amount" where
  "Amount_MulRat a r = (a * fst (quotient_of r)) div snd (quotient_of r)"

definition Amount_String :: "amount \<Rightarrow> string" where
  "Amount_String a = dec_int a"

definition Amount_MarshalJSON :: "amount \<Rightarrow> string" where
  "Amount_MarshalJSON a = [CHR 0x22] @ Amount_String a @ [CHR 0x22]"

lemma Amount_simps [simp]:
  "Amount_Add a x = a + x" "Amount_Copy a = a" "Amount_Neg a = - a" "ZeroAmount = 0"
  "Amount_Cmp a x < 0 \<longleftrightarrow> a < x" "Amount_Cmp a x > 0 \<longleftrightarrow> a > x" "Amount_Cmp a x \<ge> 0 \<longleftrightarrow> a \<ge> x"
  "Amount_Cmp a x = 0 \<longleftrightarrow> a = x"
  "Amount_Sign a < 0 \<longleftrightarrow> a < 0" "Amount_Sign a \<le> 0 \<longleftrightarrow> a \<le> 0" "Amount_Sign a > 0 \<longleftrightarrow> a > 0"
  "Amount_Sign a = 0 \<longleftrightarrow> a = 0" "Amount_Sign a < 1 \<longleftrightarrow> a \<le> 0"
  by (auto simp: Amount_Add_def Amount_Copy_def Amount_Neg_def ZeroAmount_def Amount_Cmp_def
      Amount_Sign_def sgn_if)

lemma NewAmount_String [simp]: "NewAmount (Amount_String a) = Inr a"
proof -
  have "dec_int a \<noteq> []" by (simp add: dec_int_def)
  then show ?thesis by (simp add: NewAmount_def Amount_String_def)
qed

lemma MulRat_floor: "Amount_MulRat a r = \<lfloor>of_int a * r\<rfloor>"
proof (cases "quotient_of r")
  case (Pair p q)
  then have "r = of_int p / of_int q" and "q > 0"
    by (simp_all add: quotient_of_div quotient_of_denom_pos)
  then have "of_int a * r = of_int (a * p) / of_int q"
    by simp
  then show ?thesis
    using Pair by (simp add: Amount_MulRat_def floor_divide_of_int_eq del: of_int_mult)
qed

lemma MulRat_nonneg: "0 \<le> a \<Longrightarrow> 0 \<le> r \<Longrightarrow> 0 \<le> Amount_MulRat a r"
  by (simp add: MulRat_floor)

lemma MulRat_le: "0 \<le> a \<Longrightarrow> r \<le> 1 \<Longrightarrow> Amount_MulRat a r \<le> a"
proof -
  assume a: "0 \<le> a" and "r \<le> 1"
  then have "of_int a * r \<le> of_int a * (1 :: rat)"
    by (intro mult_left_mono) simp_all
  then show ?thesis
    by (simp add: MulRat_floor floor_le_iff)
qed

section \<open>Rates\<close>

definition scan_mantissa :: "string \<Rightarrow> string \<times> nat \<times> string" where
  "scan_mantissa s =
     (let ip = takeWhile is_digit s; r = dropWhile is_digit s in
      case r of
        c # t \<Rightarrow>
          if c = CHR ''.''
          then (ip @ takeWhile is_digit t, length (takeWhile is_digit t), dropWhile is_digit t)
          else (ip, 0, r)
      | [] \<Rightarrow> (ip, 0, r))"

definition scan_exponent :: "string \<Rightarrow> int option" where
  "scan_exponent s =
     (case s of
        [] \<Rightarrow> Some 0
      | c # t \<Rightarrow> if c = CHR ''e'' \<or> c = CHR ''E'' then parse_int t else None)"

definition pow10 :: "int \<Rightarrow> rat" where
  "pow10 e = (if 0 \<le> e then 10 ^ nat e else 1 / 10 ^ nat (- e))"

definition rat_decimal :: "string \<Rightarrow> rat option" where
  "rat_decimal s =
     (case scan_mantissa s of (ds, fr, rest) \<Rightarrow>
        if ds = [] then None
        else map_option (\<lambda>e. of_nat (dec_val ds) * pow10 (e - int fr)) (scan_exponent rest))"

text \<open>The numerals of \<open>big.Int.SetString(s, 0)\<close>: hexadecimal and binary prefixes, octal after a leading zero.\<close>

definition digits_in :: "nat \<Rightarrow> string \<Rightarrow> nat option" where
  "digits_in base s =
     (if s \<noteq> [] \<and> list_all (\<lambda>c. case unhex c of None \<Rightarrow> False | Some d \<Rightarrow> d < base) s
      then Some (foldl (\<lambda>n c. n * base + the (unhex c)) 0 s) else None)"

definition numeral_of :: "string \<Rightarrow> nat option" where
  "numeral_of s =
     (if take 2 s = ''0x'' \<or> take 2 s = ''0X'' then digits_in 16 (drop 2 s)
      else if take 2 s = ''0b'' \<or> take 2 s = ''0B'' then digits_in 2 (drop 2 s)
      else if take 1 s = ''0'' \<and> 1 < length s then digits_in 8 (drop 1 s)
      else digits_in 10 s)"

definition signed_numeral :: "string \<Rightarrow> int option" where
  "signed_numeral s =
     (if take 1 s = ''-'' then map_option (\<lambda>n. - int n) (numeral_of (drop 1 s))
      else if take 1 s = ''+'' then map_option int (numeral_of (drop 1 s))
      else map_option int (numeral_of s))"

definition Rat_SetString :: "string \<Rightarrow> rat option" where
  "Rat_SetString s =
     (if CHR ''/'' \<in> set s
      then (let a = takeWhile (\<lambda>c. c \<noteq> CHR ''/'') s; b = tl (dropWhile (\<lambda>c. c \<noteq> CHR ''/'') s) in
        case (signed_numeral a, numeral_of b) of
          (Some n, Some d) \<Rightarrow> if d = 0 then None else Some (of_int n / of_nat d)
        | _ \<Rightarrow> None)
      else (case s of
          [] \<Rightarrow> None
        | c # t \<Rightarrow>
            if c = CHR ''-'' then map_option uminus (rat_decimal t)
            else if c = CHR ''+'' then rat_decimal t
            else rat_decimal s))"

end
