(* ===== verification/StringSet.thy ===== *)
theory StringSet
  imports GoStrings
begin

text \<open>
  Package \<open>stringset\<close>. Go's \<open>map[string]bool\<close> is a list without duplicates; its order stands for
  the order in which \<open>range\<close> visits the map, which Go leaves unspecified. The interface the rest of
  the code relies on is the locale \<open>string_set\<close>, stated over the set of the members, and the
  clients' lemmas are proved there; the interpretation \<open>sset\<close> discharges it for the list model.
\<close>

type_synonym stringset = "string list"

definition Set_Add :: "stringset \<Rightarrow> string \<Rightarrow> stringset" where
  "Set_Add s item = (if item \<in> set s then s else s @ [item])"

definition Set_AppendSlice :: "stringset \<Rightarrow> string list \<Rightarrow> stringset" where
  "Set_AppendSlice s items = foldl Set_Add s items"

definition Set_New :: "string list \<Rightarrow> stringset" where
  "Set_New items = Set_AppendSlice [] items"

definition Set_Strings :: "stringset \<Rightarrow> string list" where
  "Set_Strings s = s"

definition Set_AppendSet :: "stringset \<Rightarrow> stringset \<Rightarrow> stringset" where
  "Set_AppendSet s t = foldl Set_Add s (Set_Strings t)"

definition Set_Contains :: "stringset \<Rightarrow> string \<Rightarrow> bool" where
  "Set_Contains s item \<longleftrightarrow> item \<in> set s"

definition Set_Remove :: "stringset \<Rightarrow> string \<Rightarrow> stringset" where
  "Set_Remove s item = removeAll item s"

definition Set_Size :: "stringset \<Rightarrow> nat" where
  "Set_Size s = length s"

section \<open>The interface\<close>

locale string_set =
  fixes add :: "'s \<Rightarrow> string \<Rightarrow> 's"
    and remove :: "'s \<Rightarrow> string \<Rightarrow> 's"
    and contains :: "'s \<Rightarrow> string \<Rightarrow> bool"
    and size_of :: "'s \<Rightarrow> nat"
    and strings :: "'s \<Rightarrow> string list"
    and invar :: "'s \<Rightarrow> bool"
  assumes strings_distinct: "invar s \<Longrightarrow> distinct (strings s)"
    and contains_iff: "invar s \<Longrightarrow> contains s x \<longleftrightarrow> x \<in> set (strings s)"
    and size_strings: "invar s \<Longrightarrow> size_of s = length (strings s)"
    and set_add: "invar s \<Longrightarrow> set (strings (add s x)) = insert x (set (strings s))"
    and set_remove: "invar s \<Longrightarrow> set (strings (remove s x)) = set (strings s) - {x}"
    and invar_add: "invar s \<Longrightarrow> invar (add s x)"
    and invar_remove: "invar s \<Longrightarrow> invar (remove s x)"
begin

lemma size_card: "invar s \<Longrightarrow> size_of s = card (set (strings s))"
  by (simp add: size_strings distinct_card strings_distinct)

lemma size_add: "invar s \<Longrightarrow> size_of (add s x) = (if contains s x then size_of s else Suc (size_of s))"
  by (simp add: size_card invar_add set_add contains_iff insert_absorb)

lemma size_remove: "invar s \<Longrightarrow> size_of (remove s x) = (if contains s x then size_of s - 1 else size_of s)"
  by (simp add: size_card invar_remove set_remove contains_iff)

lemma contains_add: "invar s \<Longrightarrow> contains (add s x) y \<longleftrightarrow> y = x \<or> contains s y"
  by (simp add: contains_iff invar_add set_add)

lemma contains_remove: "invar s \<Longrightarrow> contains (remove s x) y \<longleftrightarrow> y \<noteq> x \<and> contains s y"
  by (auto simp: contains_iff invar_remove set_remove)

lemma remove_add: "invar s \<Longrightarrow> \<not> contains s x \<Longrightarrow>
    set (strings (remove (add s x) x)) = set (strings s)"
  by (simp add: set_remove set_add invar_add contains_iff)

lemma fold_add: "invar s \<Longrightarrow> invar (foldl add s xs) \<and>
    set (strings (foldl add s xs)) = set (strings s) \<union> set xs"
  by (induction xs arbitrary: s) (auto simp: invar_add set_add)

end

lemma distinct_Set_Add: "distinct s \<Longrightarrow> distinct (Set_Add s x)"
  by (simp add: Set_Add_def)

interpretation sset: string_set Set_Add Set_Remove Set_Contains Set_Size Set_Strings distinct
  by unfold_locales
    (auto simp: Set_Add_def Set_Remove_def Set_Contains_def Set_Size_def Set_Strings_def
      removeAll_filter_not_eq)

lemma set_Set_Add [simp]: "set (Set_Add s x) = insert x (set s)"
  by (auto simp: Set_Add_def)

lemma set_Set_AppendSlice [simp]: "set (Set_AppendSlice s xs) = set s \<union> set xs"
  by (induction xs arbitrary: s) (auto simp: Set_AppendSlice_def)

lemma set_Set_AppendSet [simp]: "set (Set_AppendSet s t) = set s \<union> set t"
  by (metis Set_AppendSet_def Set_AppendSlice_def Set_Strings_def set_Set_AppendSlice)

lemma set_Set_New [simp]: "set (Set_New xs) = set xs"
  by (simp add: Set_New_def)

lemma set_Set_Remove [simp]: "set (Set_Remove s x) = set s - {x}"
  by (simp add: Set_Remove_def)

lemma distinct_Set_AppendSlice: "distinct s \<Longrightarrow> distinct (Set_AppendSlice s xs)"
  using sset.fold_add [of s xs] by (simp add: Set_AppendSlice_def)

lemma distinct_Set_AppendSet: "distinct s \<Longrightarrow> distinct (Set_AppendSet s t)"
  using sset.fold_add [of s t] by (simp add: Set_AppendSet_def Set_Strings_def)

lemma distinct_Set_New [simp]: "distinct (Set_New xs)"
  by (simp add: Set_New_def distinct_Set_AppendSlice)

lemma Set_New_id: "distinct xs \<Longrightarrow> Set_New xs = xs"
proof -
  have "distinct (s @ xs) \<Longrightarrow> foldl Set_Add s xs = s @ xs" for s
    by (induction xs arbitrary: s) (auto simp: Set_Add_def)
  then show "distinct xs \<Longrightarrow> Set_New xs = xs"
    by (simp add: Set_New_def Set_AppendSlice_def)
qed

end
