(* ===== verification/Address.thy ===== *)
theory Address
  imports Errors
begin

text \<open>
  \<open>address.go\<close> and \<open>ValidateTokenCode\<close> of \<open>token.go\<close>. An address is a token code, a type byte and
  24 bytes: a 20-byte identifier and a 4-byte checksum. SHAKE-256 of \<open>golang.org/x/crypto/sha3\<close> is
  the parameter \<open>shake\<close>: \<open>shake n data\<close> is the digest written to a buffer of \<open>n\<close> bytes. What the code
  relies on is the length of the digest, \<open>shake_ok\<close>.

  The lemmas give the two directions of the text form: a fresh address of a valid code parses back
  to itself (\<open>ParseAddress_String\<close>), and any text that parses is, in upper case, the text
  of the address it parses to (\<open>ParseAddress_run\<close>).
\<close>

type_synonym shake = "nat \<Rightarrow> byte list \<Rightarrow> byte list"

definition shake_ok :: "shake \<Rightarrow> bool" where
  "shake_ok shake \<longleftrightarrow> (\<forall>n bs. length (shake n bs) = n)"

section \<open>Token codes\<close>

definition code_char :: "char \<Rightarrow> bool" where
  "code_char c \<longleftrightarrow> is_upper c \<or> is_digit c"

text \<open>The regular expression \<open>^[A-Z0-9]{3,6}$\<close>.\<close>

definition matches_code :: "string \<Rightarrow> bool" where
  "matches_code s \<longleftrightarrow> 3 \<le> length s \<and> length s \<le> 6 \<and> list_all code_char s"

definition ValidateTokenCode :: "string \<Rightarrow> err + string" where
  "ValidateTokenCode code0 =
     (let code = ToUpper code0 in
      if \<not> matches_code code then Inl (Plain ''token code must be 3~6 length alphanum'')
      else Inr code)"

lemma code_char_upper: "code_char c \<Longrightarrow> upper_char c = c"
  by (auto simp: code_char_def is_upper_def is_digit_def upper_char_def)

lemma matches_code_upper: "matches_code s \<Longrightarrow> ToUpper s = s"
  by (simp add: matches_code_def ToUpper_def list_all_iff code_char_upper map_idI)

lemma ValidateTokenCode_ok [simp]: "matches_code code \<Longrightarrow> ValidateTokenCode code = Inr code"
  by (simp add: ValidateTokenCode_def matches_code_upper)

lemma ValidateTokenCode_run:
  "ValidateTokenCode s = Inr code \<longleftrightarrow> code = ToUpper s \<and> matches_code (ToUpper s)"
  by (auto simp: ValidateTokenCode_def Let_def)

lemma ValidateTokenCode_no_panic: "ValidateTokenCode s \<noteq> Inl GoPanic"
  by (simp add: ValidateTokenCode_def Let_def)

section \<open>Addresses\<close>

definition AccountTypeUnknown :: byte where "AccountTypeUnknown = 0"
definition AccountTypePersonal :: byte where "AccountTypePersonal = 1"
definition AccountTypeJoint :: byte where "AccountTypeJoint = 2"

record address =
  adr_code :: string
  adr_type :: byte
  adr_hash :: "byte list"

definition Checksum :: "shake \<Rightarrow> address \<Rightarrow> byte list \<Rightarrow> byte list" where
  "Checksum shake a hash = shake 4 (bytes_of (adr_code a) @ [adr_type a] @ hash)"

text \<open>The identifier bytes: a kiesnet ID is 40 hex digits; anything else is hashed.\<close>

definition id_bytes :: "shake \<Rightarrow> string \<Rightarrow> byte list" where
  "id_bytes shake ident =
     (case hex_decode ident of
        None \<Rightarrow> shake 20 (bytes_of ident)
      | Some idh \<Rightarrow> if length idh \<noteq> 20 then shake 20 (bytes_of ident) else idh)"

definition NewAddress :: "shake \<Rightarrow> string \<Rightarrow> byte \<Rightarrow> string \<Rightarrow> address" where
  "NewAddress shake tokenCode typeCode ident =
     (let addr = \<lparr>adr_code = tokenCode, adr_type = typeCode, adr_hash = []\<rparr>;
          idh = id_bytes shake ident
      in addr\<lparr>adr_hash := idh @ Checksum shake addr idh\<rparr>)"

definition has_suffix :: "byte list \<Rightarrow> byte list \<Rightarrow> bool" where
  "has_suffix s t \<longleftrightarrow> length t \<le> length s \<and> drop (length s - length t) s = t"

definition Address_Validate :: "shake \<Rightarrow> address \<Rightarrow> err + unit" where
  "Address_Validate shake a =
     (attempt (ValidateTokenCode (adr_code a)) (\<lambda>_. InvalidAccountAddrError ''token code'') (\<lambda>_.
      if adr_type a \<le> AccountTypeUnknown \<or> adr_type a > AccountTypeJoint
      then Inl (InvalidAccountAddrError ''account type'')
      else if length (adr_hash a) < 20 then Inl GoPanic
      else if has_suffix (adr_hash a) (Checksum shake a (take 20 (adr_hash a))) then Inr ()
      else Inl (InvalidAccountAddrError ''checksum'')))"

definition ParseAddress :: "shake \<Rightarrow> string \<Rightarrow> err + address" where
  "ParseAddress shake addr0 =
     (let addr = ToUpper addr0; l = length addr in
      if l < 50 then Inl (InvalidAccountAddrError ''length'')
      else let i = l - 50 in
        require (hex_decode (drop i addr)) (InvalidAccountAddrError ''hex'') (\<lambda>idh.
        let a = \<lparr>adr_code = take i addr, adr_type = hd idh, adr_hash = tl idh\<rparr> in
        attempt (Address_Validate shake a) (\<lambda>e. e) (\<lambda>_. Inr a)))"

definition ParseCode :: "string \<Rightarrow> err + string" where
  "ParseCode addr =
     (let l = length addr in
      if l < 50 then Inl (InvalidAccountAddrError ''length'')
      else Inr (ToUpper (take (l - 50) addr)))"

definition Address_ID :: "address \<Rightarrow> string" where
  "Address_ID a = hex_encode hex_lower (take 20 (adr_hash a))"

definition Address_Equal :: "address \<Rightarrow> address \<Rightarrow> bool" where
  "Address_Equal a b \<longleftrightarrow> adr_code a = adr_code b \<and> adr_type a = adr_type b \<and> adr_hash a = adr_hash b"

definition Address_String :: "address \<Rightarrow> string" where
  "Address_String a = adr_code a @ hex_byte hex_upper (adr_type a) @ hex_encode hex_upper (adr_hash a)"

section \<open>Text form\<close>

definition wf_address :: "shake \<Rightarrow> address \<Rightarrow> bool" where
  "wf_address shake a \<longleftrightarrow>
     matches_code (adr_code a) \<and> adr_type a \<in> {AccountTypePersonal, AccountTypeJoint} \<and>
     length (adr_hash a) = 24 \<and> has_suffix (adr_hash a) (Checksum shake a (take 20 (adr_hash a)))"

lemma account_type_range:
  "(t \<le> AccountTypeUnknown \<or> t > AccountTypeJoint) \<longleftrightarrow> t \<notin> {AccountTypePersonal, AccountTypeJoint}"
proof -
  have "unat t = 1 \<or> unat t = 2 \<longleftrightarrow> t = 1 \<or> t = 2"
    using word_unat_eq_iff [of t 1] word_unat_eq_iff [of t 2] by simp
  then show ?thesis
    by (auto simp: AccountTypeUnknown_def AccountTypePersonal_def AccountTypeJoint_def
        word_le_nat_alt word_less_nat_alt)
qed

lemma length_id_bytes: "shake_ok shake \<Longrightarrow> length (id_bytes shake ident) = 20"
  by (auto simp: id_bytes_def shake_ok_def split: option.splits)

lemma NewAddress_sel [simp]:
  "adr_code (NewAddress shake c t i) = c" "adr_type (NewAddress shake c t i) = t"
  by (simp_all add: NewAddress_def Let_def)

lemma take_hash_NewAddress:
  "shake_ok shake \<Longrightarrow> take 20 (adr_hash (NewAddress shake c t i)) = id_bytes shake i"
  by (simp add: NewAddress_def Let_def length_id_bytes)

lemma wf_NewAddress:
  assumes "shake_ok shake" "matches_code c" "t \<in> {AccountTypePersonal, AccountTypeJoint}"
  shows "wf_address shake (NewAddress shake c t i)"
proof -
  have "length (shake 4 bs) = 4" for bs
    using assms(1) by (simp add: shake_ok_def)
  then show ?thesis
    using assms
    by (simp add: wf_address_def has_suffix_def NewAddress_def Let_def length_id_bytes Checksum_def)
qed

lemma Address_Validate_wf:
  "length (adr_hash a) = 24 \<Longrightarrow> ToUpper (adr_code a) = adr_code a \<Longrightarrow>
   Address_Validate shake a = Inr () \<longleftrightarrow> wf_address shake a"
  by (auto simp: Address_Validate_def wf_address_def run ValidateTokenCode_run account_type_range)

lemma length_Address_String: "length (adr_hash a) = 24 \<Longrightarrow> length (Address_String a) = length (adr_code a) + 50"
  by (simp add: Address_String_def hex_byte_def)

lemma Address_hex:
  "hex_byte hex_upper (adr_type a) @ hex_encode hex_upper (adr_hash a) =
   hex_encode hex_upper (adr_type a # adr_hash a)"
  by (simp add: hex_encode_Cons)

lemma ToUpper_Address_String:
  "matches_code (adr_code a) \<Longrightarrow> ToUpper (Address_String a) = Address_String a"
  by (simp add: Address_String_def Address_hex matches_code_upper)

lemma ParseAddress_String:
  assumes "wf_address shake a"
  shows "ParseAddress shake (Address_String a) = Inr a"
proof -
  have code: "matches_code (adr_code a)" and len: "length (adr_hash a) = 24"
    using assms by (simp_all add: wf_address_def)
  have up: "ToUpper (Address_String a) = Address_String a"
    using code by (rule ToUpper_Address_String)
  have eta: "\<lparr>adr_code = adr_code a, adr_type = adr_type a, adr_hash = adr_hash a\<rparr> = a"
    by simp
  have "Address_Validate shake a = Inr ()"
    using assms len code by (simp add: Address_Validate_wf matches_code_upper)
  then show ?thesis
    by (simp add: ParseAddress_def up Let_def length_Address_String len)
      (simp add: Address_String_def Address_hex eta)
qed

lemma ParseAddress_run:
  assumes "ParseAddress shake s = Inr a"
  shows "wf_address shake a" "Address_String a = ToUpper s"
proof -
  let ?u = "ToUpper s"
  let ?i = "length ?u - 50"
  from assms obtain idh where len: "50 \<le> length ?u" and dec: "hex_decode (drop ?i ?u) = Some idh"
    and a: "a = \<lparr>adr_code = take ?i ?u, adr_type = hd idh, adr_hash = tl idh\<rparr>"
    and val: "Address_Validate shake a = Inr ()"
    by (auto simp: ParseAddress_def Let_def run not_less)
  have "length idh = 25"
    using hex_decode_length [OF dec] len by simp
  then have idh: "hd idh # tl idh = idh" and hash: "length (adr_hash a) = 24"
    by (cases idh; simp add: a)+
  have "ToUpper (adr_code a) = adr_code a"
    by (simp add: a ToUpper_def take_map)
  with val hash show "wf_address shake a"
    by (simp add: Address_Validate_wf)
  have "Address_String a = take ?i ?u @ ToUpper (drop ?i ?u)"
    using hex_encode_decode [OF dec] idh
    by (simp add: Address_String_def a hex_encode_Cons [symmetric])
  also have "ToUpper (drop ?i ?u) = drop ?i ?u"
    by (simp add: ToUpper_def drop_map)
  finally show "Address_String a = ?u"
    by (simp only: append_take_drop_id)
qed

lemma ParseAddress_no_panic: "ParseAddress shake s \<noteq> Inl GoPanic"
proof -
  have "Address_Validate shake a \<noteq> Inl GoPanic" if "length (adr_hash a) = 24" for a
    using that by (auto simp: Address_Validate_def attempt_def split: sum.splits)
  moreover have "length (tl idh) = 24"
    if "hex_decode (drop (length s - 50) (ToUpper s)) = Some idh" "50 \<le> length s" for idh
    using hex_decode_length [OF that(1)] that(2) by simp
  ultimately show ?thesis
    by (auto simp: ParseAddress_def Let_def require_def attempt_def split: sum.splits option.splits)
qed

lemma ParseCode_String:
  "wf_address shake a \<Longrightarrow> ParseCode (Address_String a) = Inr (adr_code a)"
  using length_Address_String [of a]
  by (simp add: wf_address_def ParseCode_def Let_def Address_String_def matches_code_upper hex_byte_def)

lemma Address_String_inject:
  "wf_address shake a \<Longrightarrow> wf_address shake b \<Longrightarrow> Address_String a = Address_String b \<Longrightarrow> a = b"
  by (metis ParseAddress_String sum.inject(2))

lemma Address_Equal_iff [simp]: "Address_Equal a b \<longleftrightarrow> a = b"
  by (auto simp: Address_Equal_def)

text \<open>A kiesnet ID in lower-case hex is the identifier of its own address.\<close>

lemma Address_ID_NewAddress:
  assumes "shake_ok shake" "hex_decode kid = Some bs" "length bs = 20" "kid = hex_encode hex_lower bs"
  shows "Address_ID (NewAddress shake c t kid) = kid"
  using assms by (simp add: Address_ID_def take_hash_NewAddress id_bytes_def)

end
