(* ===== verification/Docs.thy ===== *)
theory Docs
  imports TxTime Amount StringSet Address
begin

text \<open>
  The ledger documents: \<open>account.go\<close>, \<open>balance.go\<close>, \<open>fee.go\<close> (data), \<open>pay.go\<close>, \<open>token.go\<close> and
  \<open>last_pruned_fee_id.go\<close>. A struct is a record with the source's fields in the source's order; a
  pointer that may be nil is an option. \<open>doc\<close> is one JSON document of the world state, by the struct
  it was marshalled from, and \<open>key_of\<close> the key the code stores it under.
\<close>

section \<open>Accounts\<close>

record account =
  acc_id :: string
  acc_token :: string
  acc_type :: byte
  acc_created :: "time option"
  acc_updated :: "time option"
  acc_suspended :: "time option"

text \<open>\<open>AccountInterface\<close>, implemented by \<open>Account\<close> and by \<open>JointAccount\<close>, which embeds it.\<close>

datatype account_doc = PersonalAccount account | JointAccount account stringset

fun acc_base :: "account_doc \<Rightarrow> account" where
  "acc_base (PersonalAccount a) = a"
| "acc_base (JointAccount a hs) = a"

definition Account_GetID :: "account_doc \<Rightarrow> string" where
  "Account_GetID a = acc_id (acc_base a)"

definition Account_GetToken :: "account_doc \<Rightarrow> string" where
  "Account_GetToken a = acc_token (acc_base a)"

definition Account_GetType :: "account_doc \<Rightarrow> byte" where
  "Account_GetType a = acc_type (acc_base a)"

text \<open>The identifier part of the address in lower case; an account's address is longer than the 48
  characters the slice needs.\<close>

definition Account_Holder :: "account \<Rightarrow> string" where
  "Account_Holder a = (let i = length (acc_id a) - 48 in ToLower (take 40 (drop i (acc_id a))))"

fun HasHolder :: "account_doc \<Rightarrow> string \<Rightarrow> bool" where
  "HasHolder (PersonalAccount a) kid \<longleftrightarrow> Account_Holder a = kid"
| "HasHolder (JointAccount a hs) kid \<longleftrightarrow> Set_Contains hs kid"

definition IsSuspended :: "account_doc \<Rightarrow> bool" where
  "IsSuspended a \<longleftrightarrow> acc_suspended (acc_base a) \<noteq> None"

record holder =
  hld_id :: string
  hld_address :: string
  hld_token :: string
  hld_type :: byte
  hld_created :: "time option"

definition NewHolder :: "string \<Rightarrow> account_doc \<Rightarrow> holder" where
  "NewHolder kid a =
     \<lparr>hld_id = kid, hld_address = Account_GetID a, hld_token = Account_GetToken a,
      hld_type = Account_GetType a, hld_created = None\<rparr>"

section \<open>Balances\<close>

record balance =
  bal_id :: string
  bal_amount :: amount
  bal_created :: "time option"
  bal_updated :: "time option"
  bal_last_pruned :: string

datatype balance_log_type =
    BalanceLogTypeMint
  | BalanceLogTypeBurn
  | BalanceLogTypeSend
  | BalanceLogTypeReceive
  | BalanceLogTypeDeposit
  | BalanceLogTypeWithdraw
  | BalanceLogTypePay
  | BalanceLogTypeRefund
  | BalanceLogTypePrunePay
  | BalanceLogTypePruneFee

record balance_log =
  blog_id :: string
  blog_type :: balance_log_type
  blog_rid :: string
  blog_diff :: amount
  blog_fee :: "amount option"
  blog_amount :: amount
  blog_memo :: string
  blog_created :: "time option"
  blog_prune_start :: string
  blog_prune_end :: string
  blog_pay_id :: string

definition MemoMaxLength :: nat where
  "MemoMaxLength = 1024"

datatype pending_type = PendingBalanceTypeAccount | PendingBalanceTypeContract

record pending_balance =
  pb_id :: string
  pb_type :: pending_type
  pb_account :: string
  pb_rid :: string
  pb_amount :: amount
  pb_fee :: "amount option"
  pb_memo :: string
  pb_created :: "time option"
  pb_pending :: "time option"

text \<open>The two kinds of \<open>Identifiable\<close> that a pending balance can relate to.\<close>

datatype identifiable = IdBalance string | IdContract string

fun GetID :: "identifiable \<Rightarrow> string" where
  "GetID (IdBalance i) = i"
| "GetID (IdContract i) = i"

definition NewPendingBalance ::
  "string \<Rightarrow> string \<Rightarrow> identifiable \<Rightarrow> amount \<Rightarrow> amount option \<Rightarrow> string \<Rightarrow> time option \<Rightarrow> pending_balance" where
  "NewPendingBalance pid owner rel amount fee memo pTime =
     \<lparr>pb_id = pid,
      pb_type = (case rel of IdContract _ \<Rightarrow> PendingBalanceTypeContract | IdBalance _ \<Rightarrow> PendingBalanceTypeAccount),
      pb_account = owner, pb_rid = GetID rel, pb_amount = amount, pb_fee = fee, pb_memo = memo,
      pb_created = None, pb_pending = pTime\<rparr>"

section \<open>Pays and fees\<close>

record pay =
  pay_account :: string
  pay_id :: string
  pay_amount :: amount
  pay_fee :: amount
  pay_total_refund :: amount
  pay_rid :: string
  pay_parent :: string
  pay_order :: string
  pay_memo :: string
  pay_created :: "time option"

definition NewPay ::
  "string \<Rightarrow> string \<Rightarrow> amount \<Rightarrow> amount \<Rightarrow> string \<Rightarrow> string \<Rightarrow> string \<Rightarrow> string \<Rightarrow> time \<Rightarrow> pay" where
  "NewPay ident payid amount fee rid pid orderID memo ts =
     \<lparr>pay_account = ident, pay_id = payid, pay_amount = amount, pay_fee = fee, pay_total_refund = 0,
      pay_rid = rid, pay_parent = pid, pay_order = orderID, pay_memo = memo, pay_created = Some ts\<rparr>"

record pay_sum =
  ps_sum :: amount
  ps_fee :: amount
  ps_count :: nat
  ps_start :: string
  ps_end :: string
  ps_has_more :: bool

record fee =
  fee_code :: string
  fee_id :: string
  fee_account :: string
  fee_amount :: amount
  fee_created :: "time option"

record fee_rate =
  fr_rate :: string
  fr_max :: int

record fee_policy =
  fp_target :: string
  fp_rates :: "string \<rightharpoonup> fee_rate"

record fee_sum =
  fs_sum :: amount
  fs_count :: nat
  fs_start :: string
  fs_end :: string
  fs_has_more :: bool

record last_pruned_fee_id =
  lpf_code :: string
  lpf_fee_id :: string
  lpf_updated :: "time option"

section \<open>Tokens\<close>

record token =
  tok_code :: string
  tok_decimal :: int
  tok_max_supply :: amount
  tok_supply :: amount
  tok_last_pruned_fee :: string
  tok_genesis :: string
  tok_policy :: "fee_policy option"
  tok_created :: "time option"
  tok_updated :: "time option"

section \<open>Balance logs\<close>

definition NewBalanceSupplyLog :: "balance \<Rightarrow> amount \<Rightarrow> balance_log" where
  "NewBalanceSupplyLog bal diff =
     (if Amount_Sign diff < 0
      then \<lparr>blog_id = bal_id bal, blog_type = BalanceLogTypeBurn, blog_rid = [], blog_diff = diff,
            blog_fee = None, blog_amount = bal_amount bal, blog_memo = [], blog_created = None,
            blog_prune_start = [], blog_prune_end = [], blog_pay_id = []\<rparr>
      else \<lparr>blog_id = bal_id bal, blog_type = BalanceLogTypeMint, blog_rid = [], blog_diff = diff,
            blog_fee = None, blog_amount = bal_amount bal, blog_memo = [], blog_created = None,
            blog_prune_start = [], blog_prune_end = [], blog_pay_id = []\<rparr>)"

definition NewBalanceTransferLog ::
  "balance \<Rightarrow> balance \<Rightarrow> amount \<Rightarrow> amount option \<Rightarrow> string \<Rightarrow> balance_log" where
  "NewBalanceTransferLog sender receiver diff fee memo =
     (if Amount_Sign diff < 0
      then \<lparr>blog_id = bal_id sender, blog_type = BalanceLogTypeSend, blog_rid = bal_id receiver,
            blog_diff = diff, blog_fee = fee, blog_amount = bal_amount sender, blog_memo = memo,
            blog_created = None, blog_prune_start = [], blog_prune_end = [], blog_pay_id = []\<rparr>
      else \<lparr>blog_id = bal_id receiver, blog_type = BalanceLogTypeReceive, blog_rid = bal_id sender,
            blog_diff = diff, blog_fee = None, blog_amount = bal_amount receiver, blog_memo = memo,
            blog_created = None, blog_prune_start = [], blog_prune_end = [], blog_pay_id = []\<rparr>)"

definition NewBalanceDepositLog :: "balance \<Rightarrow> pending_balance \<Rightarrow> balance_log" where
  "NewBalanceDepositLog bal pb =
     (let diff = Amount_Neg (Amount_Copy (pb_amount pb)) in
      \<lparr>blog_id = bal_id bal, blog_type = BalanceLogTypeDeposit, blog_rid = pb_rid pb,
       blog_diff = diff, blog_fee = pb_fee pb, blog_amount = bal_amount bal, blog_memo = pb_memo pb,
       blog_created = None, blog_prune_start = [], blog_prune_end = [], blog_pay_id = []\<rparr>)"

definition NewBalanceWithdrawLog :: "balance \<Rightarrow> pending_balance \<Rightarrow> balance_log" where
  "NewBalanceWithdrawLog bal pb =
     (let diff0 = Amount_Copy (pb_amount pb);
          diff = (case pb_fee pb of None \<Rightarrow> diff0 | Some f \<Rightarrow> Amount_Add diff0 f)
      in \<lparr>blog_id = bal_id bal, blog_type = BalanceLogTypeWithdraw, blog_rid = pb_rid pb,
          blog_diff = diff, blog_fee = None, blog_amount = bal_amount bal, blog_memo = pb_memo pb,
          blog_created = None, blog_prune_start = [], blog_prune_end = [], blog_pay_id = []\<rparr>)"

definition NewBalancePayLog :: "balance \<Rightarrow> pay \<Rightarrow> balance_log" where
  "NewBalancePayLog bal p =
     (let diff = Amount_Neg (Amount_Copy (pay_amount p)) in
      \<lparr>blog_id = bal_id bal, blog_type = BalanceLogTypePay, blog_rid = pay_account p,
       blog_diff = diff, blog_fee = None, blog_amount = bal_amount bal, blog_memo = pay_memo p,
       blog_created = None, blog_prune_start = [], blog_prune_end = [], blog_pay_id = pay_id p\<rparr>)"

definition NewBalanceRefundLog :: "balance \<Rightarrow> pay \<Rightarrow> balance_log" where
  "NewBalanceRefundLog bal p =
     (let diff = Amount_Neg (Amount_Copy (pay_amount p)) in
      \<lparr>blog_id = bal_id bal, blog_type = BalanceLogTypeRefund, blog_rid = pay_account p,
       blog_diff = diff, blog_fee = None, blog_amount = bal_amount bal, blog_memo = pay_memo p,
       blog_created = None, blog_prune_start = [], blog_prune_end = [], blog_pay_id = []\<rparr>)"

definition NewBalancePrunePayLog :: "balance \<Rightarrow> amount \<Rightarrow> string \<Rightarrow> string \<Rightarrow> balance_log" where
  "NewBalancePrunePayLog bal amount Start End =
     \<lparr>blog_id = bal_id bal, blog_type = BalanceLogTypePrunePay, blog_rid = [], blog_diff = amount,
      blog_fee = None, blog_amount = bal_amount bal, blog_memo = [], blog_created = None,
      blog_prune_start = Start, blog_prune_end = End, blog_pay_id = []\<rparr>"

definition NewBalancePruneFeeLog :: "balance \<Rightarrow> amount \<Rightarrow> string \<Rightarrow> string \<Rightarrow> balance_log" where
  "NewBalancePruneFeeLog bal amount Start End =
     \<lparr>blog_id = bal_id bal, blog_type = BalanceLogTypePruneFee, blog_rid = [], blog_diff = amount,
      blog_fee = None, blog_amount = bal_amount bal, blog_memo = [], blog_created = None,
      blog_prune_start = Start, blog_prune_end = End, blog_pay_id = []\<rparr>"

section \<open>Keys\<close>

datatype doc =
    DAccount account_doc
  | DHolder holder
  | DBalance balance
  | DBalanceLog balance_log
  | DPending pending_balance
  | DToken token
  | DFee fee
  | DPay pay
  | DLastPruned last_pruned_fee_id

text \<open>\<open>json.Unmarshal\<close> of a document into the struct it was marshalled from. Documents of another
kind have other fields; the keys and the query selectors keep them away from the decoder.\<close>

definition as_account :: "doc \<Rightarrow> account_doc option" where
  "as_account d = (case d of DAccount x \<Rightarrow> Some x | _ \<Rightarrow> None)"

definition as_holder :: "doc \<Rightarrow> holder option" where
  "as_holder d = (case d of DHolder x \<Rightarrow> Some x | _ \<Rightarrow> None)"

definition as_balance :: "doc \<Rightarrow> balance option" where
  "as_balance d = (case d of DBalance x \<Rightarrow> Some x | _ \<Rightarrow> None)"

definition as_pending :: "doc \<Rightarrow> pending_balance option" where
  "as_pending d = (case d of DPending x \<Rightarrow> Some x | _ \<Rightarrow> None)"

definition as_token :: "doc \<Rightarrow> token option" where
  "as_token d = (case d of DToken x \<Rightarrow> Some x | _ \<Rightarrow> None)"

definition as_fee :: "doc \<Rightarrow> fee option" where
  "as_fee d = (case d of DFee x \<Rightarrow> Some x | _ \<Rightarrow> None)"

definition as_pay :: "doc \<Rightarrow> pay option" where
  "as_pay d = (case d of DPay x \<Rightarrow> Some x | _ \<Rightarrow> None)"

definition as_last_pruned :: "doc \<Rightarrow> last_pruned_fee_id option" where
  "as_last_pruned d = (case d of DLastPruned x \<Rightarrow> Some x | _ \<Rightarrow> None)"

lemma decoded [simp]:
  "as_account (DAccount x0) = Some x0"
  "as_holder (DHolder x1) = Some x1"
  "as_balance (DBalance x2) = Some x2"
  "as_pending (DPending x3) = Some x3"
  "as_token (DToken x4) = Some x4"
  "as_fee (DFee x5) = Some x5"
  "as_pay (DPay x6) = Some x6"
  "as_last_pruned (DLastPruned x7) = Some x7"
  by (simp_all add: as_account_def as_holder_def as_balance_def as_pending_def as_token_def as_fee_def as_pay_def as_last_pruned_def)

lemma decode_run [run]:
  "as_account d = Some xac \<longleftrightarrow> d = DAccount xac"
  "as_holder d = Some xho \<longleftrightarrow> d = DHolder xho"
  "as_balance d = Some xba \<longleftrightarrow> d = DBalance xba"
  "as_pending d = Some xpe \<longleftrightarrow> d = DPending xpe"
  "as_token d = Some xto \<longleftrightarrow> d = DToken xto"
  "as_fee d = Some xfe \<longleftrightarrow> d = DFee xfe"
  "as_pay d = Some xpa \<longleftrightarrow> d = DPay xpa"
  "as_last_pruned d = Some xla \<longleftrightarrow> d = DLastPruned xla"
  by (cases d; simp add: as_account_def as_holder_def as_balance_def as_pending_def as_token_def as_fee_def as_pay_def as_last_pruned_def)+

definition BalanceKey :: "string \<Rightarrow> string" where
  "BalanceKey ident = ''BLC_'' @ ident"

definition LogKey :: "string \<Rightarrow> int \<Rightarrow> string" where
  "LogKey ident seq = ''BLOG_'' @ ident @ ''_'' @ dec_int seq"

definition PendingKey :: "string \<Rightarrow> string" where
  "PendingKey ident = ''PBLC_'' @ ident"

definition AccountKey :: "string \<Rightarrow> string" where
  "AccountKey ident = ''ACC_'' @ ident"

definition HolderKey :: "string \<Rightarrow> string \<Rightarrow> string" where
  "HolderKey ident addr = ''HLD_'' @ ident @ ''_'' @ addr"

definition FeeKey :: "string \<Rightarrow> string" where
  "FeeKey ident = ''FEE_'' @ ident"

definition PayKey :: "string \<Rightarrow> string" where
  "PayKey ident = (if ident = [] then [] else ''PAY_'' @ ident)"

definition TokenKey :: "string \<Rightarrow> string" where
  "TokenKey code = ''TKN_'' @ code"

definition LastPrunedKey :: "string \<Rightarrow> string" where
  "LastPrunedKey code = ''LPF_'' @ code"

text \<open>\<open>log.CreatedTime.UnixNano()\<close>; the code sets the time of every log it puts.\<close>

definition nano_of :: "time option \<Rightarrow> int" where
  "nano_of t = (case t of None \<Rightarrow> 0 | Some t \<Rightarrow> UnixNano t)"

fun key_of :: "doc \<Rightarrow> string" where
  "key_of (DAccount a) = AccountKey (Account_GetID a)"
| "key_of (DHolder h) = HolderKey (hld_id h) (hld_address h)"
| "key_of (DBalance b) = BalanceKey (bal_id b)"
| "key_of (DBalanceLog l) = LogKey (blog_id l) (nano_of (blog_created l))"
| "key_of (DPending p) = PendingKey (pb_id p)"
| "key_of (DToken t) = TokenKey (tok_code t)"
| "key_of (DFee f) = FeeKey (fee_id f)"
| "key_of (DPay p) = PayKey (pay_id p)"
| "key_of (DLastPruned l) = LastPrunedKey (lpf_code l)"

lemmas key_defs = BalanceKey_def LogKey_def PendingKey_def AccountKey_def HolderKey_def FeeKey_def
  PayKey_def TokenKey_def LastPrunedKey_def

lemma key_inject [simp]:
  "BalanceKey i = BalanceKey j \<longleftrightarrow> i = j" "PendingKey i = PendingKey j \<longleftrightarrow> i = j"
  "AccountKey i = AccountKey j \<longleftrightarrow> i = j" "FeeKey i = FeeKey j \<longleftrightarrow> i = j"
  "PayKey i = PayKey j \<longleftrightarrow> i = j" "TokenKey i = TokenKey j \<longleftrightarrow> i = j"
  "LastPrunedKey i = LastPrunedKey j \<longleftrightarrow> i = j"
  by (simp_all add: key_defs)

text \<open>The prefixes keep the kinds of documents apart.\<close>

fun doc_kind :: "doc \<Rightarrow> nat" where
  "doc_kind (DAccount _) = 0"
| "doc_kind (DHolder _) = 1"
| "doc_kind (DBalance _) = 2"
| "doc_kind (DBalanceLog _) = 3"
| "doc_kind (DPending _) = 4"
| "doc_kind (DToken _) = 5"
| "doc_kind (DFee _) = 6"
| "doc_kind (DPay _) = 7"
| "doc_kind (DLastPruned _) = 8"

definition key_kind :: "string \<Rightarrow> nat" where
  "key_kind k =
     (if take 4 k = ''ACC_'' then 0 else if take 4 k = ''HLD_'' then 1
      else if take 4 k = ''BLC_'' then 2 else if take 4 k = ''BLOG'' then 3
      else if take 4 k = ''PBLC'' then 4 else if take 4 k = ''TKN_'' then 5
      else if take 4 k = ''FEE_'' then 6 else if take 4 k = ''LPF_'' then 8 else 7)"

lemma key_kind_simps [simp]:
  "key_kind (AccountKey i) = 0" "key_kind (HolderKey i a) = 1" "key_kind (BalanceKey i) = 2"
  "key_kind (LogKey i n) = 3" "key_kind (PendingKey i) = 4" "key_kind (TokenKey i) = 5"
  "key_kind (FeeKey i) = 6" "key_kind (PayKey i) = 7" "key_kind (LastPrunedKey i) = 8"
  by (simp_all add: key_kind_def key_defs)

lemma key_kind_of [simp]: "key_kind (key_of d) = doc_kind d"
  by (cases d) simp_all

lemma keys_apart: "key_kind j \<noteq> key_kind k \<Longrightarrow> j \<noteq> k"
  by auto

lemma key_neq [simp]:
  "BalanceKey i \<noteq> LogKey j n" "BalanceKey i \<noteq> PendingKey j" "BalanceKey i \<noteq> FeeKey j"
  "BalanceKey i \<noteq> PayKey j" "BalanceKey i \<noteq> TokenKey j" "BalanceKey i \<noteq> AccountKey j"
  "BalanceKey i \<noteq> HolderKey j a" "BalanceKey i \<noteq> LastPrunedKey j"
  "LogKey i n \<noteq> BalanceKey j" "LogKey i n \<noteq> PendingKey j" "LogKey i n \<noteq> FeeKey j"
  "LogKey i n \<noteq> PayKey j" "LogKey i n \<noteq> TokenKey j" "LogKey i n \<noteq> AccountKey j"
  "LogKey i n \<noteq> HolderKey j a" "LogKey i n \<noteq> LastPrunedKey j"
  "PendingKey i \<noteq> BalanceKey j" "PendingKey i \<noteq> LogKey j n" "PendingKey i \<noteq> FeeKey j"
  "PendingKey i \<noteq> PayKey j" "PendingKey i \<noteq> TokenKey j" "PendingKey i \<noteq> AccountKey j"
  "PendingKey i \<noteq> HolderKey j a" "PendingKey i \<noteq> LastPrunedKey j"
  "FeeKey i \<noteq> BalanceKey j" "FeeKey i \<noteq> LogKey j n" "FeeKey i \<noteq> PendingKey j"
  "FeeKey i \<noteq> PayKey j" "FeeKey i \<noteq> TokenKey j" "FeeKey i \<noteq> AccountKey j"
  "FeeKey i \<noteq> HolderKey j a" "FeeKey i \<noteq> LastPrunedKey j"
  "PayKey i \<noteq> BalanceKey j" "PayKey i \<noteq> LogKey j n" "PayKey i \<noteq> PendingKey j"
  "PayKey i \<noteq> FeeKey j" "PayKey i \<noteq> TokenKey j" "PayKey i \<noteq> AccountKey j"
  "PayKey i \<noteq> HolderKey j a" "PayKey i \<noteq> LastPrunedKey j"
  "TokenKey i \<noteq> BalanceKey j" "TokenKey i \<noteq> LogKey j n" "TokenKey i \<noteq> PendingKey j"
  "TokenKey i \<noteq> FeeKey j" "TokenKey i \<noteq> PayKey j" "TokenKey i \<noteq> AccountKey j"
  "TokenKey i \<noteq> HolderKey j a" "TokenKey i \<noteq> LastPrunedKey j"
  "AccountKey i \<noteq> BalanceKey j" "AccountKey i \<noteq> LogKey j n" "AccountKey i \<noteq> PendingKey j"
  "AccountKey i \<noteq> FeeKey j" "AccountKey i \<noteq> PayKey j" "AccountKey i \<noteq> TokenKey j"
  "AccountKey i \<noteq> HolderKey j a" "AccountKey i \<noteq> LastPrunedKey j"
  "HolderKey i a \<noteq> BalanceKey j" "HolderKey i a \<noteq> LogKey j n" "HolderKey i a \<noteq> PendingKey j"
  "HolderKey i a \<noteq> FeeKey j" "HolderKey i a \<noteq> PayKey j" "HolderKey i a \<noteq> TokenKey j"
  "HolderKey i a \<noteq> AccountKey j" "HolderKey i a \<noteq> LastPrunedKey j"
  "LastPrunedKey i \<noteq> BalanceKey j" "LastPrunedKey i \<noteq> LogKey j n" "LastPrunedKey i \<noteq> PendingKey j"
  "LastPrunedKey i \<noteq> FeeKey j" "LastPrunedKey i \<noteq> PayKey j" "LastPrunedKey i \<noteq> TokenKey j"
  "LastPrunedKey i \<noteq> AccountKey j" "LastPrunedKey i \<noteq> HolderKey j a"
  by (rule keys_apart; simp)+

lemma LogKey_inject [simp]: "LogKey i m = LogKey i n \<longleftrightarrow> m = n"
  by (simp add: LogKey_def)

end
