(* ===== verification/Utf8.thy ===== *)
theory Utf8
  imports GoStrings
begin

text \<open>
  Package \<open>unicode/utf8\<close>, as far as \<open>encoding/json\<close> uses it: the encoding of a code point, and the decoding of a
  byte string rune by rune as \<open>utf8.DecodeRune\<close> does it, where a byte that starts no well-formed rune counts as an
  invalid rune of length one. \<open>to_valid\<close> is what is left of a string that was marshalled and unmarshalled: an
  invalid byte becomes U+FFFD. It changes exactly the strings that are not valid UTF-8.
\<close>

definition utf8 :: "nat \<Rightarrow> string" where
  "utf8 n =
     (if n < 0x80 then [chr n]
      else if n < 0x800 then [chr (0xC0 + n div 64), chr (0x80 + n mod 64)]
      else if n < 0x10000 then [chr (0xE0 + n div 4096), chr (0x80 + n div 64 mod 64), chr (0x80 + n mod 64)]
      else [chr (0xF0 + n div 262144), chr (0x80 + n div 4096 mod 64), chr (0x80 + n div 64 mod 64),
            chr (0x80 + n mod 64)])"

section \<open>Runes\<close>

text \<open>The number of bytes that follow a first byte, and the ranges of these: the second byte keeps out overlong
  encodings, surrogates and code points beyond U+10FFFF.\<close>

definition rune_tail :: "nat \<Rightarrow> nat option" where
  "rune_tail n =
     (if n < 0x80 then Some 0 else if n < 0xC2 then None else if n < 0xE0 then Some 1
      else if n < 0xF0 then Some 2 else if n < 0xF5 then Some 3 else None)"

definition second_ok :: "nat \<Rightarrow> nat \<Rightarrow> bool" where
  "second_ok n m \<longleftrightarrow>
     (n = 0xE0 \<longrightarrow> 0xA0 \<le> m) \<and> (n = 0xED \<longrightarrow> m < 0xA0) \<and> (n = 0xF0 \<longrightarrow> 0x90 \<le> m) \<and> (n = 0xF4 \<longrightarrow> m < 0x90)"

definition continuation :: "char \<Rightarrow> bool" where
  "continuation c \<longleftrightarrow> 0x80 \<le> ord c \<and> ord c < 0xC0"

definition rune_size :: "string \<Rightarrow> nat" where
  "rune_size s =
     (case s of
        [] \<Rightarrow> 0
      | c # t \<Rightarrow>
          (case rune_tail (ord c) of
             None \<Rightarrow> 0
           | Some k \<Rightarrow>
               if k \<le> length t \<and> list_all continuation (take k t) \<and> (0 < k \<longrightarrow> second_ok (ord c) (ord (hd t)))
               then Suc k else 0))"

text \<open>The runes of a string, \<open>None\<close> for an invalid byte.\<close>

function runes :: "string \<Rightarrow> string option list" where
  "runes [] = []"
| "runes (c # s) =
     (if rune_size (c # s) = 0 then None # runes s
      else Some (take (rune_size (c # s)) (c # s)) # runes (drop (rune_size (c # s) - 1) s))"
  by pat_completeness auto
termination
  by (relation "measure length") auto

declare runes.simps(2) [simp del]

definition rune_bytes :: "string option \<Rightarrow> string" where
  "rune_bytes r = (case r of None \<Rightarrow> utf8 0xFFFD | Some b \<Rightarrow> b)"

definition to_valid :: "string \<Rightarrow> string" where
  "to_valid s = concat (map rune_bytes (runes s))"

definition valid_utf8 :: "string \<Rightarrow> bool" where
  "valid_utf8 s \<longleftrightarrow> None \<notin> set (runes s)"

section \<open>Well-formed runes\<close>

definition rune_ok :: "string \<Rightarrow> bool" where
  "rune_ok b \<longleftrightarrow> b \<noteq> [] \<and> rune_size b = length b"

lemma rune_size_bound: "rune_size (c # s) \<le> Suc (length s)"
  by (simp add: rune_size_def split: option.splits)

lemma rune_ok_append: "rune_ok b \<Longrightarrow> rune_size (b @ s) = length b"
proof (cases b)
  case (Cons c t)
  moreover assume "rune_ok b"
  ultimately have "rune_tail (ord c) = Some (length t)" "list_all continuation t" "0 < length t \<longrightarrow> second_ok (ord c) (ord (hd t))"
    by (auto simp: rune_ok_def rune_size_def split: option.splits if_splits)
  with Cons show ?thesis
    by (simp add: rune_size_def hd_append)
qed (simp add: rune_ok_def)

lemma runes_Cons:
  obtains (bad) "runes (c # s) = None # runes s"
  | (rune) k where "k \<le> length s" "rune_ok (c # take k s)" "runes (c # s) = Some (c # take k s) # runes (drop k s)"
proof (cases "rune_size (c # s)")
  case 0
  then show thesis
    using bad by (simp add: runes.simps(2))
next
  case (Suc k)
  then have k: "k \<le> length s"
    using rune_size_bound [of c s] by simp
  with Suc have "rune_ok (c # take k s)"
    by (auto simp: rune_ok_def rune_size_def hd_take split: option.splits if_splits)
  with Suc k show thesis
    using rune by (simp add: runes.simps(2))
qed

lemma runes_ok: "Some b \<in> set (runes s) \<Longrightarrow> rune_ok b"
proof (induction s rule: length_induct)
  case (1 s)
  show ?case
  proof (cases s)
    case (Cons c t)
    have "Some b \<in> set (runes t) \<Longrightarrow> rune_ok b" "Some b \<in> set (runes (drop k t)) \<Longrightarrow> rune_ok b" for k
      using 1(1) [rule_format, of t] 1(1) [rule_format, of "drop k t"] by (simp_all add: Cons)
    then show ?thesis
      using 1(2) by (cases c t rule: runes_Cons) (auto simp: Cons)
  qed (use 1 in simp)
qed

lemma runes_append: "rune_ok b \<Longrightarrow> runes (b @ s) = Some b # runes s"
proof -
  assume b: "rune_ok b"
  then obtain c t where bt: "b = c # t"
    by (auto simp: rune_ok_def neq_Nil_conv)
  with rune_ok_append [OF b, of s] show ?thesis
    by (simp add: runes.simps(2))
qed

lemma rune_ok_ascii: "ord c < 128 \<Longrightarrow> rune_ok [c]"
  by (simp add: rune_ok_def rune_size_def rune_tail_def)

definition ascii :: "string \<Rightarrow> bool" where
  "ascii s \<longleftrightarrow> list_all (\<lambda>c. ord c < 128) s"

lemma ascii_simps [simp]: "ascii []" "ascii (c # s) \<longleftrightarrow> ord c < 128 \<and> ascii s" "ascii (s @ t) \<longleftrightarrow> ascii s \<and> ascii t"
  "ord (Char b0 b1 b2 b3 b4 b5 b6 b7) < 128 \<longleftrightarrow> \<not> b7"
  by (simp_all add: ascii_def ord_def)

lemma runes_ascii: "ascii s \<Longrightarrow> runes s = map (\<lambda>c. Some [c]) s"
proof (induction s)
  case (Cons c s)
  then show ?case
    using runes_append [OF rune_ok_ascii, of c s] by simp
qed simp

lemma to_valid_ascii [simp]: "ascii s \<Longrightarrow> to_valid s = s"
  by (induction s) (simp_all add: to_valid_def runes_ascii rune_bytes_def)

lemma replacement: "utf8 0xFFFD = [CHR 0xEF, CHR 0xBF, CHR 0xBD]"
  using chr_ord [of "CHR 0xEF"] chr_ord [of "CHR 0xBF"] chr_ord [of "CHR 0xBD"]
  by (simp add: utf8_def ord_def del: chr_ord)

lemma rune_ok_replacement: "rune_ok (utf8 0xFFFD)"
  by (simp add: replacement rune_ok_def rune_size_def rune_tail_def continuation_def second_ok_def ord_def)

section \<open>Valid strings\<close>

lemma runes_to_valid: "runes (to_valid s) = map (\<lambda>r. Some (rune_bytes r)) (runes s)"
proof -
  have "runes (concat (map rune_bytes rs)) = map (\<lambda>r. Some (rune_bytes r)) rs" if "\<forall>b. Some b \<in> set rs \<longrightarrow> rune_ok b" for rs
    using that
  proof (induction rs)
    case (Cons r rs)
    then have "rune_ok (rune_bytes r)"
      using rune_ok_replacement by (cases r) (simp_all add: rune_bytes_def)
    with Cons show ?case
      by (simp add: runes_append)
  qed simp
  then show ?thesis
    using runes_ok by (auto simp: to_valid_def)
qed

lemma valid_to_valid [simp]: "valid_utf8 (to_valid s)"
  by (simp add: valid_utf8_def runes_to_valid image_iff)

text \<open>Each invalid byte is replaced by three.\<close>

lemma length_to_valid: "length (to_valid s) = length s + 2 * length (filter (\<lambda>r. r = None) (runes s))"
proof (induction s rule: length_induct)
  case (1 s)
  show ?case
  proof (cases s)
    case (Cons c t)
    show ?thesis
    proof (cases c t rule: runes_Cons)
      case bad
      have "length (to_valid t) = length t + 2 * length (filter (\<lambda>r. r = None) (runes t))"
        using 1 Cons by simp
      with bad show ?thesis
        by (simp add: Cons to_valid_def rune_bytes_def replacement)
    next
      case (rune k)
      have "length (to_valid (drop k t)) = length (drop k t) + 2 * length (filter (\<lambda>r. r = None) (runes (drop k t)))"
        using 1 Cons by simp
      with rune show ?thesis
        by (simp add: Cons to_valid_def rune_bytes_def)
    qed
  qed (simp add: to_valid_def)
qed

lemma valid_id: "valid_utf8 s \<Longrightarrow> to_valid s = s"
proof (induction s rule: length_induct)
  case (1 s)
  show ?case
  proof (cases s)
    case (Cons c t)
    show ?thesis
    proof (cases c t rule: runes_Cons)
      case bad
      then show ?thesis
        using 1(2) by (simp add: Cons valid_utf8_def)
    next
      case (rune k)
      then have "to_valid (drop k t) = drop k t"
        using 1 Cons by (simp add: valid_utf8_def)
      with rune show ?thesis
        by (simp add: Cons to_valid_def rune_bytes_def)
    qed
  qed (simp add: to_valid_def)
qed

lemma ascii_valid [simp]: "ascii s \<Longrightarrow> valid_utf8 s"
  by (auto simp: valid_utf8_def runes_ascii)

lemma to_valid_iff: "to_valid s = s \<longleftrightarrow> valid_utf8 s"
proof
  assume "to_valid s = s"
  then have "filter (\<lambda>r. r = None) (runes s) = []"
    using length_to_valid [of s] by simp
  then show "valid_utf8 s"
    by (auto simp: valid_utf8_def filter_empty_conv)
qed (rule valid_id)

lemma to_valid_idem [simp]: "to_valid (to_valid s) = to_valid s"
  by (simp add: valid_id)

lemma to_valid_Nil [simp]: "to_valid [] = []"
  by (simp add: to_valid_def)

lemma to_valid_empty [simp]: "to_valid s = [] \<longleftrightarrow> s = []"
  using length_to_valid [of s] by auto

end
