(* ===== verification/Json.thy ===== *)
theory Json
  imports Utf8
begin

text \<open>
  The part of \<open>encoding/json\<close> that ledger documents, contract documents, token meta data and contract payloads go
  through: \<open>json.Marshal\<close> of JSON values (\<open>json_print\<close>) and \<open>json.Unmarshal\<close> into \<open>interface{}\<close> values
  (\<open>json_parse\<close>). A number is kept as its literal; \<open>true\<close>, \<open>false\<close>, \<open>null\<close>, objects and all escape sequences
  are read as Go reads them. Strings are byte strings; in both directions a byte that is not part of valid
  UTF-8 becomes U+FFFD, so a value comes back as \<open>clean_json\<close> of it (\<open>json_parse_print\<close>).

  \<open>json_parse\<close> runs on fuel, twice the length of the text plus two; the round-trip theorem
  \<open>json_parse_print\<close> shows that this is enough for every printed document, and \<open>JsonFuel\<close> that it is for
  every text.
\<close>

datatype json =
    JNull
  | JBool bool
  | JNum string
  | JStr string
  | JArr "json list"
  | JObj "(string \<times> json) list"

section \<open>Printing\<close>

text \<open>The escapes of Go's encoder, with its HTML-safe treatment of \<open><\<close>, \<open>>\<close> and \<open>&\<close>.\<close>

definition backslash :: char where
  "backslash = CHR 0x5C"

definition quote :: char where
  "quote = CHR 0x22"

definition escape_char :: "char \<Rightarrow> string" where
  "escape_char c =
     (if c = quote \<or> c = backslash then [backslash, c]
      else if c = CHR 0x0A then [backslash, CHR ''n'']
      else if c = CHR 0x0D then [backslash, CHR ''r'']
      else if c = CHR 0x09 then [backslash, CHR ''t'']
      else if ord c < 32 \<or> c = CHR ''<'' \<or> c = CHR ''>'' \<or> c = CHR ''&''
        then [backslash, CHR ''u'', CHR ''0'', CHR ''0'', hex_lower (ord c div 16), hex_lower (ord c mod 16)]
      else [c])"

text \<open>An invalid byte is printed as the escape of U+FFFD, the line separators U+2028 and U+2029 as their escapes, and
  the other runes beyond ASCII as they are.\<close>

definition escape_rune :: "string option \<Rightarrow> string" where
  "escape_rune r =
     (case r of
        None \<Rightarrow> [backslash] @ ''ufffd''
      | Some b \<Rightarrow>
          if length b = 1 then escape_char (hd b)
          else if b = utf8 0x2028 \<or> b = utf8 0x2029 then [backslash] @ ''u202'' @ [hex_lower (ord (last b) mod 16)]
          else b)"

definition json_string :: "string \<Rightarrow> string" where
  "json_string s = [quote] @ concat (map escape_rune (runes s)) @ [quote]"

fun json_print :: "json \<Rightarrow> string"
  and json_print_list :: "json list \<Rightarrow> string"
  and json_print_fields :: "(string \<times> json) list \<Rightarrow> string" where
  "json_print JNull = ''null''"
| "json_print (JBool b) = (if b then ''true'' else ''false'')"
| "json_print (JNum s) = s"
| "json_print (JStr s) = json_string s"
| "json_print (JArr js) = CHR ''['' # json_print_list js @ '']''"
| "json_print (JObj kvs) = CHR ''{'' # json_print_fields kvs @ ''}''"
| "json_print_list [] = []"
| "json_print_list [j] = json_print j"
| "json_print_list (j # js) = json_print j @ CHR '','' # json_print_list js"
| "json_print_fields [] = []"
| "json_print_fields [(k, j)] = json_string k @ CHR '':'' # json_print j"
| "json_print_fields ((k, j) # kvs) =
     json_string k @ CHR '':'' # json_print j @ CHR '','' # json_print_fields kvs"

section \<open>Parsing\<close>

definition is_space :: "char \<Rightarrow> bool" where
  "is_space c \<longleftrightarrow> ord c \<in> {32, 9, 10, 13}"

definition skip_ws :: "string \<Rightarrow> string" where
  "skip_ws s = dropWhile is_space s"

definition hex4 :: "char \<Rightarrow> char \<Rightarrow> char \<Rightarrow> char \<Rightarrow> nat option" where
  "hex4 a b c d =
     (case (unhex a, unhex b, unhex c, unhex d) of
        (Some w, Some x, Some y, Some z) \<Rightarrow> Some (4096 * w + 256 * x + 16 * y + z)
      | _ \<Rightarrow> None)"

text \<open>\<open>getu4\<close> of the decoder: the value of a complete \<open>\uXXXX\<close> escape at the front.\<close>

fun getu4 :: "string \<Rightarrow> nat option" where
  "getu4 (x # y # a # b # c # d # r) = (if x = backslash \<and> y = CHR ''u'' then hex4 a b c d else None)"
| "getu4 _ = None"

definition is_surrogate :: "nat \<Rightarrow> bool" where
  "is_surrogate n \<longleftrightarrow> 0xD800 \<le> n \<and> n < 0xE000"

definition surrogate_pair :: "nat \<Rightarrow> nat \<Rightarrow> nat option" where
  "surrogate_pair h l =
     (if 0xD800 \<le> h \<and> h < 0xDC00 \<and> 0xDC00 \<le> l \<and> l < 0xE000
      then Some ((h - 0xD800) * 1024 + (l - 0xDC00) + 0x10000) else None)"

definition simple_escape :: "char \<Rightarrow> char option" where
  "simple_escape c =
     (if c = quote \<or> c = backslash \<or> c = CHR ''/'' then Some c
      else if c = CHR ''b'' then Some (CHR 0x08)
      else if c = CHR ''f'' then Some (CHR 0x0C)
      else if c = CHR ''n'' then Some (CHR 0x0A)
      else if c = CHR ''r'' then Some (CHR 0x0D)
      else if c = CHR ''t'' then Some (CHR 0x09)
      else None)"

text \<open>The contents of a string literal after its opening quote, and the text behind it. The list
  argument gets shorter in every call; \<open>drop 10\<close> skips both halves of a surrogate pair.\<close>

function parse_str :: "string \<Rightarrow> (string \<times> string) option" where
  "parse_str [] = None"
| "parse_str (c # s) =
     (if c = quote then Some ([], s)
      else if c \<noteq> backslash
        then (if ord c < 32 then None
              else if ord c < 128 then map_option (apfst (Cons c)) (parse_str s)
              else if rune_size (c # s) = 0 then map_option (apfst (append (utf8 0xFFFD))) (parse_str s)
              else map_option (apfst (append (take (rune_size (c # s)) (c # s)))) (parse_str (drop (rune_size (c # s) - 1) s)))
      else (case s of
          [] \<Rightarrow> None
        | e # s' \<Rightarrow>
            if e \<noteq> CHR ''u''
            then (case simple_escape e of
                    None \<Rightarrow> None
                  | Some x \<Rightarrow> map_option (apfst (Cons x)) (parse_str s'))
            else (case getu4 (c # s) of
                    None \<Rightarrow> None
                  | Some n \<Rightarrow>
                      if is_surrogate n
                      then (case Option.bind (getu4 (drop 4 s')) (surrogate_pair n) of
                              None \<Rightarrow> map_option (apfst (append (utf8 0xFFFD))) (parse_str (drop 4 s'))
                            | Some m \<Rightarrow> map_option (apfst (append (utf8 m))) (parse_str (drop 10 s')))
                      else map_option (apfst (append (utf8 n))) (parse_str (drop 4 s')))))"
  by pat_completeness auto
termination
  by (relation "measure length") auto

declare parse_str.simps [simp del]

text \<open>Number literals by Go's grammar: an optional minus, an integer part with no leading zero, an
  optional fraction, an optional exponent.\<close>

definition number_char :: "char \<Rightarrow> bool" where
  "number_char c \<longleftrightarrow> is_digit c \<or> c \<in> {CHR ''-'', CHR ''+'', CHR ''.'', CHR ''e'', CHR ''E''}"

definition number_chars :: "string \<Rightarrow> string \<times> string" where
  "number_chars s = (takeWhile number_char s, dropWhile number_char s)"

definition valid_exponent :: "string \<Rightarrow> bool" where
  "valid_exponent s =
     (case s of
        [] \<Rightarrow> True
      | c # t \<Rightarrow> c \<in> {CHR ''e'', CHR ''E''} \<and> parse_int t \<noteq> None)"

definition valid_fraction :: "string \<Rightarrow> bool" where
  "valid_fraction s =
     (case s of
        [] \<Rightarrow> True
      | c # t \<Rightarrow>
          if c = CHR ''.''
          then takeWhile is_digit t \<noteq> [] \<and> valid_exponent (dropWhile is_digit t)
          else valid_exponent s)"

definition valid_number :: "string \<Rightarrow> bool" where
  "valid_number s =
     (let u = (case s of c # t \<Rightarrow> if c = CHR ''-'' then t else s | [] \<Rightarrow> s);
          ip = takeWhile is_digit u
      in ip \<noteq> [] \<and> (hd ip = CHR ''0'' \<longrightarrow> length ip = 1) \<and> valid_fraction (dropWhile is_digit u))"

text \<open>Values, array elements after the opening bracket or a comma, and object fields.\<close>

fun parse_value :: "nat \<Rightarrow> string \<Rightarrow> (json \<times> string) option"
  and parse_elems :: "nat \<Rightarrow> string \<Rightarrow> (json list \<times> string) option"
  and parse_fields :: "nat \<Rightarrow> string \<Rightarrow> ((string \<times> json) list \<times> string) option" where
  "parse_value 0 s = None"
| "parse_value (Suc n) s =
     (case skip_ws s of
        [] \<Rightarrow> None
      | c # r \<Rightarrow>
          if c = quote then map_option (apfst JStr) (parse_str r)
          else if c = CHR ''['' then
            (case skip_ws r of
               [] \<Rightarrow> None
             | d # r' \<Rightarrow>
                 if d = CHR '']'' then Some (JArr [], r')
                 else map_option (apfst JArr) (parse_elems n r))
          else if c = CHR ''{'' then
            (case skip_ws r of
               [] \<Rightarrow> None
             | d # r' \<Rightarrow>
                 if d = CHR ''}'' then Some (JObj [], r')
                 else map_option (apfst JObj) (parse_fields n r))
          else if take 4 (c # r) = ''null'' then Some (JNull, drop 3 r)
          else if take 4 (c # r) = ''true'' then Some (JBool True, drop 3 r)
          else if take 5 (c # r) = ''false'' then Some (JBool False, drop 4 r)
          else (case number_chars (c # r) of
                  (num, rest) \<Rightarrow> if valid_number num then Some (JNum num, rest) else None))"
| "parse_elems 0 s = None"
| "parse_elems (Suc n) s =
     (case parse_value n s of
        None \<Rightarrow> None
      | Some (j, r) \<Rightarrow>
          (case skip_ws r of
             [] \<Rightarrow> None
           | d # r' \<Rightarrow>
               if d = CHR '']'' then Some ([j], r')
               else if d = CHR '','' then map_option (apfst (Cons j)) (parse_elems n r')
               else None))"
| "parse_fields 0 s = None"
| "parse_fields (Suc n) s =
     (case skip_ws s of
        [] \<Rightarrow> None
      | q # r \<Rightarrow>
          if q \<noteq> quote then None
          else (case parse_str r of
             None \<Rightarrow> None
           | Some (k, r1) \<Rightarrow>
               (case skip_ws r1 of
                  [] \<Rightarrow> None
                | d # r2 \<Rightarrow>
                    if d \<noteq> CHR '':'' then None
                    else (case parse_value n r2 of
                       None \<Rightarrow> None
                     | Some (j, r3) \<Rightarrow>
                         (case skip_ws r3 of
                            [] \<Rightarrow> None
                          | e # r4 \<Rightarrow>
                              if e = CHR ''}'' then Some ([(k, j)], r4)
                              else if e = CHR '','' then map_option (apfst (Cons (k, j))) (parse_fields n r4)
                              else None)))))"

definition json_parse :: "string \<Rightarrow> json option" where
  "json_parse s =
     (case parse_value (2 * length s + 2) s of
        None \<Rightarrow> None
      | Some (j, r) \<Rightarrow> if skip_ws r = [] then Some j else None)"

declare parse_value.simps [simp del] parse_elems.simps [simp del] parse_fields.simps [simp del]

section \<open>Round trip\<close>

text \<open>A value whose numbers are literals; for it parsing inverts printing, up to invalid bytes.\<close>

fun plain :: "json \<Rightarrow> bool" where
  "plain (JNum s) = (list_all number_char s \<and> valid_number s)"
| "plain (JArr js) = list_all plain js"
| "plain (JObj kvs) = list_all (\<lambda>kv. plain (snd kv)) kvs"
| "plain _ = True"

fun clean_json :: "json \<Rightarrow> json" where
  "clean_json (JStr s) = JStr (to_valid s)"
| "clean_json (JArr js) = JArr (map clean_json js)"
| "clean_json (JObj kvs) = JObj (map (\<lambda>kv. (to_valid (fst kv), clean_json (snd kv))) kvs)"
| "clean_json j = j"

definition clean_member :: "string \<times> json \<Rightarrow> string \<times> json" where
  "clean_member kv = (to_valid (fst kv), clean_json (snd kv))"

lemma clean_members: "clean_json (JObj kvs) = JObj (map clean_member kvs)"
  by (simp add: clean_member_def [abs_def])

lemma ord_quote [simp]: "ord quote = 34"
  by (simp add: quote_def ord_def)

lemma ord_backslash [simp]: "ord backslash = 92"
  by (simp add: backslash_def ord_def)

lemma quote_not_backslash [simp]: "quote \<noteq> backslash" "backslash \<noteq> quote"
  by (simp_all add: quote_def backslash_def)

lemma parse_str_quote [simp]: "parse_str (quote # r) = Some ([], r)"
  by (simp add: parse_str.simps)

lemma parse_str_unicode:
  assumes "hex4 a b c d = Some n" and "n < 128"
  shows "parse_str (backslash # CHR ''u'' # a # b # c # d # t) =
    map_option (apfst (Cons (chr n))) (parse_str t)"
  using assms by (simp add: parse_str.simps is_surrogate_def utf8_def append_def)

lemma parse_str_simple:
  assumes "simple_escape e = Some x"
  shows "parse_str (backslash # e # t) = map_option (apfst (Cons x)) (parse_str t)"
proof -
  have "e \<noteq> CHR ''u''"
    using assms by (auto simp: simple_escape_def quote_def backslash_def)
  then show ?thesis
    using assms by (simp add: parse_str.simps)
qed

lemma hex4_low: "ord c < 128 \<Longrightarrow>
  hex4 (CHR ''0'') (CHR ''0'') (hex_lower (ord c div 16)) (hex_lower (ord c mod 16)) = Some (ord c)"
proof -
  have zero: "unhex (CHR ''0'') = Some 0"
    by (simp add: unhex_def ord_def)
  assume "ord c < 128"
  then have "ord c div 16 < 16"
    by (simp add: less_mult_imp_div_less)
  then show ?thesis
    by (simp add: hex4_def zero)
qed

lemma parse_str_escape:
  assumes "ord c < 128"
  shows "parse_str (escape_char c @ t) = map_option (apfst (Cons c)) (parse_str t)"
proof -
  consider (esc) "c = quote \<or> c = backslash" | (lf) "c = CHR 0x0A" | (cr) "c = CHR 0x0D"
    | (tab) "c = CHR 0x09"
    | (u) "ord c < 32 \<or> c = CHR ''<'' \<or> c = CHR ''>'' \<or> c = CHR ''&''"
          "c \<noteq> quote" "c \<noteq> backslash" "c \<noteq> CHR 0x0A" "c \<noteq> CHR 0x0D" "c \<noteq> CHR 0x09"
    | (raw) "\<not> (ord c < 32 \<or> c = CHR ''<'' \<or> c = CHR ''>'' \<or> c = CHR ''&'')"
          "c \<noteq> quote" "c \<noteq> backslash" "c \<noteq> CHR 0x0A" "c \<noteq> CHR 0x0D" "c \<noteq> CHR 0x09"
    by blast
  then show ?thesis
  proof cases
    case u
    then have "ord c < 128" by (auto simp: ord_def)
    with u show ?thesis
      using parse_str_unicode [OF hex4_low, of c t] by (simp add: escape_char_def)
  next
    case raw
    with assms show ?thesis by (simp add: escape_char_def parse_str.simps)
  qed (auto simp: escape_char_def simple_escape_def quote_def backslash_def
        intro!: parse_str_simple [unfolded backslash_def])
qed

lemma parse_str_code:
  assumes "hex4 a b c d = Some n" and "\<not> is_surrogate n"
  shows "parse_str (backslash # CHR ''u'' # a # b # c # d # t) = map_option (apfst (append (utf8 n))) (parse_str t)"
  using assms by (simp add: parse_str.simps)

lemma parse_str_raw:
  assumes "rune_ok b" and "1 < length b"
  shows "parse_str (b @ t) = map_option (apfst (append b)) (parse_str t)"
proof -
  obtain c u where b: "b = c # u" "u \<noteq> []"
    using assms(2) by (cases b) auto
  then have "128 \<le> ord c"
    using assms(1) by (auto simp: rune_ok_def rune_size_def rune_tail_def split: if_splits)
  then have "c \<noteq> quote" "c \<noteq> backslash" "\<not> ord c < 128"
    by auto
  moreover have "rune_size (c # u @ t) = Suc (length u)"
    using rune_ok_append [OF assms(1), of t] b by simp
  ultimately show ?thesis
    using b by (simp add: parse_str.simps)
qed

lemma codes: "hex4 (CHR ''f'') (CHR ''f'') (CHR ''f'') (CHR ''d'') = Some 0xFFFD"
  "hex4 (CHR ''2'') (CHR ''0'') (CHR ''2'') (hex_lower (ord (last (utf8 0x2028)) mod 16)) = Some 0x2028"
  "hex4 (CHR ''2'') (CHR ''0'') (CHR ''2'') (hex_lower (ord (last (utf8 0x2029)) mod 16)) = Some 0x2029"
  by (simp_all add: hex4_def utf8_def) (simp_all add: unhex_def ord_def)

lemma parse_str_rune:
  assumes "r = None \<or> (\<exists>b. r = Some b \<and> rune_ok b)"
  shows "parse_str (escape_rune r @ t) = map_option (apfst (append (rune_bytes r))) (parse_str t)"
proof (cases r)
  case None
  then show ?thesis
    using parse_str_code [OF codes(1)] by (simp add: escape_rune_def rune_bytes_def is_surrogate_def)
next
  case (Some b)
  with assms have b: "rune_ok b"
    by simp
  consider c where "b = [c]" | "length b \<noteq> 1" "b = utf8 0x2028 \<or> b = utf8 0x2029"
    | "1 < length b" "b \<noteq> utf8 0x2028" "b \<noteq> utf8 0x2029"
    using b by (cases b; cases "tl b") (auto simp: rune_ok_def)
  then show ?thesis
  proof cases
    case 1
    then have "ord c < 128"
      using b by (auto simp: rune_ok_def rune_size_def rune_tail_def split: if_splits)
    moreover have "append [c] = Cons c"
      by (rule ext) simp
    ultimately show ?thesis
      using Some 1 by (simp add: escape_rune_def rune_bytes_def parse_str_escape)
  next
    case 2
    with Some show ?thesis
      using parse_str_code [OF codes(2)] parse_str_code [OF codes(3)]
      by (auto simp: escape_rune_def rune_bytes_def is_surrogate_def)
  next
    case 3
    with Some b show ?thesis
      by (simp add: escape_rune_def rune_bytes_def parse_str_raw)
  qed
qed

lemma parse_str_string: "parse_str (concat (map escape_rune (runes s)) @ quote # r) = Some (to_valid s, r)"
proof -
  have "parse_str (concat (map escape_rune rs) @ quote # r) = Some (concat (map rune_bytes rs), r)"
    if "\<forall>b. Some b \<in> set rs \<longrightarrow> rune_ok b" for rs
    using that
  proof (induction rs)
    case (Cons x rs)
    have "x = None \<or> (\<exists>b. x = Some b \<and> rune_ok b)"
      using Cons.prems by (cases x) auto
    with Cons show ?case
      by (simp add: parse_str_rune)
  qed simp
  then show ?thesis
    using runes_ok by (auto simp: to_valid_def)
qed

lemma skip_ws_id: "\<not> is_space c \<Longrightarrow> skip_ws (c # s) = c # s"
  by (simp add: skip_ws_def)

lemma not_space [simp]:
  "\<not> is_space quote" "\<not> is_space (CHR '']'')" "\<not> is_space (CHR ''['')" "\<not> is_space (CHR ''}'')"
  "\<not> is_space (CHR ''{'')" "\<not> is_space (CHR '','')" "\<not> is_space (CHR '':'')"
  "\<not> is_space (CHR ''n'')" "\<not> is_space (CHR ''t'')" "\<not> is_space (CHR ''f'')"
  by (simp_all add: is_space_def) (simp_all add: ord_def)

lemma skip_ws_punct [simp]:
  "skip_ws (quote # s) = quote # s" "skip_ws (CHR '']'' # s) = CHR '']'' # s"
  "skip_ws (CHR ''['' # s) = CHR ''['' # s" "skip_ws (CHR ''}'' # s) = CHR ''}'' # s"
  "skip_ws (CHR ''{'' # s) = CHR ''{'' # s" "skip_ws (CHR '','' # s) = CHR '','' # s"
  "skip_ws (CHR '':'' # s) = CHR '':'' # s" "skip_ws (CHR ''n'' # s) = CHR ''n'' # s"
  "skip_ws (CHR ''t'' # s) = CHR ''t'' # s" "skip_ws (CHR ''f'' # s) = CHR ''f'' # s"
  "skip_ws [] = []"
  by (simp_all add: skip_ws_id) (simp add: skip_ws_def)

lemma quote_neq [simp]:
  "quote \<noteq> CHR ''[''" "CHR ''['' \<noteq> quote" "quote \<noteq> CHR '']''" "quote \<noteq> CHR ''}''"
  "CHR ''{'' \<noteq> quote" "CHR ''n'' \<noteq> quote" "CHR ''t'' \<noteq> quote" "CHR ''f'' \<noteq> quote"
  by (simp_all add: quote_def)

lemma valid_number_nonempty: "valid_number s \<Longrightarrow> s \<noteq> []"
  by (auto simp: valid_number_def)

lemma number_char_neq:
  assumes "number_char c"
  shows "\<not> is_space c" "c \<noteq> quote" "c \<noteq> CHR ''[''" "c \<noteq> CHR '']''" "c \<noteq> CHR ''{''" "c \<noteq> CHR ''}''" "c \<noteq> CHR ''n''"
    "c \<noteq> CHR ''t''" "c \<noteq> CHR ''f''"
  using assms by (auto simp: number_char_def is_space_def is_digit_def quote_def ord_def)

lemma json_print_head:
  "plain j \<Longrightarrow> \<exists>c t. json_print j = c # t \<and> \<not> is_space c \<and> c \<noteq> CHR '']'' \<and> c \<noteq> CHR ''}''"
proof (cases j)
  case (JNum s)
  assume "plain j"
  then show ?thesis
    using JNum valid_number_nonempty [of s] by (cases s) (auto dest: number_char_neq)
qed (auto simp: json_string_def)

lemma json_print_list_head:
  assumes "js \<noteq> []" and "list_all plain js"
  shows "\<exists>c t. json_print_list js = c # t \<and> \<not> is_space c \<and> c \<noteq> CHR '']''"
proof -
  obtain j js' where js: "js = j # js'"
    using assms(1) by (cases js) auto
  with assms(2) json_print_head [of j] show ?thesis
    by (cases js') auto
qed

lemma json_print_fields_head:
  assumes "kvs \<noteq> []"
  shows "\<exists>t. json_print_fields kvs = quote # t"
proof -
  obtain k j kvs' where "kvs = (k, j) # kvs'"
    using assms by (cases kvs) auto
  then show ?thesis
    by (cases kvs') (auto simp: json_string_def)
qed

text \<open>Fuel equal to the length of the printed text is enough, whatever follows it; a number must not go on.\<close>

definition stops :: "string \<Rightarrow> bool" where
  "stops r \<longleftrightarrow> (case r of [] \<Rightarrow> True | c # _ \<Rightarrow> \<not> number_char c)"

lemma stops_simps [simp]: "stops []" "stops (CHR '','' # r)" "stops (CHR '']'' # r)" "stops (CHR ''}'' # r)"
  by (simp_all add: stops_def number_char_def is_digit_def) (simp_all add: ord_def)

lemma parse_number:
  assumes "list_all number_char s" "valid_number s" "stops r"
  shows "parse_value (Suc n) (s @ r) = Some (JNum s, r)"
proof -
  obtain c t where s: "s = c # t"
    using valid_number_nonempty [OF assms(2)] by (cases s) auto
  then have c: "number_char c"
    using assms(1) by simp
  have "takeWhile number_char r = []" "dropWhile number_char r = r"
    using assms(3) by (simp_all add: stops_def split: list.splits)
  then have "number_chars (s @ r) = (s, r)"
    using assms(1) by (simp add: number_chars_def list_all_iff takeWhile_append2 dropWhile_append2)
  then show ?thesis
    using s number_char_neq [OF c] assms(2) by (simp add: parse_value.simps skip_ws_id)
qed

lemma parse_print:
  "plain j \<Longrightarrow> length (json_print j) \<le> n \<Longrightarrow> stops r \<Longrightarrow> parse_value n (json_print j @ r) = Some (clean_json j, r)"
  "js \<noteq> [] \<Longrightarrow> list_all plain js \<Longrightarrow> length (json_print_list js) < n \<Longrightarrow>
     parse_elems n (json_print_list js @ CHR '']'' # r) = Some (map clean_json js, r)"
  "kvs \<noteq> [] \<Longrightarrow> list_all (\<lambda>kv. plain (snd kv)) kvs \<Longrightarrow> length (json_print_fields kvs) < n \<Longrightarrow>
     parse_fields n (json_print_fields kvs @ CHR ''}'' # r) = Some (map clean_member kvs, r)"
proof (induction j and js and kvs arbitrary: n r and n r and n r
    rule: json_print_json_print_list_json_print_fields.induct)
  case 1
  then obtain m where "n = Suc m" by (cases n) auto
  then show ?case by (simp add: parse_value.simps)
next
  case (2 b)
  then obtain m where "n = Suc m" by (cases n) (auto split: if_splits)
  then show ?case by (simp add: parse_value.simps)
next
  case (3 s)
  then obtain m where "n = Suc m"
    using valid_number_nonempty [of s] by (cases n) auto
  then show ?case
    using 3 parse_number by simp
next
  case (4 s)
  then obtain m where "n = Suc m" by (cases n) (auto simp: json_string_def)
  then show ?case
    by (simp add: json_string_def parse_value.simps parse_str_string)
next
  case (5 js)
  then obtain m where n: "n = Suc m" by (cases n) auto
  show ?case
  proof (cases "js = []")
    case True
    then show ?thesis by (simp add: n parse_value.simps)
  next
    case False
    then have "parse_elems m (json_print_list js @ CHR '']'' # r) = Some (map clean_json js, r)"
      using 5 n by simp
    moreover obtain c t where "json_print_list js = c # t" "\<not> is_space c" "c \<noteq> CHR '']''"
      using json_print_list_head [OF False] 5 by auto
    ultimately show ?thesis
      by (simp add: n parse_value.simps skip_ws_id)
  qed
next
  case (6 kvs)
  then obtain m where n: "n = Suc m" by (cases n) auto
  show ?case
  proof (cases "kvs = []")
    case True
    then show ?thesis by (simp add: n parse_value.simps)
  next
    case False
    then have "parse_fields m (json_print_fields kvs @ CHR ''}'' # r) = Some (map clean_member kvs, r)"
      using 6 n by simp
    moreover obtain t where "json_print_fields kvs = quote # t"
      using json_print_fields_head [OF False] by auto
    ultimately show ?thesis
      by (simp add: n parse_value.simps clean_member_def [abs_def])
  qed
next
  case (8 j)
  then obtain m where "n = Suc m" by (cases n) auto
  with 8 show ?case by (simp add: parse_elems.simps)
next
  case (9 j k js)
  then obtain m where "n = Suc m" by (cases n) auto
  with 9 show ?case by (simp add: parse_elems.simps)
next
  case (11 k j)
  then obtain m where "n = Suc m" by (cases n) auto
  with 11 show ?case by (simp add: parse_fields.simps json_string_def parse_str_string clean_member_def)
next
  case (12 k j kv kvs)
  then obtain m where "n = Suc m" by (cases n) auto
  with 12 show ?case by (simp add: parse_fields.simps json_string_def parse_str_string clean_member_def)
qed simp_all

theorem json_parse_print: "plain j \<Longrightarrow> json_parse (json_print j) = Some (clean_json j)"
  using parse_print(1) [of j "2 * length (json_print j) + 2" "[]"]
  by (simp add: json_parse_def)

text \<open>The documents of contracts: a list of strings, possibly with nested lists of strings.\<close>

lemma json_parse_strings:
  "json_parse (json_print (JArr (map JStr ss))) = Some (JArr (map (\<lambda>s. JStr (to_valid s)) ss))"
  using json_parse_print [of "JArr (map JStr ss)"] by (simp add: list_all_iff comp_def)

end
