(* ===== verification/Shim.thy ===== *)
theory Shim
  imports Docs Json
begin

text \<open>
  What a transaction sees of the platform, and the small packages \<open>kid\<close>, \<open>contract\<close>, \<open>ccid\<close> and
  \<open>txtime.GetTime\<close> that wrap it.

  The stub of Hyperledger Fabric is not part of the repository: it is the record \<open>stub\<close>, a parameter
  of every operation. \<open>world\<close> is the committed state that \<open>GetState\<close> reads, which by the documented
  contract of the shim does not show the writes of the running transaction; \<open>get_fault\<close> and
  \<open>put_fault\<close> are the errors \<open>GetState\<close> and \<open>PutState\<close>/\<open>DelState\<close> may return; \<open>invoke\<close> is
  \<open>InvokeChaincode\<close>; \<open>query\<close> and \<open>query_page\<close> are the rich queries of the state database, by query
  text; \<open>clock\<close> is \<open>time.Now()\<close> of the peer; \<open>caller_cc\<close> is the chaincode name read from the signed
  proposal; \<open>dev\<close> tells whether \<open>DEV_CHANNEL_NAME\<close> is set.

  A writing operation returns the list of its \<open>PutState\<close> and \<open>DelState\<close> calls in order. \<open>commit\<close>
  applies such a list to a ledger; the platform does so when the transaction answered with success.
  The locale \<open>doc_store\<close> is the contract of a getter and a putter of one kind of document.
\<close>

section \<open>Texts in ASCII\<close>

text \<open>Numbers, times and addresses are ASCII, which JSON does not change.\<close>

lemma ascii_digits: "list_all is_digit s \<Longrightarrow> ascii s"
  by (auto simp: ascii_def list_all_iff is_digit_def)

lemma ascii_numbers [simp]: "ascii (dec_nat n)" "ascii (dec_int i)" "ascii (pad w n)"
  by (simp_all add: ascii_digits dec_int_def pad_def) (simp add: ascii_def list_all_iff)

lemma ascii_time [simp]: "ascii (time_String t)"
  by (simp add: time_String_def split: prod.splits)

lemma ascii_hex: "ascii (hex_encode hex_upper bs)" "ascii (hex_byte hex_upper b)"
proof -
  have digit: "ord (hex_upper d) < 128" if "d < 16" for d
    using that by (simp add: hex_upper_def)
  then show byte: "ascii (hex_byte hex_upper b)" for b
    using byte_nibbles [of b] by (simp add: hex_byte_def digit)
  show "ascii (hex_encode hex_upper bs)"
    by (induction bs) (simp_all add: byte hex_encode_Cons)
qed

lemma ascii_address: "matches_code (adr_code a) \<Longrightarrow> ascii (Address_String a)"
  by (auto simp: Address_String_def ascii_hex ascii_def [of "adr_code a"] matches_code_def list_all_iff code_char_def
      is_upper_def is_digit_def)

section \<open>The stub\<close>

type_synonym ledger = "string \<rightharpoonup> doc"

datatype state_op = Put string doc | Del string

record cc_response =
  cc_status :: int
  cc_message :: string
  cc_payload :: string

record stub =
  world :: ledger
  get_fault :: "string \<Rightarrow> string option"
  put_fault :: "string \<Rightarrow> string option"
  txid :: string
  timestamp :: "string + int \<times> int"
  clock :: time
  invoke :: "string \<Rightarrow> string list \<Rightarrow> cc_response"
  query :: "string \<Rightarrow> string + (string + doc) list"
  query_page :: "string \<Rightarrow> int \<Rightarrow> string \<Rightarrow> string + string \<times> (string + string) list"
  caller_cc :: "string + string"
  shake_of :: shake
  dev :: bool

definition GetState :: "stub \<Rightarrow> string \<Rightarrow> err + doc option" where
  "GetState st k = (case get_fault st k of None \<Rightarrow> Inr (world st k) | Some m \<Rightarrow> Inl (Plain m))"

definition PutState :: "stub \<Rightarrow> string \<Rightarrow> doc \<Rightarrow> err + state_op list" where
  "PutState st k d = (case put_fault st k of None \<Rightarrow> Inr [Put k d] | Some m \<Rightarrow> Inl (Plain m))"

definition DelState :: "stub \<Rightarrow> string \<Rightarrow> err + state_op list" where
  "DelState st k = (case put_fault st k of None \<Rightarrow> Inr [Del k] | Some m \<Rightarrow> Inl (Plain m))"

lemma GetState_run [run]: "GetState st k = Inr d \<longleftrightarrow> get_fault st k = None \<and> d = world st k"
  by (auto simp: GetState_def split: option.splits)

lemma PutState_run [run]: "PutState st k d = Inr ws \<longleftrightarrow> put_fault st k = None \<and> ws = [Put k d]"
  by (auto simp: PutState_def split: option.splits)

lemma DelState_run [run]: "DelState st k = Inr ws \<longleftrightarrow> put_fault st k = None \<and> ws = [Del k]"
  by (auto simp: DelState_def split: option.splits)

lemma State_no_panic:
  "GetState st k \<noteq> Inl GoPanic" "PutState st k d \<noteq> Inl GoPanic" "DelState st k \<noteq> Inl GoPanic"
  by (auto simp: GetState_def PutState_def DelState_def split: option.splits)

section \<open>Committing\<close>

fun write_key :: "state_op \<Rightarrow> string" where
  "write_key (Put k d) = k"
| "write_key (Del k) = k"

fun apply_write :: "state_op \<Rightarrow> ledger \<Rightarrow> ledger" where
  "apply_write (Put k d) L = L(k \<mapsto> d)"
| "apply_write (Del k) L = L(k := None)"

definition commit :: "state_op list \<Rightarrow> ledger \<Rightarrow> ledger" where
  "commit ws L = fold apply_write ws L"

lemma commit_simps [simp]:
  "commit [] L = L" "commit (w # ws) L = commit ws (apply_write w L)"
  "commit (vs @ ws) L = commit ws (commit vs L)"
  by (simp_all add: commit_def)

lemma commit_other: "k \<notin> write_key ` set ws \<Longrightarrow> commit ws L k = L k"
proof (induction ws arbitrary: L)
  case (Cons w ws)
  then show ?case by (cases w) auto
qed simp

lemma finite_apply_write: "finite (dom L) \<Longrightarrow> finite (dom (apply_write w L))"
  by (cases w) simp_all

lemma finite_commit: "finite (dom L) \<Longrightarrow> finite (dom (commit ws L))"
  by (induction ws arbitrary: L) (simp_all add: finite_apply_write)

text \<open>How a write changes the sum of a measure over the ledger.\<close>

fun effect :: "(doc \<Rightarrow> int) \<Rightarrow> ledger \<Rightarrow> state_op \<Rightarrow> int" where
  "effect f L (Put k d) = f d - entry f L k"
| "effect f L (Del k) = - entry f L k"

text \<open>The change a list of writes makes to the sum, each write measured on the ledger it meets.\<close>

fun gain :: "(doc \<Rightarrow> int) \<Rightarrow> state_op list \<Rightarrow> ledger \<Rightarrow> int" where
  "gain f [] L = 0"
| "gain f (w # ws) L = effect f L w + gain f ws (apply_write w L)"

lemma gain_append [simp]: "gain f (vs @ ws) L = gain f vs L + gain f ws (commit vs L)"
  by (induction vs arbitrary: L) simp_all

lemma total_commit: "finite (dom L) \<Longrightarrow> total_of f (commit ws L) = total_of f L + gain f ws L"
proof (induction ws arbitrary: L)
  case (Cons w ws)
  have "total_of f (apply_write w L) = total_of f L + effect f L w"
    using Cons.prems by (cases w) (simp_all add: total_update total_remove)
  then show ?case
    using Cons.IH [OF finite_apply_write [OF Cons.prems]] by simp
qed simp

section \<open>Well-keyed ledgers\<close>

definition keyed :: "ledger \<Rightarrow> bool" where
  "keyed L \<longleftrightarrow> (\<forall>k d. L k = Some d \<longrightarrow> key_of d = k)"

fun keyed_write :: "state_op \<Rightarrow> bool" where
  "keyed_write (Put k d) \<longleftrightarrow> key_of d = k"
| "keyed_write (Del k) \<longleftrightarrow> True"

lemma keyed_empty [simp]: "keyed Map.empty"
  by (simp add: keyed_def)

lemma keyedD: "keyed L \<Longrightarrow> L k = Some d \<Longrightarrow> key_of d = k"
  by (simp add: keyed_def)

lemma keyed_commit: "list_all keyed_write ws \<Longrightarrow> keyed L \<Longrightarrow> keyed (commit ws L)"
proof (induction ws arbitrary: L)
  case (Cons w ws)
  have "keyed (apply_write w L)"
    using Cons.prems by (cases w) (simp_all add: keyed_def)
  with Cons show ?case by simp
qed simp

section \<open>Getters and putters\<close>

text \<open>A putter of one kind of document: it writes the document under its own key.\<close>

locale doc_writer =
  fixes key :: "'v \<Rightarrow> string"
    and inj :: "'v \<Rightarrow> doc"
    and put :: "stub \<Rightarrow> 'v \<Rightarrow> err + state_op list"
  assumes put_run: "put st v = Inr ws \<Longrightarrow> ws = [Put (key v) (inj v)]"
    and key_doc: "key_of (inj v) = key v"
begin

lemma put_keyed: "put st v = Inr ws \<Longrightarrow> list_all keyed_write ws"
  using put_run key_doc by fastforce

lemma put_gain: "put st v = Inr ws \<Longrightarrow> gain f ws L = f (inj v) - entry f L (key v)"
  using put_run by fastforce

lemma put_commit: "put st v = Inr ws \<Longrightarrow> commit ws L = L(key v \<mapsto> inj v)"
  using put_run by fastforce

lemma put_keys: "put st v = Inr ws \<Longrightarrow> map write_key ws = [key v]"
  using put_run by fastforce

end

text \<open>With a getter by identifier. \<open>readable\<close> says which documents survive marshalling.\<close>

locale doc_store = doc_writer key inj put
  for key :: "'v \<Rightarrow> string" and inj :: "'v \<Rightarrow> doc" and put :: "stub \<Rightarrow> 'v \<Rightarrow> err + state_op list" +
  fixes ident :: "'v \<Rightarrow> string"
    and key_at :: "string \<Rightarrow> string"
    and get :: "stub \<Rightarrow> string \<Rightarrow> err + 'v"
    and readable :: "'v \<Rightarrow> bool"
  assumes put_ok: "put_fault st (key v) = None \<Longrightarrow> put st v = Inr [Put (key v) (inj v)]"
    and put_no_panic: "put st v \<noteq> Inl GoPanic"
    and key_ident: "key v = key_at (ident v)"
    and key_at_inj: "key_at i = key_at j \<Longrightarrow> i = j"
    and get_run: "get st i = Inr v \<Longrightarrow> world st (key_at i) = Some (inj v) \<and> readable v"
    and get_ok: "get_fault st (key_at i) = None \<Longrightarrow> world st (key_at i) = Some (inj v) \<Longrightarrow>
      readable v \<Longrightarrow> get st i = Inr v"
    and get_no_panic: "get st i \<noteq> Inl GoPanic"
begin

text \<open>A document that was put and committed is what the next transaction gets, and no other
  identifier is touched.\<close>

lemma get_after_put:
  assumes "put st v = Inr ws" "world st' = commit ws L" "get_fault st' (key_at (ident v)) = None" "readable v"
  shows "get st' (ident v) = Inr v"
  using assms put_commit [OF assms(1), of L] by (intro get_ok) (simp_all add: key_ident)

lemma get_other_put:
  assumes "put st v = Inr ws" "world st' = commit ws (world st)" "get_fault st' = get_fault st"
    "i \<noteq> ident v" "get st i = Inr u"
  shows "get st' (i) = Inr u \<or> get_fault st (key_at i) \<noteq> None"
proof -
  have "key_at i \<noteq> key v"
    using assms(4) key_at_inj key_ident by metis
  then have "world st' (key_at i) = world st (key_at i)"
    using assms(2) put_commit [OF assms(1), of "world st"] by simp
  then show ?thesis
    using get_ok [of st' i u] get_run [OF assms(5)] assms(3) by auto
qed

lemma get_ident: "keyed (world st) \<Longrightarrow> get st i = Inr v \<Longrightarrow> ident v = i"
  using get_run key_doc key_ident key_at_inj by (metis keyedD)

lemma get_key: "keyed (world st) \<Longrightarrow> get st i = Inr v \<Longrightarrow> world st (key v) = Some (inj v)"
  using get_ident get_run key_ident by metis

lemma get_entry: "keyed (world st) \<Longrightarrow> get st i = Inr v \<Longrightarrow> entry f (world st) (key v) = f (inj v)"
  using get_key by (simp add: entry_def)

end

section \<open>Time of the transaction\<close>

text \<open>\<open>txtime.GetTime\<close>: the proposal's timestamp, refused when it is more than five minutes from
  the peer's clock.\<close>

definition GetTime :: "stub \<Rightarrow> err + time" where
  "GetTime st =
     (attempt (timestamp st) Plain (\<lambda>(secs, ns).
      let t = Unix secs ns; diff = clock st - t in
      if diff > 5 * 60 * nanos \<or> diff < - (5 * 60 * nanos)
      then Inl (Plain ''txtime is out of bound'')
      else Inr t))"

text \<open>The time of a transaction is its timestamp, within five minutes of the peer's clock on either side.\<close>

lemma GetTime_window:
  "timestamp st = Inr (s, n) \<Longrightarrow> GetTime st = (if \<bar>clock st - Unix s n\<bar> \<le> 5 * 60 * nanos then Inr (Unix s n)
     else Inl (Plain ''txtime is out of bound''))"
  by (auto simp: GetTime_def Let_def)

lemma GetTime_near: "GetTime st = Inr t \<Longrightarrow> \<bar>clock st - t\<bar> \<le> 5 * 60 * nanos"
  by (auto simp: GetTime_def run Let_def split: prod.splits)

lemma GetTime_no_panic: "GetTime st \<noteq> Inl GoPanic"
  by (cases "timestamp st") (auto simp: GetTime_def Let_def split: prod.splits)

section \<open>Other chaincodes\<close>

definition kid_GetID :: "stub \<Rightarrow> bool \<Rightarrow> err + string" where
  "kid_GetID st secure =
     (let cc = (if dev st then ''kiesnet-cc-id'' else ''kiesnet-id'');
          args = (if secure then [''kid'', ''1''] else [''kid'']);
          res = invoke st cc args
      in if cc_status res = 200 then Inr (cc_payload res) else Inl (Plain (cc_message res)))"

record contract =
  con_payload :: string
  con_map :: "(string \<times> json) list"

text \<open>\<open>m[k].(string)\<close>: the type assertion panics unless the field is a string; a repeated field
  keeps its last value.\<close>

definition string_field :: "(string \<times> json) list \<Rightarrow> string \<Rightarrow> err + string" where
  "string_field m k = (case map_of (rev m) k of Some (JStr s) \<Rightarrow> Inr s | _ \<Rightarrow> Inl GoPanic)"

definition Contract_GetID :: "contract \<Rightarrow> err + string" where
  "Contract_GetID c = string_field (con_map c) ''@contract''"

definition Contract_GetExpiryTime :: "contract \<Rightarrow> err + time" where
  "Contract_GetExpiryTime c =
     (attempt (string_field (con_map c) ''expiry_time'') (\<lambda>e. e) (\<lambda>s.
      require (time_Parse s) (Plain ''cannot parse the time'') Inr))"

definition CreateContract :: "stub \<Rightarrow> string \<Rightarrow> int \<Rightarrow> stringset \<Rightarrow> err + contract" where
  "CreateContract st doc expiry signers =
     (if Set_Size signers < 2 then Inl (Plain ''signers must be 2+'')
      else let cc = (if dev st then ''kiesnet-cc-contract'' else ''kiesnet-contract'');
               res = invoke st cc ([''create'', doc, dec_int expiry] @ Set_Strings signers)
        in if cc_status res = 200
           then (case json_parse (cc_payload res) of
                   Some (JObj m) \<Rightarrow> Inr \<lparr>con_payload = cc_payload res, con_map = m\<rparr>
                 | Some JNull \<Rightarrow> Inr \<lparr>con_payload = cc_payload res, con_map = []\<rparr>
                 | _ \<Rightarrow> Inl (Plain ''cannot decode the contract''))
           else Inl (Plain (cc_message res)))"

definition ccid_GetID :: "stub \<Rightarrow> err + string" where
  "ccid_GetID st = attempt (caller_cc st) Plain Inr"

lemma CreateContract_size: "CreateContract st doc ex signers = Inr con \<Longrightarrow> 2 \<le> Set_Size signers"
  by (auto simp: CreateContract_def run)

section \<open>Responses\<close>

record query_result =
  qr_meta :: "string option"
  qr_records :: string

text \<open>The payload of a successful response, by the value that is marshalled.\<close>

datatype payload =
    NoPayload
  | Text string
  | AccountAndBalance account_doc balance
  | AccountAndState account_doc doc
  | AccountOnly account_doc
  | Log balance_log
  | PayResult "pay option" "balance_log option"
  | PayOnly pay
  | PaySum pay_sum
  | FeeSum fee_sum
  | TokenOnly token
  | TokenState doc
  | TokenResult "token option" "balance_log option" "contract option"
  | Pending pending_balance
  | ContractText string
  | Query query_result

type_synonym response = "failure + payload \<times> state_op list"

definition Success :: "payload \<Rightarrow> state_op list \<Rightarrow> response" where
  "Success p ws = Inr (p, ws)"

lemma Success_run [run]: "Success p ws = Inr (q, vs) \<longleftrightarrow> p = q \<and> ws = vs"
  by (simp add: Success_def)

text \<open>What the platform does with an answer: only a successful transaction is committed.\<close>

definition settle :: "response \<Rightarrow> ledger \<Rightarrow> ledger" where
  "settle r L = (case r of Inl _ \<Rightarrow> L | Inr (p, ws) \<Rightarrow> commit ws L)"

end
