(* ===== verification/TokenStore.thy ===== *)
theory TokenStore
  imports Shim
begin

text \<open>
  The part of \<open>token_stub.go\<close> that reads and writes token documents, and
  \<open>last_pruend_fee_id_stub.go\<close>. A state read that is only decoded later returns the document.
  The prefixes keep the kinds of documents apart, so on a well-keyed ledger a getter never meets a
  document of another kind; the branch for it answers with the decoder's error.
\<close>

section \<open>Tokens\<close>

definition GetTokenState :: "stub \<Rightarrow> string \<Rightarrow> err + doc" where
  "GetTokenState st code =
     (attempt (GetState st (TokenKey code)) (wrap ''failed to get the token state'') (\<lambda>data.
      require data (NotIssuedTokenError code) Inr))"

definition GetToken :: "stub \<Rightarrow> string \<Rightarrow> err + token" where
  "GetToken st code =
     (attempt (GetTokenState st code) (\<lambda>e. e) (\<lambda>data.
      require (as_token data) (Plain ''failed to unmarshal the token'') Inr))"

definition PutToken :: "stub \<Rightarrow> token \<Rightarrow> err + state_op list" where
  "PutToken st t =
     attempt (PutState st (TokenKey (tok_code t)) (DToken t)) (wrap ''failed to put the token state'') Inr"

lemma GetTokenState_run [run]:
  "GetTokenState st code = Inr d \<longleftrightarrow>
     get_fault st (TokenKey code) = None \<and> world st (TokenKey code) = Some d"
  by (auto simp: GetTokenState_def run)

lemma GetToken_run [run]:
  "GetToken st code = Inr t \<longleftrightarrow>
     get_fault st (TokenKey code) = None \<and> world st (TokenKey code) = Some (DToken t)"
  by (auto simp: GetToken_def run)

lemma PutToken_run [run]:
  "PutToken st t = Inr ws \<longleftrightarrow>
     put_fault st (TokenKey (tok_code t)) = None \<and> ws = [Put (TokenKey (tok_code t)) (DToken t)]"
  by (auto simp: PutToken_def run)

lemma GetTokenState_missing:
  "GetTokenState st code = Inl (NotIssuedTokenError c) \<longleftrightarrow>
     c = code \<and> get_fault st (TokenKey code) = None \<and> world st (TokenKey code) = None"
  by (cases "get_fault st (TokenKey code)"; cases "world st (TokenKey code)")
    (auto simp: GetTokenState_def GetState_def wrap_def)

lemma token_no_panic:
  "GetTokenState st code \<noteq> Inl GoPanic" "GetToken st code \<noteq> Inl GoPanic" "PutToken st t \<noteq> Inl GoPanic"
  by (auto simp: GetTokenState_def GetToken_def PutToken_def GetState_def PutState_def attempt_def
      require_def wrap_def split: option.splits sum.splits)

interpretation token_store: doc_store "\<lambda>t. TokenKey (tok_code t)" DToken PutToken tok_code TokenKey
  GetToken "\<lambda>_. True"
  by unfold_locales (simp_all add: run token_no_panic)

section \<open>The last pruned fee\<close>

definition GetLastPrunedFeeIDState :: "stub \<Rightarrow> string \<Rightarrow> err + doc" where
  "GetLastPrunedFeeIDState st code =
     (attempt (GetState st (LastPrunedKey code)) (wrap ''failed to get the last pruned fee id state'') (\<lambda>data.
      require data (NotInitLastPrunedFeeIDError code) Inr))"

definition GetLastPrunedFeeID :: "stub \<Rightarrow> string \<Rightarrow> err + last_pruned_fee_id" where
  "GetLastPrunedFeeID st code =
     (attempt (GetLastPrunedFeeIDState st code) (\<lambda>e. e) (\<lambda>data.
      require (as_last_pruned data) (Plain ''failed to unmarshal the last pruned fee id'') Inr))"

definition PutLastPrunedFeeID :: "stub \<Rightarrow> last_pruned_fee_id \<Rightarrow> err + state_op list" where
  "PutLastPrunedFeeID st l =
     attempt (PutState st (LastPrunedKey (lpf_code l)) (DLastPruned l))
       (wrap ''failed to put the last pruned fee id state'') Inr"

definition CreateLastPrunedFeeID ::
  "stub \<Rightarrow> string \<Rightarrow> string \<Rightarrow> err + last_pruned_fee_id \<times> state_op list" where
  "CreateLastPrunedFeeID st code feeID =
     (attempt (GetTime st) (wrap ''failed to get the timestamp'') (\<lambda>ts.
      let l = \<lparr>lpf_code = code, lpf_fee_id = feeID, lpf_updated = Some ts\<rparr> in
      attempt (PutLastPrunedFeeID st l) (\<lambda>e. e) (\<lambda>ws. Inr (l, ws))))"

lemma GetLastPrunedFeeID_run [run]:
  "GetLastPrunedFeeID st code = Inr l \<longleftrightarrow>
     get_fault st (LastPrunedKey code) = None \<and> world st (LastPrunedKey code) = Some (DLastPruned l)"
  by (auto simp: GetLastPrunedFeeID_def GetLastPrunedFeeIDState_def run)

lemma PutLastPrunedFeeID_run [run]:
  "PutLastPrunedFeeID st l = Inr ws \<longleftrightarrow>
     put_fault st (LastPrunedKey (lpf_code l)) = None \<and> ws = [Put (LastPrunedKey (lpf_code l)) (DLastPruned l)]"
  by (auto simp: PutLastPrunedFeeID_def run)

lemma last_pruned_no_panic:
  "GetLastPrunedFeeID st code \<noteq> Inl GoPanic" "PutLastPrunedFeeID st l \<noteq> Inl GoPanic"
  by (auto simp: GetLastPrunedFeeID_def GetLastPrunedFeeIDState_def PutLastPrunedFeeID_def GetState_def
      PutState_def attempt_def require_def wrap_def split: option.splits sum.splits)

interpretation last_pruned_store: doc_store "\<lambda>l. LastPrunedKey (lpf_code l)" DLastPruned PutLastPrunedFeeID
  lpf_code LastPrunedKey GetLastPrunedFeeID "\<lambda>_. True"
  by unfold_locales (simp_all add: run last_pruned_no_panic)

lemma CreateLastPrunedFeeID_run:
  "CreateLastPrunedFeeID st code feeID = Inr (l, ws) \<Longrightarrow>
     ws = [Put (LastPrunedKey code) (DLastPruned l)] \<and> lpf_fee_id l = feeID \<and> lpf_code l = code"
  by (auto simp: CreateLastPrunedFeeID_def run)

end
