(* ===== verification/Queries.thy ===== *)
theory Queries
  imports Shim
begin

text \<open>
  \<open>queries.go\<close>, the texts of the CouchDB queries, and \<open>query_result.go\<close>, the JSON answer of a paged
  query. A template is the list of its lines; \<open>sprintf_s\<close> is \<open>fmt.Sprintf\<close> with \<open>%s\<close> verbs only.
  What the state database answers to a query text is the parameter \<open>query\<close> of the stub.
\<close>

definition tabs :: "nat \<Rightarrow> string" where
  "tabs n = replicate n (CHR 0x09)"

fun unlines_nl :: "string list \<Rightarrow> string" where
  "unlines_nl [] = []"
| "unlines_nl [l] = l"
| "unlines_nl (l # ls) = l @ CHR 0x0A # unlines_nl ls"

function sprintf_s :: "string \<Rightarrow> string list \<Rightarrow> string" where
  "sprintf_s [] as = []"
| "sprintf_s (c # t) as =
     (if c = CHR ''%'' \<and> t \<noteq> [] \<and> hd t = CHR ''s''
      then (case as of [] \<Rightarrow> ''%!s(MISSING)'' @ sprintf_s (tl t) [] | a # as' \<Rightarrow> a @ sprintf_s (tl t) as')
      else c # sprintf_s t as)"
  by pat_completeness auto
termination
  by (relation "measure (\<lambda>(t, as). length t)") auto

section \<open>Templates\<close>

definition QueryBalanceLogsByID :: string where
  \<open>QueryBalanceLogsByID = unlines_nl
    [''{'',
     tabs 1 @ ''"selector": {'',
     tabs 2 @ ''"@balance_log": "%s"'',
     tabs 2 @ ''%s'',
     tabs 1 @ ''},'',
     tabs 1 @ ''"sort": [%s],'',
     tabs 1 @ ''"use_index": ["balance", "%s"]'',
     ''}'']\<close>

definition QueryBalanceLogsByIDAndTimes :: string where
  \<open>QueryBalanceLogsByIDAndTimes = unlines_nl
    [''{'',
     tabs 1 @ ''"selector": {'',
     tabs 2 @ ''"@balance_log": "%s",'',
     tabs 2 @ ''%s'',
     tabs 2 @ ''"$and": ['',
     ''            {'',
     ''                "created_time": {'',
     ''                    "$gte": "%s"'',
     ''                }'',
     ''            },'',
     ''            {'',
     ''                "created_time": {'',
     ''                    "$lt": "%s"'',
     ''                }'',
     ''            }'',
     ''        ]'',
     tabs 1 @ ''},'',
     tabs 1 @ ''"sort": [%s],'',
     tabs 1 @ ''"use_index": ["balance", "%s"]'',
     ''}'']\<close>

definition QueryHoldersByID :: string where
  \<open>QueryHoldersByID = unlines_nl
    [''{'',
     tabs 1 @ ''"selector": {'',
     tabs 2 @ ''"@holder": "%s"'',
     tabs 1 @ ''},'',
     tabs 1 @ ''"sort": ["@holder", "token", "type"],'',
     tabs 1 @ ''"use_index": ["account", "holder"]'',
     ''}'']\<close>

definition QueryHoldersByIDAndTokenCode :: string where
  \<open>QueryHoldersByIDAndTokenCode = unlines_nl
    [''{'',
     tabs 1 @ ''"selector": {'',
     tabs 2 @ ''"@holder": "%s",'',
     tabs 2 @ ''"token": "%s"'',
     tabs 1 @ ''},'',
     tabs 1 @ ''"sort": ["@holder", "token", "type"],'',
     tabs 1 @ ''"use_index": ["account", "holder"]'',
     ''}'']\<close>

definition QueryPendingBalancesByAddress :: string where
  \<open>QueryPendingBalancesByAddress = unlines_nl
    [''{'',
     tabs 1 @ ''"selector": {'',
     tabs 2 @ ''"@pending_balance": {'',
     tabs 3 @ ''"$exists": true'',
     tabs 2 @ ''},'',
     tabs 2 @ ''"account": "%s"'',
     tabs 1 @ ''},'',
     tabs 1 @ ''"sort": [%s],'',
     tabs 1 @ ''"use_index": "pending-balance"'',
     ''}'']\<close>

definition QueryPrunePays :: string where
  \<open>QueryPrunePays = unlines_nl
    [''{'',
     tabs 1 @ ''"selector":{'' @ tabs 2,
     tabs 2 @ ''"@pay": "%s",'',
     tabs 2 @ ''"$and":['',
     tabs 3 @ ''{'',
     tabs 4 @ ''"created_time":{'',
     tabs 5 @ ''"$gt": "%s"'',
     tabs 4 @ ''}'',
     tabs 3 @ ''},{'',
     tabs 4 @ ''"created_time":{'',
     tabs 5 @ ''"$lte": "%s"'',
     tabs 4 @ ''}'',
     [],
     tabs 3 @ ''}'',
     tabs 2 @ ''] '',
     tabs 1 @ ''},'',
     tabs 1 @ ''"use_index":["pay","list"]'',
     ''}'']\<close>

definition QueryPaysByIDAndTime :: string where
  \<open>QueryPaysByIDAndTime = unlines_nl
    [''{'',
     tabs 1 @ ''"selector":{'',
     tabs 2 @ ''"@pay":"%s",'',
     tabs 2 @ ''"$and":['',
     tabs 3 @ ''{'',
     tabs 4 @ ''"created_time":{'',
     tabs 5 @ ''"$gte": "%s"'',
     tabs 4 @ ''}'',
     tabs 3 @ ''},'',
     tabs 3 @ ''{'',
     tabs 4 @ ''"created_time":{'',
     tabs 5 @ ''"$lte": "%s"'',
     tabs 4 @ ''}'',
     tabs 3 @ ''}'',
     tabs 2 @ '']'',
     tabs 1 @ ''},'',
     tabs 1 @ ''"use_index":["pay","list"],'',
     tabs 1 @ ''"sort":[{"created_time":"%s"}]'',
     ''}'']\<close>

definition QueryPaysByID :: string where
  \<open>QueryPaysByID = unlines_nl
    [''{'',
     tabs 1 @ ''"selector":{'',
     tabs 2 @ ''"@pay":"%s"'',
     tabs 1 @ ''},'',
     tabs 1 @ ''"use_index":["pay","list"],'',
     tabs 1 @ ''"sort":[{"@pay":"%s"},{"created_time":"%s"}]'',
     ''}'']\<close>

definition QueryPayByOrderID :: string where
  \<open>QueryPayByOrderID = unlines_nl
    [''{'',
     tabs 1 @ ''"selector":{'',
     tabs 2 @ ''"order_id":"%s"'',
     tabs 1 @ ''},'',
     tabs 1 @ ''"sort":["order_id"],'',
     tabs 1 @ ''"use_index":["pay","order-id"]'',
     ''}'']\<close>

definition QueryPruneFee :: string where
  \<open>QueryPruneFee = unlines_nl
    [''{'',
     tabs 1 @ ''"selector":{'',
     tabs 2 @ ''"@fee":"%s",'',
     tabs 2 @ ''"$and":['',
     tabs 3 @ ''{"created_time":{"$gt":"%s"}},'',
     tabs 3 @ ''{"created_time":{"$lte":"%s"}}'',
     tabs 2 @ '']'',
     tabs 1 @ ''},'',
     tabs 1 @ ''"sort":["created_time"],'',
     tabs 1 @ ''"use_index":["fee","list"]'',
     ''}'']\<close>

definition QueryFeesByCodeAndTime :: string where
  \<open>QueryFeesByCodeAndTime = unlines_nl
    [''{'',
     tabs 1 @ ''"selector":{'',
     tabs 2 @ ''"@fee":"%s",'',
     tabs 2 @ ''"$and":['',
     tabs 3 @ ''{"created_time":{"$gte":"%s"}},'',
     tabs 3 @ ''{"created_time":{"$lte":"%s"}}'',
     tabs 2 @ '']'',
     tabs 1 @ ''},'',
     tabs 1 @ ''"sort":[{"@fee":"desc"},{"created_time":"desc"}],'',
     tabs 1 @ ''"use_index":["fee","list"]'',
     ''}'']\<close>

definition QueryFeesByCode :: string where
  \<open>QueryFeesByCode = unlines_nl
    [''{'',
     tabs 1 @ ''"selector":{'',
     tabs 2 @ ''"@fee":"%s"'',
     tabs 1 @ ''},'',
     tabs 1 @ ''"sort":[{"@fee":"desc"},{"created_time":"desc"}],'',
     tabs 1 @ ''"use_index":["fee","list"]'',
     ''}'']\<close>

section \<open>Query texts\<close>

definition start_of_time :: time where
  "start_of_time = Unix 0 0"

text \<open>9999-12-31 23:59:59.999999999\<close>

definition end_of_time :: time where
  "end_of_time = Unix 253402300799 999999999"

definition default_time :: "time \<Rightarrow> time option \<Rightarrow> time" where
  "default_time d t = (case t of None \<Rightarrow> d | Some t \<Rightarrow> t)"

definition CreateQueryBalanceLogsByID :: "string \<Rightarrow> string \<Rightarrow> string" where
  \<open>CreateQueryBalanceLogsByID ident typeStr =
     (if typeStr \<noteq> []
      then sprintf_s QueryBalanceLogsByID
        [ident, sprintf_s '',"type":%s'' [typeStr],
         ''{"@balance_log": "desc"}, {"type": "desc"}, {"created_time": "desc"}'', ''logs-type'']
      else sprintf_s QueryBalanceLogsByID
        [ident, [], ''{"@balance_log": "desc"}, {"created_time": "desc"}'', ''logs''])\<close>

definition CreateQueryBalanceLogsByIDAndTimes ::
  "string \<Rightarrow> string \<Rightarrow> time option \<Rightarrow> time option \<Rightarrow> string" where
  \<open>CreateQueryBalanceLogsByIDAndTimes ident typeStr stime etime =
     (let s = time_String (default_time start_of_time stime);
          e = time_String (default_time end_of_time etime)
      in if typeStr \<noteq> []
      then sprintf_s QueryBalanceLogsByIDAndTimes
        [ident, sprintf_s ''"type":%s,'' [typeStr], s, e,
         ''{"@balance_log": "desc"}, {"type": "desc"}, {"created_time": "desc"}'', ''logs-type'']
      else sprintf_s QueryBalanceLogsByIDAndTimes
        [ident, [], s, e, ''{"@balance_log": "desc"}, {"created_time": "desc"}'', ''logs''])\<close>

definition CreateQueryHoldersByID :: "string \<Rightarrow> string" where
  "CreateQueryHoldersByID ident = sprintf_s QueryHoldersByID [ident]"

definition CreateQueryHoldersByIDAndTokenCode :: "string \<Rightarrow> string \<Rightarrow> string" where
  "CreateQueryHoldersByIDAndTokenCode ident tokenCode =
     sprintf_s QueryHoldersByIDAndTokenCode [ident, tokenCode]"

definition CreateQueryPendingBalancesByAddress :: "string \<Rightarrow> string \<Rightarrow> string" where
  \<open>CreateQueryPendingBalancesByAddress addr sort_by =
     sprintf_s QueryPendingBalancesByAddress
       [addr, if sort_by = ''created_time'' then ''{"account":"desc"},{"created_time":"desc"}''
              else ''"account","pending_time"'']\<close>

definition CreateQueryPrunePays :: "string \<Rightarrow> time \<Rightarrow> time \<Rightarrow> string" where
  "CreateQueryPrunePays ident stime etime =
     sprintf_s QueryPrunePays [ident, time_String stime, time_String etime]"

definition CreateQueryPaysByIDAndTime ::
  "string \<Rightarrow> string \<Rightarrow> time option \<Rightarrow> time option \<Rightarrow> string" where
  "CreateQueryPaysByIDAndTime ident sortOrder stime etime =
     sprintf_s QueryPaysByIDAndTime
       [ident, time_String (default_time start_of_time stime),
        time_String (default_time end_of_time etime), sortOrder]"

definition CreateQueryPaysByID :: "string \<Rightarrow> string \<Rightarrow> string" where
  "CreateQueryPaysByID ident sortOrder = sprintf_s QueryPaysByID [ident, sortOrder, sortOrder]"

definition CreateQueryPayByOrderID :: "string \<Rightarrow> string" where
  "CreateQueryPayByOrderID orderID = sprintf_s QueryPayByOrderID [orderID]"

definition CreateQueryPruneFee :: "string \<Rightarrow> time \<Rightarrow> time \<Rightarrow> string" where
  "CreateQueryPruneFee tokenCode stime etime =
     sprintf_s QueryPruneFee [tokenCode, time_String stime, time_String etime]"

definition CreateQueryFeesByCodeAndTimes :: "string \<Rightarrow> time option \<Rightarrow> time option \<Rightarrow> string" where
  "CreateQueryFeesByCodeAndTimes tokenCode stime etime =
     sprintf_s QueryFeesByCodeAndTime
       [tokenCode, time_String (default_time start_of_time stime),
        time_String (default_time end_of_time etime)]"

definition CreateQueryFeesByCode :: "string \<Rightarrow> string" where
  "CreateQueryFeesByCode tokenCode = sprintf_s QueryFeesByCode [tokenCode]"

section \<open>Paged results\<close>

text \<open>The rows of a page joined by commas; a row the iterator fails on fails the whole.\<close>

fun join_rows :: "(string + string) list \<Rightarrow> err + string" where
  "join_rows [] = Inr []"
| "join_rows (row # rows) =
     (attempt row Plain (\<lambda>v.
      if rows \<noteq> [] then attempt (join_rows rows) (\<lambda>e. e) (\<lambda>r. Inr (v @ CHR '','' # r))
      else Inr v))"

definition NewQueryResult :: "string \<Rightarrow> (string + string) list \<Rightarrow> err + query_result" where
  "NewQueryResult meta rows =
     (attempt (join_rows rows) (\<lambda>e. e) (\<lambda>r.
      Inr \<lparr>qr_meta = Some meta, qr_records = ''['' @ r @ '']''\<rparr>))"

definition QueryResult_MarshalJSON :: "query_result \<Rightarrow> string" where
  \<open>QueryResult_MarshalJSON qr =
     ''{'' @ (case qr_meta qr of None \<Rightarrow> [] | Some meta \<Rightarrow> ''"meta":'' @ meta @ '','') @
     ''"records":'' @ qr_records qr @ ''}''\<close>

text \<open>\<open>GetQueryResultWithPagination\<close> with the default and the maximum page size of the stubs.\<close>

definition page_size :: "int \<Rightarrow> int \<Rightarrow> int" where
  "page_size dflt fetchSize0 =
     (let fetchSize = (if fetchSize0 < 1 then dflt else fetchSize0)
      in if fetchSize > 200 then 200 else fetchSize)"

definition run_page :: "stub \<Rightarrow> string \<Rightarrow> int \<Rightarrow> string \<Rightarrow> err + query_result" where
  "run_page st q fetchSize bookmark =
     (attempt (query_page st q fetchSize bookmark) Plain (\<lambda>(meta, rows). NewQueryResult meta rows))"

lemma page_size_bounds: "1 \<le> dflt \<Longrightarrow> dflt \<le> 200 \<Longrightarrow> 1 \<le> page_size dflt n \<and> page_size dflt n \<le> 200"
  by (auto simp: page_size_def Let_def)

lemma join_rows_print:
  "join_rows (map (\<lambda>j. Inr (json_print j)) js) = Inr (json_print_list js)"
  by (induction js rule: induct_list012) (simp_all add: attempt_def)

text \<open>The records of a page form one JSON array of the rows: when every row is a JSON text, the
  answer parses to the array of what the rows parse to.\<close>

lemma NewQueryResult_array:
  assumes "list_all plain js"
  shows "\<exists>qr. NewQueryResult meta (map (\<lambda>j. Inr (json_print j)) js) = Inr qr \<and>
    json_parse (qr_records qr) = Some (JArr (map clean_json js))"
proof -
  have "json_parse (json_print (JArr js)) = Some (JArr (map clean_json js))"
    using assms json_parse_print [of "JArr js"] by simp
  then show ?thesis
    by (simp add: NewQueryResult_def join_rows_print)
qed

end
