(* ===== verification/FeeStub.thy ===== *)
theory FeeStub
  imports TokenStore Queries
begin

text \<open>
  \<open>fee.go\<close> (the fee policy) and \<open>fee_stub.go\<close>. The loop of \<open>GetFeeSumByTime\<close> is the recursion
  \<open>fee_sum_loop\<close> over the rows of the query; the selector of the query only matches fee documents.
  \<open>GetFeeSumByTime_rows\<close> is its closed form: the sum of the first \<open>FeePruneSize\<close> rows.
  \<open>CalcFee_spec\<close> is the abstract fee: a floor, cut at zero and at the maximum.
\<close>

section \<open>Fee policies\<close>

definition isValidFn :: "string \<Rightarrow> bool" where
  "isValidFn fn \<longleftrightarrow> fn = ''transfer'' \<or> fn = ''pay''"

definition parse_max :: "string list \<Rightarrow> err + int" where
  "parse_max rm =
     (if length rm > 1
      then (case ParseInt (rm ! 1) 64 of (n, ok) \<Rightarrow>
              if ok then Inr n else Inl (Plain ''failed to parse max fee amount''))
      else Inr 0)"

definition parse_fee :: "string \<Rightarrow> (string \<rightharpoonup> fee_rate) \<Rightarrow> err + (string \<rightharpoonup> fee_rate)" where
  "parse_fee f rates =
     (let kv = split_at (CHR ''='') f in
      if length kv > 1 then
        if \<not> isValidFn (kv ! 0) then Inl (Plain ''invalid fee rate type'')
        else
          let rm = split_at (CHR '','') (kv ! 1); rate = rm ! 0 in
          require (Rat_SetString rate) (Plain ''failed to parse rate'') (\<lambda>_.
          attempt (parse_max rm) (\<lambda>e. e) (\<lambda>max.
          Inr (rates(kv ! 0 \<mapsto> \<lparr>fr_rate = rate, fr_max = max\<rparr>))))
      else Inr rates)"

fun parse_fees :: "string list \<Rightarrow> (string \<rightharpoonup> fee_rate) \<Rightarrow> err + (string \<rightharpoonup> fee_rate)" where
  "parse_fees [] rates = Inr rates"
| "parse_fees (f # fees) rates = attempt (parse_fee f rates) (\<lambda>e. e) (parse_fees fees)"

definition ParseFeePolicy :: "string \<Rightarrow> err + fee_policy" where
  "ParseFeePolicy s =
     (attempt (parse_fees (split_at (CHR '';'') s) Map.empty) (\<lambda>e. e) (\<lambda>rates.
      Inr \<lparr>fp_target = [], fp_rates = rates\<rparr>))"

definition rates_ok :: "(string \<rightharpoonup> fee_rate) \<Rightarrow> bool" where
  "rates_ok rates \<longleftrightarrow> (\<forall>fn r. rates fn = Some r \<longrightarrow>
     isValidFn fn \<and> Rat_SetString (fr_rate r) \<noteq> None \<and> - (2 ^ 63) \<le> fr_max r \<and> fr_max r < 2 ^ 63)"

lemma parse_max_range: "parse_max rm = Inr n \<Longrightarrow> - (2 ^ 63) \<le> n \<and> n < 2 ^ 63"
  using ParseInt_range [of "rm ! 1"] by (auto simp: parse_max_def split: if_splits prod.splits)

lemma rates_ok_upd:
  assumes "rates_ok rates" "isValidFn fn" "Rat_SetString rate = Some q" "parse_max rm = Inr n"
  shows "rates_ok (rates(fn \<mapsto> \<lparr>fr_rate = rate, fr_max = n\<rparr>))"
  using assms parse_max_range [OF assms(4)] by (auto simp: rates_ok_def)

lemma parse_fee_ok: "parse_fee f rates = Inr rates' \<Longrightarrow> rates_ok rates \<Longrightarrow> rates_ok rates'"
  by (auto simp: parse_fee_def Let_def run split: if_splits intro: rates_ok_upd)

lemma rates_ok_rate: "rates_ok rates \<Longrightarrow> rates fn = Some r \<Longrightarrow> \<exists>q. Rat_SetString (fr_rate r) = Some q"
  by (auto simp: rates_ok_def)

lemma parse_fees_ok: "parse_fees fs rates = Inr rates' \<Longrightarrow> rates_ok rates \<Longrightarrow> rates_ok rates'"
  by (induction fs arbitrary: rates) (auto simp: run dest: parse_fee_ok)

lemma ParseFeePolicy_ok: "ParseFeePolicy s = Inr p \<Longrightarrow> rates_ok (fp_rates p) \<and> fp_target p = []"
  by (auto simp: ParseFeePolicy_def run rates_ok_def dest: parse_fees_ok)

lemma parse_fee_no_panic: "parse_fee f rates \<noteq> Inl GoPanic"
  by (auto simp: parse_fee_def parse_max_def Let_def require_def attempt_def split: option.splits prod.splits sum.splits if_splits)

lemma parse_fees_no_panic: "parse_fees fs rates \<noteq> Inl GoPanic"
proof (induction fs arbitrary: rates)
  case (Cons f fs)
  then show ?case
    using parse_fee_no_panic [of f rates] by (cases "parse_fee f rates") auto
qed simp

lemma ParseFeePolicy_no_panic: "ParseFeePolicy s \<noteq> Inl GoPanic"
  using parse_fees_no_panic [of "split_at (CHR '';'') s" Map.empty]
  by (auto simp: ParseFeePolicy_def attempt_def split: sum.splits)

section \<open>Fee documents\<close>

definition FeePruneSize :: nat where
  "FeePruneSize = 900"

definition FeeFetchSize :: int where
  "FeeFetchSize = 20"

definition PutFee :: "stub \<Rightarrow> fee \<Rightarrow> err + state_op list" where
  "PutFee st f =
     attempt (PutState st (FeeKey (fee_id f)) (DFee f)) (wrap ''failed to put the fee state'') Inr"

text \<open>\<open>fmt.Sprintf("%d%s", ts.UnixNano(), stub.GetTxID())\<close>, the identifier of fees and pays.\<close>

definition stamp_id :: "stub \<Rightarrow> time \<Rightarrow> string" where
  "stamp_id st ts = dec_int (UnixNano ts) @ txid st"

definition CreateFee :: "stub \<Rightarrow> string \<Rightarrow> amount \<Rightarrow> err + fee option \<times> state_op list" where
  "CreateFee st addr amount =
     (if Amount_Sign amount = 0 then Inr (None, [])
      else
        attempt (GetTime st) (wrap ''failed to get the timestamp'') (\<lambda>ts.
        let code = (case ParseCode addr of Inl _ \<Rightarrow> [] | Inr c \<Rightarrow> c);
            fee = \<lparr>fee_code = code, fee_id = stamp_id st ts, fee_account = addr, fee_amount = amount,
                   fee_created = Some ts\<rparr> in
        attempt (PutFee st fee) (wrap ''failed to create fee'') (\<lambda>ws. Inr (Some fee, ws))))"

definition GetQueryFees ::
  "stub \<Rightarrow> string \<Rightarrow> string \<Rightarrow> int \<Rightarrow> time option \<Rightarrow> time option \<Rightarrow> err + query_result" where
  "GetQueryFees st tokenCode bookmark fetchSize stime etime =
     (let n = page_size FeeFetchSize fetchSize;
          q = (if stime \<noteq> None \<or> etime \<noteq> None then CreateQueryFeesByCodeAndTimes tokenCode stime etime
               else CreateQueryFeesByCode tokenCode)
      in run_page st q n bookmark)"

lemma PutFee_run [run]:
  "PutFee st f = Inr ws \<longleftrightarrow> put_fault st (FeeKey (fee_id f)) = None \<and> ws = [Put (FeeKey (fee_id f)) (DFee f)]"
  by (auto simp: PutFee_def run)

interpretation fee_writer: doc_writer "\<lambda>f. FeeKey (fee_id f)" DFee PutFee
  by unfold_locales (simp_all add: run)

text \<open>What creating a fee writes: nothing for a zero amount, one document otherwise.\<close>

definition fee_writes :: "stub \<Rightarrow> time \<Rightarrow> string \<Rightarrow> amount \<Rightarrow> state_op list" where
  "fee_writes st ts addr amount =
     (if amount = 0 then []
      else [Put (FeeKey (stamp_id st ts))
              (DFee \<lparr>fee_code = (case ParseCode addr of Inl _ \<Rightarrow> [] | Inr c \<Rightarrow> c), fee_id = stamp_id st ts,
                 fee_account = addr, fee_amount = amount, fee_created = Some ts\<rparr>)])"

lemma fee_writes_zero [simp]: "fee_writes st ts addr 0 = []"
  by (simp add: fee_writes_def)

lemma CreateFee_run:
  "CreateFee st addr amount = Inr (f, ws) \<Longrightarrow> GetTime st = Inr ts \<Longrightarrow> ws = fee_writes st ts addr amount"
  by (auto simp: CreateFee_def fee_writes_def run split: if_splits)

lemma fee_writes_keyed [simp]: "list_all keyed_write (fee_writes st ts addr amount)"
  by (simp add: fee_writes_def)

lemma CreateFee_no_panic: "CreateFee st addr amount \<noteq> Inl GoPanic"
  using GetTime_no_panic [of st]
  by (auto simp: CreateFee_def PutFee_def PutState_def attempt_def Let_def wrap_def split: sum.splits option.splits)

section \<open>The sum to prune\<close>

fun fee_sum_loop :: "(string + doc) list \<Rightarrow> nat \<Rightarrow> amount \<Rightarrow> fee_sum \<Rightarrow> err + fee_sum" where
  "fee_sum_loop [] cnt acc fs = Inr (fs\<lparr>fs_count := cnt, fs_sum := acc\<rparr>)"
| "fee_sum_loop (row # rows) cnt acc fs =
     (let cnt' = cnt + 1 in
      attempt row Plain (\<lambda>kv.
      require (as_fee kv) (Plain ''failed to unmarshal the fee'') (\<lambda>fee.
      let fs1 = (if cnt' = 1 then fs\<lparr>fs_start := fee_id fee\<rparr> else fs) in
      if cnt' > FeePruneSize then Inr (fs1\<lparr>fs_has_more := True, fs_count := cnt' - 1, fs_sum := acc\<rparr>)
      else fee_sum_loop rows cnt' (Amount_Add acc (fee_amount fee)) (fs1\<lparr>fs_end := fee_id fee\<rparr>))))"

definition GetFeeSumByTime :: "stub \<Rightarrow> string \<Rightarrow> time \<Rightarrow> time \<Rightarrow> err + fee_sum" where
  "GetFeeSumByTime st tokenCode stime etime =
     (attempt (query st (CreateQueryPruneFee tokenCode stime etime)) Plain (\<lambda>rows.
      fee_sum_loop rows 0 ZeroAmount
        \<lparr>fs_sum = 0, fs_count = 0, fs_start = [], fs_end = [], fs_has_more = False\<rparr>))"

definition last_or :: "'a \<Rightarrow> 'a list \<Rightarrow> 'a" where
  "last_or d xs = (if xs = [] then d else last xs)"

lemma fee_sum_loop_closed:
  assumes "cnt \<le> FeePruneSize" and "0 < cnt"
  shows "fee_sum_loop (map (\<lambda>f. Inr (DFee f)) fees) cnt acc fs =
    (let fs' = take (FeePruneSize - cnt) fees in
     Inr (fs\<lparr>fs_count := cnt + length fs', fs_sum := acc + sum_list (map fee_amount fs'),
            fs_end := last_or (fs_end fs) (map fee_id fs'),
            fs_has_more := (fs_has_more fs \<or> length fees > FeePruneSize - cnt)\<rparr>))"
  using assms
proof (induction fees arbitrary: cnt acc fs)
  case Nil
  then show ?case
    by (simp add: last_or_def)
next
  case (Cons f fees)
  show ?case
  proof (cases "cnt = FeePruneSize")
    case True
    then show ?thesis
      using Cons.prems by (simp add: last_or_def)
  next
    case False
    then obtain k where k: "FeePruneSize - cnt = Suc k"
      using Cons.prems by (cases "FeePruneSize - cnt") auto
    then have "FeePruneSize - Suc cnt = k"
      by simp
    then show ?thesis
      using Cons.IH [of "Suc cnt" "acc + fee_amount f" "fs\<lparr>fs_end := fee_id f\<rparr>"] Cons.prems False k
      by (simp add: last_or_def Let_def)
  qed
qed

definition fee_total :: "fee list \<Rightarrow> fee_sum" where
  "fee_total fees =
     (let fs = take FeePruneSize fees in
      \<lparr>fs_sum = sum_list (map fee_amount fs), fs_count = length fs,
       fs_start = (case fees of [] \<Rightarrow> [] | f # _ \<Rightarrow> fee_id f), fs_end = last_or [] (map fee_id fs),
       fs_has_more = (length fees > FeePruneSize)\<rparr>)"

lemma GetFeeSumByTime_rows:
  assumes "query st (CreateQueryPruneFee code s e) = Inr (map (\<lambda>f. Inr (DFee f)) fees)"
  shows "GetFeeSumByTime st code s e = Inr (fee_total fees)"
proof (cases fees)
  case Nil
  then show ?thesis
    using assms by (simp add: GetFeeSumByTime_def fee_total_def last_or_def)
next
  case (Cons f fs)
  obtain k where k: "FeePruneSize = Suc k"
    by (cases FeePruneSize) (simp_all add: FeePruneSize_def)
  then have "FeePruneSize - Suc 0 = k"
    by simp
  then show ?thesis
    using assms Cons
    by (simp add: k GetFeeSumByTime_def fee_total_def fee_sum_loop_closed Let_def last_or_def)
qed

text \<open>A sum that comes back has read fees only, up to one row past the limit.\<close>

lemma fee_sum_loop_read:
  assumes "fee_sum_loop rows cnt acc fs = Inr s" and "cnt \<le> FeePruneSize"
  shows "\<exists>fees. take (Suc FeePruneSize - cnt) rows = map (\<lambda>f. Inr (DFee f)) fees \<and>
    fee_sum_loop (map (\<lambda>f. Inr (DFee f)) fees) cnt acc fs = Inr s"
  using assms
proof (induction rows arbitrary: cnt acc fs)
  case (Cons row rows)
  obtain c where row: "row = Inr (DFee c)"
    using Cons.prems(1) by (auto simp: run Let_def)
  show ?case
  proof (cases "cnt = FeePruneSize")
    case True
    then show ?thesis
      using Cons.prems(1) row by (intro exI [of _ "[c]"]) (simp add: Let_def)
  next
    case False
    then have d: "Suc FeePruneSize - cnt = Suc (Suc FeePruneSize - Suc cnt)" and le: "Suc cnt \<le> FeePruneSize"
      using Cons.prems(2) by auto
    let ?fs = "(if cnt = 0 then fs\<lparr>fs_start := fee_id c\<rparr> else fs)\<lparr>fs_end := fee_id c\<rparr>"
    have "fee_sum_loop rows (Suc cnt) (acc + fee_amount c) ?fs = Inr s"
      using Cons.prems(1) row le by (simp add: Let_def)
    then obtain fees where "take (Suc FeePruneSize - Suc cnt) rows = map (\<lambda>f. Inr (DFee f)) fees"
      "fee_sum_loop (map (\<lambda>f. Inr (DFee f)) fees) (Suc cnt) (acc + fee_amount c) ?fs = Inr s"
      using Cons.IH [OF _ le] by blast
    then show ?thesis
      using row le d by (intro exI [of _ "c # fees"]) (simp add: Let_def)
  qed
qed simp

lemma GetFeeSumByTime_read:
  assumes "GetFeeSumByTime st code a b = Inr s"
  obtains rows fees where "query st (CreateQueryPruneFee code a b) = Inr rows"
    "take (Suc FeePruneSize) rows = map (\<lambda>f. Inr (DFee f)) fees" "s = fee_total fees"
proof -
  obtain rows where rows: "query st (CreateQueryPruneFee code a b) = Inr rows"
    "fee_sum_loop rows 0 ZeroAmount
      \<lparr>fs_sum = 0, fs_count = 0, fs_start = [], fs_end = [], fs_has_more = False\<rparr> = Inr s"
    using assms by (auto simp: GetFeeSumByTime_def run)
  then obtain fees where fees: "take (Suc FeePruneSize) rows = map (\<lambda>f. Inr (DFee f)) fees"
    "fee_sum_loop (map (\<lambda>f. Inr (DFee f)) fees) 0 ZeroAmount
      \<lparr>fs_sum = 0, fs_count = 0, fs_start = [], fs_end = [], fs_has_more = False\<rparr> = Inr s"
    using fee_sum_loop_read [OF rows(2)] by auto
  have "GetFeeSumByTime (st\<lparr>query := \<lambda>_. Inr (map (\<lambda>f. Inr (DFee f)) fees)\<rparr>) code a b = Inr s"
    using fees(2) by (simp add: GetFeeSumByTime_def)
  then have "fee_total fees = s"
    by (subst (asm) GetFeeSumByTime_rows) simp_all
  then show thesis
    using that [OF rows(1) fees(1)] by simp
qed

section \<open>The fee of an amount\<close>

definition CalcFee :: "stub \<Rightarrow> address \<Rightarrow> string \<Rightarrow> amount \<Rightarrow> err + amount" where
  "CalcFee st payer fn amount =
     (attempt (GetToken st (adr_code payer)) (\<lambda>e. e) (\<lambda>token.
      case tok_policy token of
        None \<Rightarrow> Inr ZeroAmount
      | Some policy \<Rightarrow>
          (case fp_rates policy fn of
             None \<Rightarrow> Inr ZeroAmount
           | Some feeRate \<Rightarrow>
               let payerAddr = Address_String payer in
               if tok_genesis token \<noteq> payerAddr \<and> fp_target policy \<noteq> payerAddr then
                 require (Rat_SetString (fr_rate feeRate)) GoPanic (\<lambda>feeRateRat.
                 let feeAmount = Amount_MulRat (Amount_Copy amount) feeRateRat in
                 if Amount_Sign feeAmount < 0 then Inr ZeroAmount
                 else if fr_max feeRate > 0 then
                   (let maxAmount = fr_max feeRate in
                    if Amount_Cmp feeAmount maxAmount > 0 then Inr maxAmount else Inr feeAmount)
                 else Inr feeAmount)
               else Inr ZeroAmount)))"

text \<open>The fee as a function of the token: the floor of amount times rate, at least zero and at
  most the maximum when there is one; none for the genesis account and the fee target.\<close>

definition fee_spec :: "token \<Rightarrow> string \<Rightarrow> string \<Rightarrow> amount \<Rightarrow> amount" where
  "fee_spec token payer fn amount =
     (case tok_policy token of
        None \<Rightarrow> 0
      | Some policy \<Rightarrow>
          (case fp_rates policy fn of
             None \<Rightarrow> 0
           | Some r \<Rightarrow>
               if payer = tok_genesis token \<or> payer = fp_target policy then 0
               else let f = max 0 \<lfloor>of_int amount * the (Rat_SetString (fr_rate r))\<rfloor>
                    in if fr_max r > 0 then min f (fr_max r) else f))"

definition policy_ok :: "token \<Rightarrow> bool" where
  "policy_ok token \<longleftrightarrow> (\<forall>p. tok_policy token = Some p \<longrightarrow> rates_ok (fp_rates p))"

lemma CalcFee_value:
  assumes "CalcFee st payer fn amount = Inr fee"
  obtains token where "GetToken st (adr_code payer) = Inr token"
    "fee = fee_spec token (Address_String payer) fn amount"
proof -
  obtain token where t: "GetToken st (adr_code payer) = Inr token"
    using assms by (cases "GetToken st (adr_code payer)") (auto simp: CalcFee_def)
  have "fee = fee_spec token (Address_String payer) fn amount"
    using assms t
    by (auto simp: CalcFee_def fee_spec_def require_def Let_def MulRat_floor max_def min_def
        split: option.splits if_splits)
  with t show thesis
    by (rule that)
qed

lemma policy_ok_rate:
  assumes "policy_ok token" "tok_policy token = Some p" "fp_rates p fn = Some r"
  obtains q where "Rat_SetString (fr_rate r) = Some q"
  using assms rates_ok_rate [of "fp_rates p" fn r] by (auto simp: policy_ok_def)

lemma CalcFee_total:
  assumes "GetToken st (adr_code payer) = Inr token" and "policy_ok token"
  shows "CalcFee st payer fn amount = Inr (fee_spec token (Address_String payer) fn amount)"
  using assms
  by (auto simp: CalcFee_def fee_spec_def require_def Let_def MulRat_floor max_def min_def
      split: option.splits if_splits elim: policy_ok_rate)

lemma fee_spec_nonneg: "0 \<le> fee_spec token payer fn amount"
  by (auto simp: fee_spec_def Let_def split: option.splits)

lemma CalcFee_nonneg: "CalcFee st payer fn amount = Inr fee \<Longrightarrow> 0 \<le> fee"
  using fee_spec_nonneg by (metis CalcFee_value)

end
