(* ===== verification/BalanceMoves.thy ===== *)
theory BalanceMoves
  imports BalanceStub
begin

text \<open>
  The operations of \<open>balance_stub.go\<close> that move an amount: \<open>Supply\<close>, \<open>Transfer\<close>,
  \<open>TransferPendingBalance\<close>, \<open>Deposit\<close> and \<open>Withdraw\<close>. For each one the writes are also stated in
  closed form, and the run lemma says that a successful run makes exactly those writes. The sums over
  the ledger and the key invariant are read off the closed forms.
\<close>

definition with_amount :: "balance \<Rightarrow> amount \<Rightarrow> time \<Rightarrow> balance" where
  "with_amount b n ts = b\<lparr>bal_amount := n, bal_updated := Some ts\<rparr>"

lemma with_amount_sel [simp]:
  "bal_id (with_amount b n ts) = bal_id b" "bal_amount (with_amount b n ts) = n"
  "bal_last_pruned (with_amount b n ts) = bal_last_pruned b"
  by (simp_all add: with_amount_def)

section \<open>The operations\<close>

definition Supply :: "stub \<Rightarrow> balance \<Rightarrow> amount \<Rightarrow> err + balance_log \<times> balance \<times> state_op list" where
  "Supply st bal amount =
     (attempt (GetTime st) (wrap ''failed to get the timestamp'') (\<lambda>ts.
      let bal' = bal\<lparr>bal_amount := Amount_Add (bal_amount bal) amount, bal_updated := Some ts\<rparr> in
      attempt (PutBalance st bal') (\<lambda>e. e) (\<lambda>w1.
      let log = (NewBalanceSupplyLog bal' amount)\<lparr>blog_created := Some ts\<rparr> in
      attempt (PutBalanceLog st log) (\<lambda>e. e) (\<lambda>w2.
      Inr (log, bal', w1 @ w2)))))"

definition is_later :: "time option \<Rightarrow> time \<Rightarrow> bool" where
  "is_later t ts \<longleftrightarrow> (case t of None \<Rightarrow> False | Some u \<Rightarrow> time_Cmp u ts > 0)"

text \<open>The block that \<open>Transfer\<close> and \<open>TransferPendingBalance\<close> share: under a time lock the receiver
  gets a pending balance, otherwise the amount.\<close>

definition receive ::
  "stub \<Rightarrow> time \<Rightarrow> balance \<Rightarrow> balance \<Rightarrow> amount \<Rightarrow> string \<Rightarrow> time option \<Rightarrow> err + state_op list" where
  "receive st ts sender receiver amount memo pendingTime =
     (if is_later pendingTime ts then
        (let pb = (NewPendingBalance (txid st) (bal_id receiver) (IdBalance (bal_id sender)) amount None
                     memo pendingTime)\<lparr>pb_created := Some ts\<rparr>
         in PutPendingBalance st pb)
      else
        (let receiver' = receiver\<lparr>bal_amount := Amount_Add (bal_amount receiver) amount,
                                   bal_updated := Some ts\<rparr> in
         attempt (PutBalance st receiver') (\<lambda>e. e) (\<lambda>w1.
         let rbl = (NewBalanceTransferLog sender receiver' amount None memo)\<lparr>blog_created := Some ts\<rparr> in
         attempt (PutBalanceLog st rbl) (\<lambda>e. e) (\<lambda>w2. Inr (w1 @ w2)))))"

definition Transfer ::
  "stub \<Rightarrow> balance \<Rightarrow> balance \<Rightarrow> amount \<Rightarrow> amount \<Rightarrow> string \<Rightarrow> time option \<Rightarrow> err + balance_log \<times> state_op list" where
  "Transfer st sender receiver amount fee memo pendingTime =
     (attempt (GetTime st) (wrap ''failed to get the timestamp'') (\<lambda>ts.
      attempt (receive st ts sender receiver amount memo pendingTime) (\<lambda>e. e) (\<lambda>w1.
      let amount' = Amount_Neg amount;
          a1 = Amount_Add (bal_amount sender) amount';
          a2 = Amount_Add a1 (Amount_Neg (Amount_Copy fee));
          sender' = sender\<lparr>bal_amount := a2, bal_updated := Some ts\<rparr> in
      attempt (PutBalance st sender') (\<lambda>e. e) (\<lambda>w2.
      let sbl = (NewBalanceTransferLog sender' receiver amount' (Some fee) memo)\<lparr>blog_created := Some ts\<rparr> in
      attempt (PutBalanceLog st sbl) (\<lambda>e. e) (\<lambda>w3.
      attempt (CreateFee st (bal_id sender) fee) (\<lambda>e. e) (\<lambda>(f, w4).
      Inr (sbl, w1 @ w2 @ w3 @ w4)))))))"

definition TransferPendingBalance ::
  "stub \<Rightarrow> pending_balance \<Rightarrow> balance \<Rightarrow> time option \<Rightarrow> err + state_op list" where
  "TransferPendingBalance st pb receiver pendingTime =
     (attempt (GetTime st) (wrap ''failed to get the timestamp'') (\<lambda>ts.
      let sender = \<lparr>bal_id = pb_account pb, bal_amount = 0, bal_created = None, bal_updated = None,
                    bal_last_pruned = []\<rparr> in
      attempt (receive st ts sender receiver (pb_amount pb) (pb_memo pb) pendingTime) (\<lambda>e. e) (\<lambda>w1.
      attempt
        (case pb_fee pb of None \<Rightarrow> Inr []
         | Some fee \<Rightarrow> attempt (CreateFee st (pb_account pb) fee) (\<lambda>e. e) (\<lambda>(f, ws). Inr ws))
        (\<lambda>e. e) (\<lambda>w2.
      attempt (DelState st (PendingKey (pb_id pb))) (wrap ''failed to delete the pending balance'') (\<lambda>w3.
      Inr (w1 @ w2 @ w3))))))"

definition Deposit ::
  "stub \<Rightarrow> string \<Rightarrow> balance \<Rightarrow> contract \<Rightarrow> amount \<Rightarrow> amount option \<Rightarrow> string \<Rightarrow> err + balance_log \<times> state_op list" where
  "Deposit st pid sender con amount fee memo =
     (attempt (GetTime st) (wrap ''failed to get the timestamp'') (\<lambda>ts.
      attempt (Contract_GetExpiryTime con) (wrap ''failed to get the expiry time'') (\<lambda>expiryTime.
      attempt (Contract_GetID con) (\<lambda>e. e) (\<lambda>cid.
      let pb = (NewPendingBalance pid (bal_id sender) (IdContract cid) amount fee memo (Some expiryTime))
                 \<lparr>pb_created := Some ts\<rparr> in
      attempt (PutPendingBalance st pb) (wrap ''failed to create the pending balance'') (\<lambda>w1.
      let applied0 = Amount_Copy amount;
          applied = (case fee of None \<Rightarrow> applied0 | Some f \<Rightarrow> Amount_Add applied0 f);
          sender' = sender\<lparr>bal_amount := Amount_Add (bal_amount sender) (Amount_Neg applied),
                           bal_updated := Some ts\<rparr> in
      attempt (PutBalance st sender') (\<lambda>e. e) (\<lambda>w2.
      let log = (NewBalanceDepositLog sender' pb)\<lparr>blog_created := Some ts\<rparr> in
      attempt (PutBalanceLog st log) (\<lambda>e. e) (\<lambda>w3.
      Inr (log, w1 @ w2 @ w3))))))))"

definition Withdraw :: "stub \<Rightarrow> pending_balance \<Rightarrow> err + balance_log \<times> state_op list" where
  "Withdraw st pb =
     (attempt (GetTime st) (wrap ''failed to get the timestamp'') (\<lambda>ts.
      attempt (GetBalance st (pb_account pb)) (\<lambda>e. e) (\<lambda>bal.
      let applied0 = Amount_Copy (pb_amount pb);
          applied = (case pb_fee pb of None \<Rightarrow> applied0 | Some f \<Rightarrow> Amount_Add applied0 f);
          bal' = bal\<lparr>bal_amount := Amount_Add (bal_amount bal) applied, bal_updated := Some ts\<rparr> in
      attempt (PutBalance st bal') (\<lambda>e. e) (\<lambda>w1.
      let log = (NewBalanceWithdrawLog bal' pb)\<lparr>blog_created := Some ts\<rparr> in
      attempt (PutBalanceLog st log) (\<lambda>e. e) (\<lambda>w2.
      attempt (DelState st (PendingKey (pb_id pb))) (wrap ''failed to delete the pending balance'') (\<lambda>w3.
      Inr (log, w1 @ w2 @ w3)))))))"

section \<open>Closed forms\<close>

text \<open>A balance moved to a new amount, with the log of the move.\<close>

definition put_balance :: "balance \<Rightarrow> state_op" where
  "put_balance b = Put (BalanceKey (bal_id b)) (DBalance b)"

definition put_log :: "time \<Rightarrow> balance_log \<Rightarrow> state_op" where
  "put_log ts l = (let l' = l\<lparr>blog_created := Some ts\<rparr> in Put (log_key l') (DBalanceLog l'))"

definition put_pending :: "pending_balance \<Rightarrow> state_op" where
  "put_pending p = Put (PendingKey (pb_id p)) (DPending p)"

definition fee_or_zero :: "amount option \<Rightarrow> amount" where
  "fee_or_zero f = (case f of None \<Rightarrow> 0 | Some n \<Rightarrow> n)"

definition supply_writes :: "time \<Rightarrow> balance \<Rightarrow> amount \<Rightarrow> state_op list" where
  "supply_writes ts bal amount =
     (let bal' = with_amount bal (bal_amount bal + amount) ts
      in [put_balance bal', put_log ts (NewBalanceSupplyLog bal' amount)])"

text \<open>What reaches the receiver: a pending balance owned by the receiver when the pending time is
  still to come, the amount itself otherwise.\<close>

definition receive_writes ::
  "stub \<Rightarrow> time \<Rightarrow> balance \<Rightarrow> balance \<Rightarrow> amount \<Rightarrow> string \<Rightarrow> time option \<Rightarrow> state_op list" where
  "receive_writes st ts sender receiver amount memo pt =
     (if is_later pt ts
      then [put_pending ((NewPendingBalance (txid st) (bal_id receiver) (IdBalance (bal_id sender)) amount None
                            memo pt)\<lparr>pb_created := Some ts\<rparr>)]
      else let receiver' = with_amount receiver (bal_amount receiver + amount) ts
           in [put_balance receiver', put_log ts (NewBalanceTransferLog sender receiver' amount None memo)])"

definition transfer_writes ::
  "stub \<Rightarrow> time \<Rightarrow> balance \<Rightarrow> balance \<Rightarrow> amount \<Rightarrow> amount \<Rightarrow> string \<Rightarrow> time option \<Rightarrow> state_op list" where
  "transfer_writes st ts sender receiver amount fee memo pt =
     (let sender' = with_amount sender (bal_amount sender - amount - fee) ts
      in receive_writes st ts sender receiver amount memo pt @
         [put_balance sender', put_log ts (NewBalanceTransferLog sender' receiver (- amount) (Some fee) memo)] @
         fee_writes st ts (bal_id sender) fee)"

definition proxy :: "string \<Rightarrow> balance" where
  "proxy ident = \<lparr>bal_id = ident, bal_amount = 0, bal_created = None, bal_updated = None, bal_last_pruned = []\<rparr>"

definition transfer_pending_writes ::
  "stub \<Rightarrow> time \<Rightarrow> pending_balance \<Rightarrow> balance \<Rightarrow> time option \<Rightarrow> state_op list" where
  "transfer_pending_writes st ts pb receiver pt =
     receive_writes st ts (proxy (pb_account pb)) receiver (pb_amount pb) (pb_memo pb) pt @
     fee_writes st ts (pb_account pb) (fee_or_zero (pb_fee pb)) @ [Del (PendingKey (pb_id pb))]"

definition deposit_pending ::
  "time \<Rightarrow> string \<Rightarrow> string \<Rightarrow> string \<Rightarrow> amount \<Rightarrow> amount option \<Rightarrow> string \<Rightarrow> time \<Rightarrow> pending_balance" where
  "deposit_pending ts pid owner cid amount fee memo expiry =
     (NewPendingBalance pid owner (IdContract cid) amount fee memo (Some expiry))\<lparr>pb_created := Some ts\<rparr>"

definition deposit_writes :: "time \<Rightarrow> balance \<Rightarrow> pending_balance \<Rightarrow> state_op list" where
  "deposit_writes ts sender pb =
     (let sender' = with_amount sender (bal_amount sender - (pb_amount pb + fee_or_zero (pb_fee pb))) ts
      in [put_pending pb, put_balance sender', put_log ts (NewBalanceDepositLog sender' pb)])"

definition withdraw_writes :: "time \<Rightarrow> balance \<Rightarrow> pending_balance \<Rightarrow> state_op list" where
  "withdraw_writes ts bal pb =
     (let bal' = with_amount bal (bal_amount bal + (pb_amount pb + fee_or_zero (pb_fee pb))) ts
      in [put_balance bal', put_log ts (NewBalanceWithdrawLog bal' pb), Del (PendingKey (pb_id pb))])"

lemmas write_forms = put_balance_def put_log_def put_pending_def

lemma Supply_run:
  assumes "Supply st bal amount = Inr (l, bal', ws)"
  shows "\<exists>ts. GetTime st = Inr ts \<and> bal' = with_amount bal (bal_amount bal + amount) ts \<and>
    l = (NewBalanceSupplyLog bal' amount)\<lparr>blog_created := Some ts\<rparr> \<and> ws = supply_writes ts bal amount"
  using assms
  by (auto simp: Supply_def run supply_writes_def write_forms with_amount_def Let_def)

lemma receive_run:
  "receive st ts sender receiver amount memo pt = Inr ws \<Longrightarrow> ws = receive_writes st ts sender receiver amount memo pt"
  by (auto simp: receive_def run receive_writes_def write_forms with_amount_def Let_def split: if_splits)

lemma Transfer_run:
  assumes "Transfer st sender receiver amount fee memo pt = Inr (l, ws)"
  shows "\<exists>ts. GetTime st = Inr ts \<and> ws = transfer_writes st ts sender receiver amount fee memo pt \<and>
    l = (NewBalanceTransferLog (with_amount sender (bal_amount sender - amount - fee) ts) receiver (- amount)
             (Some fee) memo)\<lparr>blog_created := Some ts\<rparr>"
  using assms
  by (auto simp: Transfer_def run transfer_writes_def write_forms with_amount_def Let_def
      dest!: CreateFee_run receive_run)

lemma TransferPendingBalance_run:
  assumes "TransferPendingBalance st pb receiver pt = Inr ws"
  shows "\<exists>ts. GetTime st = Inr ts \<and> ws = transfer_pending_writes st ts pb receiver pt"
  using assms
  by (auto simp: TransferPendingBalance_def run transfer_pending_writes_def proxy_def fee_or_zero_def
      Let_def dest!: CreateFee_run receive_run split: option.splits)

lemma Deposit_run:
  assumes "Deposit st pid sender con amount fee memo = Inr (l, ws)"
  shows "\<exists>ts expiry cid pb. GetTime st = Inr ts \<and> Contract_GetExpiryTime con = Inr expiry \<and>
    Contract_GetID con = Inr cid \<and> pb = deposit_pending ts pid (bal_id sender) cid amount fee memo expiry \<and>
    ws = deposit_writes ts sender pb"
  using assms
  by (auto simp: Deposit_def run deposit_pending_def deposit_writes_def write_forms with_amount_def
      fee_or_zero_def NewPendingBalance_def Let_def split: option.splits)

lemma Withdraw_run:
  assumes "Withdraw st pb = Inr (l, ws)"
  shows "\<exists>ts bal. GetTime st = Inr ts \<and> GetBalance st (pb_account pb) = Inr bal \<and> ws = withdraw_writes ts bal pb"
  using assms
  by (auto simp: Withdraw_def run withdraw_writes_def write_forms with_amount_def fee_or_zero_def Let_def
      split: option.splits)

end
