(* ===== verification/AccountStub.thy ===== *)
theory AccountStub
  imports BalanceMoves
begin

text \<open>
  \<open>account_stub.go\<close>: reading accounts by address, creating personal and joint accounts, suspending,
  and changing the holders of a joint account. The token code an \<open>AccountStub\<close> is made with is the
  argument \<open>code\<close> of the operations that use it.

  An address carries the type of its account, so the getter decodes into the struct the address
  names. Go visits the holders of a set in an unspecified order; the model visits them in the order
  of the list that represents the set.
\<close>

section \<open>Accounts\<close>

definition AccountsFetchSize :: int where
  "AccountsFetchSize = 20"

definition GetAccountState :: "stub \<Rightarrow> string \<Rightarrow> err + doc" where
  "GetAccountState st addr =
     (attempt (GetState st (AccountKey addr)) (wrap ''failed to get the account state'') (\<lambda>data.
      require data (NotExistedAccountError addr) Inr))"

text \<open>Decoding a personal account's document as a joint account would leave a nil holder set, on
  which the callers panic; decoding a joint account's document as a personal one ignores the holders.\<close>

definition GetAccount :: "stub \<Rightarrow> address \<Rightarrow> err + account_doc" where
  "GetAccount st a =
     (attempt (GetAccountState st (Address_String a)) (\<lambda>e. e) (\<lambda>data.
      if adr_type a = AccountTypePersonal then
        require (as_account data) (Plain ''failed to unmarshal the account'') (\<lambda>d.
        Inr (PersonalAccount (acc_base d)))
      else if adr_type a = AccountTypeJoint then
        require (as_account data) (Plain ''failed to unmarshal the account'') (\<lambda>d.
        case d of JointAccount b hs \<Rightarrow> Inr d | PersonalAccount b \<Rightarrow> Inl GoPanic)
      else Inl (InvalidAccountAddrError [])))"

definition PutAccount :: "stub \<Rightarrow> account_doc \<Rightarrow> err + state_op list" where
  "PutAccount st a =
     attempt (PutState st (AccountKey (Account_GetID a)) (DAccount a)) (wrap ''failed to put the account state'') Inr"

definition PutHolder :: "stub \<Rightarrow> holder \<Rightarrow> err + state_op list" where
  "PutHolder st h =
     attempt (PutState st (HolderKey (hld_id h) (hld_address h)) (DHolder h))
       (wrap ''failed to put the holder state'') Inr"

definition GetQueryHolderAccounts ::
  "stub \<Rightarrow> string \<Rightarrow> string \<Rightarrow> string \<Rightarrow> int \<Rightarrow> err + query_result" where
  "GetQueryHolderAccounts st code kid bookmark fetchSize =
     (let n = page_size AccountsFetchSize fetchSize;
          q = (if length code > 0 then CreateQueryHoldersByIDAndTokenCode kid code
               else CreateQueryHoldersByID kid)
      in run_page st q n bookmark)"

definition GetSignableIDs :: "stub \<Rightarrow> string \<Rightarrow> string \<Rightarrow> err + string list" where
  "GetSignableIDs st code addr =
     (attempt (ParseAddress (shake_of st) addr) (wrap (''failed to parse the account address: '' @ brackets addr)) (\<lambda>a.
      if adr_code a \<noteq> code then Inl (Plain (''mismatched token account: '' @ brackets addr))
      else
        attempt (GetAccount st a) (wrap (''failed to get the account: '' @ brackets addr)) (\<lambda>account.
        case account of
          PersonalAccount pac \<Rightarrow> Inr [Account_Holder pac]
        | JointAccount jac hs \<Rightarrow> Inr (Set_Strings hs))))"

section \<open>Creating\<close>

definition CreateAccount ::
  "stub \<Rightarrow> string \<Rightarrow> string \<Rightarrow> err + account_doc \<times> balance \<times> state_op list" where
  "CreateAccount st code kid =
     (attempt (GetTime st) (wrap ''failed to get the timestamp'') (\<lambda>ts.
      let addr = NewAddress (shake_of st) code AccountTypePersonal kid in
      case GetAccount st addr of
        Inr _ \<Rightarrow> Inl (ExistedAccountError (Address_String addr))
      | Inl e \<Rightarrow>
          if \<not> is_NotExistedAccountError e then Inl (wrap ''failed to get an existed account'' e)
          else let account = PersonalAccount \<lparr>acc_id = Address_String addr, acc_token = code,
                acc_type = AccountTypePersonal, acc_created = Some ts, acc_updated = Some ts,
                acc_suspended = None\<rparr> in
          attempt (PutAccount st account) (wrap ''failed to create an account'') (\<lambda>w1.
          attempt (CreateBalance st (Account_GetID account)) (wrap ''failed to create an account balance'')
            (\<lambda>(balance, w2).
          attempt (PutHolder st ((NewHolder kid account)\<lparr>hld_created := Some ts\<rparr>))
            (wrap ''failed to create the holder'') (\<lambda>w3.
          Inr (account, balance, w1 @ w2 @ w3))))))"

fun put_holders :: "stub \<Rightarrow> time \<Rightarrow> account_doc \<Rightarrow> string list \<Rightarrow> err + state_op list" where
  "put_holders st ts account [] = Inr []"
| "put_holders st ts account (kid # kids) =
     (attempt (PutHolder st ((NewHolder kid account)\<lparr>hld_created := Some ts\<rparr>))
        (wrap ''failed to create the holder'') (\<lambda>w.
      attempt (put_holders st ts account kids) (\<lambda>e. e) (\<lambda>ws. Inr (w @ ws))))"

definition CreateJointAccount ::
  "stub \<Rightarrow> string \<Rightarrow> stringset \<Rightarrow> err + account_doc \<times> balance \<times> state_op list" where
  "CreateJointAccount st code holders =
     (attempt (GetTime st) (wrap ''failed to get the timestamp'') (\<lambda>ts.
      let addr = NewAddress (shake_of st) code AccountTypeJoint (txid st) in
      case GetAccount st addr of
        Inr _ \<Rightarrow> Inl (Plain ''failed to create a random address'')
      | Inl e \<Rightarrow>
          if \<not> is_NotExistedAccountError e then Inl (wrap ''failed to get an existed account'' e)
          else let account = JointAccount \<lparr>acc_id = Address_String addr, acc_token = code,
                acc_type = AccountTypeJoint, acc_created = Some ts, acc_updated = Some ts,
                acc_suspended = None\<rparr> holders in
          attempt (PutAccount st account) (wrap ''failed to create an account'') (\<lambda>w1.
          attempt (CreateBalance st (Account_GetID account)) (wrap ''failed to create an account balance'')
            (\<lambda>(balance, w2).
          attempt (put_holders st ts account (Set_Strings holders)) (\<lambda>e. e) (\<lambda>w3.
          Inr (account, balance, w1 @ w2 @ w3))))))"

section \<open>Suspending\<close>

definition SuspendAccount :: "stub \<Rightarrow> string \<Rightarrow> string \<Rightarrow> err + account_doc \<times> state_op list" where
  "SuspendAccount st code kid =
     (attempt (GetTime st) (wrap ''failed to get the timestamp'') (\<lambda>ts.
      attempt (GetAccount st (NewAddress (shake_of st) code AccountTypePersonal kid))
        (wrap ''failed to get the personal account'') (\<lambda>account.
      let pac = acc_base account in
      if acc_suspended pac \<noteq> None then Inl (Plain ''already suspended'')
      else
        let pac' = PersonalAccount (pac\<lparr>acc_suspended := Some ts, acc_updated := Some ts\<rparr>) in
        attempt (PutAccount st pac') (wrap ''failed to update the account'') (\<lambda>ws.
        Inr (pac', ws)))))"

definition UnsuspendAccount :: "stub \<Rightarrow> string \<Rightarrow> string \<Rightarrow> err + account_doc \<times> state_op list" where
  "UnsuspendAccount st code kid =
     (attempt (GetTime st) (wrap ''failed to get the timestamp'') (\<lambda>ts.
      attempt (GetAccount st (NewAddress (shake_of st) code AccountTypePersonal kid))
        (wrap ''failed to get the personal account'') (\<lambda>account.
      let pac = acc_base account in
      if acc_suspended pac = None then Inl (Plain ''not suspended'')
      else
        let pac' = PersonalAccount (pac\<lparr>acc_suspended := None, acc_updated := Some ts\<rparr>) in
        attempt (PutAccount st pac') (wrap ''failed to update the account'') (\<lambda>ws.
        Inr (pac', ws)))))"

section \<open>Holders\<close>

definition AddHolder ::
  "stub \<Rightarrow> account \<Rightarrow> stringset \<Rightarrow> string \<Rightarrow> err + account_doc \<times> state_op list" where
  "AddHolder st jac holders kid =
     (if HasHolder (JointAccount jac holders) kid then Inl (Plain ''already existed holder'')
      else
        attempt (GetTime st) (wrap ''failed to get the timestamp'') (\<lambda>ts.
        let account = JointAccount (jac\<lparr>acc_updated := Some ts\<rparr>) (Set_Add holders kid) in
        attempt (PutAccount st account) (wrap ''failed to update the account'') (\<lambda>w1.
        attempt (PutHolder st ((NewHolder kid account)\<lparr>hld_created := Some ts\<rparr>))
          (wrap ''failed to create the relationship'') (\<lambda>w2.
        Inr (account, w1 @ w2)))))"

definition RemoveHolder ::
  "stub \<Rightarrow> account \<Rightarrow> stringset \<Rightarrow> string \<Rightarrow> err + account_doc \<times> state_op list" where
  "RemoveHolder st jac holders kid =
     (if \<not> HasHolder (JointAccount jac holders) kid then Inl (Plain ''not existed holder'')
      else
        attempt (GetTime st) (wrap ''failed to get the timestamp'') (\<lambda>ts.
        let account = JointAccount (jac\<lparr>acc_updated := Some ts\<rparr>) (Set_Remove holders kid) in
        attempt (PutAccount st account) (wrap ''failed to update the account'') (\<lambda>w1.
        attempt (DelState st (HolderKey kid (Account_GetID account)))
          (wrap ''failed to delete the relationship'') (\<lambda>w2.
        Inr (account, w1 @ w2)))))"

section \<open>Runs\<close>

lemma GetAccountState_run [run]:
  "GetAccountState st addr = Inr d \<longleftrightarrow>
     get_fault st (AccountKey addr) = None \<and> world st (AccountKey addr) = Some d"
  by (auto simp: GetAccountState_def run)

lemma GetAccountState_missing:
  "GetAccountState st addr = Inl (NotExistedAccountError b) \<longleftrightarrow>
     b = addr \<and> get_fault st (AccountKey addr) = None \<and> world st (AccountKey addr) = None"
  by (cases "get_fault st (AccountKey addr)"; cases "world st (AccountKey addr)")
    (auto simp: GetAccountState_def GetState_def wrap_def)

lemma PutAccount_run [run]:
  "PutAccount st a = Inr ws \<longleftrightarrow>
     put_fault st (AccountKey (Account_GetID a)) = None \<and> ws = [Put (AccountKey (Account_GetID a)) (DAccount a)]"
  by (auto simp: PutAccount_def run)

lemma PutHolder_run [run]:
  "PutHolder st h = Inr ws \<longleftrightarrow>
     put_fault st (HolderKey (hld_id h) (hld_address h)) = None \<and>
     ws = [Put (HolderKey (hld_id h) (hld_address h)) (DHolder h)]"
  by (auto simp: PutHolder_def run)

interpretation account_writer: doc_writer "\<lambda>a. AccountKey (Account_GetID a)" DAccount PutAccount
  by unfold_locales (simp_all add: run)

interpretation holder_writer: doc_writer "\<lambda>h. HolderKey (hld_id h) (hld_address h)" DHolder PutHolder
  by unfold_locales (simp_all add: run)

lemma GetAccount_missing:
  "GetAccount st a = Inl (NotExistedAccountError b) \<longleftrightarrow>
     b = Address_String a \<and> get_fault st (AccountKey (Address_String a)) = None \<and>
     world st (AccountKey (Address_String a)) = None"
proof (cases "GetAccountState st (Address_String a)")
  case (Inl e)
  then show ?thesis
    by (simp add: GetAccount_def GetAccountState_missing [symmetric])
next
  case (Inr d)
  then have "world st (AccountKey (Address_String a)) = Some d"
    by (simp add: run)
  then show ?thesis
    using Inr by (auto simp: GetAccount_def require_def split: option.splits account_doc.splits)
qed

lemma joint_run: "(case d of PersonalAccount b \<Rightarrow> Inl GoPanic | JointAccount b hs \<Rightarrow> Inr d) = Inr y \<longleftrightarrow>
    y = d \<and> (\<exists>b hs. d = JointAccount b hs)"
  by (cases d) auto

lemma account_types [simp]: "AccountTypePersonal \<noteq> AccountTypeJoint" "AccountTypeJoint \<noteq> AccountTypePersonal"
  by (simp_all add: AccountTypePersonal_def AccountTypeJoint_def)

lemma GetAccount_run:
  assumes "GetAccount st a = Inr d"
  shows "\<exists>d0. world st (AccountKey (Address_String a)) = Some (DAccount d0) \<and> acc_base d = acc_base d0 \<and>
    (adr_type a = AccountTypeJoint \<longrightarrow> d = d0) \<and>
    (adr_type a = AccountTypePersonal \<longrightarrow> d = PersonalAccount (acc_base d0))"
  using assms
  by (auto simp: GetAccount_def run joint_run split: if_splits)

lemma GetAccount_type:
  assumes "GetAccount st a = Inr d"
  shows "(adr_type a = AccountTypePersonal \<and> (\<exists>b. d = PersonalAccount b)) \<or>
    (adr_type a = AccountTypeJoint \<and> (\<exists>b hs. d = JointAccount b hs))"
  using assms by (auto simp: GetAccount_def run joint_run split: if_splits)

lemma GetAccount_personal:
  "GetAccount st (NewAddress shake code AccountTypePersonal kid) = Inr d \<Longrightarrow> d = PersonalAccount (acc_base d)"
  using GetAccount_type [of st "NewAddress shake code AccountTypePersonal kid" d] by auto

text \<open>The holder of the personal account of a kiesnet ID is that ID.\<close>

lemma Account_Holder_NewAddress:
  assumes "shake_ok sh" "matches_code code" "kid = hex_encode hex_lower bs" "length bs = 20"
    "acc_id a = Address_String (NewAddress sh code AccountTypePersonal kid)"
  shows "Account_Holder a = kid"
proof -
  let ?adr = "NewAddress sh code AccountTypePersonal kid"
  have wf: "wf_address sh ?adr"
    using assms(1,2) by (simp add: wf_NewAddress)
  then have h: "length (adr_hash ?adr) = 24" and t: "take 20 (adr_hash ?adr) = bs"
    using assms by (simp_all add: wf_address_def take_hash_NewAddress id_bytes_def)
  have split: "adr_hash ?adr = bs @ drop 20 (adr_hash ?adr)"
    using append_take_drop_id [of 20 "adr_hash ?adr"] t by simp
  have "acc_id a = (code @ hex_byte hex_upper AccountTypePersonal) @ hex_encode hex_upper bs @
      hex_encode hex_upper (drop 20 (adr_hash ?adr))" (is "_ = ?p @ ?h @ ?c")
    using assms(5) split hex_encode_append [of hex_upper bs "drop 20 (adr_hash ?adr)"]
    by (simp add: Address_String_def)
  moreover have "length ?h = 40" "length ?c = 8"
    using assms(4) h by simp_all
  ultimately have "take 40 (drop (length (acc_id a) - 48) (acc_id a)) = ?h"
    by simp
  then show ?thesis
    by (simp add: Account_Holder_def Let_def ToLower_hex assms(3))
qed

section \<open>Closed forms\<close>

definition account_of :: "time \<Rightarrow> string \<Rightarrow> string \<Rightarrow> byte \<Rightarrow> account" where
  "account_of ts addr code type =
     \<lparr>acc_id = addr, acc_token = code, acc_type = type, acc_created = Some ts, acc_updated = Some ts,
      acc_suspended = None\<rparr>"

definition empty_balance :: "time \<Rightarrow> string \<Rightarrow> balance" where
  "empty_balance ts ident =
     \<lparr>bal_id = ident, bal_amount = 0, bal_created = Some ts, bal_updated = Some ts, bal_last_pruned = []\<rparr>"

definition put_account :: "account_doc \<Rightarrow> state_op" where
  "put_account a = Put (AccountKey (Account_GetID a)) (DAccount a)"

definition put_holder :: "time \<Rightarrow> account_doc \<Rightarrow> string \<Rightarrow> state_op" where
  "put_holder ts a kid = Put (HolderKey kid (Account_GetID a)) (DHolder ((NewHolder kid a)\<lparr>hld_created := Some ts\<rparr>))"

definition create_writes :: "time \<Rightarrow> account_doc \<Rightarrow> string list \<Rightarrow> state_op list" where
  "create_writes ts a kids =
     [put_account a, put_balance (empty_balance ts (Account_GetID a))] @ map (put_holder ts a) kids"

lemma NewHolder_sel [simp]: "hld_id (NewHolder kid a) = kid" "hld_address (NewHolder kid a) = Account_GetID a"
  by (simp_all add: NewHolder_def)

lemma put_holders_run: "put_holders st ts a kids = Inr ws \<Longrightarrow> ws = map (put_holder ts a) kids"
  by (induction kids arbitrary: ws) (auto simp: run put_holder_def)

lemma CreateBalance_run:
  "CreateBalance st ident = Inr (b, ws) \<Longrightarrow> GetTime st = Inr ts \<Longrightarrow>
     b = empty_balance ts ident \<and> ws = [put_balance b]"
  by (auto simp: CreateBalance_def run empty_balance_def put_balance_def)

lemma CreateAccount_run:
  assumes "CreateAccount st code kid = Inr (a, b, ws)"
  defines "addr \<equiv> Address_String (NewAddress (shake_of st) code AccountTypePersonal kid)"
  shows "\<exists>ts. GetTime st = Inr ts \<and> world st (AccountKey addr) = None \<and>
    a = PersonalAccount (account_of ts addr code AccountTypePersonal) \<and> b = empty_balance ts addr \<and>
    ws = create_writes ts a [kid]"
proof -
  obtain ts e where ts: "GetTime st = Inr ts"
    and n: "GetAccount st (NewAddress (shake_of st) code AccountTypePersonal kid) = Inl e"
    and "is_NotExistedAccountError e"
    using assms(1) by (auto simp: CreateAccount_def run Let_def)
  have "world st (AccountKey addr) = None"
    using n \<open>is_NotExistedAccountError e\<close> by (auto simp: error_types GetAccount_missing addr_def)
  then show ?thesis
    using assms(1) ts n \<open>is_NotExistedAccountError e\<close>
    by (auto simp: CreateAccount_def run create_writes_def put_account_def put_holder_def account_of_def
        addr_def Let_def Account_GetID_def dest!: CreateBalance_run)
qed

lemma CreateJointAccount_run:
  assumes "CreateJointAccount st code holders = Inr (a, b, ws)"
  defines "addr \<equiv> Address_String (NewAddress (shake_of st) code AccountTypeJoint (txid st))"
  shows "\<exists>ts. GetTime st = Inr ts \<and> world st (AccountKey addr) = None \<and>
    a = JointAccount (account_of ts addr code AccountTypeJoint) holders \<and> b = empty_balance ts addr \<and>
    ws = create_writes ts a holders"
proof -
  obtain ts e where ts: "GetTime st = Inr ts"
    and n: "GetAccount st (NewAddress (shake_of st) code AccountTypeJoint (txid st)) = Inl e"
    and "is_NotExistedAccountError e"
    using assms(1) by (auto simp: CreateJointAccount_def run Let_def)
  have "world st (AccountKey addr) = None"
    using n \<open>is_NotExistedAccountError e\<close> by (auto simp: error_types GetAccount_missing addr_def)
  then show ?thesis
    using assms(1) ts n \<open>is_NotExistedAccountError e\<close>
    by (auto simp: CreateJointAccount_def run create_writes_def put_account_def account_of_def Set_Strings_def
        addr_def Let_def Account_GetID_def dest!: CreateBalance_run put_holders_run)
qed

lemma SuspendAccount_run:
  assumes "SuspendAccount st code kid = Inr (a, ws)"
  shows "\<exists>ts pac. GetTime st = Inr ts \<and>
    GetAccount st (NewAddress (shake_of st) code AccountTypePersonal kid) = Inr (PersonalAccount pac) \<and>
    acc_suspended pac = None \<and> a = PersonalAccount (pac\<lparr>acc_suspended := Some ts, acc_updated := Some ts\<rparr>) \<and>
    ws = [put_account a]"
proof -
  obtain ts d where d: "GetAccount st (NewAddress (shake_of st) code AccountTypePersonal kid) = Inr d"
    and ts: "GetTime st = Inr ts"
    using assms by (auto simp: SuspendAccount_def run)
  obtain pac where "d = PersonalAccount pac"
    using GetAccount_personal [OF d] by blast
  then show ?thesis
    using assms d ts by (auto simp: SuspendAccount_def run put_account_def)
qed

lemma UnsuspendAccount_run:
  assumes "UnsuspendAccount st code kid = Inr (a, ws)"
  shows "\<exists>ts pac. GetTime st = Inr ts \<and>
    GetAccount st (NewAddress (shake_of st) code AccountTypePersonal kid) = Inr (PersonalAccount pac) \<and>
    acc_suspended pac \<noteq> None \<and> a = PersonalAccount (pac\<lparr>acc_suspended := None, acc_updated := Some ts\<rparr>) \<and>
    ws = [put_account a]"
proof -
  obtain ts d where d: "GetAccount st (NewAddress (shake_of st) code AccountTypePersonal kid) = Inr d"
    and ts: "GetTime st = Inr ts"
    using assms by (auto simp: UnsuspendAccount_def run)
  obtain pac where "d = PersonalAccount pac"
    using GetAccount_personal [OF d] by blast
  then show ?thesis
    using assms d ts by (auto simp: UnsuspendAccount_def run put_account_def)
qed

lemma AddHolder_run:
  assumes "AddHolder st jac hs kid = Inr (a, ws)"
  shows "\<exists>ts. GetTime st = Inr ts \<and> kid \<notin> set hs \<and>
    a = JointAccount (jac\<lparr>acc_updated := Some ts\<rparr>) (Set_Add hs kid) \<and>
    ws = [put_account a, put_holder ts a kid]"
  using assms by (auto simp: AddHolder_def run put_account_def put_holder_def Set_Contains_def)

lemma RemoveHolder_run:
  assumes "RemoveHolder st jac hs kid = Inr (a, ws)"
  shows "\<exists>ts. GetTime st = Inr ts \<and> kid \<in> set hs \<and>
    a = JointAccount (jac\<lparr>acc_updated := Some ts\<rparr>) (Set_Remove hs kid) \<and>
    ws = [put_account a, Del (HolderKey kid (acc_id jac))]"
  using assms by (auto simp: RemoveHolder_def run put_account_def Set_Contains_def Account_GetID_def)

end
