(* ===== verification/TokenStub.thy ===== *)
theory TokenStub
  imports AccountStub
begin

text \<open>
  The operations of \<open>token_stub.go\<close> on top of accounts and balances: issuing a token, burning and
  minting. The run lemmas say what each one returns and writes; a mint is cut so that the supply
  never passes the maximum, a burn is cut at the balance of the genesis account.
\<close>

section \<open>Issuing\<close>

text \<open>The target of the fees: an address that must be an account's, or else the genesis account.\<close>

definition set_target :: "stub \<Rightarrow> account_doc \<Rightarrow> fee_policy option \<Rightarrow> err + fee_policy option" where
  "set_target st account feePolicy =
     (case feePolicy of
        None \<Rightarrow> Inr None
      | Some p \<Rightarrow>
          if length (fp_target p) > 0
          then attempt (GetAccountState st (fp_target p)) (\<lambda>e. e) (\<lambda>_. Inr (Some p))
          else Inr (Some (p\<lparr>fp_target := Account_GetID account\<rparr>)))"

definition initial_mint :: "stub \<Rightarrow> balance \<Rightarrow> amount \<Rightarrow> err + state_op list" where
  "initial_mint st balance supply =
     (if Amount_Sign supply > 0
      then attempt (Supply st balance supply) (wrap ''failed to mint initial supply'') (\<lambda>(l, b, ws). Inr ws)
      else Inr [])"

definition CreateToken ::
  "stub \<Rightarrow> string \<Rightarrow> int \<Rightarrow> amount \<Rightarrow> amount \<Rightarrow> fee_policy option \<Rightarrow> stringset \<Rightarrow> err + token \<times> state_op list" where
  "CreateToken st code decimal maxSupply supply feePolicy holders =
     (attempt (CreateJointAccount st code holders) (wrap ''failed to create the genesis account'')
        (\<lambda>(account, balance, w1).
      attempt (set_target st account feePolicy) (\<lambda>e. e) (\<lambda>policy.
      attempt (initial_mint st balance supply) (\<lambda>e. e) (\<lambda>w2.
      attempt (GetTime st) (wrap ''failed to get the timestamp'') (\<lambda>ts.
      let token = \<lparr>tok_code = code, tok_decimal = decimal, tok_max_supply = maxSupply, tok_supply = supply,
                   tok_last_pruned_fee = [], tok_genesis = Account_GetID account, tok_policy = policy,
                   tok_created = Some ts, tok_updated = Some ts\<rparr> in
      attempt (PutToken st token) (wrap ''failed to create the token'') (\<lambda>w3.
      Inr (token, w1 @ w2 @ w3)))))))"

section \<open>Burning and minting\<close>

definition Burn ::
  "stub \<Rightarrow> token \<Rightarrow> balance \<Rightarrow> amount \<Rightarrow> err + token \<times> balance_log option \<times> state_op list" where
  "Burn st token bal amount0 =
     (attempt (GetTime st) (wrap ''failed to get the timestamp'') (\<lambda>ts.
      if Amount_Sign (tok_supply token) = 0 then Inl (SupplyError ''no supply'')
      else
        let amount = (if Amount_Cmp (bal_amount bal) amount0 < 0 then Amount_Copy (bal_amount bal) else amount0) in
        if Amount_Sign amount \<le> 0 then Inr (token, None, [])
        else
          let amount' = Amount_Neg amount in
          attempt (Supply st bal amount') (wrap ''failed to burn'') (\<lambda>(l, bal', w1).
          let token' = token\<lparr>tok_supply := Amount_Add (tok_supply token) amount', tok_updated := Some ts\<rparr> in
          attempt (PutToken st token') (wrap ''failed to update the token'') (\<lambda>w2.
          Inr (token', Some l, w1 @ w2)))))"

definition Mint ::
  "stub \<Rightarrow> token \<Rightarrow> balance \<Rightarrow> amount \<Rightarrow> err + token \<times> balance_log option \<times> state_op list" where
  "Mint st token bal amount0 =
     (attempt (GetTime st) (wrap ''failed to get the timestamp'') (\<lambda>ts.
      if Amount_Cmp (tok_supply token) (tok_max_supply token) \<ge> 0 then Inl (SupplyError ''max supplied'')
      else
        let supply1 = Amount_Add (tok_supply token) amount0;
            over = Amount_Cmp (tok_max_supply token) supply1 < 0;
            amount = (if over then Amount_Add (Amount_Add amount0 (tok_max_supply token)) (Amount_Neg supply1)
                      else amount0);
            supply2 = (if over then tok_max_supply token else supply1);
            token' = token\<lparr>tok_supply := supply2, tok_updated := Some ts\<rparr> in
        attempt (PutToken st token') (wrap ''failed to update the token'') (\<lambda>w1.
        attempt (Supply st bal amount) (wrap ''failed to mint'') (\<lambda>(l, bal', w2).
        Inr (token', Some l, w1 @ w2)))))"

section \<open>Runs\<close>

definition put_token :: "token \<Rightarrow> state_op" where
  "put_token t = Put (TokenKey (tok_code t)) (DToken t)"

definition with_supply :: "token \<Rightarrow> amount \<Rightarrow> time \<Rightarrow> token" where
  "with_supply t n ts = t\<lparr>tok_supply := n, tok_updated := Some ts\<rparr>"

lemma with_supply_sel [simp]:
  "tok_code (with_supply t n ts) = tok_code t" "tok_supply (with_supply t n ts) = n"
  "tok_max_supply (with_supply t n ts) = tok_max_supply t" "tok_genesis (with_supply t n ts) = tok_genesis t"
  "tok_policy (with_supply t n ts) = tok_policy t"
  by (simp_all add: with_supply_def)

definition burnt :: "balance \<Rightarrow> amount \<Rightarrow> amount" where
  "burnt bal amount = min (bal_amount bal) amount"

definition minted :: "token \<Rightarrow> amount \<Rightarrow> amount" where
  "minted t amount = min (tok_max_supply t - tok_supply t) amount"

lemma Burn_run:
  assumes "Burn st t bal amount = Inr (t', l, ws)"
  shows "\<exists>ts. GetTime st = Inr ts \<and> tok_supply t \<noteq> 0 \<and>
    (if burnt bal amount \<le> 0 then t' = t \<and> l = None \<and> ws = []
     else t' = with_supply t (tok_supply t - burnt bal amount) ts \<and> l \<noteq> None \<and>
          ws = supply_writes ts bal (- burnt bal amount) @ [put_token t'])"
proof -
  obtain ts where ts: "GetTime st = Inr ts" and s: "tok_supply t \<noteq> 0"
    using assms by (auto simp: Burn_def run)
  have cut: "(if bal_amount bal < amount then Amount_Copy (bal_amount bal) else amount) = burnt bal amount"
    by (simp add: burnt_def)
  show ?thesis
  proof (cases "burnt bal amount \<le> 0")
    case True
    then show ?thesis
      using assms ts s by (simp add: Burn_def cut)
  next
    case False
    then obtain l0 bal' w1 where "Supply st bal (- burnt bal amount) = Inr (l0, bal', w1)"
      and "t' = with_supply t (tok_supply t - burnt bal amount) ts" "l = Some l0" "ws = w1 @ [put_token t']"
      using assms ts s by (auto simp: Burn_def cut run with_supply_def put_token_def)
    then show ?thesis
      using False ts s Supply_run [of st bal "- burnt bal amount" l0 bal' w1] by auto
  qed
qed

lemma Mint_run:
  assumes "Mint st t bal amount = Inr (t', l, ws)"
  shows "\<exists>ts. GetTime st = Inr ts \<and> tok_supply t < tok_max_supply t \<and> l \<noteq> None \<and>
    t' = with_supply t (tok_supply t + minted t amount) ts \<and>
    ws = put_token t' # supply_writes ts bal (minted t amount)"
proof -
  obtain ts where ts: "GetTime st = Inr ts" and s: "tok_supply t < tok_max_supply t"
    using assms by (auto simp: Mint_def run)
  have cut: "(if tok_max_supply t < tok_supply t + amount
              then Amount_Add (Amount_Add amount (tok_max_supply t)) (Amount_Neg (tok_supply t + amount))
              else amount) = minted t amount"
    "(if tok_max_supply t < tok_supply t + amount then tok_max_supply t else tok_supply t + amount) =
       tok_supply t + minted t amount"
    by (simp_all add: minted_def min_def)
  obtain l0 bal' w2 where "Supply st bal (minted t amount) = Inr (l0, bal', w2)"
    and "t' = with_supply t (tok_supply t + minted t amount) ts" "l = Some l0" "ws = put_token t' # w2"
    using assms ts s
    by (auto simp: Mint_def cut run with_supply_def put_token_def Let_def)
  then show ?thesis
    using ts s Supply_run [of st bal "minted t amount" l0 bal' w2] by auto
qed

definition issued_policy :: "string \<Rightarrow> fee_policy option \<Rightarrow> fee_policy option" where
  "issued_policy genesis p =
     map_option (\<lambda>p. if fp_target p = [] then p\<lparr>fp_target := genesis\<rparr> else p) p"

definition new_token ::
  "time \<Rightarrow> string \<Rightarrow> int \<Rightarrow> amount \<Rightarrow> amount \<Rightarrow> string \<Rightarrow> fee_policy option \<Rightarrow> token" where
  "new_token ts code decimal maxSupply supply genesis policy =
     \<lparr>tok_code = code, tok_decimal = decimal, tok_max_supply = maxSupply, tok_supply = supply,
      tok_last_pruned_fee = [], tok_genesis = genesis, tok_policy = issued_policy genesis policy,
      tok_created = Some ts, tok_updated = Some ts\<rparr>"

lemma set_target_run:
  "set_target st a policy = Inr q \<Longrightarrow> q = issued_policy (Account_GetID a) policy \<and>
    (\<forall>p. policy = Some p \<longrightarrow> fp_target p \<noteq> [] \<longrightarrow> world st (AccountKey (fp_target p)) \<noteq> None)"
  by (auto simp: set_target_def issued_policy_def run split: option.splits if_splits)

lemma initial_mint_run:
  "initial_mint st b supply = Inr ws \<Longrightarrow> GetTime st = Inr ts \<Longrightarrow>
     ws = (if supply > 0 then supply_writes ts b supply else [])"
  by (auto simp: initial_mint_def run dest!: Supply_run split: if_splits)

lemma CreateToken_run:
  assumes "CreateToken st code decimal maxSupply supply policy holders = Inr (t, ws)"
  defines "addr \<equiv> Address_String (NewAddress (shake_of st) code AccountTypeJoint (txid st))"
  shows "\<exists>ts a. GetTime st = Inr ts \<and> world st (AccountKey addr) = None \<and>
    a = JointAccount (account_of ts addr code AccountTypeJoint) holders \<and>
    t = new_token ts code decimal maxSupply supply addr policy \<and>
    (\<forall>p. policy = Some p \<longrightarrow> fp_target p \<noteq> [] \<longrightarrow> world st (AccountKey (fp_target p)) \<noteq> None) \<and>
    ws = create_writes ts a holders @
      (if supply > 0 then supply_writes ts (empty_balance ts addr) supply else []) @ [put_token t]"
proof -
  obtain a b w1 q w2 ts' where acc: "CreateJointAccount st code holders = Inr (a, b, w1)"
    and q: "set_target st a policy = Inr q" and w2: "initial_mint st b supply = Inr w2"
    and ts': "GetTime st = Inr ts'" and ws: "ws = w1 @ w2 @ [put_token t]"
    and t: "t = \<lparr>tok_code = code, tok_decimal = decimal, tok_max_supply = maxSupply, tok_supply = supply,
                   tok_last_pruned_fee = [], tok_genesis = Account_GetID a, tok_policy = q,
                   tok_created = Some ts', tok_updated = Some ts'\<rparr>"
    using assms(1) by (auto simp: CreateToken_def run put_token_def)
  obtain ts where ts: "GetTime st = Inr ts" "world st (AccountKey addr) = None"
    and a: "a = JointAccount (account_of ts addr code AccountTypeJoint) holders"
    and b: "b = empty_balance ts addr" and w1: "w1 = create_writes ts a holders"
    using CreateJointAccount_run [OF acc] unfolding addr_def by blast
  have aid: "Account_GetID a = addr"
    by (simp add: a Account_GetID_def account_of_def)
  have "t = new_token ts code decimal maxSupply supply addr policy"
    using t ts ts' aid set_target_run [OF q] by (simp add: new_token_def)
  then show ?thesis
    using ts a w1 ws set_target_run [OF q] initial_mint_run [OF w2 ts(1)] b by auto
qed

end
