(* ===== verification/PayStub.thy ===== *)
theory PayStub
  imports AccountStub
begin

text \<open>
  \<open>pay_stub.go\<close>: pay documents, paying, refunding, the sum of the pays to prune and the execution of
  a multi-signature pay. As in \<open>FeeStub\<close> the loop over the rows of a query has a closed form, and the
  writes of the operations are stated explicitly.
\<close>

definition PaysPruneSize :: nat where
  "PaysPruneSize = 900"

definition PaysFetchSize :: int where
  "PaysFetchSize = 20"

section \<open>Documents\<close>

definition GetPayState :: "stub \<Rightarrow> string \<Rightarrow> err + doc" where
  "GetPayState st ident =
     (attempt (GetState st (PayKey ident)) (wrap ''failed to get the pay state'') (\<lambda>data.
      require data (NotExistedPayError ident) Inr))"

definition GetPay :: "stub \<Rightarrow> string \<Rightarrow> err + pay" where
  "GetPay st ident =
     (attempt (GetPayState st ident) (\<lambda>e. e) (\<lambda>data.
      require (as_pay data) (Plain ''failed to unmarshal the pay'') Inr))"

definition GetPayByOrderID :: "stub \<Rightarrow> string \<Rightarrow> err + pay" where
  "GetPayByOrderID st orderID =
     (attempt (query st (CreateQueryPayByOrderID orderID)) Plain (\<lambda>rows.
      case rows of
        [] \<Rightarrow> Inl (Plain ''cannot find pay of the order id'')
      | row # _ \<Rightarrow>
          attempt row Plain (\<lambda>kv.
          require (as_pay kv) (Plain ''failed to unmarshal the pay'') Inr)))"

definition PutParentPay :: "stub \<Rightarrow> string \<Rightarrow> pay \<Rightarrow> err + state_op list" where
  "PutParentPay st key p = attempt (PutState st key (DPay p)) (wrap ''failed to put the balance state'') Inr"

definition PutPay :: "stub \<Rightarrow> pay \<Rightarrow> err + state_op list" where
  "PutPay st p =
     attempt (PutState st (PayKey (pay_id p)) (DPay p)) (wrap ''failed to put the balance state'') Inr"

lemma GetPay_run [run]:
  "GetPay st ident = Inr p \<longleftrightarrow>
     get_fault st (PayKey ident) = None \<and> world st (PayKey ident) = Some (DPay p)"
  by (auto simp: GetPay_def GetPayState_def run)

lemma PutPay_run [run]:
  "PutPay st p = Inr ws \<longleftrightarrow> put_fault st (PayKey (pay_id p)) = None \<and> ws = [Put (PayKey (pay_id p)) (DPay p)]"
  by (auto simp: PutPay_def run)

lemma PutParentPay_run [run]:
  "PutParentPay st key p = Inr ws \<longleftrightarrow> put_fault st key = None \<and> ws = [Put key (DPay p)]"
  by (auto simp: PutParentPay_def run)

lemma pay_no_panic: "GetPay st ident \<noteq> Inl GoPanic" "PutPay st p \<noteq> Inl GoPanic"
  by (auto simp: GetPay_def GetPayState_def PutPay_def GetState_def PutState_def attempt_def
      require_def wrap_def split: option.splits sum.splits)

interpretation pay_store: doc_store "\<lambda>p. PayKey (pay_id p)" DPay PutPay pay_id PayKey GetPay "\<lambda>_. True"
  by unfold_locales (simp_all add: run pay_no_panic)

section \<open>Paying and refunding\<close>

definition Pay ::
  "stub \<Rightarrow> balance \<Rightarrow> string \<Rightarrow> amount \<Rightarrow> amount \<Rightarrow> string \<Rightarrow> string \<Rightarrow> err + (pay \<times> balance_log) \<times> state_op list" where
  "Pay st sender receiver amount fee orderID memo =
     (attempt (GetTime st) (wrap ''failed to get the timestamp'') (\<lambda>ts.
      let payid = stamp_id st ts;
          pay = NewPay receiver payid amount fee (bal_id sender) [] orderID memo ts in
      attempt (PutPay st pay) (wrap ''failed to put new pay'') (\<lambda>w1.
      let amount' = Amount_Neg amount;
          sender' = sender\<lparr>bal_amount := Amount_Add (bal_amount sender) amount', bal_updated := Some ts\<rparr> in
      attempt (PutBalance st sender') (wrap ''failed to update sender balance'') (\<lambda>w2.
      let sbl = (NewBalancePayLog sender' pay)\<lparr>blog_created := Some ts\<rparr> in
      attempt (PutBalanceLog st sbl) (wrap ''failed to update sender balance log'') (\<lambda>w3.
      Inr ((pay, sbl), w1 @ w2 @ w3))))))"

definition Refund ::
  "stub \<Rightarrow> balance \<Rightarrow> balance \<Rightarrow> amount \<Rightarrow> amount \<Rightarrow> string \<Rightarrow> pay \<Rightarrow> err + balance_log \<times> state_op list" where
  "Refund st sender receiver amount fee memo parentPay =
     (attempt (GetTime st) (wrap ''failed to get the timestamp'') (\<lambda>ts.
      let payid = stamp_id st ts;
          pay = NewPay (bal_id sender) payid (Amount_Neg (Amount_Copy amount)) (Amount_Neg (Amount_Copy fee))
                  (bal_id receiver) (pay_id parentPay) [] memo ts in
      attempt (PutPay st pay) (wrap ''failed to put new refund'') (\<lambda>w1.
      let parentPay' = parentPay\<lparr>pay_total_refund := Amount_Add (pay_total_refund parentPay) amount\<rparr> in
      attempt (PutParentPay st (PayKey (pay_id parentPay')) parentPay') (wrap ''failed to update parent pay'') (\<lambda>w2.
      let receiver' = receiver\<lparr>bal_amount := Amount_Add (bal_amount receiver) amount, bal_updated := Some ts\<rparr> in
      attempt (PutBalance st receiver') (wrap ''failed to update receiver balance'') (\<lambda>w3.
      let rbl = (NewBalanceRefundLog receiver' pay)\<lparr>blog_created := Some ts\<rparr> in
      attempt (PutBalanceLog st rbl) (wrap ''failed to update receiver's balance log'') (\<lambda>w4.
      Inr (rbl, w1 @ w2 @ w3 @ w4)))))))"

definition PayPendingBalance ::
  "stub \<Rightarrow> pending_balance \<Rightarrow> amount \<Rightarrow> string \<Rightarrow> string \<Rightarrow> string \<Rightarrow> err + state_op list" where
  "PayPendingBalance st pbalance fee merchant memo orderID =
     (attempt (GetTime st) (\<lambda>e. e) (\<lambda>ts.
      let payid = stamp_id st ts;
          pay = NewPay merchant payid (pb_amount pbalance) fee (pb_account pbalance) [] orderID memo ts in
      attempt (PutPay st pay) (wrap ''failed to put new pay'') (\<lambda>w1.
      attempt (DelState st (PendingKey (pb_id pbalance))) (wrap ''failed to delete the pending balance'') (\<lambda>w2.
      Inr (w1 @ w2)))))"

definition put_pay :: "pay \<Rightarrow> state_op" where
  "put_pay p = Put (PayKey (pay_id p)) (DPay p)"

definition pay_writes :: "time \<Rightarrow> balance \<Rightarrow> pay \<Rightarrow> state_op list" where
  "pay_writes ts sender p =
     (let sender' = with_amount sender (bal_amount sender - pay_amount p) ts
      in [put_pay p, put_balance sender', put_log ts (NewBalancePayLog sender' p)])"

definition refund_writes :: "time \<Rightarrow> balance \<Rightarrow> pay \<Rightarrow> pay \<Rightarrow> state_op list" where
  "refund_writes ts receiver p parent =
     (let receiver' = with_amount receiver (bal_amount receiver - pay_amount p) ts
      in [put_pay p, put_pay (parent\<lparr>pay_total_refund := pay_total_refund parent - pay_amount p\<rparr>),
          put_balance receiver', put_log ts (NewBalanceRefundLog receiver' p)])"

lemma NewPay_sel [simp]:
  "pay_amount (NewPay a i n f r p oid m ts) = n" "pay_id (NewPay a i n f r p oid m ts) = i"
  "pay_fee (NewPay a i n f r p oid m ts) = f" "pay_account (NewPay a i n f r p oid m ts) = a"
  "pay_total_refund (NewPay a i n f r p oid m ts) = 0" "pay_rid (NewPay a i n f r p oid m ts) = r"
  "pay_order (NewPay a i n f r p oid m ts) = oid" "pay_memo (NewPay a i n f r p oid m ts) = m"
  by (simp_all add: NewPay_def)

lemma Pay_run:
  assumes "Pay st sender receiver amount fee orderID memo = Inr ((p, l), ws)"
  shows "\<exists>ts. GetTime st = Inr ts \<and>
    p = NewPay receiver (stamp_id st ts) amount fee (bal_id sender) [] orderID memo ts \<and>
    ws = pay_writes ts sender p"
  using assms by (auto simp: Pay_def run pay_writes_def put_pay_def write_forms with_amount_def Let_def)

lemma Refund_run:
  assumes "Refund st sender receiver amount fee memo parent = Inr (l, ws)"
  shows "\<exists>ts p. GetTime st = Inr ts \<and>
    p = NewPay (bal_id sender) (stamp_id st ts) (- amount) (- fee) (bal_id receiver) (pay_id parent) [] memo ts \<and>
    ws = refund_writes ts receiver p parent"
  using assms by (auto simp: Refund_def run refund_writes_def put_pay_def write_forms with_amount_def Let_def)

lemma PayPendingBalance_run:
  assumes "PayPendingBalance st pb fee merchant memo orderID = Inr ws"
  shows "\<exists>ts p. GetTime st = Inr ts \<and>
    p = NewPay merchant (stamp_id st ts) (pb_amount pb) fee (pb_account pb) [] orderID memo ts \<and>
    ws = [put_pay p, Del (PendingKey (pb_id pb))]"
  using assms by (auto simp: PayPendingBalance_def run put_pay_def)

section \<open>The sum to prune\<close>

fun pay_sum_loop :: "(string + doc) list \<Rightarrow> nat \<Rightarrow> amount \<Rightarrow> amount \<Rightarrow> pay_sum \<Rightarrow> err + pay_sum" where
  "pay_sum_loop [] cnt acc fee cs = Inr (cs\<lparr>ps_count := cnt, ps_sum := acc, ps_fee := fee\<rparr>)"
| "pay_sum_loop (row # rows) cnt acc fee cs =
     (let cnt' = cnt + 1 in
      attempt row Plain (\<lambda>kv.
      require (as_pay kv) (Plain ''failed to unmarshal the pay'') (\<lambda>c.
      let cs1 = (if cnt' = 1 then cs\<lparr>ps_start := pay_id c\<rparr> else cs) in
      if cnt' > PaysPruneSize
      then Inr (cs1\<lparr>ps_has_more := True, ps_count := cnt' - 1, ps_sum := acc, ps_fee := fee\<rparr>)
      else pay_sum_loop rows cnt' (Amount_Add acc (pay_amount c)) (Amount_Add fee (pay_fee c))
             (cs1\<lparr>ps_end := pay_id c\<rparr>))))"

definition GetPaySumByTime :: "stub \<Rightarrow> string \<Rightarrow> time \<Rightarrow> time \<Rightarrow> err + pay_sum" where
  "GetPaySumByTime st ident stime etime =
     (attempt (query st (CreateQueryPrunePays ident stime etime)) Plain (\<lambda>rows.
      pay_sum_loop rows 0 ZeroAmount ZeroAmount
        \<lparr>ps_sum = 0, ps_fee = 0, ps_count = 0, ps_start = [], ps_end = [], ps_has_more = False\<rparr>))"

definition GetPaysByTime ::
  "stub \<Rightarrow> string \<Rightarrow> string \<Rightarrow> string \<Rightarrow> time option \<Rightarrow> time option \<Rightarrow> int \<Rightarrow> err + query_result" where
  "GetPaysByTime st ident sortOrder bookmark stime etime fetchSize =
     (let n = page_size PaysFetchSize fetchSize;
          q = (if stime \<noteq> None \<or> etime \<noteq> None then CreateQueryPaysByIDAndTime ident sortOrder stime etime
               else CreateQueryPaysByID ident sortOrder)
      in run_page st q n bookmark)"

lemma pay_sum_loop_closed:
  assumes "cnt \<le> PaysPruneSize" and "0 < cnt"
  shows "pay_sum_loop (map (\<lambda>p. Inr (DPay p)) pays) cnt acc fee cs =
    (let ps = take (PaysPruneSize - cnt) pays in
     Inr (cs\<lparr>ps_count := cnt + length ps, ps_sum := acc + sum_list (map pay_amount ps),
            ps_fee := fee + sum_list (map pay_fee ps), ps_end := last_or (ps_end cs) (map pay_id ps),
            ps_has_more := (ps_has_more cs \<or> length pays > PaysPruneSize - cnt)\<rparr>))"
  using assms
proof (induction pays arbitrary: cnt acc fee cs)
  case Nil
  then show ?case
    by (simp add: last_or_def)
next
  case (Cons p pays)
  show ?case
  proof (cases "cnt = PaysPruneSize")
    case True
    then show ?thesis
      using Cons.prems by (simp add: last_or_def)
  next
    case False
    then obtain k where k: "PaysPruneSize - cnt = Suc k"
      using Cons.prems by (cases "PaysPruneSize - cnt") auto
    then have "PaysPruneSize - Suc cnt = k"
      by simp
    then show ?thesis
      using Cons.IH [of "Suc cnt" "acc + pay_amount p" "fee + pay_fee p" "cs\<lparr>ps_end := pay_id p\<rparr>"] Cons.prems False k
      by (simp add: last_or_def Let_def)
  qed
qed

definition pay_total :: "pay list \<Rightarrow> pay_sum" where
  "pay_total pays =
     (let ps = take PaysPruneSize pays in
      \<lparr>ps_sum = sum_list (map pay_amount ps), ps_fee = sum_list (map pay_fee ps), ps_count = length ps,
       ps_start = (case pays of [] \<Rightarrow> [] | p # _ \<Rightarrow> pay_id p), ps_end = last_or [] (map pay_id ps),
       ps_has_more = (length pays > PaysPruneSize)\<rparr>)"

lemma GetPaySumByTime_rows:
  assumes "query st (CreateQueryPrunePays ident s e) = Inr (map (\<lambda>p. Inr (DPay p)) pays)"
  shows "GetPaySumByTime st ident s e = Inr (pay_total pays)"
proof (cases pays)
  case Nil
  then show ?thesis
    using assms by (simp add: GetPaySumByTime_def pay_total_def last_or_def)
next
  case (Cons p ps)
  obtain k where k: "PaysPruneSize = Suc k"
    by (cases PaysPruneSize) (simp_all add: PaysPruneSize_def)
  then have "PaysPruneSize - Suc 0 = k"
    by simp
  then show ?thesis
    using assms Cons
    by (simp add: k GetPaySumByTime_def pay_total_def pay_sum_loop_closed Let_def last_or_def)
qed

text \<open>A sum that comes back has read pays only, up to one row past the limit.\<close>

lemma pay_sum_loop_read:
  assumes "pay_sum_loop rows cnt acc fee cs = Inr s" and "cnt \<le> PaysPruneSize"
  shows "\<exists>pays. take (Suc PaysPruneSize - cnt) rows = map (\<lambda>p. Inr (DPay p)) pays \<and>
    pay_sum_loop (map (\<lambda>p. Inr (DPay p)) pays) cnt acc fee cs = Inr s"
  using assms
proof (induction rows arbitrary: cnt acc fee cs)
  case (Cons row rows)
  obtain c where row: "row = Inr (DPay c)"
    using Cons.prems(1) by (auto simp: run Let_def)
  show ?case
  proof (cases "cnt = PaysPruneSize")
    case True
    then show ?thesis
      using Cons.prems(1) row by (intro exI [of _ "[c]"]) (simp add: Let_def)
  next
    case False
    then have d: "Suc PaysPruneSize - cnt = Suc (Suc PaysPruneSize - Suc cnt)" and le: "Suc cnt \<le> PaysPruneSize"
      using Cons.prems(2) by auto
    let ?cs = "(if cnt = 0 then cs\<lparr>ps_start := pay_id c\<rparr> else cs)\<lparr>ps_end := pay_id c\<rparr>"
    have "pay_sum_loop rows (Suc cnt) (acc + pay_amount c) (fee + pay_fee c) ?cs = Inr s"
      using Cons.prems(1) row le by (simp add: Let_def)
    then obtain pays where "take (Suc PaysPruneSize - Suc cnt) rows = map (\<lambda>p. Inr (DPay p)) pays"
      "pay_sum_loop (map (\<lambda>p. Inr (DPay p)) pays) (Suc cnt) (acc + pay_amount c) (fee + pay_fee c) ?cs = Inr s"
      using Cons.IH [OF _ le] by blast
    then show ?thesis
      using row le d by (intro exI [of _ "c # pays"]) (simp add: Let_def)
  qed
qed simp

lemma GetPaySumByTime_read:
  assumes "GetPaySumByTime st i a b = Inr s"
  obtains rows pays where "query st (CreateQueryPrunePays i a b) = Inr rows"
    "take (Suc PaysPruneSize) rows = map (\<lambda>p. Inr (DPay p)) pays" "s = pay_total pays"
proof -
  obtain rows where rows: "query st (CreateQueryPrunePays i a b) = Inr rows"
    "pay_sum_loop rows 0 ZeroAmount ZeroAmount
      \<lparr>ps_sum = 0, ps_fee = 0, ps_count = 0, ps_start = [], ps_end = [], ps_has_more = False\<rparr> = Inr s"
    using assms by (auto simp: GetPaySumByTime_def run)
  then obtain pays where pays: "take (Suc PaysPruneSize) rows = map (\<lambda>p. Inr (DPay p)) pays"
    "pay_sum_loop (map (\<lambda>p. Inr (DPay p)) pays) 0 ZeroAmount ZeroAmount
      \<lparr>ps_sum = 0, ps_fee = 0, ps_count = 0, ps_start = [], ps_end = [], ps_has_more = False\<rparr> = Inr s"
    using pay_sum_loop_read [OF rows(2)] by auto
  have "GetPaySumByTime (st\<lparr>query := \<lambda>_. Inr (map (\<lambda>p. Inr (DPay p)) pays)\<rparr>) i a b = Inr s"
    using pays(2) by (simp add: GetPaySumByTime_def)
  then have "pay_total pays = s"
    by (subst (asm) GetPaySumByTime_rows) simp_all
  then show thesis
    using that [OF rows(1) pays(1)] by simp
qed

end
