(* ===== verification/Handlers.thy ===== *)
theory Handlers
  imports TokenStub PayStub
begin

text \<open>
  What the transaction handlers share: cutting a memo, reading numbers and times from the parameters,
  resolving "token code or address", collecting the signers of an address list, and the reading of a
  contract document, whose type assertions panic on a value of another type.

  A handler is a function from the stub and the parameters to a \<open>response\<close>: a failure, or the payload
  with the writes in the order the code makes them.
\<close>

definition cut_memo :: "string \<Rightarrow> string" where
  "cut_memo s = (if length s > MemoMaxLength then take MemoMaxLength s else s)"

definition ParseInt64 :: "string \<Rightarrow> int option" where
  "ParseInt64 s = (case ParseInt s 64 of (n, ok) \<Rightarrow> if ok then Some n else None)"

lemma length_cut_memo: "length (cut_memo s) \<le> MemoMaxLength"
  by (simp add: cut_memo_def)

lemma ParseInt64_range: "ParseInt64 s = Some n \<Longrightarrow> - (2 ^ 63) \<le> n \<and> n < 2 ^ 63"
  using ParseInt_range [of s] by (auto simp: ParseInt64_def split: prod.splits if_splits)

text \<open>\<open>ValidateTokenCode\<close> or else \<open>ParseAddress\<close>: a token code means the invoker's personal account.\<close>

definition resolve_address :: "stub \<Rightarrow> string \<Rightarrow> string \<Rightarrow> err + address" where
  "resolve_address st kid s =
     (case ValidateTokenCode s of
        Inr code \<Rightarrow> Inr (NewAddress (shake_of st) code AccountTypePersonal kid)
      | Inl _ \<Rightarrow> ParseAddress (shake_of st) s)"

lemma resolve_address_wf:
  assumes "resolve_address st kid s = Inr a" "shake_ok (shake_of st)"
  shows "wf_address (shake_of st) a"
  using assms ParseAddress_run(1) [of "shake_of st" s a]
  by (auto simp: resolve_address_def ValidateTokenCode_run intro: wf_NewAddress split: sum.splits)

text \<open>The loop over the distinct addresses of the extra signers or co-holders.\<close>

fun add_signables :: "stub \<Rightarrow> string \<Rightarrow> string list \<Rightarrow> stringset \<Rightarrow> err + stringset" where
  "add_signables st code [] signers = Inr signers"
| "add_signables st code (addr # addrs) signers =
     (attempt (GetSignableIDs st code addr) (\<lambda>e. e) (\<lambda>kids.
      add_signables st code addrs (Set_AppendSlice signers kids)))"

lemma add_signables_mono:
  "add_signables st code addrs s = Inr t \<Longrightarrow> distinct s \<Longrightarrow> distinct t \<and> set s \<subseteq> set t"
proof (induction addrs arbitrary: s)
  case (Cons a as)
  then obtain kids where "add_signables st code as (Set_AppendSlice s kids) = Inr t"
    by (auto simp: run)
  with Cons.IH [OF this] Cons.prems(2) show ?case
    by (auto simp: distinct_Set_AppendSlice)
qed simp

text \<open>\<open>doc[i].(string)\<close> and \<open>doc[i].([]interface{})\<close>.\<close>

definition str_at :: "json list \<Rightarrow> nat \<Rightarrow> failure + string" where
  "str_at doc i =
     (if i < length doc then (case doc ! i of JStr s \<Rightarrow> Inr s | _ \<Rightarrow> Inl Panic) else Inl Panic)"

definition strs_of :: "json \<Rightarrow> failure + string list" where
  "strs_of j =
     (case j of
        JArr js \<Rightarrow>
          (if list_all (\<lambda>x. case x of JStr _ \<Rightarrow> True | _ \<Rightarrow> False) js
           then Inr (map (\<lambda>x. case x of JStr s \<Rightarrow> s | _ \<Rightarrow> []) js)
           else Inl Panic)
      | _ \<Rightarrow> Inl Panic)"

lemma str_at_run [run]: "str_at doc i = Inr s \<longleftrightarrow> i < length doc \<and> doc ! i = JStr s"
  by (cases "doc ! i") (auto simp: str_at_def)

lemma strs_of_JStr [simp]: "strs_of (JArr (map JStr ss)) = Inr ss"
  by (simp add: strs_of_def list_all_iff comp_def)

text \<open>\<open>json.Marshal\<close> of a contract document of strings.\<close>

definition doc_bytes :: "string list \<Rightarrow> string" where
  "doc_bytes ss = json_print (JArr (map JStr ss))"

text \<open>A pending balance is the one of the contract that calls back.\<close>

definition own_pending :: "pending_balance \<Rightarrow> string \<Rightarrow> bool" where
  "own_pending pb cid \<longleftrightarrow> \<not> (pb_type pb \<noteq> PendingBalanceTypeContract \<or> pb_rid pb \<noteq> cid)"

section \<open>Calling the token's meta chaincode and the contract chaincode\<close>

definition invokeKNT :: "stub \<Rightarrow> string \<Rightarrow> string list \<Rightarrow> err + string" where
  "invokeKNT st code params =
     (let ccid0 = ToLower code;
          ccid = (if dev st then ''knt-cc-'' @ ccid0 else ''knt-'' @ ccid0);
          res = invoke st ccid params
      in if cc_status res = 200 then Inr (cc_payload res) else Inl (Plain (cc_message res)))"

definition invokeContract :: "stub \<Rightarrow> json list \<Rightarrow> stringset \<Rightarrow> response" where
  "invokeContract st doc signers =
     (let docb = json_print (JArr doc) in
      attempt (CreateContract st docb 0 signers) (responseError ''failed to create a contract'') (\<lambda>con.
      Success (ContractText (con_payload con)) []))"

lemma invokeContract_run:
  "invokeContract st doc signers = Inr (p, ws) \<Longrightarrow> ws = [] \<and> 2 \<le> Set_Size signers"
  by (auto simp: invokeContract_def run dest: CreateContract_size)

section \<open>Reading the end of a pruned range\<close>

text \<open>\<open>txtime.Unix(s, n)\<close> of the first nineteen digits of a fee or pay identifier; the slices panic
  on a shorter one.\<close>

definition id_time :: "string \<Rightarrow> failure + time" where
  "id_time s =
     (if length s < 10 then Inl Panic
      else require (ParseInt64 (take 10 s)) (Error ''failed to get seconds from timestamp'') (\<lambda>secs.
        if length s < 19 then Inl Panic
        else require (ParseInt64 (take 9 (drop 10 s))) (Error ''failed to get nanoseconds from timestamp'') (\<lambda>n.
          Inr (Unix secs n))))"

definition start_time :: "string \<Rightarrow> failure + time" where
  "start_time last_id = (if 0 < length last_id then id_time last_id else Inr (Unix 0 0))"

text \<open>The end of the range: the given seconds or the transaction time, at most ten minutes before the
  transaction when the flag is set.\<close>

definition clamp_end :: "time \<Rightarrow> time \<Rightarrow> bool \<Rightarrow> time" where
  "clamp_end ts etime safely =
     (let safeTime = ts - 600 * nanos
      in if safely \<and> time_Cmp etime safeTime > 0 then safeTime else etime)"

end
