(* ===== verification/TransferTx.thy ===== *)
theory TransferTx
  imports Handlers
begin

text \<open>
  \<open>transfer_tx.go\<close>: the transfer handler and its two contract callbacks. A transfer with one signer
  moves the amount at once or under a time lock; with more signers it registers a contract and holds
  the amount and the fee in a pending balance, which \<open>executeTransfer\<close> or \<open>cancelTransfer\<close> settles.
\<close>

section \<open>transfer\<close>

text \<open>The optional parameters: memo, pending time, expiry and the signers with the extra ones.\<close>

definition transfer_options ::
  "stub \<Rightarrow> string \<Rightarrow> string list \<Rightarrow> stringset \<Rightarrow> failure + string \<times> time option \<times> int \<times> stringset" where
  "transfer_options st code params signers =
     (if length params > 3 then
        let memo = cut_memo (params ! 3) in
        if length params > 4 then
          require (ParseInt64 (params ! 4)) (Error ''invalid pending time: need seconds since 1970'') (\<lambda>seconds.
          attempt (timestamp st) (\<lambda>_. Error ''failed to get the timestamp'') (\<lambda>(secs, ns).
          let pendingTime = (if secs < seconds then Some (Unix seconds 0) else None) in
          if length params > 5 \<and> length (params ! 5) > 0 then
            require (ParseInt64 (params ! 5)) (Error ''invalid expiry: need seconds'') (\<lambda>expiry.
            if length params > 6 then
              attempt (add_signables st code (Set_New (drop 6 params)) signers) shimError (\<lambda>signers'.
              Inr (memo, pendingTime, expiry, signers'))
            else Inr (memo, pendingTime, expiry, signers))
          else Inr (memo, pendingTime, 0, signers)))
        else Inr (memo, None, 0, signers)
      else Inr ([], None, 0, signers))"

definition transfer_sender :: "stub \<Rightarrow> string \<Rightarrow> address \<Rightarrow> string \<Rightarrow> failure + address" where
  "transfer_sender st kid rAddr s =
     (if length s > 0 then
        attempt (ParseAddress (shake_of st) s) (failWith ''failed to parse the sender's account address'') (\<lambda>sAddr.
        if adr_code rAddr \<noteq> adr_code sAddr then Inl (Error ''different token accounts'') else Inr sAddr)
      else Inr (NewAddress (shake_of st) (adr_code rAddr) AccountTypePersonal kid))"

definition account_signers :: "string \<Rightarrow> account_doc \<Rightarrow> stringset" where
  "account_signers kid sender =
     (case sender of
        JointAccount _ hs \<Rightarrow> Set_AppendSet (Set_New [kid]) hs
      | PersonalAccount _ \<Rightarrow> Set_New [kid])"

definition transfer_move ::
  "stub \<Rightarrow> string list \<Rightarrow> balance \<Rightarrow> balance \<Rightarrow> account_doc \<Rightarrow> account_doc \<Rightarrow> amount \<Rightarrow> amount \<Rightarrow>
   string \<times> time option \<times> int \<times> stringset \<Rightarrow> failure + balance_log \<times> state_op list" where
  "transfer_move st params sBal rBal sender receiver amount fee opts =
     (case opts of (memo, pendingTime, expiry, signers) \<Rightarrow>
      if Set_Size signers > 1 then
        if Set_Size signers > 128 then Inl (Error ''too many signers'')
        else
          let pbID = txid st;
              ptStr = (if pendingTime \<noteq> None then params ! 4 else ''0'');
              docb = doc_bytes [''transfer'', pbID, Account_GetID sender, Account_GetID receiver,
                Amount_String amount, Amount_String fee, memo, ptStr] in
          attempt (CreateContract st docb expiry signers) shimError (\<lambda>con.
          attempt (Deposit st pbID sBal con amount (Some fee) memo)
            (failWith ''failed to create the pending balance'') Inr)
      else attempt (Transfer st sBal rBal amount fee memo pendingTime) (failWith ''failed to transfer'') Inr)"

definition transfer :: "stub \<Rightarrow> string list \<Rightarrow> response" where
  "transfer st params =
     (if length params < 3 then Inl (Error ''incorrect number of parameters. expecting 3+'')
      else
        attempt (kid_GetID st True) shimError (\<lambda>kid.
        attempt (NewAmount (params ! 2)) shimError (\<lambda>amount.
        if Amount_Sign amount \<le> 0 then Inl (Error ''invalid amount. must be greater than 0'')
        else
        attempt (ParseAddress (shake_of st) (params ! 1))
          (failWith ''failed to parse the receiver's account address'') (\<lambda>rAddr.
        attempt (transfer_sender st kid rAddr (params ! 0)) (\<lambda>e. e) (\<lambda>sAddr.
        if Address_Equal sAddr rAddr then Inl (Error ''can't transfer to self'')
        else
        attempt (GetAccount st sAddr) (failWith ''failed to get the sender account'') (\<lambda>sender.
        if \<not> HasHolder sender kid then Inl (Error ''invoker is not holder'')
        else if IsSuspended sender then Inl (Error ''the sender account is suspended'')
        else
        attempt (GetAccount st rAddr) (failWith ''failed to get the receiver account'') (\<lambda>receiver.
        if IsSuspended receiver then Inl (Error ''the receiver account is suspended'')
        else
        attempt (GetBalance st (Account_GetID sender)) (failWith ''failed to get the sender's balance'') (\<lambda>sBal.
        attempt (CalcFee st sAddr ''transfer'' amount) (failWith ''failed to get the fee amount'') (\<lambda>fee.
        let applied = Amount_Add (Amount_Copy amount) fee in
        if Amount_Cmp (bal_amount sBal) applied < 0 then Inl (Error ''not enough balance'')
        else
        attempt (GetBalance st (Account_GetID receiver)) (failWith ''failed to get the receiver's balance'') (\<lambda>rBal.
        attempt (transfer_options st (adr_code rAddr) params (account_signers kid sender)) (\<lambda>e. e) (\<lambda>opts.
        attempt (transfer_move st params sBal rBal sender receiver amount fee opts) (\<lambda>e. e) (\<lambda>(l, ws).
        Success (Log l) ws))))))))))))"

section \<open>Contract callbacks\<close>

definition cancelTransfer :: "stub \<Rightarrow> string \<Rightarrow> json list \<Rightarrow> response" where
  "cancelTransfer st cid doc =
     (if length doc < 2 then Inl (Error ''invalid contract document'')
      else
        attempt (str_at doc 1) (\<lambda>e. e) (\<lambda>pid.
        attempt (GetPendingBalance st pid) (failWith ''failed to get the pending balance'') (\<lambda>pb.
        if \<not> own_pending pb cid then Inl (Error ''invalid pending balance'')
        else
        attempt (Withdraw st pb) (failWith ''failed to withdraw'') (\<lambda>(l, ws).
        Success NoPayload ws))))"

definition executeTransfer :: "stub \<Rightarrow> string \<Rightarrow> json list \<Rightarrow> response" where
  "executeTransfer st cid doc =
     (if length doc < 8 then Inl (Error ''invalid contract document'')
      else
        attempt (str_at doc 1) (\<lambda>e. e) (\<lambda>pid.
        attempt (GetPendingBalance st pid) (failWith ''failed to get the pending balance'') (\<lambda>pb.
        if \<not> own_pending pb cid then Inl (Error ''invalid pending balance'')
        else
        attempt (str_at doc 3) (\<lambda>e. e) (\<lambda>rid.
        attempt (GetBalance st rid) (failWith ''failed to get the receiver's balance'') (\<lambda>rBal.
        attempt (str_at doc 7) (\<lambda>e. e) (\<lambda>ptStr.
        attempt
          (if ptStr \<noteq> [] \<and> ptStr \<noteq> ''0''
           then require (ParseInt64 ptStr) (Error ''invalid pending time'') (\<lambda>seconds. Inr (Some (Unix seconds 0)))
           else Inr None) (\<lambda>e. e) (\<lambda>pendingTime.
        attempt (TransferPendingBalance st pb rBal pendingTime)
          (failWith ''failed to transfer a pending balance'') (\<lambda>ws.
        Success NoPayload ws))))))))"

section \<open>Runs\<close>

text \<open>What a successful transfer has read and checked, and what it writes: the closed form of an
  immediate transfer when the invoker is the only signer, of a deposit otherwise.\<close>

definition transfer_checked ::
  "stub \<Rightarrow> string list \<Rightarrow> string \<Rightarrow> amount \<Rightarrow> address \<Rightarrow> address \<Rightarrow> account_doc \<Rightarrow> account_doc \<Rightarrow>
   balance \<Rightarrow> balance \<Rightarrow> amount \<Rightarrow> bool" where
  "transfer_checked st params kid amount sAddr rAddr sender receiver sBal rBal fee \<longleftrightarrow>
     kid_GetID st True = Inr kid \<and> NewAmount (params ! 2) = Inr amount \<and> 0 < amount \<and>
     ParseAddress (shake_of st) (params ! 1) = Inr rAddr \<and>
     transfer_sender st kid rAddr (params ! 0) = Inr sAddr \<and> sAddr \<noteq> rAddr \<and>
     GetAccount st sAddr = Inr sender \<and> HasHolder sender kid \<and> \<not> IsSuspended sender \<and>
     GetAccount st rAddr = Inr receiver \<and> \<not> IsSuspended receiver \<and>
     GetBalance st (Account_GetID sender) = Inr sBal \<and> GetBalance st (Account_GetID receiver) = Inr rBal \<and>
     CalcFee st sAddr ''transfer'' amount = Inr fee \<and> amount + fee \<le> bal_amount sBal"

lemma transfer_run:
  assumes "transfer st params = Inr (p, ws)"
  shows "\<exists>kid amount sAddr rAddr sender receiver sBal rBal fee opts l.
    transfer_checked st params kid amount sAddr rAddr sender receiver sBal rBal fee \<and>
    transfer_options st (adr_code rAddr) params (account_signers kid sender) = Inr opts \<and>
    transfer_move st params sBal rBal sender receiver amount fee opts = Inr (l, ws) \<and> p = Log l"
  using assms by (auto simp: transfer_def run transfer_checked_def not_le not_less)

lemma transfer_move_run:
  assumes "transfer_move st params sBal rBal sender receiver amount fee (memo, pt, expiry, signers) = Inr (l, ws)"
  shows "\<exists>ts. GetTime st = Inr ts \<and>
    (if Set_Size signers > 1
     then Set_Size signers \<le> 128 \<and>
       (\<exists>con cid ex. Contract_GetID con = Inr cid \<and> Contract_GetExpiryTime con = Inr ex \<and>
          ws = deposit_writes ts sBal (deposit_pending ts (txid st) (bal_id sBal) cid amount (Some fee) memo ex))
     else ws = transfer_writes st ts sBal rBal amount fee memo pt)"
  using assms by (auto simp: transfer_move_def run dest!: Deposit_run Transfer_run split: if_splits)

lemma cancelTransfer_run:
  assumes "cancelTransfer st cid doc = Inr (p, ws)"
  shows "\<exists>pid pb bal ts. doc ! 1 = JStr pid \<and> GetPendingBalance st pid = Inr pb \<and> own_pending pb cid \<and>
    GetBalance st (pb_account pb) = Inr bal \<and> GetTime st = Inr ts \<and> p = NoPayload \<and>
    ws = withdraw_writes ts bal pb"
  using assms by (auto simp: cancelTransfer_def run dest!: Withdraw_run)

lemma executeTransfer_run:
  assumes "executeTransfer st cid doc = Inr (p, ws)"
  shows "\<exists>pid pb rid rBal pt ts. doc ! 1 = JStr pid \<and> GetPendingBalance st pid = Inr pb \<and> own_pending pb cid \<and>
    doc ! 3 = JStr rid \<and> GetBalance st rid = Inr rBal \<and> GetTime st = Inr ts \<and> p = NoPayload \<and>
    ws = transfer_pending_writes st ts pb rBal pt"
  using assms by (auto simp: executeTransfer_def run dest!: TransferPendingBalance_run)

lemma transfer_sender_run:
  assumes "transfer_sender st kid rAddr s = Inr sAddr" "wf_address (shake_of st) rAddr" "shake_ok (shake_of st)"
  shows "wf_address (shake_of st) sAddr \<and> adr_code sAddr = adr_code rAddr"
  using assms
  by (auto simp: transfer_sender_def run wf_address_def [of _ rAddr] dest: ParseAddress_run
      intro: wf_NewAddress split: if_splits)

end
