(* ===== verification/PayTx.thy ===== *)
theory PayTx
  imports TransferTx
begin

text \<open>
  \<open>pay_tx.go\<close>: paying a merchant, refunding, pruning a merchant's pays into its balance, listing, and
  the contract callback that completes a multi-signature pay (a cancelled one goes through
  \<open>cancelTransfer\<close>).
\<close>

section \<open>pay\<close>

definition pay_sender :: "stub \<Rightarrow> string \<Rightarrow> address \<Rightarrow> string \<Rightarrow> failure + address" where
  "pay_sender st kid rAddr s =
     (if length s > 0 then
        attempt (ParseAddress (shake_of st) s) (responseError ''failed to parse the sender's account address'') (\<lambda>sAddr.
        if adr_code rAddr \<noteq> adr_code sAddr then Inl (Error ''different token accounts'') else Inr sAddr)
      else Inr (NewAddress (shake_of st) (adr_code rAddr) AccountTypePersonal kid))"

text \<open>Order id, memo and expiry. An expiry that is not a number is only logged: the answer made by
  \<open>responseError\<close> is dropped, and the value \<open>ParseInt\<close> returned besides its error is used.\<close>

definition pay_options :: "string list \<Rightarrow> string \<times> string \<times> int" where
  "pay_options params =
     (if length params > 3 then
        let orderID = params ! 3 in
        if length params > 4 then
          let memo = cut_memo (params ! 4);
              expiry = (if length params > 5 \<and> length (params ! 5) > 0 then fst (ParseInt (params ! 5) 64) else 0)
          in (orderID, memo, expiry)
        else (orderID, [], 0)
      else ([], [], 0))"

definition pay_move ::
  "stub \<Rightarrow> balance \<Rightarrow> account_doc \<Rightarrow> account_doc \<Rightarrow> address \<Rightarrow> amount \<Rightarrow> stringset \<Rightarrow>
   string \<times> string \<times> int \<Rightarrow> failure + (pay option \<times> balance_log) \<times> state_op list" where
  "pay_move st sBal sender receiver rAddr amount signers opts =
     (case opts of (orderID, memo, expiry) \<Rightarrow>
      if Set_Size signers > 1 then
        if Set_Size signers > 128 then Inl (Error ''too many signers'')
        else
          let pbID = txid st;
              docb = doc_bytes [''pay'', pbID, Account_GetID sender, Account_GetID receiver,
                Amount_String amount, orderID, memo] in
          attempt (CreateContract st docb expiry signers) (responseError ''failed to create a contract'') (\<lambda>con.
          attempt (Deposit st pbID sBal con amount None memo)
            (responseError ''failed to create the pending balance'') (\<lambda>(l, ws).
          Inr ((None, l), ws)))
      else
        attempt (CalcFee st rAddr ''pay'' amount) (responseError ''failed to get the fee amount'') (\<lambda>feeAmount.
        attempt (Pay st sBal (Account_GetID receiver) amount feeAmount orderID memo)
          (responseError ''failed to pay'') (\<lambda>((p, l), ws).
        Inr ((Some p, l), ws))))"

definition pay :: "stub \<Rightarrow> string list \<Rightarrow> response" where
  "pay st params =
     (if length params < 3 then Inl (Error ''incorrect number of parameters. expecting 3+'')
      else
        attempt (kid_GetID st True) shimError (\<lambda>kid.
        attempt (ParseAddress (shake_of st) (params ! 1))
          (responseError ''failed to parse the receiver's account address'') (\<lambda>rAddr.
        attempt (pay_sender st kid rAddr (params ! 0)) (\<lambda>e. e) (\<lambda>sAddr.
        if Address_Equal sAddr rAddr then Inl (Error ''can't pay to self'')
        else
        attempt (NewAmount (params ! 2)) shimError (\<lambda>amount.
        if Amount_Sign amount < 1 then Inl (Error ''invalid amount. must be greater than 0'')
        else
        attempt (GetAccount st sAddr) (responseError ''failed to get the sender account'') (\<lambda>sender.
        if \<not> HasHolder sender kid then Inl (Error ''invoker is not holder'')
        else if IsSuspended sender then Inl (Error ''the sender account is suspended'')
        else
        attempt (GetAccount st rAddr) (responseError ''failed to get the receiver account'') (\<lambda>receiver.
        if IsSuspended receiver then Inl (Error ''the receiver account is suspended'')
        else
        attempt (GetBalance st (Account_GetID sender)) (responseError ''failed to get the sender's balance'') (\<lambda>sBal.
        if Amount_Cmp (bal_amount sBal) amount < 0 then Inl (Error ''not enough balance'')
        else
        attempt (pay_move st sBal sender receiver rAddr amount (account_signers kid sender) (pay_options params))
          (\<lambda>e. e) (\<lambda>((p, l), ws).
        Success (PayResult p (Some l)) ws)))))))))"

section \<open>payRefund\<close>

text \<open>The part of the fee that goes back: the whole fee for a total refund, the rounded share
  otherwise. \<open>SetFrac\<close> panics on a zero denominator.\<close>

definition refund_fee :: "pay \<Rightarrow> amount \<Rightarrow> failure + amount" where
  "refund_fee parentPay amount =
     (if Amount_Cmp amount (pay_amount parentPay) \<noteq> 0 then
        (if pay_amount parentPay = 0 then Inl Panic
         else Inr (Amount_MulRat (Amount_Copy amount) (of_int (pay_fee parentPay) / of_int (pay_amount parentPay))))
      else Inr (Amount_Copy (pay_fee parentPay)))"

definition payRefund :: "stub \<Rightarrow> string list \<Rightarrow> response" where
  "payRefund st params =
     (if length params < 2 then Inl (Error ''incorrect number of parameters. expecting 2+'')
      else
        attempt (kid_GetID st True) shimError (\<lambda>kid.
        attempt (NewAmount (params ! 1)) shimError (\<lambda>amount.
        if Amount_Sign amount < 1 then Inl (Error ''invalid amount. must be greater than 0'')
        else
        attempt (GetPay st (params ! 0)) (responseError ''failed to get the original payment'') (\<lambda>parentPay.
        attempt (ParseAddress (shake_of st) (pay_account parentPay)) (responseError ''failed to get the account'') (\<lambda>sAddr.
        attempt (ParseAddress (shake_of st) (pay_rid parentPay))
          (responseError ''failed to parse the receiver's account address'') (\<lambda>rAddr.
        if adr_code rAddr \<noteq> adr_code sAddr then Inl (Error ''different token accounts'')
        else if Address_Equal sAddr rAddr then Inl (Error ''can't refund to self'')
        else if Amount_Cmp (pay_amount parentPay) (Amount_Add (Amount_Copy (pay_total_refund parentPay)) amount) < 0
        then Inl (Error ''can't exceed the original pay amount'')
        else
        attempt (GetAccount st sAddr) (responseError ''failed to get the sender account'') (\<lambda>sender.
        if \<not> HasHolder sender kid then Inl (Error ''invoker is not holder'')
        else if IsSuspended sender then Inl (Error ''the sender account is suspended'')
        else
        attempt (GetAccount st rAddr) (responseError ''failed to get the receiver account'') (\<lambda>receiver.
        if IsSuspended receiver then Inl (Error ''the receiver account is suspended'')
        else
        attempt (GetBalance st (Account_GetID sender)) (responseError ''failed to get the sender's balance'') (\<lambda>sBal.
        attempt (GetBalance st (Account_GetID receiver)) (responseError ''failed to get the receiver's balance'') (\<lambda>rBal.
        let memo = (if length params > 2 then cut_memo (params ! 2) else []) in
        attempt (refund_fee parentPay amount) (\<lambda>e. e) (\<lambda>feeAmount.
        attempt (Refund st sBal rBal amount feeAmount memo parentPay) (responseError ''failed to pay'') (\<lambda>(l, ws).
        Success (Log l) ws))))))))))))"

section \<open>payPrune\<close>

definition prune_end :: "string list \<Rightarrow> time \<Rightarrow> failure + time" where
  "prune_end params ts =
     (if length params > 2
      then require (ParseInt64 (params ! 2)) (Error ''failed to parse the end time'') (\<lambda>seconds. Inr (Unix seconds 0))
      else Inr ts)"

definition payPrune :: "stub \<Rightarrow> string list \<Rightarrow> response" where
  "payPrune st params =
     (if length params < 2 then Inl (Error ''incorrect number of parameters. expecting 2+'')
      else
        attempt (kid_GetID st True) shimError (\<lambda>kid.
        attempt (resolve_address st kid (params ! 0)) (responseError ''failed to get the account'') (\<lambda>addr.
        attempt (GetAccount st addr) (responseError ''failed to get the account'') (\<lambda>account.
        if \<not> HasHolder account kid then Inl (Error ''invoker is not holder'')
        else if IsSuspended account then Inl (Error ''the account is suspended'')
        else
        attempt (GetBalance st (Account_GetID account)) (responseError ''failed to get the balance'') (\<lambda>bal.
        attempt (start_time (bal_last_pruned bal)) (\<lambda>e. e) (\<lambda>stime.
        attempt (GetTime st) (responseError ''failed to get the timestamp'') (\<lambda>ts.
        attempt (prune_end params ts) (\<lambda>e. e) (\<lambda>etime0.
        require (ParseBool (params ! 1)) (Error ''wrong first params value. the value must be true or false'') (\<lambda>b.
        let etime = clamp_end ts etime0 b in
        attempt (GetPaySumByTime st (Account_GetID account) stime etime)
          (responseError ''failed to get pay(s) to prune'') (\<lambda>paySum.
        if ps_count paySum > 0 then
          let applied = Amount_Add (Amount_Copy (ps_sum paySum)) (Amount_Neg (Amount_Copy (ps_fee paySum)));
              bal' = bal\<lparr>bal_amount := Amount_Add (bal_amount bal) applied, bal_updated := Some ts,
                         bal_last_pruned := (if 0 \<noteq> length (ps_end paySum) then ps_end paySum else bal_last_pruned bal)\<rparr> in
          attempt (PutBalance st bal') (responseError ''failed to update balance'') (\<lambda>w1.
          attempt (CreateFee st (Account_GetID account) (ps_fee paySum)) shimError (\<lambda>(f, w2).
          let rbl = (NewBalancePrunePayLog bal' applied (ps_start paySum) (ps_end paySum))\<lparr>blog_created := Some ts\<rparr> in
          attempt (PutBalanceLog st rbl) shimError (\<lambda>w3.
          Success (PaySum paySum) (w1 @ w2 @ w3))))
        else Inl (Error ''found no record to prune.'')))))))))))"

section \<open>payList and payGet\<close>

text \<open>The optional start and end time of the list handlers, at two consecutive positions.\<close>

definition time_param :: "string list \<Rightarrow> nat \<Rightarrow> string \<Rightarrow> failure + time option" where
  "time_param params i msg =
     (if length (params ! i) > 0
      then require (ParseInt64 (params ! i)) (Error msg) (\<lambda>seconds. Inr (Some (Unix seconds 0)))
      else Inr None)"

definition time_params :: "string list \<Rightarrow> nat \<Rightarrow> failure + time option \<times> time option" where
  "time_params params i =
     (if length params > i then
        attempt (time_param params i ''invalid start time: need seconds since 1970'') (\<lambda>e. e) (\<lambda>stime.
        if length params > i + 1 then
          attempt (time_param params (i + 1) ''invalid end time: need seconds since 1970'') (\<lambda>e. e) (\<lambda>etime.
          case (stime, etime) of
            (Some s, Some e) \<Rightarrow>
              if time_Cmp s e \<ge> 0 then Inl (Error ''invalid time parameters'') else Inr (stime, etime)
          | _ \<Rightarrow> Inr (stime, etime))
        else Inr (stime, None))
      else Inr (None, None))"

definition payList :: "stub \<Rightarrow> string list \<Rightarrow> response" where
  "payList st params =
     (if length params < 1 then Inl (Error ''incorrect number of parameters. expecting 1+'')
      else
        attempt (kid_GetID st False) shimError (\<lambda>kid.
        let sortOrder = (if length params > 1 \<and> ToLower (params ! 1) = ''asc'' then ''asc'' else ''desc'');
            bookmark = (if length params > 2 then params ! 2 else []) in
        attempt
          (if length params > 3 then require (Atoi (params ! 3)) (Error ''invalid fetch size'') Inr else Inr 0)
          (\<lambda>e. e) (\<lambda>fetchSize.
        attempt (time_params params 4) (\<lambda>e. e) (\<lambda>(stime, etime).
        attempt (resolve_address st kid (params ! 0)) (responseError ''failed to parse the account address'') (\<lambda>addr.
        attempt (GetPaysByTime st (Address_String addr) sortOrder bookmark stime etime fetchSize)
          (responseError ''failed to get pays log'') (\<lambda>res.
        Success (Query res) []))))))"

definition payGet :: "stub \<Rightarrow> string list \<Rightarrow> response" where
  "payGet st params =
     (if length params < 1 then Inl (Error ''incorrect number of parameters. expecting 1 or 2'')
      else
        attempt (kid_GetID st False) shimError (\<lambda>_.
        let payID = params ! 0; orderID = (if length params = 2 then params ! 1 else []) in
        if payID = [] \<and> orderID = [] then Inl (Error ''invalid parameter'')
        else
        attempt (if payID = [] then GetPayByOrderID st orderID else GetPay st payID)
          (responseError ''failed to get pay'') (\<lambda>p.
        Success (PayOnly p) [])))"

section \<open>executePay\<close>

text \<open>The document was written as \<open>[\<dots>, order-ID, memo]\<close>; \<open>doc[5]\<close> is passed as the memo and \<open>doc[6]\<close> as
  the order ID. An unreadable merchant address leaves a nil address, on which \<open>CalcFee\<close> panics.\<close>

definition executePay :: "stub \<Rightarrow> string \<Rightarrow> json list \<Rightarrow> response" where
  "executePay st cid doc =
     (if length doc < 7 then Inl (Error ''invalid contract document'')
      else
        attempt (str_at doc 1) (\<lambda>e. e) (\<lambda>pid.
        attempt (GetPendingBalance st pid) (responseError ''failed to get the pending balance'') (\<lambda>pb.
        if \<not> own_pending pb cid then Inl (Error ''invalid pending balance'')
        else
        attempt (str_at doc 3) (\<lambda>e. e) (\<lambda>merchant.
        attempt (ParseAddress (shake_of st) merchant) (\<lambda>_. Panic) (\<lambda>rAddr.
        attempt (CalcFee st rAddr ''pay'' (pb_amount pb)) (responseError ''failed to get the fee amount'') (\<lambda>feeAmount.
        attempt (str_at doc 5) (\<lambda>e. e) (\<lambda>d5.
        attempt (str_at doc 6) (\<lambda>e. e) (\<lambda>d6.
        attempt (PayPendingBalance st pb feeAmount merchant d5 d6)
          (responseError ''failed to pay a pending balance'') (\<lambda>ws.
        Success NoPayload ws)))))))))"

section \<open>Runs\<close>

definition pay_checked ::
  "stub \<Rightarrow> string list \<Rightarrow> string \<Rightarrow> amount \<Rightarrow> address \<Rightarrow> address \<Rightarrow> account_doc \<Rightarrow> account_doc \<Rightarrow> balance \<Rightarrow> bool" where
  "pay_checked st params kid amount sAddr rAddr sender receiver sBal \<longleftrightarrow>
     kid_GetID st True = Inr kid \<and> NewAmount (params ! 2) = Inr amount \<and> 0 < amount \<and>
     ParseAddress (shake_of st) (params ! 1) = Inr rAddr \<and>
     pay_sender st kid rAddr (params ! 0) = Inr sAddr \<and> sAddr \<noteq> rAddr \<and>
     GetAccount st sAddr = Inr sender \<and> HasHolder sender kid \<and> \<not> IsSuspended sender \<and>
     GetAccount st rAddr = Inr receiver \<and> \<not> IsSuspended receiver \<and>
     GetBalance st (Account_GetID sender) = Inr sBal \<and> amount \<le> bal_amount sBal"

lemma pay_run:
  assumes "pay st params = Inr (p, ws)"
  shows "\<exists>kid amount sAddr rAddr sender receiver sBal q l.
    pay_checked st params kid amount sAddr rAddr sender receiver sBal \<and>
    pay_move st sBal sender receiver rAddr amount (account_signers kid sender) (pay_options params) = Inr ((q, l), ws) \<and>
    p = PayResult q (Some l)"
  using assms by (auto simp: pay_def run pay_checked_def not_le not_less)

lemma pay_move_run:
  assumes "pay_move st sBal sender receiver rAddr amount signers (orderID, memo, expiry) = Inr ((q, l), ws)"
  shows "\<exists>ts. GetTime st = Inr ts \<and>
    (if Set_Size signers > 1
     then q = None \<and> Set_Size signers \<le> 128 \<and>
       (\<exists>con cid ex. Contract_GetID con = Inr cid \<and> Contract_GetExpiryTime con = Inr ex \<and>
          ws = deposit_writes ts sBal (deposit_pending ts (txid st) (bal_id sBal) cid amount None memo ex))
     else \<exists>fee p. CalcFee st rAddr ''pay'' amount = Inr fee \<and> q = Some p \<and>
       p = NewPay (Account_GetID receiver) (stamp_id st ts) amount fee (bal_id sBal) [] orderID memo ts \<and>
       ws = pay_writes ts sBal p)"
  using assms by (auto simp: pay_move_def run dest!: Deposit_run Pay_run split: if_splits)

definition refund_checked ::
  "stub \<Rightarrow> string list \<Rightarrow> string \<Rightarrow> amount \<Rightarrow> pay \<Rightarrow> address \<Rightarrow> address \<Rightarrow> account_doc \<Rightarrow> account_doc \<Rightarrow>
   balance \<Rightarrow> balance \<Rightarrow> amount \<Rightarrow> bool" where
  "refund_checked st params kid amount parent sAddr rAddr sender receiver sBal rBal fee \<longleftrightarrow>
     kid_GetID st True = Inr kid \<and> NewAmount (params ! 1) = Inr amount \<and> 0 < amount \<and>
     GetPay st (params ! 0) = Inr parent \<and> ParseAddress (shake_of st) (pay_account parent) = Inr sAddr \<and>
     ParseAddress (shake_of st) (pay_rid parent) = Inr rAddr \<and> adr_code rAddr = adr_code sAddr \<and> sAddr \<noteq> rAddr \<and>
     pay_total_refund parent + amount \<le> pay_amount parent \<and>
     GetAccount st sAddr = Inr sender \<and> HasHolder sender kid \<and> \<not> IsSuspended sender \<and>
     GetAccount st rAddr = Inr receiver \<and> \<not> IsSuspended receiver \<and>
     GetBalance st (Account_GetID sender) = Inr sBal \<and> GetBalance st (Account_GetID receiver) = Inr rBal \<and>
     refund_fee parent amount = Inr fee"

lemma payRefund_run:
  assumes "payRefund st params = Inr (p, ws)"
  shows "\<exists>kid amount parent sAddr rAddr sender receiver sBal rBal fee memo ts q.
    refund_checked st params kid amount parent sAddr rAddr sender receiver sBal rBal fee \<and>
    GetTime st = Inr ts \<and> ws = refund_writes ts rBal q parent \<and>
    q = NewPay (bal_id sBal) (stamp_id st ts) (- amount) (- fee) (bal_id rBal) (pay_id parent) [] memo ts"
  using assms by (auto simp: payRefund_def run refund_checked_def not_le not_less dest!: Refund_run)

text \<open>The writes of a prune, from the sum of the rows.\<close>

definition pruned_balance :: "balance \<Rightarrow> time \<Rightarrow> pay_sum \<Rightarrow> balance" where
  "pruned_balance bal ts s =
     bal\<lparr>bal_amount := bal_amount bal + (ps_sum s - ps_fee s), bal_updated := Some ts,
         bal_last_pruned := (if ps_end s \<noteq> [] then ps_end s else bal_last_pruned bal)\<rparr>"

definition prune_writes :: "stub \<Rightarrow> time \<Rightarrow> string \<Rightarrow> balance \<Rightarrow> pay_sum \<Rightarrow> state_op list" where
  "prune_writes st ts ident bal s =
     (let bal' = pruned_balance bal ts s
      in put_balance bal' # fee_writes st ts ident (ps_fee s) @
         [put_log ts (NewBalancePrunePayLog bal' (ps_sum s - ps_fee s) (ps_start s) (ps_end s))])"

lemma payPrune_run:
  assumes "payPrune st params = Inr (p, ws)"
  shows "\<exists>kid addr account bal stime ts etime0 b s.
    kid_GetID st True = Inr kid \<and> resolve_address st kid (params ! 0) = Inr addr \<and>
    GetAccount st addr = Inr account \<and> HasHolder account kid \<and> \<not> IsSuspended account \<and>
    GetBalance st (Account_GetID account) = Inr bal \<and> start_time (bal_last_pruned bal) = Inr stime \<and>
    GetTime st = Inr ts \<and> prune_end params ts = Inr etime0 \<and> ParseBool (params ! 1) = Some b \<and>
    GetPaySumByTime st (Account_GetID account) stime (clamp_end ts etime0 b) = Inr s \<and> 0 < ps_count s \<and>
    p = PaySum s \<and> ws = prune_writes st ts (Account_GetID account) bal s"
  using assms
  by (auto simp: payPrune_def run prune_writes_def pruned_balance_def write_forms Let_def dest!: CreateFee_run)

lemma executePay_run:
  assumes "executePay st cid doc = Inr (p, ws)"
  shows "\<exists>pid pb merchant rAddr fee d5 d6 ts q. doc ! 1 = JStr pid \<and> GetPendingBalance st pid = Inr pb \<and>
    own_pending pb cid \<and> doc ! 3 = JStr merchant \<and> ParseAddress (shake_of st) merchant = Inr rAddr \<and>
    CalcFee st rAddr ''pay'' (pb_amount pb) = Inr fee \<and> doc ! 5 = JStr d5 \<and> doc ! 6 = JStr d6 \<and>
    GetTime st = Inr ts \<and> p = NoPayload \<and> ws = [put_pay q, Del (PendingKey (pb_id pb))] \<and>
    q = NewPay merchant (stamp_id st ts) (pb_amount pb) fee (pb_account pb) [] d6 d5 ts"
  using assms by (auto simp: executePay_def run dest!: PayPendingBalance_run)

lemma pay_sender_run:
  assumes "pay_sender st kid rAddr s = Inr sAddr" "wf_address (shake_of st) rAddr" "shake_ok (shake_of st)"
  shows "wf_address (shake_of st) sAddr \<and> adr_code sAddr = adr_code rAddr"
  using assms
  by (auto simp: pay_sender_def run wf_address_def [of _ rAddr] dest: ParseAddress_run
      intro: wf_NewAddress split: if_splits)

lemma list_handlers_write_nothing:
  "payList st params = Inr (p, ws) \<Longrightarrow> ws = []" "payGet st params = Inr (p, ws) \<Longrightarrow> ws = []"
  by (auto simp: payList_def payGet_def run Let_def)

end
