(* ===== verification/BalanceTx.thy ===== *)
theory BalanceTx
  imports PayTx
begin

text \<open>
  \<open>balance_tx.go\<close>: the lists of balance logs and pending balances, and the withdrawal of a pending
  balance by its owner once its time has come.
\<close>

definition balanceLogs :: "stub \<Rightarrow> string list \<Rightarrow> response" where
  "balanceLogs st params =
     (if length params < 1 then Inl (Error ''incorrect number of parameters. expecting 1+'')
      else
        attempt (kid_GetID st False) shimError (\<lambda>kid.
        let typeStr = (if length params > 1 then params ! 1 else []);
            bookmark = (if length params > 2 then params ! 2 else []) in
        attempt
          (if length params > 3 then require (Atoi (params ! 3)) (Error ''invalid fetch size'') Inr else Inr 0)
          (\<lambda>e. e) (\<lambda>fetchSize.
        attempt (time_params params 4) (\<lambda>e. e) (\<lambda>(stime, etime).
        attempt (resolve_address st kid (params ! 0)) (responseError ''failed to parse the account address'') (\<lambda>addr.
        if typeStr \<noteq> [] \<and> \<not> snd (ParseInt typeStr 8) then Inl (Error ''failed to parse balance log type'')
        else
        attempt (GetQueryBalanceLogs st (Address_String addr) typeStr bookmark fetchSize stime etime)
          (responseError ''failed to get balance logs'') (\<lambda>res.
        Success (Query res) []))))))"

definition balancePendingGet :: "stub \<Rightarrow> string list \<Rightarrow> response" where
  "balancePendingGet st params =
     (if length params \<noteq> 1 then Inl (Error ''incorrect number of parameters. expecting 1'')
      else
        attempt (kid_GetID st False) shimError (\<lambda>_.
        attempt (GetPendingBalance st (params ! 0)) (responseError ''failed to get the pending balance'') (\<lambda>pb.
        Success (Pending pb) [])))"

definition balancePendingList :: "stub \<Rightarrow> string list \<Rightarrow> response" where
  "balancePendingList st params =
     (if length params < 1 then Inl (Error ''incorrect number of parameters. expecting 1+'')
      else
        attempt (kid_GetID st False) shimError (\<lambda>kid.
        let sortBy = (if length params > 1 then params ! 1 else ''pending_time'');
            bookmark = (if length params > 2 then params ! 2 else []) in
        attempt
          (if length params > 3 then require (Atoi (params ! 3)) (Error ''invalid fetch size'') Inr else Inr 0)
          (\<lambda>e. e) (\<lambda>fetchSize.
        attempt (resolve_address st kid (params ! 0)) (responseError ''failed to parse the account address'') (\<lambda>addr.
        attempt (GetQueryPendingBalances st (Address_String addr) sortBy bookmark fetchSize)
          (responseError ''failed to get pending balances'') (\<lambda>res.
        Success (Query res) [])))))"

text \<open>The pending time and the account's address are dereferenced without a check.\<close>

definition balancePendingWithdraw :: "stub \<Rightarrow> string list \<Rightarrow> response" where
  "balancePendingWithdraw st params =
     (if length params \<noteq> 1 then Inl (Error ''incorrect number of parameters. expecting 1'')
      else
        attempt (GetTime st) (responseError ''failed to get the timestamp'') (\<lambda>ts.
        attempt (kid_GetID st True) shimError (\<lambda>kid.
        attempt (GetPendingBalance st (params ! 0)) (responseError ''failed to get the pending balance'') (\<lambda>pb.
        require (pb_pending pb) Panic (\<lambda>pt.
        if time_Cmp pt ts > 0 then Inl (Error ''too early to withdraw'')
        else
        attempt (ParseAddress (shake_of st) (pb_account pb)) (\<lambda>_. Panic) (\<lambda>addr.
        attempt (GetAccount st addr) (responseError ''failed to get the account'') (\<lambda>account.
        if \<not> HasHolder account kid then Inl (Error ''invoker is not holder'')
        else if IsSuspended account then Inl (Error ''the account is suspended'')
        else
        attempt (Withdraw st pb) (responseError ''failed to withdraw'') (\<lambda>(l, ws).
        Success (Log l) ws))))))))"

lemma balancePendingWithdraw_run:
  assumes "balancePendingWithdraw st params = Inr (p, ws)"
  shows "\<exists>ts kid pb pt addr account bal. GetTime st = Inr ts \<and> kid_GetID st True = Inr kid \<and>
    GetPendingBalance st (params ! 0) = Inr pb \<and> pb_pending pb = Some pt \<and> pt \<le> ts \<and>
    ParseAddress (shake_of st) (pb_account pb) = Inr addr \<and> GetAccount st addr = Inr account \<and>
    HasHolder account kid \<and> \<not> IsSuspended account \<and> GetBalance st (pb_account pb) = Inr bal \<and>
    ws = withdraw_writes ts bal pb"
  using assms by (auto simp: balancePendingWithdraw_def run not_less dest!: Withdraw_run)

lemma balance_reads:
  "balanceLogs st params = Inr (p, ws) \<Longrightarrow> ws = []"
  "balancePendingGet st params = Inr (p, ws) \<Longrightarrow> ws = []"
  "balancePendingList st params = Inr (p, ws) \<Longrightarrow> ws = []"
  by (auto simp: balanceLogs_def balancePendingGet_def balancePendingList_def run Let_def)

end
