(* ===== verification/AccountTx.thy ===== *)
theory AccountTx
  imports BalanceTx
begin

text \<open>
  \<open>account_tx.go\<close>: creating accounts, reading and listing them, suspending, and changing the holders
  of joint accounts. Whatever needs several signers answers with a contract and writes nothing; the
  contract callbacks at the end do the work.
\<close>

section \<open>Creating and reading\<close>

definition accountCreate :: "stub \<Rightarrow> string list \<Rightarrow> response" where
  "accountCreate st params =
     (if length params < 1 then Inl (Error ''incorrect number of parameters. expecting 1+'')
      else
        attempt (ValidateTokenCode (params ! 0)) shimError (\<lambda>code.
        attempt
          (case GetTokenState st code of
             Inr _ \<Rightarrow> Inr ()
           | Inl e \<Rightarrow>
               if \<not> is_NotIssuedTokenError e then Inl (responseError ''failed to create an account'' e)
               else attempt (invokeKNT st code [''token'']) (failWith ''failed to get the token meta'') (\<lambda>_. Inr ()))
          (\<lambda>e. e) (\<lambda>_.
        attempt (kid_GetID st True) shimError (\<lambda>kid.
        if length params < 2 then
          attempt (CreateAccount st code kid) (responseError ''failed to create a personal account'')
            (\<lambda>(account, balance, ws). Success (AccountAndBalance account balance) ws)
        else
        attempt (GetAccount st (NewAddress (shake_of st) code AccountTypePersonal kid))
          (responseError ''failed to get invoker's personal account'') (\<lambda>_.
        let addrs = Set_New (drop 1 params) in
        if Set_Size addrs > 128 then Inl (Error ''too many holders'')
        else
        attempt (add_signables st code (Set_Strings addrs) (Set_New [kid])) (responseError ''invalid co-holder'') (\<lambda>holders.
        if Set_Size holders < 2 then Inl (Error ''joint account needs co-holders'')
        else
          let doc = [JStr ''account/create'', JStr code, JArr (map JStr (Set_Strings holders))] in
          invokeContract st doc holders))))))"

definition accountGet :: "stub \<Rightarrow> string list \<Rightarrow> response" where
  "accountGet st params =
     (if length params \<noteq> 1 then Inl (Error ''incorrect number of parameters. expecting 1'')
      else
        attempt (kid_GetID st False) shimError (\<lambda>kid.
        attempt (resolve_address st kid (params ! 0)) (responseError ''failed to get the account'') (\<lambda>addr.
        attempt (GetAccount st addr) (responseError ''failed to get the account'') (\<lambda>account.
        attempt (GetBalanceState st (Account_GetID account)) (responseError ''failed to get the account balance'') (\<lambda>b.
        Success (AccountAndState account b) [])))))"

definition accountList :: "stub \<Rightarrow> string list \<Rightarrow> response" where
  "accountList st params =
     (attempt (kid_GetID st False) shimError (\<lambda>kid.
      attempt
        (if length params > 0 \<and> length (params ! 0) > 0 then attempt (ValidateTokenCode (params ! 0)) shimError Inr
         else Inr []) (\<lambda>e. e) (\<lambda>code.
      let bookmark = (if length params > 1 then params ! 1 else []) in
      attempt
        (if length params > 2 then require (Atoi (params ! 2)) (Error ''invalid fetch size'') Inr else Inr 0)
        (\<lambda>e. e) (\<lambda>fetchSize.
      attempt (GetQueryHolderAccounts st code kid bookmark fetchSize) (responseError ''failed to get accounts list'') (\<lambda>res.
      Success (Query res) [])))))"

section \<open>Suspending\<close>

definition accountSuspend :: "stub \<Rightarrow> string list \<Rightarrow> response" where
  "accountSuspend st params =
     (if length params \<noteq> 1 then Inl (Error ''incorrect number of parameters. expecting 1'')
      else
        attempt (ValidateTokenCode (params ! 0)) shimError (\<lambda>code.
        attempt (kid_GetID st True) shimError (\<lambda>kid.
        attempt (SuspendAccount st code kid) (responseError ''failed to suspend the account'') (\<lambda>(account, ws).
        Success (AccountOnly account) ws))))"

definition accountUnsuspend :: "stub \<Rightarrow> string list \<Rightarrow> response" where
  "accountUnsuspend st params =
     (if length params \<noteq> 1 then Inl (Error ''incorrect number of parameters. expecting 1'')
      else
        attempt (ValidateTokenCode (params ! 0)) shimError (\<lambda>code.
        attempt (kid_GetID st True) shimError (\<lambda>kid.
        attempt (UnsuspendAccount st code kid) (responseError ''failed to unsuspend the account'') (\<lambda>(account, ws).
        Success (AccountOnly account) ws))))"

section \<open>Holders\<close>

definition as_joint :: "account_doc \<Rightarrow> (account \<times> stringset) option" where
  "as_joint d = (case d of JointAccount a hs \<Rightarrow> Some (a, hs) | PersonalAccount _ \<Rightarrow> None)"

lemma as_joint_run [run]: "as_joint d = Some x \<longleftrightarrow> d = JointAccount (fst x) (snd x)"
  by (cases d) (auto simp: as_joint_def)

definition as_personal :: "account_doc \<Rightarrow> account option" where
  "as_personal d = (case d of PersonalAccount a \<Rightarrow> Some a | JointAccount _ _ \<Rightarrow> None)"

lemma as_personal_run [run]: "as_personal d = Some x \<longleftrightarrow> d = PersonalAccount x"
  by (cases d) (auto simp: as_personal_def)

definition getValidatedAccountHolderParameters ::
  "stub \<Rightarrow> string list \<Rightarrow> err + (account \<times> stringset) \<times> address" where
  "getValidatedAccountHolderParameters st params =
     (if length params \<noteq> 2 then Inl (Plain ''incorrect number of parameters. expecting 2'')
      else
        attempt (ParseAddress (shake_of st) (params ! 0)) (wrap ''failed to parse the account address'') (\<lambda>addr.
        if adr_type addr \<noteq> AccountTypeJoint then Inl (Plain ''the account must be joint account'')
        else
        attempt (ParseAddress (shake_of st) (params ! 1))
          (wrap ''failed to parse the co-holder's account address'') (\<lambda>taddr.
        if adr_type taddr \<noteq> AccountTypePersonal
        then Inl (Plain ''the co-holder's account must be personal account'')
        else if adr_code addr \<noteq> adr_code taddr then Inl (Plain ''mismatched token accounts'')
        else
        attempt (GetAccount st addr) (wrap ''failed to get the account'') (\<lambda>account.
        require (as_joint account) GoPanic (\<lambda>jac. Inr (jac, taddr))))))"

definition accountHolderAdd :: "stub \<Rightarrow> string list \<Rightarrow> response" where
  "accountHolderAdd st params =
     (attempt (getValidatedAccountHolderParameters st params) shimError (\<lambda>((jac, hs), taddr).
      if Set_Size hs > 127 then Inl (Error ''already has max holders (128)'')
      else
      attempt (kid_GetID st True) shimError (\<lambda>kid.
      if \<not> HasHolder (JointAccount jac hs) kid then Inl (Error ''no authority'')
      else
      attempt (GetAccount st taddr) (responseError ''failed to get the holder'') (\<lambda>account.
      require (as_personal account) Panic (\<lambda>pac.
      let holder = Account_Holder pac in
      if HasHolder (JointAccount jac hs) holder then Inl (Error ''existed holder'')
      else
        let signers = Set_AppendSet (Set_New [holder]) hs;
            doc = [JStr ''account/holder/add'', JStr (acc_id jac), JStr holder]
        in invokeContract st doc signers)))))"

definition accountHolderRemove :: "stub \<Rightarrow> string list \<Rightarrow> response" where
  "accountHolderRemove st params =
     (attempt (getValidatedAccountHolderParameters st params) shimError (\<lambda>((jac, hs), taddr).
      if Set_Size hs < 3 then Inl (Error ''the account has minimum holders (2)'')
      else
      attempt (kid_GetID st True) shimError (\<lambda>kid.
      if \<not> HasHolder (JointAccount jac hs) kid then Inl (Error ''no authority'')
      else
        let holder = Address_ID taddr in
        if holder = kid then
          attempt (RemoveHolder st jac hs kid) (responseError ''failed to remove the holder'') (\<lambda>(account, ws).
          attempt (GetBalanceState st (Account_GetID account)) (responseError ''failed to get updated account'') (\<lambda>b.
          Success (AccountAndState account b) ws))
        else if \<not> HasHolder (JointAccount jac hs) holder then Inl (Error ''not existed holder'')
        else
          let signers = Set_Remove (Set_AppendSet (Set_New []) hs) holder;
              doc = [JStr ''account/holder/remove'', JStr (acc_id jac), JStr holder]
          in invokeContract st doc signers)))"

section \<open>Contract callbacks\<close>

definition executeAccountCreate :: "stub \<Rightarrow> string \<Rightarrow> json list \<Rightarrow> response" where
  "executeAccountCreate st cid doc =
     (if length doc < 3 then Inl (Error ''invalid contract document'')
      else
        attempt (str_at doc 1) (\<lambda>e. e) (\<lambda>code.
        attempt (strs_of (doc ! 2)) (\<lambda>e. e) (\<lambda>kids.
        let holders = foldl Set_Add (Set_New []) kids in
        attempt (CreateJointAccount st code holders) (responseError ''failed to create a joint account'') (\<lambda>(a, b, ws).
        Success NoPayload ws))))"

definition executeAccountHolderAdd :: "stub \<Rightarrow> string \<Rightarrow> json list \<Rightarrow> response" where
  "executeAccountHolderAdd st cid doc =
     (if length doc < 3 then Inl (Error ''invalid contract document'')
      else
        attempt (str_at doc 1) (\<lambda>e. e) (\<lambda>s.
        attempt (ParseAddress (shake_of st) s) (responseError ''failed to add the holder'') (\<lambda>addr.
        attempt (str_at doc 2) (\<lambda>e. e) (\<lambda>holder.
        attempt (GetAccount st addr) (responseError ''failed to add the holder'') (\<lambda>account.
        require (as_joint account) Panic (\<lambda>(jac, hs).
        if Set_Size hs > 127 then Inl (Error ''already has max holders (128)'')
        else if HasHolder (JointAccount jac hs) holder then Inl (Error ''existed holder'')
        else
        attempt (AddHolder st jac hs holder) (responseError ''failed to add the holder'') (\<lambda>(a, ws).
        Success NoPayload ws)))))))"

definition executeAccountHolderRemove :: "stub \<Rightarrow> string \<Rightarrow> json list \<Rightarrow> response" where
  "executeAccountHolderRemove st cid doc =
     (if length doc < 3 then Inl (Error ''invalid contract document'')
      else
        attempt (str_at doc 1) (\<lambda>e. e) (\<lambda>s.
        attempt (ParseAddress (shake_of st) s) (responseError ''failed to remove the holder'') (\<lambda>addr.
        attempt (str_at doc 2) (\<lambda>e. e) (\<lambda>holder.
        attempt (GetAccount st addr) (responseError ''failed to remove the holder'') (\<lambda>account.
        require (as_joint account) Panic (\<lambda>(jac, hs).
        if Set_Size hs < 3 then Inl (Error ''the account has minimum holders (2)'')
        else if \<not> HasHolder (JointAccount jac hs) holder then Inl (Error ''not existed holder'')
        else
        attempt (RemoveHolder st jac hs holder) (responseError ''failed to remove the holder'') (\<lambda>(a, ws).
        Success NoPayload ws)))))))"

section \<open>Runs\<close>

lemma accountCreate_run:
  assumes "accountCreate st params = Inr (p, ws)"
  shows "(\<exists>kid a b code. kid_GetID st True = Inr kid \<and> ValidateTokenCode (params ! 0) = Inr code \<and>
      CreateAccount st code kid = Inr (a, b, ws) \<and> p = AccountAndBalance a b) \<or> ws = []"
  using assms by (auto simp: accountCreate_def run Let_def split: if_splits dest!: invokeContract_run)

lemma accountHolderAdd_run: "accountHolderAdd st params = Inr (p, ws) \<Longrightarrow> ws = []"
  by (auto simp: accountHolderAdd_def run Let_def split: if_splits dest!: invokeContract_run)

lemma accountHolderRemove_run:
  assumes "accountHolderRemove st params = Inr (p, ws)"
  shows "(\<exists>jac hs addr kid a. GetAccount st addr = Inr (JointAccount jac hs) \<and> kid_GetID st True = Inr kid \<and>
      3 \<le> Set_Size hs \<and> RemoveHolder st jac hs kid = Inr (a, ws)) \<or> ws = []"
  using assms
  by (auto simp: accountHolderRemove_def getValidatedAccountHolderParameters_def run Let_def not_less
      split: if_splits dest!: invokeContract_run)

lemma executeAccountCreate_run:
  assumes "executeAccountCreate st cid doc = Inr (p, ws)"
  shows "\<exists>code kids a b. doc ! 1 = JStr code \<and> strs_of (doc ! 2) = Inr kids \<and> p = NoPayload \<and>
    CreateJointAccount st code (foldl Set_Add (Set_New []) kids) = Inr (a, b, ws)"
  using assms by (auto simp: executeAccountCreate_def run)

lemma executeAccountHolderAdd_run:
  assumes "executeAccountHolderAdd st cid doc = Inr (p, ws)"
  shows "\<exists>s addr holder jac hs a. doc ! 1 = JStr s \<and> ParseAddress (shake_of st) s = Inr addr \<and>
    doc ! 2 = JStr holder \<and> GetAccount st addr = Inr (JointAccount jac hs) \<and> Set_Size hs \<le> 127 \<and>
    AddHolder st jac hs holder = Inr (a, ws) \<and> p = NoPayload"
  using assms by (auto simp: executeAccountHolderAdd_def run not_less split: prod.splits)

lemma executeAccountHolderRemove_run:
  assumes "executeAccountHolderRemove st cid doc = Inr (p, ws)"
  shows "\<exists>s addr holder jac hs a. doc ! 1 = JStr s \<and> ParseAddress (shake_of st) s = Inr addr \<and>
    doc ! 2 = JStr holder \<and> GetAccount st addr = Inr (JointAccount jac hs) \<and> 3 \<le> Set_Size hs \<and>
    RemoveHolder st jac hs holder = Inr (a, ws) \<and> p = NoPayload"
  using assms by (auto simp: executeAccountHolderRemove_def run not_less split: prod.splits)

lemma account_reads:
  "accountGet st params = Inr (p, ws) \<Longrightarrow> ws = []" "accountList st params = Inr (p, ws) \<Longrightarrow> ws = []"
  by (auto simp: accountGet_def accountList_def run Let_def)

end
