(* ===== verification/TokenTx.thy ===== *)
theory TokenTx
  imports AccountTx
begin

text \<open>
  \<open>token_tx.go\<close>: issuing, burning, minting and updating a token by the meta data its own chaincode
  gives, with the contract callbacks for genesis accounts of several holders.
\<close>

section \<open>Token meta data\<close>

text \<open>\<open>json.Unmarshal\<close> into a \<open>map[string]string\<close>: an object of strings; a null leaves the zero value.\<close>

definition string_map :: "json \<Rightarrow> (string \<times> string) list option" where
  "string_map j =
     (case j of
        JNull \<Rightarrow> Some []
      | JObj kvs \<Rightarrow>
          (if list_all (\<lambda>(k, v). case v of JStr _ \<Rightarrow> True | JNull \<Rightarrow> True | _ \<Rightarrow> False) kvs
           then Some (map (\<lambda>(k, v). (k, case v of JStr s \<Rightarrow> s | _ \<Rightarrow> [])) kvs)
           else None)
      | _ \<Rightarrow> None)"

definition meta_at :: "(string \<times> string) list \<Rightarrow> string \<Rightarrow> string" where
  "meta_at m k = (case map_of (rev m) k of None \<Rightarrow> [] | Some v \<Rightarrow> v)"

definition getValidatedTokenMeta ::
  "stub \<Rightarrow> string \<Rightarrow> err + int \<times> amount \<times> amount \<times> fee_policy option" where
  "getValidatedTokenMeta st code =
     (attempt (invokeKNT st code [''token'']) (wrap ''failed to get the token meta'') (\<lambda>meta.
      require (Option.bind (json_parse meta) string_map) (Plain ''failed to unmarshal the token meta'') (\<lambda>m.
      let bad_decimal = Plain ''decimal must be integer between 0 and 18'' in
      require (Atoi (meta_at m ''decimal'')) bad_decimal (\<lambda>decimal.
      if decimal < 0 \<or> decimal > 18 then Inl bad_decimal
      else
      let bad_max = Plain ''max supply must be positive integer'' in
      attempt (NewAmount (meta_at m ''max_supply'')) (\<lambda>_. bad_max) (\<lambda>maxSupply.
      if Amount_Sign maxSupply < 0 then Inl bad_max
      else
      let bad_supply = Plain ''initial supply must be positive integer and less(or equal) than max supply'' in
      attempt (NewAmount (meta_at m ''initial_supply'')) (\<lambda>_. bad_supply) (\<lambda>supply.
      if Amount_Sign supply < 0 \<or> Amount_Cmp supply maxSupply > 0 then Inl bad_supply
      else
      let fee = meta_at m ''fee'' in
      if length fee > 0 then
        attempt (ParseFeePolicy fee) (\<lambda>e. e) (\<lambda>policy.
        Inr (decimal, maxSupply, supply, Some (policy\<lparr>fp_target := meta_at m ''target_address''\<rparr>)))
      else Inr (decimal, maxSupply, supply, None)))))))"

lemma getValidatedTokenMeta_ok:
  assumes "getValidatedTokenMeta st code = Inr (decimal, maxSupply, supply, policy)"
  shows "0 \<le> decimal \<and> decimal \<le> 18 \<and> 0 \<le> supply \<and> supply \<le> maxSupply \<and>
    (\<forall>p. policy = Some p \<longrightarrow> rates_ok (fp_rates p))"
  using assms
  by (auto simp: getValidatedTokenMeta_def run Let_def not_less split: if_splits dest: ParseFeePolicy_ok)

section \<open>Burning and minting\<close>

text \<open>The genesis account of a token and its balance. An unreadable genesis address leaves a nil
  address, on which \<open>GetAccount\<close> panics.\<close>

definition genesis_account :: "stub \<Rightarrow> token \<Rightarrow> string \<Rightarrow> failure + account_doc \<times> balance" where
  "genesis_account st token kid =
     (attempt (ParseAddress (shake_of st) (tok_genesis token)) (\<lambda>_. Panic) (\<lambda>addr.
      attempt (GetAccount st addr) (responseError ''failed to get the genesis account'') (\<lambda>account.
      if \<not> HasHolder account kid then Inl (Error ''no authority'')
      else
      attempt (GetBalance st (Account_GetID account)) (responseError ''failed to get the genesis account balance'')
        (\<lambda>bal. Inr (account, bal)))))"

definition tokenBurn :: "stub \<Rightarrow> string list \<Rightarrow> response" where
  "tokenBurn st params =
     (if length params \<noteq> 2 then Inl (Error ''incorrect number of parameters. expecting 2'')
      else
        attempt (ValidateTokenCode (params ! 0)) shimError (\<lambda>code.
        attempt (GetToken st code) (responseError ''failed to get the token'') (\<lambda>token.
        attempt (kid_GetID st True) shimError (\<lambda>kid.
        attempt (genesis_account st token kid) (\<lambda>e. e) (\<lambda>(account, bal).
        if Amount_Sign (bal_amount bal) = 0 then Inl (Error ''genesis account balance is 0'')
        else
        attempt (NewAmount (params ! 1)) shimError (\<lambda>amount0.
        attempt (invokeKNT st code [''burn'', Amount_String (tok_supply token), Amount_String (bal_amount bal),
            Amount_String amount0]) (responseError ''failed to get the burnable amount'') (\<lambda>burnable.
        attempt (NewAmount burnable) (failWith ''not burnable'') (\<lambda>amount.
        if Amount_Sign amount < 0 then Inl (Error ''not burnable'')
        else if Amount_Cmp (tok_supply token) amount < 0
        then Inl (Error ''amount must be less or equal than total supply'')
        else
        require (as_joint account) Panic (\<lambda>(jac, hs).
        if Set_Size hs > 1 then
          let docb = json_print (JArr [JStr ''token/burn'', JStr code, JStr (Amount_String amount)]) in
          attempt (CreateContract st docb 0 hs) shimError (\<lambda>con.
          Success (TokenResult None None (Some con)) [])
        else
        attempt (Burn st token bal amount) (responseError ''failed to burn'') (\<lambda>(token', l, ws).
        Success (TokenResult (Some token') l None) ws))))))))))"

definition tokenMint :: "stub \<Rightarrow> string list \<Rightarrow> response" where
  "tokenMint st params =
     (if length params \<noteq> 2 then Inl (Error ''incorrect number of parameters. expecting 2'')
      else
        attempt (ValidateTokenCode (params ! 0)) shimError (\<lambda>code.
        attempt (GetToken st code) (responseError ''failed to get the token'') (\<lambda>token.
        if Amount_Cmp (tok_supply token) (tok_max_supply token) \<ge> 0 then Inl (Error ''max supplied'')
        else
        attempt (kid_GetID st True) shimError (\<lambda>kid.
        attempt (genesis_account st token kid) (\<lambda>e. e) (\<lambda>(account, bal).
        attempt (NewAmount (params ! 1)) shimError (\<lambda>amount0.
        attempt (invokeKNT st code [''mint'', Amount_String (tok_supply token), Amount_String (bal_amount bal),
            Amount_String amount0]) (responseError ''failed to get the mintable amount'') (\<lambda>mintable.
        attempt (NewAmount mintable) (failWith ''not mintable'') (\<lambda>amount.
        if Amount_Sign amount < 0 then Inl (Error ''not mintable'')
        else
        require (as_joint account) Panic (\<lambda>(jac, hs).
        if Set_Size hs > 1 then
          let docb = json_print (JArr [JStr ''token/mint'', JStr code, JStr (Amount_String amount)]) in
          attempt (CreateContract st docb 0 hs) shimError (\<lambda>con.
          Success (TokenResult None None (Some con)) [])
        else
        attempt (Mint st token bal amount) (responseError ''failed to mint'') (\<lambda>(token', l, ws).
        Success (TokenResult (Some token') l None) ws))))))))))"

section \<open>Issuing, reading and updating\<close>

definition not_issued :: "stub \<Rightarrow> string \<Rightarrow> failure + unit" where
  "not_issued st code =
     (case GetTokenState st code of
        Inl e \<Rightarrow> if \<not> is_NotIssuedTokenError e then Inl (responseError ''failed to get the token state'' e) else Inr ()
      | Inr _ \<Rightarrow> Inl (Error (''already issued token : '' @ brackets code)))"

definition tokenCreate :: "stub \<Rightarrow> string list \<Rightarrow> response" where
  "tokenCreate st params =
     (if length params < 1 then Inl (Error ''incorrect number of parameters. expecting 1+'')
      else
        attempt (ValidateTokenCode (params ! 0)) shimError (\<lambda>code.
        attempt (not_issued st code) (\<lambda>e. e) (\<lambda>_.
        attempt (getValidatedTokenMeta st code) shimError (\<lambda>(decimal, maxSupply, supply, feePolicy).
        attempt (kid_GetID st True) shimError (\<lambda>kid.
        attempt
          (if length params > 1
           then attempt (add_signables st code (Set_New (drop 1 params)) (Set_New [kid]))
                  (responseError ''invalid co-holder'') Inr
           else Inr (Set_New [kid])) (\<lambda>e. e) (\<lambda>holders.
        if Set_Size holders > 1 then
          let doc = [JStr ''token/create'', JStr code, JArr (map JStr (Set_Strings holders))] in
          invokeContract st doc holders
        else
        attempt (CreateToken st code decimal maxSupply supply feePolicy holders)
          (responseError ''failed to create the token'') (\<lambda>(token, ws).
        Success (TokenOnly token) ws)))))))"

definition tokenGet :: "stub \<Rightarrow> string list \<Rightarrow> response" where
  "tokenGet st params =
     (if length params \<noteq> 1 then Inl (Error ''incorrect number of parameters. expecting 1'')
      else
        attempt (ValidateTokenCode (params ! 0)) shimError (\<lambda>code.
        attempt (kid_GetID st False) shimError (\<lambda>_.
        attempt (GetTokenState st code) (responseError ''failed to get the token state'') (\<lambda>d.
        Success (TokenState d) []))))"

text \<open>The fee policy after an update: \<open>None\<close> when nothing is to be written.\<close>

definition updated_policy :: "stub \<Rightarrow> token \<Rightarrow> fee_policy option \<Rightarrow> failure + fee_policy option" where
  "updated_policy st token policy =
     (case policy of
        None \<Rightarrow> Inr (map_option (\<lambda>p. p\<lparr>fp_rates := Map.empty\<rparr>) (tok_policy token))
      | Some p \<Rightarrow>
          if length (fp_target p) > 0 then
            attempt (GetAccountState st (fp_target p)) (responseError ''failed to set a target address'') (\<lambda>_. Inr (Some p))
          else
            (case tok_policy token of
               None \<Rightarrow> Inr (Some (p\<lparr>fp_target := tok_genesis token\<rparr>))
             | Some old \<Rightarrow> Inr (Some (p\<lparr>fp_target := fp_target old\<rparr>))))"

definition tokenUpdate :: "stub \<Rightarrow> string list \<Rightarrow> response" where
  "tokenUpdate st params =
     (if length params \<noteq> 1 then Inl (Error ''incorrect number of parameters. expecting 1'')
      else
        attempt (ValidateTokenCode (params ! 0)) shimError (\<lambda>code.
        attempt (kid_GetID st True) shimError (\<lambda>_.
        attempt (GetToken st code) (responseError ''failed to get the token'') (\<lambda>token.
        attempt (getValidatedTokenMeta st code) shimError (\<lambda>(_, _, _, policy).
        attempt (updated_policy st token policy) (\<lambda>e. e) (\<lambda>upd.
        case upd of
          None \<Rightarrow> Success (TokenOnly token) []
        | Some p \<Rightarrow>
            attempt (GetTime st) (responseError ''failed to get the timestamp'') (\<lambda>ts.
            let token' = token\<lparr>tok_policy := Some p, tok_updated := Some ts\<rparr> in
            attempt (PutToken st token') (responseError ''failed to update the token'') (\<lambda>ws.
            Success (TokenOnly token') ws))))))))"

section \<open>Contract callbacks\<close>

definition executeTokenBurn :: "stub \<Rightarrow> string \<Rightarrow> json list \<Rightarrow> response" where
  "executeTokenBurn st cid doc =
     (if length doc \<noteq> 3 then Inl (Error ''invalid contract document'')
      else
        attempt (str_at doc 1) (\<lambda>e. e) (\<lambda>code.
        attempt (str_at doc 2) (\<lambda>e. e) (\<lambda>s.
        attempt (NewAmount s) (failWith ''invalid amount'') (\<lambda>amount.
        attempt (GetToken st code) (responseError ''failed to get the token'') (\<lambda>token.
        attempt (GetBalance st (tok_genesis token)) (responseError ''failed to get the genesis account balance'') (\<lambda>bal.
        attempt (Burn st token bal amount) (responseError ''failed to burn'') (\<lambda>(t, l, ws).
        Success NoPayload ws)))))))"

definition executeTokenMint :: "stub \<Rightarrow> string \<Rightarrow> json list \<Rightarrow> response" where
  "executeTokenMint st cid doc =
     (if length doc \<noteq> 3 then Inl (Error ''invalid contract document'')
      else
        attempt (str_at doc 1) (\<lambda>e. e) (\<lambda>code.
        attempt (str_at doc 2) (\<lambda>e. e) (\<lambda>s.
        attempt (NewAmount s) (failWith ''invalid amount'') (\<lambda>amount.
        attempt (GetToken st code) (responseError ''failed to get the token'') (\<lambda>token.
        attempt (GetBalance st (tok_genesis token)) (responseError ''failed to get the genesis account balance'') (\<lambda>bal.
        attempt (Mint st token bal amount) (responseError ''failed to mint'') (\<lambda>(t, l, ws).
        Success NoPayload ws)))))))"

definition executeTokenCreate :: "stub \<Rightarrow> string \<Rightarrow> json list \<Rightarrow> response" where
  "executeTokenCreate st cid doc =
     (if length doc \<noteq> 3 then Inl (Error ''invalid contract document'')
      else
        attempt (str_at doc 1) (\<lambda>e. e) (\<lambda>code.
        attempt (not_issued st code) (\<lambda>e. e) (\<lambda>_.
        attempt (getValidatedTokenMeta st code) shimError (\<lambda>(decimal, maxSupply, supply, feePolicy).
        attempt (strs_of (doc ! 2)) (\<lambda>e. e) (\<lambda>kids.
        let holders = foldl Set_Add (Set_New []) kids in
        attempt (CreateToken st code decimal maxSupply supply feePolicy holders)
          (responseError ''failed to create the token'') (\<lambda>(token, ws).
        Success NoPayload ws))))))"

section \<open>Runs\<close>

lemma not_issued_run [run]:
  "not_issued st code = Inr u \<longleftrightarrow>
     get_fault st (TokenKey code) = None \<and> world st (TokenKey code) = None"
  by (cases "get_fault st (TokenKey code)"; cases "world st (TokenKey code)")
    (simp_all add: not_issued_def GetTokenState_def GetState_def is_NotIssuedTokenError_def wrap_def)

lemma genesis_account_run:
  assumes "genesis_account st token kid = Inr (account, bal)"
  shows "\<exists>addr. ParseAddress (shake_of st) (tok_genesis token) = Inr addr \<and> GetAccount st addr = Inr account \<and>
    HasHolder account kid \<and> GetBalance st (Account_GetID account) = Inr bal"
  using assms by (auto simp: genesis_account_def run)

lemma tokenBurn_run:
  assumes "tokenBurn st params = Inr (p, ws)"
  shows "\<exists>code token kid account bal amount. ValidateTokenCode (params ! 0) = Inr code \<and>
    GetToken st code = Inr token \<and> kid_GetID st True = Inr kid \<and>
    genesis_account st token kid = Inr (account, bal) \<and> 0 \<le> amount \<and> amount \<le> tok_supply token \<and>
    (ws = [] \<or> (\<exists>t' l. Burn st token bal amount = Inr (t', l, ws)))"
  using assms by (auto simp: tokenBurn_def run not_less Let_def split: prod.splits if_splits)

lemma tokenMint_run:
  assumes "tokenMint st params = Inr (p, ws)"
  shows "\<exists>code token kid account bal amount. ValidateTokenCode (params ! 0) = Inr code \<and>
    GetToken st code = Inr token \<and> kid_GetID st True = Inr kid \<and>
    genesis_account st token kid = Inr (account, bal) \<and> 0 \<le> amount \<and>
    (ws = [] \<or> (\<exists>t' l. Mint st token bal amount = Inr (t', l, ws)))"
  using assms by (auto simp: tokenMint_def run not_less Let_def split: prod.splits if_splits)

lemma tokenCreate_run:
  assumes "tokenCreate st params = Inr (p, ws)"
  shows "\<exists>code decimal maxSupply supply policy. ValidateTokenCode (params ! 0) = Inr code \<and>
    world st (TokenKey code) = None \<and>
    getValidatedTokenMeta st code = Inr (decimal, maxSupply, supply, policy) \<and>
    (ws = [] \<or> (\<exists>hs t. distinct hs \<and> Set_Size hs \<le> 1 \<and>
       CreateToken st code decimal maxSupply supply policy hs = Inr (t, ws)))"
  using assms
  by (auto simp: tokenCreate_def run not_less Let_def split: prod.splits if_splits
      dest!: invokeContract_run dest: add_signables_mono)

lemma tokenUpdate_run:
  assumes "tokenUpdate st params = Inr (p, ws)"
  shows "\<exists>code token d m s policy. ValidateTokenCode (params ! 0) = Inr code \<and> GetToken st code = Inr token \<and>
    getValidatedTokenMeta st code = Inr (d, m, s, policy) \<and>
    (ws = [] \<or> (\<exists>q ts. GetTime st = Inr ts \<and> updated_policy st token policy = Inr (Some q) \<and>
       ws = [put_token (token\<lparr>tok_policy := Some q, tok_updated := Some ts\<rparr>)]))"
  using assms
  by (auto simp: tokenUpdate_def run Let_def put_token_def split: prod.splits option.splits)

lemma executeTokenBurn_run:
  assumes "executeTokenBurn st cid doc = Inr (p, ws)"
  shows "\<exists>code s amount token bal t l. doc ! 1 = JStr code \<and> doc ! 2 = JStr s \<and> NewAmount s = Inr amount \<and>
    GetToken st code = Inr token \<and> GetBalance st (tok_genesis token) = Inr bal \<and> Burn st token bal amount = Inr (t, l, ws) \<and> p = NoPayload"
  using assms by (auto simp: executeTokenBurn_def run)

lemma executeTokenMint_run:
  assumes "executeTokenMint st cid doc = Inr (p, ws)"
  shows "\<exists>code s amount token bal t l. doc ! 1 = JStr code \<and> doc ! 2 = JStr s \<and> NewAmount s = Inr amount \<and>
    GetToken st code = Inr token \<and> GetBalance st (tok_genesis token) = Inr bal \<and> Mint st token bal amount = Inr (t, l, ws) \<and> p = NoPayload"
  using assms by (auto simp: executeTokenMint_def run)

lemma executeTokenCreate_run:
  assumes "executeTokenCreate st cid doc = Inr (p, ws)"
  shows "\<exists>code kids decimal maxSupply supply policy t. doc ! 1 = JStr code \<and> strs_of (doc ! 2) = Inr kids \<and>
    world st (TokenKey code) = None \<and>
    getValidatedTokenMeta st code = Inr (decimal, maxSupply, supply, policy) \<and> p = NoPayload \<and>
    CreateToken st code decimal maxSupply supply policy (foldl Set_Add (Set_New []) kids) = Inr (t, ws)"
  using assms by (auto simp: executeTokenCreate_def run)

end
