(* ===== verification/FeeTx.thy ===== *)
theory FeeTx
  imports TokenTx
begin

text \<open>
  \<open>fee_tx.go\<close>: listing the fees of a token and pruning them into the balance of the fee target. The
  first prune of a token moves the identifier of the last pruned fee out of the token document.
\<close>

definition feeList :: "stub \<Rightarrow> string list \<Rightarrow> response" where
  "feeList st params =
     (if length params < 1 then Inl (Error ''incorrect number of parameters. expecting 1+'')
      else
        attempt (ValidateTokenCode (params ! 0)) shimError (\<lambda>code.
        attempt (GetToken st code) (responseError ''failed to get the token'') (\<lambda>token.
        attempt (kid_GetID st False) shimError (\<lambda>_.
        let bookmark = (if length params > 1 then params ! 1 else []) in
        attempt
          (if length params > 2 then require (Atoi (params ! 2)) (Error ''invalid fetch size'') Inr else Inr 0)
          (\<lambda>e. e) (\<lambda>fetchSize.
        attempt (time_params params 3) (\<lambda>e. e) (\<lambda>(stime, etime).
        attempt (GetQueryFees st (tok_code token) bookmark fetchSize stime etime) (responseError ''failed to get fees'') (\<lambda>res.
        Success (Query res) [])))))))"

text \<open>The last pruned fee, or its migration out of the token document.\<close>

definition last_pruned_or_migrate ::
  "stub \<Rightarrow> string \<Rightarrow> token \<Rightarrow> failure + last_pruned_fee_id \<times> state_op list" where
  "last_pruned_or_migrate st code token =
     (case GetLastPrunedFeeID st code of
        Inr l \<Rightarrow> Inr (l, [])
      | Inl e \<Rightarrow>
          if is_NotInitLastPrunedFeeIDError e then
            let l = \<lparr>lpf_code = code, lpf_fee_id = tok_last_pruned_fee token, lpf_updated = None\<rparr>;
                token' = token\<lparr>tok_last_pruned_fee := []\<rparr> in
            attempt (PutToken st token') (responseError ''failed to update token state of removing last_pruned_fee_id'')
              (\<lambda>ws. Inr (l, ws))
          else Inl (responseError ''failed to get the last pruned fee id'' e))"

definition feePrune :: "stub \<Rightarrow> string list \<Rightarrow> response" where
  "feePrune st params =
     (if length params < 2 then Inl (Error ''incorrect number of parameters. expecting 2+'')
      else
        attempt (ValidateTokenCode (params ! 0)) shimError (\<lambda>code.
        attempt (GetToken st code) (responseError ''failed to get the token'') (\<lambda>token.
        attempt (kid_GetID st True) shimError (\<lambda>kid.
        case tok_policy token of
          None \<Rightarrow>
            Success (FeeSum \<lparr>fs_sum = 0, fs_count = 0, fs_start = [], fs_end = [], fs_has_more = False\<rparr>) []
        | Some policy \<Rightarrow>
        attempt (ParseAddress (shake_of st) (fp_target policy)) (\<lambda>_. Panic) (\<lambda>addr.
        attempt (GetAccount st addr) (responseError ''failed to get the target account'') (\<lambda>account.
        if \<not> HasHolder account kid then Inl (Error ''no authority'')
        else
        attempt (GetTime st) (responseError ''failed to get the timestamp'') (\<lambda>ts.
        attempt (last_pruned_or_migrate st code token) (\<lambda>e. e) (\<lambda>(lastPruned, w0).
        attempt (start_time (lpf_fee_id lastPruned)) (\<lambda>e. e) (\<lambda>stime.
        attempt (prune_end params ts) (\<lambda>e. e) (\<lambda>etime0.
        require (ParseBool (params ! 1)) (Error ''invalid boolean flag'') (\<lambda>safely.
        let etime = clamp_end ts etime0 safely in
        attempt (GetFeeSumByTime st code stime etime) (responseError ''failed to get fees to prune'') (\<lambda>feeSum.
        attempt (GetBalance st (Account_GetID account)) (responseError ''failed to get the target account balance'') (\<lambda>bal.
        if fs_count feeSum > 0 then
          let bal' = bal\<lparr>bal_amount := Amount_Add (bal_amount bal) (fs_sum feeSum), bal_updated := Some ts\<rparr> in
          attempt (PutBalance st bal') (responseError ''failed to update genesis account balance'') (\<lambda>w1.
          let lp' = lastPruned\<lparr>lpf_fee_id := fs_end feeSum, lpf_updated := Some ts\<rparr> in
          attempt (PutLastPrunedFeeID st lp') (responseError ''failed to update the last pruned fee id'') (\<lambda>w2.
          let pruneLog = (NewBalancePruneFeeLog bal' (fs_sum feeSum) (fs_start feeSum) (fs_end feeSum))
                           \<lparr>blog_created := Some ts\<rparr> in
          attempt (PutBalanceLog st pruneLog) (responseError ''failed to save balance log'') (\<lambda>w3.
          Success (FeeSum feeSum) (w0 @ w1 @ w2 @ w3))))
        else Inl (Error ''found no record to prune.''))))))))))))))"

section \<open>Runs\<close>

definition fee_prune_writes ::
  "time \<Rightarrow> balance \<Rightarrow> string \<Rightarrow> fee_sum \<Rightarrow> state_op list" where
  "fee_prune_writes ts bal code s =
     (let bal' = with_amount bal (bal_amount bal + fs_sum s) ts
      in [put_balance bal',
          Put (LastPrunedKey code) (DLastPruned \<lparr>lpf_code = code, lpf_fee_id = fs_end s, lpf_updated = Some ts\<rparr>),
          put_log ts (NewBalancePruneFeeLog bal' (fs_sum s) (fs_start s) (fs_end s))])"

lemma last_pruned_or_migrate_run:
  assumes "last_pruned_or_migrate st code token = Inr (l, ws)"
  shows "(world st (LastPrunedKey code) = Some (DLastPruned l) \<and> ws = []) \<or>
    (world st (LastPrunedKey code) = None \<and>
     l = \<lparr>lpf_code = code, lpf_fee_id = tok_last_pruned_fee token, lpf_updated = None\<rparr> \<and>
     ws = [put_token (token\<lparr>tok_last_pruned_fee := []\<rparr>)])"
proof (cases "GetLastPrunedFeeID st code")
  case (Inl e)
  then have "is_NotInitLastPrunedFeeIDError e"
    using assms by (auto simp: last_pruned_or_migrate_def split: if_splits)
  then have "world st (LastPrunedKey code) = None"
    using Inl
    by (auto simp: GetLastPrunedFeeID_def GetLastPrunedFeeIDState_def GetState_def attempt_def require_def
        wrap_def is_NotInitLastPrunedFeeIDError_def split: option.splits)
  then show ?thesis
    using assms Inl by (auto simp: last_pruned_or_migrate_def run put_token_def split: if_splits)
next
  case (Inr l')
  then have "world st (LastPrunedKey code) = Some (DLastPruned l')"
    by (simp add: run)
  then show ?thesis
    using assms Inr by (simp add: last_pruned_or_migrate_def)
qed

lemma feePrune_run:
  assumes "feePrune st params = Inr (p, ws)" "keyed (world st)"
  shows "(ws = [] \<and> (\<exists>code token. GetToken st code = Inr token \<and> tok_policy token = None)) \<or>
    (\<exists>code token policy addr account kid ts l w0 stime etime0 b s bal.
       ValidateTokenCode (params ! 0) = Inr code \<and> GetToken st code = Inr token \<and> tok_policy token = Some policy \<and>
       ParseAddress (shake_of st) (fp_target policy) = Inr addr \<and> GetAccount st addr = Inr account \<and>
       kid_GetID st True = Inr kid \<and> HasHolder account kid \<and> GetTime st = Inr ts \<and>
       last_pruned_or_migrate st code token = Inr (l, w0) \<and> start_time (lpf_fee_id l) = Inr stime \<and>
       prune_end params ts = Inr etime0 \<and> ParseBool (params ! 1) = Some b \<and>
       GetFeeSumByTime st code stime (clamp_end ts etime0 b) = Inr s \<and> 0 < fs_count s \<and>
       GetBalance st (Account_GetID account) = Inr bal \<and> p = FeeSum s \<and>
       ws = w0 @ fee_prune_writes ts bal code s)"
proof -
  obtain code token kid where c: "ValidateTokenCode (params ! 0) = Inr code" and t: "GetToken st code = Inr token"
    and k: "kid_GetID st True = Inr kid"
    using assms(1) by (auto simp: feePrune_def run split: if_splits)
  show ?thesis
  proof (cases "tok_policy token")
    case None
    then show ?thesis
      using assms(1) c t k by (auto simp: feePrune_def run split: if_splits)
  next
    case (Some policy)
    have code: "lpf_code l = code" if "last_pruned_or_migrate st code token = Inr (l, w0)" for l w0
      using last_pruned_or_migrate_run [OF that] keyedD [OF assms(2)] by fastforce
    show ?thesis
      using assms(1) c t k Some
      by (auto simp: feePrune_def run fee_prune_writes_def with_amount_def write_forms Let_def code
          split: if_splits)
  qed
qed

lemma feeList_run: "feeList st params = Inr (p, ws) \<Longrightarrow> ws = []"
  by (auto simp: feeList_def run Let_def split: if_splits)

end
