(* ===== verification/Chaincode.thy ===== *)
theory Chaincode
  imports FeeTx
begin

text \<open>
  \<open>contract_tx.go\<close>, the callbacks of the contract chaincode, and \<open>main.go\<close>, the dispatch of the
  transactions by name.
\<close>

section \<open>Contract callbacks\<close>

definition contractVoid :: "stub \<Rightarrow> string \<Rightarrow> json list \<Rightarrow> response" where
  "contractVoid st cid doc = Success NoPayload []"

definition ctrRoutes :: "(string \<times> (stub \<Rightarrow> string \<Rightarrow> json list \<Rightarrow> response) list) list" where
  "ctrRoutes =
     [(''account/create'', [contractVoid, executeAccountCreate]),
      (''account/holder/add'', [contractVoid, executeAccountHolderAdd]),
      (''account/holder/remove'', [contractVoid, executeAccountHolderRemove]),
      (''pay'', [cancelTransfer, executePay]),
      (''token/burn'', [contractVoid, executeTokenBurn]),
      (''token/create'', [contractVoid, executeTokenCreate]),
      (''token/mint'', [contractVoid, executeTokenMint]),
      (''transfer'', [cancelTransfer, executeTransfer])]"

text \<open>\<open>json.Unmarshal\<close> into a \<open>[]interface{}\<close>.\<close>

definition parse_doc :: "string \<Rightarrow> json list option" where
  "parse_doc s =
     (case json_parse s of Some (JArr js) \<Rightarrow> Some js | Some JNull \<Rightarrow> Some [] | _ \<Rightarrow> None)"

text \<open>A type that is not in the map gives a nil slice, whose indexing panics before the test for a nil
  function.\<close>

definition contractCallback :: "stub \<Rightarrow> nat \<Rightarrow> string list \<Rightarrow> response" where
  "contractCallback st fnIdx params =
     (if length params \<noteq> 2 then Inl (Error ''incorrect number of parameters. expecting 2'')
      else
        attempt (ccid_GetID st) (failWith ''failed to get ccid'') (\<lambda>ccid.
        if ''kiesnet-contract'' \<noteq> ccid \<and> ''kiesnet-cc-contract'' \<noteq> ccid then Inl (Error ''invalid access'')
        else
        attempt (kid_GetID st True) shimError (\<lambda>_.
        require (parse_doc (params ! 1)) (Error ''failed to unmarshal the contract document'') (\<lambda>doc.
        attempt (str_at doc 0) (\<lambda>e. e) (\<lambda>dtype.
        case map_of ctrRoutes dtype of
          None \<Rightarrow> Inl Panic
        | Some fns \<Rightarrow> if fnIdx < length fns then (fns ! fnIdx) st (params ! 0) doc else Inl Panic)))))"

definition contractCancel :: "stub \<Rightarrow> string list \<Rightarrow> response" where
  "contractCancel st params = contractCallback st 0 params"

definition contractExecute :: "stub \<Rightarrow> string list \<Rightarrow> response" where
  "contractExecute st params = contractCallback st 1 params"

section \<open>Transactions\<close>

definition ver :: "stub \<Rightarrow> string list \<Rightarrow> response" where
  "ver st params = Success (Text ''Kiesnet Token v1.2.5 created by Key Inside Co., Ltd.'') []"

definition routes :: "(string \<times> (stub \<Rightarrow> string list \<Rightarrow> response)) list" where
  "routes =
     [(''account/create'', accountCreate),
      (''account/get'', accountGet),
      (''account/holder/add'', accountHolderAdd),
      (''account/holder/remove'', accountHolderRemove),
      (''account/list'', accountList),
      (''account/suspend'', accountSuspend),
      (''account/unsuspend'', accountUnsuspend),
      (''balance/logs'', balanceLogs),
      (''balance/pending/get'', balancePendingGet),
      (''balance/pending/list'', balancePendingList),
      (''balance/pending/withdraw'', balancePendingWithdraw),
      (''contract/execute'', contractExecute),
      (''contract/cancel'', contractCancel),
      (''fee/list'', feeList),
      (''fee/prune'', feePrune),
      (''pay'', pay),
      (''pay/get'', payGet),
      (''pay/prune'', payPrune),
      (''pay/list'', payList),
      (''pay/refund'', payRefund),
      (''token/burn'', tokenBurn),
      (''token/create'', tokenCreate),
      (''token/get'', tokenGet),
      (''token/mint'', tokenMint),
      (''token/update'', tokenUpdate),
      (''transfer'', transfer),
      (''ver'', ver)]"

definition Invoke :: "stub \<Rightarrow> string \<Rightarrow> string list \<Rightarrow> response" where
  "Invoke st fn params =
     (case map_of routes fn of
        Some txFn \<Rightarrow> txFn st params
      | None \<Rightarrow> Inl (Error (''unknown function: '' @ brackets fn)))"

end
