(* ===== verification/Conservation.thy ===== *)
theory Conservation
  imports Chaincode
begin

text \<open>
  What the ledger holds of a token. \<open>doc_value c d\<close> is the amount of the token \<open>c\<close> that a document
  stands for: a balance, a pending amount with its fee, a fee, a pay. \<open>held c L\<close> is the sum over the
  whole ledger and \<open>supply_of c L\<close> the supply in the token's document.

  The lemmas \<open>gain_\<dots>\<close> say what each closed form of writes does to the sum: every movement between
  accounts leaves it alone, a mint or burn changes it by the amount, and a prune adds the amount that
  it credits for documents that stay in the ledger as history.
\<close>

definition code_of :: "string \<Rightarrow> string" where
  "code_of addr = (case ParseCode addr of Inl _ \<Rightarrow> [] | Inr c \<Rightarrow> c)"

fun doc_value :: "string \<Rightarrow> doc \<Rightarrow> int" where
  "doc_value c (DBalance b) = (if code_of (bal_id b) = c then bal_amount b else 0)"
| "doc_value c (DPending p) = (if code_of (pb_account p) = c then pb_amount p + fee_or_zero (pb_fee p) else 0)"
| "doc_value c (DFee f) = (if fee_code f = c then fee_amount f else 0)"
| "doc_value c (DPay p) = (if code_of (pay_account p) = c then pay_amount p else 0)"
| "doc_value c _ = 0"

definition held :: "string \<Rightarrow> ledger \<Rightarrow> int" where
  "held c L = total_of (doc_value c) L"

definition supply_of :: "string \<Rightarrow> ledger \<Rightarrow> int" where
  "supply_of c L = (case L (TokenKey c) of Some (DToken t) \<Rightarrow> tok_supply t | _ \<Rightarrow> 0)"

lemma held_commit: "finite (dom L) \<Longrightarrow> held c (commit ws L) = held c L + gain (doc_value c) ws L"
  by (simp add: held_def total_commit)

section \<open>Documents without value\<close>

lemma keyed_kind: "keyed L \<Longrightarrow> L k = Some d \<Longrightarrow> doc_kind d = key_kind k"
  using keyedD key_kind_of by metis

lemma no_value:
  assumes "keyed L" "key_kind k \<in> {0, 1, 3, 5, 8}"
  shows "entry (doc_value c) L k = 0"
proof (cases "L k")
  case (Some d)
  then have "doc_kind d \<in> {0, 1, 3, 5, 8}"
    using keyed_kind assms by metis
  then show ?thesis
    using Some by (cases d) simp_all
qed simp

lemma key_kind_log [simp]: "key_kind (log_key l) = 3"
  by (simp add: log_key_def)

lemmas value_less =
  no_value [where k = "AccountKey i" for i, simplified]
  no_value [where k = "HolderKey i a" for i a, simplified]
  no_value [where k = "log_key l" for l, simplified]
  no_value [where k = "TokenKey i" for i, simplified]
  no_value [where k = "LastPrunedKey i" for i, simplified]

lemmas gain_simps = put_balance_def put_log_def put_pending_def put_pay_def put_account_def put_holder_def
  put_token_def entry_upd entry_removed value_less Let_def

section \<open>Gains\<close>

lemma fee_code [simp]: "(case ParseCode addr of Inl _ \<Rightarrow> [] | Inr c \<Rightarrow> c) = code_of addr"
  by (simp add: code_of_def)

lemma gain_fee:
  "L (FeeKey (stamp_id st ts)) = None \<Longrightarrow>
   gain (doc_value c) (fee_writes st ts addr fee) L = (if code_of addr = c then fee else 0)"
  by (simp add: fee_writes_def)

lemma gain_supply:
  assumes "keyed L" "L (BalanceKey (bal_id b)) = Some (DBalance b)"
  shows "gain (doc_value c) (supply_writes ts b amount) L = (if code_of (bal_id b) = c then amount else 0)"
  using assms by (simp add: supply_writes_def gain_simps)

lemma NewPendingBalance_sel [simp]:
  "pb_id (NewPendingBalance i owner rel n f m t) = i" "pb_account (NewPendingBalance i owner rel n f m t) = owner"
  "pb_amount (NewPendingBalance i owner rel n f m t) = n" "pb_fee (NewPendingBalance i owner rel n f m t) = f"
  "pb_pending (NewPendingBalance i owner rel n f m t) = t"
  by (simp_all add: NewPendingBalance_def)

lemma fee_or_zero_simps [simp]: "fee_or_zero None = 0" "fee_or_zero (Some n) = n"
  by (simp_all add: fee_or_zero_def)

lemma gain_receive:
  assumes "keyed L" "L (BalanceKey (bal_id r)) = Some (DBalance r)" "L (PendingKey (txid st)) = None"
  shows "gain (doc_value c) (receive_writes st ts s r amount memo pt) L = (if code_of (bal_id r) = c then amount else 0)"
  using assms by (simp add: receive_writes_def gain_simps)

lemma commit_receive:
  "k \<noteq> PendingKey (txid st) \<Longrightarrow> k \<noteq> BalanceKey (bal_id r) \<Longrightarrow> key_kind k \<noteq> 3 \<Longrightarrow>
   commit (receive_writes st ts s r amount memo pt) L k = L k"
  by (rule commit_other) (auto simp: receive_writes_def write_forms NewPendingBalance_def Let_def)

lemma keyed_receive: "list_all keyed_write (receive_writes st ts s r amount memo pt)"
  by (simp add: receive_writes_def write_forms NewPendingBalance_def Let_def)

lemma gain_transfer:
  assumes "keyed L" "L (BalanceKey (bal_id s)) = Some (DBalance s)" "L (BalanceKey (bal_id r)) = Some (DBalance r)"
    "bal_id s \<noteq> bal_id r" "code_of (bal_id s) = code_of (bal_id r)"
    "L (PendingKey (txid st)) = None" "L (FeeKey (stamp_id st ts)) = None"
  shows "gain (doc_value c) (transfer_writes st ts s r amount fee memo pt) L = 0"
proof -
  let ?L = "commit (receive_writes st ts s r amount memo pt) L"
  have L: "keyed ?L" "?L (BalanceKey (bal_id s)) = Some (DBalance s)" "?L (FeeKey (stamp_id st ts)) = None"
    using assms keyed_commit [OF keyed_receive] by (simp_all add: commit_receive)
  then show ?thesis
    using assms by (simp add: transfer_writes_def gain_receive gain_fee gain_simps)
qed

lemma gain_transfer_pending:
  assumes "keyed L" "L (PendingKey (pb_id pb)) = Some (DPending pb)" "L (BalanceKey (bal_id r)) = Some (DBalance r)"
    "code_of (pb_account pb) = code_of (bal_id r)"
    "L (PendingKey (txid st)) = None" "L (FeeKey (stamp_id st ts)) = None"
  shows "gain (doc_value c) (transfer_pending_writes st ts pb r pt) L = 0"
proof -
  let ?L = "commit (receive_writes st ts (proxy (pb_account pb)) r (pb_amount pb) (pb_memo pb) pt) L"
  have "txid st \<noteq> pb_id pb"
    using assms by auto
  then have L: "keyed ?L" "?L (PendingKey (pb_id pb)) = Some (DPending pb)" "?L (FeeKey (stamp_id st ts)) = None"
    using assms keyed_commit [OF keyed_receive] by (simp_all add: commit_receive)
  have "commit (fee_writes st ts (pb_account pb) (fee_or_zero (pb_fee pb))) ?L (PendingKey (pb_id pb)) =
      Some (DPending pb)"
    using L(2) by (subst commit_other) (auto simp: fee_writes_def)
  then show ?thesis
    using assms L by (simp add: transfer_pending_writes_def gain_receive gain_fee)
qed

lemma gain_deposit:
  assumes "keyed L" "L (BalanceKey (bal_id s)) = Some (DBalance s)" "L (PendingKey (pb_id pb)) = None"
    "pb_account pb = bal_id s"
  shows "gain (doc_value c) (deposit_writes ts s pb) L = 0"
  using assms by (simp add: deposit_writes_def gain_simps)

lemma gain_withdraw:
  assumes "keyed L" "L (BalanceKey (bal_id b)) = Some (DBalance b)" "L (PendingKey (pb_id pb)) = Some (DPending pb)"
    "pb_account pb = bal_id b"
  shows "gain (doc_value c) (withdraw_writes ts b pb) L = 0"
  using assms by (simp add: withdraw_writes_def gain_simps)

lemma gain_pay:
  assumes "keyed L" "L (BalanceKey (bal_id s)) = Some (DBalance s)" "L (PayKey (pay_id p)) = None"
    "code_of (pay_account p) = code_of (bal_id s)"
  shows "gain (doc_value c) (pay_writes ts s p) L = 0"
  using assms by (simp add: pay_writes_def gain_simps)

lemma gain_refund:
  assumes "keyed L" "L (BalanceKey (bal_id r)) = Some (DBalance r)" "L (PayKey (pay_id p)) = None"
    "L (PayKey (pay_id parent)) = Some (DPay parent)" "code_of (pay_account p) = code_of (bal_id r)"
  shows "gain (doc_value c) (refund_writes ts r p parent) L = 0"
proof -
  have "pay_id p \<noteq> pay_id parent"
    using assms by auto
  then show ?thesis
    using assms by (simp add: refund_writes_def gain_simps)
qed

lemma gain_pay_pending:
  assumes "L (PendingKey (pb_id pb)) = Some (DPending pb)" "L (PayKey (pay_id q)) = None"
    "pay_amount q = pb_amount pb + fee_or_zero (pb_fee pb)" "code_of (pay_account q) = code_of (pb_account pb)"
  shows "gain (doc_value c) [put_pay q, Del (PendingKey (pb_id pb))] L = 0"
  using assms by (simp add: gain_simps)

lemma gain_prune:
  assumes "keyed L" "L (BalanceKey (bal_id b)) = Some (DBalance b)" "L (FeeKey (stamp_id st ts)) = None"
    "ident = bal_id b"
  shows "gain (doc_value c) (prune_writes st ts ident b s) L = (if code_of (bal_id b) = c then ps_sum s else 0)"
proof -
  let ?b = "pruned_balance b ts s"
  let ?L = "L(BalanceKey (bal_id b) \<mapsto> DBalance ?b)"
  have b: "bal_id ?b = bal_id b" "bal_amount ?b = bal_amount b + (ps_sum s - ps_fee s)"
    by (simp_all add: pruned_balance_def)
  have "keyed (commit (fee_writes st ts ident (ps_fee s)) ?L)"
    using assms(1) by (intro keyed_commit) (auto simp: keyed_def b)
  then show ?thesis
    using assms b by (simp add: prune_writes_def gain_fee gain_simps)
qed

lemma gain_fee_prune:
  assumes "keyed L" "L (BalanceKey (bal_id b)) = Some (DBalance b)"
  shows "gain (doc_value c) (fee_prune_writes ts b code s) L = (if code_of (bal_id b) = c then fs_sum s else 0)"
  using assms by (simp add: fee_prune_writes_def gain_simps)

lemma gain_put_token: "keyed L \<Longrightarrow> gain (doc_value c) [put_token t] L = 0"
  by (simp add: gain_simps)

lemma gain_put_account: "keyed L \<Longrightarrow> gain (doc_value c) [put_account a] L = 0"
  by (simp add: gain_simps)

end
