(* ===== verification/Invariant.thy ===== *)
theory Invariant
  imports Conservation
begin

text \<open>
  The ledger invariant and the step relation. \<open>ledger_ok\<close> says that every document lies under its own
  key, that accounts have well-formed addresses, that balances, pending balances, genesis accounts and
  fee targets belong to existing accounts and every account has a balance, that no supply passes its
  maximum and that no pay is refunded beyond its amount.

  \<open>write_ok\<close> is the condition on a single write under which the invariant is kept; each closed form of
  writes is shown to meet it, and so every transaction keeps the invariant. The contract chaincode is
  not part of the repository: \<open>trusted_doc\<close> is what a callback's document is relied on for, namely
  that it is one that this chaincode made.
\<close>

section \<open>Documents\<close>

definition account_exists :: "ledger \<Rightarrow> string \<Rightarrow> bool" where
  "account_exists L i \<longleftrightarrow> L (AccountKey i) \<noteq> None"

definition account_ok :: "shake \<Rightarrow> account_doc \<Rightarrow> bool" where
  "account_ok sh a \<longleftrightarrow>
     (\<exists>adr. wf_address sh adr \<and> Account_GetID a = Address_String adr \<and> Account_GetToken a = adr_code adr \<and>
        Account_GetType a = adr_type adr \<and>
        (case a of PersonalAccount _ \<Rightarrow> adr_type adr = AccountTypePersonal
         | JointAccount _ hs \<Rightarrow> adr_type adr = AccountTypeJoint \<and> distinct hs))"

definition token_ok :: "shake \<Rightarrow> ledger \<Rightarrow> token \<Rightarrow> bool" where
  "token_ok sh L t \<longleftrightarrow>
     tok_supply t \<le> tok_max_supply t \<and> 0 \<le> tok_decimal t \<and> tok_decimal t \<le> 18 \<and> policy_ok t \<and>
     (\<exists>adr. wf_address sh adr \<and> adr_type adr = AccountTypeJoint \<and> adr_code adr = tok_code t \<and>
        tok_genesis t = Address_String adr) \<and>
     account_exists L (tok_genesis t) \<and>
     (\<forall>p. tok_policy t = Some p \<longrightarrow> account_exists L (fp_target p))"

definition pay_ok :: "pay \<Rightarrow> bool" where
  "pay_ok p \<longleftrightarrow> 0 \<le> pay_total_refund p \<and> (pay_total_refund p = 0 \<or> pay_total_refund p \<le> pay_amount p)"

fun doc_ok :: "shake \<Rightarrow> ledger \<Rightarrow> doc \<Rightarrow> bool" where
  "doc_ok sh L (DAccount a) \<longleftrightarrow> account_ok sh a"
| "doc_ok sh L (DBalance b) \<longleftrightarrow> account_exists L (bal_id b)"
| "doc_ok sh L (DPending p) \<longleftrightarrow> account_exists L (pb_account p) \<and> pb_pending p \<noteq> None"
| "doc_ok sh L (DToken t) \<longleftrightarrow> token_ok sh L t"
| "doc_ok sh L (DPay p) \<longleftrightarrow> pay_ok p"
| "doc_ok sh L _ \<longleftrightarrow> True"

definition ledger_ok :: "shake \<Rightarrow> ledger \<Rightarrow> bool" where
  "ledger_ok sh L \<longleftrightarrow>
     keyed L \<and> finite (dom L) \<and> (\<forall>k d. L k = Some d \<longrightarrow> doc_ok sh L d) \<and>
     (\<forall>i. account_exists L i \<longrightarrow> L (BalanceKey i) \<noteq> None)"

lemma ledger_okD:
  assumes "ledger_ok sh L"
  shows "keyed L" "finite (dom L)" "L k = Some d \<Longrightarrow> doc_ok sh L d" "account_exists L i \<Longrightarrow> L (BalanceKey i) \<noteq> None"
  using assms by (auto simp: ledger_ok_def)

lemma doc_ok_mono: "(\<And>i. account_exists L i \<Longrightarrow> account_exists M i) \<Longrightarrow> doc_ok sh L d \<Longrightarrow> doc_ok sh M d"
  by (cases d) (auto simp: token_ok_def)

section \<open>Writes\<close>

fun write_ok :: "shake \<Rightarrow> ledger \<Rightarrow> state_op \<Rightarrow> bool" where
  "write_ok sh L (Put k d) \<longleftrightarrow>
     key_of d = k \<and> doc_ok sh L d \<and> (\<forall>a. d = DAccount a \<longrightarrow> account_exists L (Account_GetID a))"
| "write_ok sh L (Del k) \<longleftrightarrow> key_kind k \<in> {1, 4}"

lemma exists_apply: "write_ok sh L w \<Longrightarrow> account_exists L i \<Longrightarrow> account_exists (apply_write w L) i"
  by (cases w) (auto simp: account_exists_def)

lemma exists_apply_iff: "write_ok sh L w \<Longrightarrow> account_exists (apply_write w L) i \<longleftrightarrow> account_exists L i"
proof (cases w)
  case (Put k d)
  assume ok: "write_ok sh L w"
  show ?thesis
  proof (cases "AccountKey i = k")
    case True
    with ok Put have "doc_kind d = 0"
      by (metis key_kind_of key_kind_simps(1) write_ok.simps(1))
    then obtain a where "d = DAccount a"
      by (cases d) simp_all
    with ok Put True show ?thesis
      by (auto simp: account_exists_def)
  qed (use Put in \<open>simp add: account_exists_def\<close>)
qed (auto simp: account_exists_def)

lemma write_ok_mono: "(\<And>i. account_exists L i \<Longrightarrow> account_exists M i) \<Longrightarrow> write_ok sh L w \<Longrightarrow> write_ok sh M w"
  by (cases w) (auto intro: doc_ok_mono)

lemma ledger_ok_apply:
  assumes ok: "ledger_ok sh L" and w: "write_ok sh L w"
  shows "ledger_ok sh (apply_write w L)"
proof -
  let ?M = "apply_write w L"
  have ex: "account_exists ?M i \<longleftrightarrow> account_exists L i" for i
    using exists_apply_iff [OF w] .
  have "doc_ok sh ?M d" if "?M k = Some d" for k d
  proof -
    have "doc_ok sh L d"
      using that w ledger_okD(3) [OF ok] by (cases w) (auto split: if_splits)
    then show ?thesis
      by (rule doc_ok_mono [rotated]) (simp add: ex)
  qed
  moreover have "?M (BalanceKey i) \<noteq> None" if "account_exists ?M i" for i
  proof -
    have "L (BalanceKey i) \<noteq> None"
      using that ledger_okD(4) [OF ok, of i] by (simp add: ex)
    then show ?thesis
      using w by (cases w) auto
  qed
  moreover have "keyed ?M"
    using ledger_okD(1) [OF ok] w by (cases w) (auto simp: keyed_def)
  ultimately show ?thesis
    using finite_apply_write [OF ledger_okD(2) [OF ok]] by (simp add: ledger_ok_def)
qed

lemma ledger_ok_commit: "ledger_ok sh L \<Longrightarrow> list_all (write_ok sh L) ws \<Longrightarrow> ledger_ok sh (commit ws L)"
proof (induction ws arbitrary: L)
  case (Cons w ws)
  then have w: "write_ok sh L w" and ws: "list_all (write_ok sh L) ws"
    by simp_all
  have "write_ok sh (apply_write w L) v" if "write_ok sh L v" for v
    using that exists_apply [OF w] by (rule write_ok_mono [rotated])
  then have "list_all (write_ok sh (apply_write w L)) ws"
    using ws by (auto simp: list_all_iff)
  then show ?case
    using Cons.IH [OF ledger_ok_apply [OF Cons.prems(1) w]] by simp
qed simp

text \<open>An account and its first balance come together.\<close>

lemma ledger_ok_new_account:
  assumes ok: "ledger_ok sh L" and a: "account_ok sh a" and b: "bal_id b = Account_GetID a"
  shows "ledger_ok sh (L(AccountKey (Account_GetID a) \<mapsto> DAccount a, BalanceKey (bal_id b) \<mapsto> DBalance b))"
    (is "ledger_ok sh ?M")
proof -
  have mono: "account_exists L i \<Longrightarrow> account_exists ?M i" for i
    by (simp add: account_exists_def)
  have "doc_ok sh ?M d" if "?M k = Some d" for k d
  proof (cases "L k = Some d")
    case True
    then show ?thesis
      using ledger_okD(3) [OF ok] mono doc_ok_mono by blast
  next
    case False
    then have "d = DAccount a \<or> d = DBalance b"
      using that by (auto split: if_splits)
    then show ?thesis
      using a b by (auto simp: account_exists_def)
  qed
  moreover have "?M (BalanceKey i) \<noteq> None" if "account_exists ?M i" for i
    using that ledger_okD(4) [OF ok, of i] b by (auto simp: account_exists_def split: if_splits)
  moreover have "keyed ?M"
    using ledger_okD(1) [OF ok] by (auto simp: keyed_def)
  ultimately show ?thesis
    using ledger_okD(2) [OF ok] by (simp add: ledger_ok_def)
qed

section \<open>The closed forms\<close>

lemma write_ok_forms [simp]:
  "write_ok sh L (put_balance b) \<longleftrightarrow> account_exists L (bal_id b)"
  "write_ok sh L (put_log ts l)"
  "write_ok sh L (put_pending p) \<longleftrightarrow> account_exists L (pb_account p) \<and> pb_pending p \<noteq> None"
  "write_ok sh L (put_token t) \<longleftrightarrow> token_ok sh L t"
  "write_ok sh L (put_pay q) \<longleftrightarrow> pay_ok q"
  "write_ok sh L (put_account a) \<longleftrightarrow> account_ok sh a \<and> account_exists L (Account_GetID a)"
  "write_ok sh L (put_holder ts a kid)"
  by (simp_all add: put_balance_def put_log_def put_pending_def put_token_def put_pay_def put_account_def
      put_holder_def Let_def)

lemma write_ok_fee [simp]: "list_all (write_ok sh L) (fee_writes st ts addr n)"
  by (simp add: fee_writes_def)

lemma write_ok_supply: "account_exists L (bal_id b) \<Longrightarrow> list_all (write_ok sh L) (supply_writes ts b n)"
  by (simp add: supply_writes_def Let_def)

lemma write_ok_receive:
  "account_exists L (bal_id r) \<Longrightarrow> list_all (write_ok sh L) (receive_writes st ts s r n memo pt)"
  by (auto simp: receive_writes_def is_later_def Let_def split: option.splits)

lemma write_ok_transfer:
  "account_exists L (bal_id s) \<Longrightarrow> account_exists L (bal_id r) \<Longrightarrow>
   list_all (write_ok sh L) (transfer_writes st ts s r n fee memo pt)"
  by (simp add: transfer_writes_def write_ok_receive Let_def)

lemma write_ok_transfer_pending:
  "account_exists L (bal_id r) \<Longrightarrow> list_all (write_ok sh L) (transfer_pending_writes st ts pb r pt)"
  by (simp add: transfer_pending_writes_def write_ok_receive)

lemma write_ok_deposit:
  "account_exists L (bal_id s) \<Longrightarrow>
   list_all (write_ok sh L) (deposit_writes ts s (deposit_pending ts pid (bal_id s) cid n fee memo ex))"
  by (simp add: deposit_writes_def deposit_pending_def Let_def)

lemma write_ok_withdraw:
  "account_exists L (bal_id b) \<Longrightarrow> list_all (write_ok sh L) (withdraw_writes ts b pb)"
  by (simp add: withdraw_writes_def Let_def)

lemma write_ok_pay:
  "account_exists L (bal_id s) \<Longrightarrow> pay_ok p \<Longrightarrow> list_all (write_ok sh L) (pay_writes ts s p)"
  by (simp add: pay_writes_def Let_def)

lemma write_ok_refund:
  assumes "account_exists L (bal_id r)" "pay_ok p" "pay_ok parent" "pay_amount p < 0"
    "pay_total_refund parent - pay_amount p \<le> pay_amount parent"
  shows "list_all (write_ok sh L) (refund_writes ts r p parent)"
  using assms by (auto simp: refund_writes_def Let_def pay_ok_def)

lemma write_ok_prune:
  "account_exists L (bal_id b) \<Longrightarrow> list_all (write_ok sh L) (prune_writes st ts i b s)"
  by (simp add: prune_writes_def pruned_balance_def Let_def)

lemma write_ok_fee_prune:
  "account_exists L (bal_id b) \<Longrightarrow> list_all (write_ok sh L) (fee_prune_writes ts b code s)"
  by (simp add: fee_prune_writes_def Let_def)

section \<open>What a read finds\<close>

lemma GetBalance_ok:
  assumes "GetBalance st i = Inr b" "ledger_ok sh (world st)"
  shows "bal_id b = i" "world st (BalanceKey (bal_id b)) = Some (DBalance b)" "account_exists (world st) (bal_id b)"
proof -
  have b: "world st (BalanceKey i) = Some (DBalance b)"
    using assms(1) by (simp add: run)
  then show "bal_id b = i"
    using keyedD [OF ledger_okD(1) [OF assms(2)], of "BalanceKey i"] by simp
  then show "world st (BalanceKey (bal_id b)) = Some (DBalance b)"
    using b by simp
  show "account_exists (world st) (bal_id b)"
    using ledger_okD(3) [OF assms(2) b] by simp
qed

lemma GetPendingBalance_ok:
  assumes "GetPendingBalance st i = Inr p" "ledger_ok sh (world st)"
  shows "pb_id p = i" "world st (PendingKey (pb_id p)) = Some (DPending p)" "account_exists (world st) (pb_account p)"
    "pb_pending p \<noteq> None"
proof -
  have p: "world st (PendingKey i) = Some (DPending p)"
    using assms(1) by (simp add: run)
  then show "pb_id p = i"
    using keyedD [OF ledger_okD(1) [OF assms(2)], of "PendingKey i"] by simp
  then show "world st (PendingKey (pb_id p)) = Some (DPending p)"
    using p by simp
  show "account_exists (world st) (pb_account p)" "pb_pending p \<noteq> None"
    using ledger_okD(3) [OF assms(2) p] by simp_all
qed

lemma GetPay_ok:
  assumes "GetPay st i = Inr p" "ledger_ok sh (world st)"
  shows "pay_id p = i" "world st (PayKey (pay_id p)) = Some (DPay p)" "pay_ok p"
proof -
  have p: "world st (PayKey i) = Some (DPay p)"
    using assms(1) by (simp add: run)
  then show "pay_id p = i"
    using keyedD [OF ledger_okD(1) [OF assms(2)], of "PayKey i"] by simp
  then show "world st (PayKey (pay_id p)) = Some (DPay p)"
    using p by simp
  show "pay_ok p"
    using ledger_okD(3) [OF assms(2) p] by simp
qed

lemma GetToken_ok:
  assumes "GetToken st c = Inr t" "ledger_ok sh (world st)"
  shows "tok_code t = c" "world st (TokenKey (tok_code t)) = Some (DToken t)" "token_ok sh (world st) t"
proof -
  have t: "world st (TokenKey c) = Some (DToken t)"
    using assms(1) by (simp add: run)
  then show "tok_code t = c"
    using keyedD [OF ledger_okD(1) [OF assms(2)], of "TokenKey c"] by simp
  then show "world st (TokenKey (tok_code t)) = Some (DToken t)"
    using t by simp
  show "token_ok sh (world st) t"
    using ledger_okD(3) [OF assms(2) t] by simp
qed

lemma GetAccount_ok:
  assumes "GetAccount st adr = Inr a" "ledger_ok sh (world st)" "wf_address sh adr"
  shows "Account_GetID a = Address_String adr" "world st (AccountKey (Account_GetID a)) = Some (DAccount a)"
    "account_ok sh a"
proof -
  obtain a0 where a0: "world st (AccountKey (Address_String adr)) = Some (DAccount a0)"
    and base: "acc_base a = acc_base a0"
    and joint: "adr_type adr = AccountTypeJoint \<Longrightarrow> a = a0"
    and personal: "adr_type adr = AccountTypePersonal \<Longrightarrow> a = PersonalAccount (acc_base a0)"
    using GetAccount_run [OF assms(1)] by blast
  have ok: "account_ok sh a0"
    using ledger_okD(3) [OF assms(2) a0] by simp
  have ident0: "Account_GetID a0 = Address_String adr"
    using keyedD [OF ledger_okD(1) [OF assms(2)] a0] by simp
  then obtain adr' where adr': "wf_address sh adr'" "Address_String adr = Address_String adr'"
    and ty: "case a0 of PersonalAccount _ \<Rightarrow> adr_type adr' = AccountTypePersonal
         | JointAccount _ hs \<Rightarrow> adr_type adr' = AccountTypeJoint \<and> distinct hs"
    using ok by (auto simp: account_ok_def)
  have "adr = adr'"
    using Address_String_inject [OF assms(3) adr'] .
  then have "a = a0"
    using ty joint personal GetAccount_type [OF assms(1)] by (cases a0) auto
  then show "Account_GetID a = Address_String adr" "world st (AccountKey (Account_GetID a)) = Some (DAccount a)"
    "account_ok sh a"
    using a0 ident0 ok by simp_all
qed

lemma code_of_String: "wf_address sh adr \<Longrightarrow> code_of (Address_String adr) = adr_code adr"
  by (simp add: code_of_def ParseCode_String)

end
