(* ===== verification/Steps.thy ===== *)
theory Steps
  imports Invariant
begin

text \<open>
  Every handler keeps the ledger invariant, and every handler but the two prunes changes what the
  ledger holds of a token exactly as it changes the token's supply. \<open>fresh_tx\<close> is the uniqueness of
  transaction identifiers that the platform guarantees, in the form in which the keys use it.
\<close>

definition running :: "stub \<Rightarrow> bool" where
  "running st \<longleftrightarrow> shake_ok (shake_of st) \<and> ledger_ok (shake_of st) (world st)"

definition fresh_tx :: "stub \<Rightarrow> bool" where
  "fresh_tx st \<longleftrightarrow>
     world st (PendingKey (txid st)) = None \<and>
     (\<forall>ts. GetTime st = Inr ts \<longrightarrow>
        world st (FeeKey (stamp_id st ts)) = None \<and> world st (PayKey (stamp_id st ts)) = None)"

lemma runningD:
  assumes "running st"
  shows "shake_ok (shake_of st)" "ledger_ok (shake_of st) (world st)" "keyed (world st)" "finite (dom (world st))"
  using assms ledger_okD by (auto simp: running_def)

lemma fresh_txD:
  assumes "fresh_tx st" "GetTime st = Inr ts"
  shows "world st (PendingKey (txid st)) = None" "world st (FeeKey (stamp_id st ts)) = None"
    "world st (PayKey (stamp_id st ts)) = None"
  using assms by (auto simp: fresh_tx_def)

section \<open>Writes that leave tokens alone\<close>

definition no_token :: "state_op list \<Rightarrow> bool" where
  "no_token ws \<longleftrightarrow> list_all (\<lambda>w. key_kind (write_key w) \<noteq> 5) ws"

lemma supply_same:
  assumes "no_token ws"
  shows "supply_of c (commit ws L) = supply_of c L"
proof -
  have "TokenKey c \<noteq> write_key w" if "w \<in> set ws" for w
  proof (rule keys_apart)
    show "key_kind (TokenKey c) \<noteq> key_kind (write_key w)"
      using assms that by (auto simp: no_token_def list_all_iff)
  qed
  then have "commit ws L (TokenKey c) = L (TokenKey c)"
    by (intro commit_other) auto
  then show ?thesis
    by (simp add: supply_of_def)
qed

lemma no_token_simps [simp]:
  "no_token []" "no_token (w # ws) \<longleftrightarrow> key_kind (write_key w) \<noteq> 5 \<and> no_token ws"
  "no_token (vs @ ws) \<longleftrightarrow> no_token vs \<and> no_token ws"
  by (simp_all add: no_token_def)

lemma write_kind [simp]:
  "key_kind (write_key (put_balance b)) = 2" "key_kind (write_key (put_log ts l)) = 3"
  "key_kind (write_key (put_pending p)) = 4" "key_kind (write_key (put_token t)) = 5"
  "key_kind (write_key (put_pay q)) = 7" "key_kind (write_key (put_account a)) = 0"
  "key_kind (write_key (put_holder ts a kid)) = 1"
  by (simp_all add: put_balance_def put_log_def put_pending_def put_token_def put_pay_def put_account_def
      put_holder_def Let_def)

lemma no_token_fee [simp]: "no_token (fee_writes st ts addr n)"
  by (simp add: fee_writes_def)

lemma no_token_forms [simp]:
  "no_token (supply_writes ts b n)" "no_token (receive_writes st ts s r n memo pt)"
  "no_token (transfer_writes st ts s r n fee memo pt)" "no_token (transfer_pending_writes st ts pb r pt)"
  "no_token (deposit_writes ts s pb)" "no_token (withdraw_writes ts b pb)" "no_token (pay_writes ts s q)"
  "no_token (refund_writes ts r q parent)" "no_token (prune_writes st ts i b ps)"
  "no_token (fee_prune_writes ts b code fs)"
  by (simp_all add: supply_writes_def receive_writes_def transfer_writes_def transfer_pending_writes_def
      deposit_writes_def withdraw_writes_def pay_writes_def refund_writes_def prune_writes_def
      fee_prune_writes_def Let_def)

section \<open>Keeping and conserving\<close>

definition keeps :: "stub \<Rightarrow> state_op list \<Rightarrow> bool" where
  "keeps st ws \<longleftrightarrow> ledger_ok (shake_of st) (commit ws (world st))"

definition conserves :: "stub \<Rightarrow> string \<Rightarrow> state_op list \<Rightarrow> bool" where
  "conserves st c ws \<longleftrightarrow>
     gain (doc_value c) ws (world st) = supply_of c (commit ws (world st)) - supply_of c (world st)"

lemma keeps_write_ok: "running st \<Longrightarrow> list_all (write_ok (shake_of st) (world st)) ws \<Longrightarrow> keeps st ws"
  by (simp add: keeps_def running_def ledger_ok_commit)

lemma keeps_Nil [simp]: "running st \<Longrightarrow> keeps st []"
  by (simp add: keeps_def running_def)

lemma conserves_Nil [simp]: "conserves st c []"
  by (simp add: conserves_def)

lemma conserves_zero: "no_token ws \<Longrightarrow> gain (doc_value c) ws (world st) = 0 \<Longrightarrow> conserves st c ws"
  by (simp add: conserves_def supply_same)

lemma conserves_held:
  assumes "running st" "conserves st c ws"
  shows "held c (commit ws (world st)) - supply_of c (commit ws (world st)) =
    held c (world st) - supply_of c (world st)"
  using assms runningD(4) by (simp add: conserves_def held_commit)

section \<open>Transfers\<close>

lemma transfer_parts:
  assumes "running st" "transfer st params = Inr (p, ws)"
  obtains ts sBal rBal amount fee memo pt where "GetTime st = Inr ts"
    "world st (BalanceKey (bal_id sBal)) = Some (DBalance sBal)"
    "world st (BalanceKey (bal_id rBal)) = Some (DBalance rBal)" "bal_id sBal \<noteq> bal_id rBal"
    "code_of (bal_id sBal) = code_of (bal_id rBal)" "0 < amount" "0 \<le> fee" "amount + fee \<le> bal_amount sBal"
    "account_exists (world st) (bal_id sBal)" "account_exists (world st) (bal_id rBal)"
    "ws = transfer_writes st ts sBal rBal amount fee memo pt \<or>
     (\<exists>cid ex. ws = deposit_writes ts sBal (deposit_pending ts (txid st) (bal_id sBal) cid amount (Some fee) memo ex))"
proof -
  let ?sh = "shake_of st"
  have sh: "shake_ok ?sh" and ok: "ledger_ok ?sh (world st)"
    using runningD [OF assms(1)] by simp_all
  obtain kid amount sAddr rAddr sender receiver sBal rBal fee opts l
    where c: "transfer_checked st params kid amount sAddr rAddr sender receiver sBal rBal fee"
      and m: "transfer_move st params sBal rBal sender receiver amount fee opts = Inr (l, ws)"
    using transfer_run [OF assms(2)] by blast
  have wr: "wf_address ?sh rAddr"
    using c ParseAddress_run(1) by (auto simp: transfer_checked_def)
  then have ws': "wf_address ?sh sAddr" "adr_code sAddr = adr_code rAddr"
    using c transfer_sender_run [of st kid rAddr _ sAddr] sh by (auto simp: transfer_checked_def)
  have ids: "Account_GetID sender = Address_String sAddr" "Account_GetID receiver = Address_String rAddr"
    using c GetAccount_ok(1) [OF _ ok] wr ws' by (auto simp: transfer_checked_def)
  have sb: "GetBalance st (Account_GetID sender) = Inr sBal" and rb: "GetBalance st (Account_GetID receiver) = Inr rBal"
    using c by (auto simp: transfer_checked_def)
  have bids: "bal_id sBal = Address_String sAddr" "bal_id rBal = Address_String rAddr"
    using GetBalance_ok(1) [OF sb ok] GetBalance_ok(1) [OF rb ok] ids by simp_all
  have neq: "bal_id sBal \<noteq> bal_id rBal"
    using bids Address_String_inject [OF ws'(1) wr] c by (auto simp: transfer_checked_def)
  have codes: "code_of (bal_id sBal) = code_of (bal_id rBal)"
    using bids ws' wr by (simp add: code_of_String)
  obtain memo pt expiry signers where opts: "opts = (memo, pt, expiry, signers)"
    by (cases opts)
  obtain ts where ts: "GetTime st = Inr ts"
    and w: "ws = transfer_writes st ts sBal rBal amount fee memo pt \<or>
     (\<exists>cid ex. ws = deposit_writes ts sBal (deposit_pending ts (txid st) (bal_id sBal) cid amount (Some fee) memo ex))"
    using transfer_move_run [OF m [unfolded opts]] by (auto split: if_splits)
  show thesis
    using that [OF ts GetBalance_ok(2) [OF sb ok] GetBalance_ok(2) [OF rb ok] neq codes _ _ _
        GetBalance_ok(3) [OF sb ok] GetBalance_ok(3) [OF rb ok] w] c CalcFee_nonneg
    by (auto simp: transfer_checked_def)
qed

lemma deposit_pending_sel [simp]:
  "pb_id (deposit_pending ts i owner cid n f m ex) = i" "pb_account (deposit_pending ts i owner cid n f m ex) = owner"
  "pb_amount (deposit_pending ts i owner cid n f m ex) = n" "pb_fee (deposit_pending ts i owner cid n f m ex) = f"
  by (simp_all add: deposit_pending_def)

lemma transfer_keeps:
  assumes "running st" "transfer st params = Inr (p, ws)"
  shows "keeps st ws"
  using assms by (rule transfer_parts) (auto intro!: assms(1) keeps_write_ok write_ok_transfer write_ok_deposit)

lemma transfer_conserves:
  assumes "running st" "fresh_tx st" "transfer st params = Inr (p, ws)"
  shows "conserves st c ws"
  using assms(1,3)
  by (rule transfer_parts)
    (auto intro!: conserves_zero gain_transfer gain_deposit simp: runningD [OF assms(1)] dest: fresh_txD [OF assms(2)])

lemma withdraw_parts:
  assumes "running st" "GetPendingBalance st pid = Inr pb" "GetBalance st (pb_account pb) = Inr bal"
  shows "keeps st (withdraw_writes ts bal pb)" "conserves st c (withdraw_writes ts bal pb)"
proof -
  note ok = runningD(2) [OF assms(1)]
  show "keeps st (withdraw_writes ts bal pb)"
    using GetBalance_ok(3) [OF assms(3) ok] by (intro keeps_write_ok write_ok_withdraw assms(1))
  show "conserves st c (withdraw_writes ts bal pb)"
    using GetBalance_ok(1,2) [OF assms(3) ok] GetPendingBalance_ok(2) [OF assms(2) ok] runningD(3) [OF assms(1)]
    by (intro conserves_zero gain_withdraw) simp_all
qed

lemma cancelTransfer_step:
  assumes "running st" "cancelTransfer st cid doc = Inr (p, ws)"
  shows "keeps st ws" "conserves st c ws"
  using cancelTransfer_run [OF assms(2)] withdraw_parts [OF assms(1)] by blast+

lemma balancePendingWithdraw_step:
  assumes "running st" "balancePendingWithdraw st params = Inr (p, ws)"
  shows "keeps st ws" "conserves st c ws"
  using balancePendingWithdraw_run [OF assms(2)] withdraw_parts [OF assms(1)] by blast+

text \<open>The receiver of an executed transfer or pay is named by the contract's document.\<close>

definition trusted_receiver :: "ledger \<Rightarrow> json list \<Rightarrow> bool" where
  "trusted_receiver L doc \<longleftrightarrow>
     (\<forall>pid rid pb. doc ! 1 = JStr pid \<longrightarrow> doc ! 3 = JStr rid \<longrightarrow> L (PendingKey pid) = Some (DPending pb) \<longrightarrow>
        code_of rid = code_of (pb_account pb))"

lemma executeTransfer_step:
  assumes "running st" "executeTransfer st cid doc = Inr (p, ws)"
  shows "keeps st ws" "fresh_tx st \<Longrightarrow> trusted_receiver (world st) doc \<Longrightarrow> conserves st c ws"
proof -
  note ok = runningD(2) [OF assms(1)]
  obtain pid pb rid rBal pt ts where d: "doc ! 1 = JStr pid" "doc ! 3 = JStr rid"
    and pb: "GetPendingBalance st pid = Inr pb" and r: "GetBalance st rid = Inr rBal"
    and ts: "GetTime st = Inr ts" and ws: "ws = transfer_pending_writes st ts pb rBal pt"
    using executeTransfer_run [OF assms(2)] by blast
  show "keeps st ws"
    using GetBalance_ok(3) [OF r ok] unfolding ws by (intro keeps_write_ok write_ok_transfer_pending assms(1))
  assume f: "fresh_tx st" and t: "trusted_receiver (world st) doc"
  have "code_of (bal_id rBal) = code_of (pb_account pb)"
    using t d pb GetBalance_ok(1) [OF r ok] by (auto simp: trusted_receiver_def run)
  then show "conserves st c ws"
    using GetBalance_ok(2) [OF r ok] GetPendingBalance_ok(2) [OF pb ok] runningD(3) [OF assms(1)] fresh_txD [OF f ts]
    unfolding ws by (intro conserves_zero gain_transfer_pending) simp_all
qed

section \<open>Pays\<close>

lemma pay_ok_new [simp]: "pay_ok (NewPay a i n f r p oid m ts)"
  by (simp add: pay_ok_def)

lemma pay_parts:
  assumes "running st" "pay st params = Inr (p, ws)"
  obtains ts sBal rid amount memo where "GetTime st = Inr ts"
    "world st (BalanceKey (bal_id sBal)) = Some (DBalance sBal)" "account_exists (world st) (bal_id sBal)"
    "bal_id sBal \<noteq> rid" "account_exists (world st) rid" "code_of (bal_id sBal) = code_of rid"
    "0 < amount" "amount \<le> bal_amount sBal"
    "(\<exists>fee oid. ws = pay_writes ts sBal (NewPay rid (stamp_id st ts) amount fee (bal_id sBal) [] oid memo ts)) \<or>
     (\<exists>cid ex. ws = deposit_writes ts sBal (deposit_pending ts (txid st) (bal_id sBal) cid amount None memo ex))"
proof -
  let ?sh = "shake_of st"
  have sh: "shake_ok ?sh" and ok: "ledger_ok ?sh (world st)"
    using runningD [OF assms(1)] by simp_all
  obtain kid amount sAddr rAddr sender receiver sBal q l
    where c: "pay_checked st params kid amount sAddr rAddr sender receiver sBal"
      and m: "pay_move st sBal sender receiver rAddr amount (account_signers kid sender) (pay_options params) = Inr ((q, l), ws)"
    using pay_run [OF assms(2)] by blast
  have wr: "wf_address ?sh rAddr"
    using c ParseAddress_run(1) by (auto simp: pay_checked_def)
  then have ws': "wf_address ?sh sAddr" "adr_code sAddr = adr_code rAddr"
    using c pay_sender_run [of st kid rAddr _ sAddr] sh by (auto simp: pay_checked_def)
  have r: "GetAccount st rAddr = Inr receiver"
    using c by (simp add: pay_checked_def)
  have ids: "Account_GetID sender = Address_String sAddr" "Account_GetID receiver = Address_String rAddr"
    using c GetAccount_ok(1) [OF _ ok] wr ws' by (auto simp: pay_checked_def)
  have rex: "account_exists (world st) (Account_GetID receiver)"
    using GetAccount_ok(2) [OF r ok wr] by (simp add: account_exists_def)
  have sb: "GetBalance st (Account_GetID sender) = Inr sBal"
    using c by (auto simp: pay_checked_def)
  have bid: "bal_id sBal = Address_String sAddr"
    using GetBalance_ok(1) [OF sb ok] ids by simp
  have neq: "bal_id sBal \<noteq> Account_GetID receiver"
    using bid ids Address_String_inject [OF ws'(1) wr] c by (auto simp: pay_checked_def)
  have codes: "code_of (bal_id sBal) = code_of (Account_GetID receiver)"
    using bid ids ws' wr by (simp add: code_of_String)
  obtain oid memo expiry where opts: "pay_options params = (oid, memo, expiry)"
    by (cases "pay_options params")
  obtain ts where ts: "GetTime st = Inr ts"
    and w: "(\<exists>fee oid. ws = pay_writes ts sBal (NewPay (Account_GetID receiver) (stamp_id st ts) amount fee (bal_id sBal) [] oid memo ts)) \<or>
     (\<exists>cid ex. ws = deposit_writes ts sBal (deposit_pending ts (txid st) (bal_id sBal) cid amount None memo ex))"
    using pay_move_run [OF m [unfolded opts]] by (meson)
  show thesis
    using that [OF ts GetBalance_ok(2) [OF sb ok] GetBalance_ok(3) [OF sb ok] neq rex codes _ _ w] c
    by (simp add: pay_checked_def)
qed

lemma pay_keeps:
  assumes "running st" "pay st params = Inr (p, ws)"
  shows "keeps st ws"
  using assms by (rule pay_parts) (auto intro!: assms(1) keeps_write_ok write_ok_pay write_ok_deposit)

lemma pay_conserves:
  assumes "running st" "fresh_tx st" "pay st params = Inr (p, ws)"
  shows "conserves st c ws"
  using assms(1,3)
  by (rule pay_parts)
    (auto intro!: conserves_zero gain_pay gain_deposit simp: runningD [OF assms(1)] dest: fresh_txD [OF assms(2)])

lemma payRefund_step:
  assumes "running st" "payRefund st params = Inr (p, ws)"
  shows "keeps st ws" "fresh_tx st \<Longrightarrow> conserves st c ws"
proof -
  let ?sh = "shake_of st"
  note ok = runningD(2) [OF assms(1)]
  obtain kid amount parent sAddr rAddr sender receiver sBal rBal fee memo ts q
    where c: "refund_checked st params kid amount parent sAddr rAddr sender receiver sBal rBal fee"
      and ts: "GetTime st = Inr ts" and ws: "ws = refund_writes ts rBal q parent"
      and q: "q = NewPay (bal_id sBal) (stamp_id st ts) (- amount) (- fee) (bal_id rBal) (pay_id parent) [] memo ts"
    using payRefund_run [OF assms(2)] by blast
  have wf: "wf_address ?sh sAddr" "wf_address ?sh rAddr" "adr_code rAddr = adr_code sAddr"
    using c ParseAddress_run(1) by (auto simp: refund_checked_def)
  have par: "GetPay st (params ! 0) = Inr parent"
    and sb: "GetBalance st (Account_GetID sender) = Inr sBal" and rb: "GetBalance st (Account_GetID receiver) = Inr rBal"
    using c by (simp_all add: refund_checked_def)
  have ids: "bal_id sBal = Address_String sAddr" "bal_id rBal = Address_String rAddr"
    using c GetAccount_ok(1) [OF _ ok] wf GetBalance_ok(1) [OF sb ok] GetBalance_ok(1) [OF rb ok]
    by (auto simp: refund_checked_def)
  show "keeps st ws"
    using c GetBalance_ok(3) [OF rb ok] GetPay_ok(3) [OF par ok] unfolding ws q
    by (intro keeps_write_ok write_ok_refund assms(1)) (simp_all add: refund_checked_def)
  assume f: "fresh_tx st"
  show "conserves st c ws"
    using GetBalance_ok(2) [OF rb ok] GetPay_ok(2) [OF par ok] runningD(3) [OF assms(1)] fresh_txD [OF f ts] ids wf
    unfolding ws q by (intro conserves_zero gain_refund) (simp_all add: code_of_String)
qed

lemma payPrune_step:
  assumes "running st" "payPrune st params = Inr (p, ws)"
  shows "keeps st ws"
proof -
  note ok = runningD(2) [OF assms(1)]
  obtain account bal ts s where b: "GetBalance st (Account_GetID account) = Inr bal"
    and ws: "ws = prune_writes st ts (Account_GetID account) bal s"
    using payPrune_run [OF assms(2)] by blast
  show ?thesis
    using GetBalance_ok(3) [OF b ok] unfolding ws by (intro keeps_write_ok write_ok_prune assms(1))
qed

lemma executePay_step:
  assumes "running st" "executePay st cid doc = Inr (p, ws)"
  shows "keeps st ws"
    "fresh_tx st \<Longrightarrow> trusted_receiver (world st) doc \<Longrightarrow> \<forall>pid pb. doc ! 1 = JStr pid \<longrightarrow>
       world st (PendingKey pid) = Some (DPending pb) \<longrightarrow> pb_fee pb = None \<Longrightarrow> conserves st c ws"
proof -
  note ok = runningD(2) [OF assms(1)]
  obtain pid pb merchant fee d5 d6 ts q where d: "doc ! 1 = JStr pid" "doc ! 3 = JStr merchant"
    and pb: "GetPendingBalance st pid = Inr pb" and ts: "GetTime st = Inr ts"
    and ws: "ws = [put_pay q, Del (PendingKey (pb_id pb))]"
    and q: "q = NewPay merchant (stamp_id st ts) (pb_amount pb) fee (pb_account pb) [] d6 d5 ts"
    using executePay_run [OF assms(2)] by blast
  show "keeps st ws"
    unfolding ws by (rule keeps_write_ok [OF assms(1)]) (simp add: q)
  assume f: "fresh_tx st" and t: "trusted_receiver (world st) doc"
    and n: "\<forall>pid pb. doc ! 1 = JStr pid \<longrightarrow> world st (PendingKey pid) = Some (DPending pb) \<longrightarrow> pb_fee pb = None"
  have "pb_fee pb = None" "code_of merchant = code_of (pb_account pb)"
    using n t d pb by (auto simp: trusted_receiver_def run)
  then show "conserves st c ws"
    using GetPendingBalance_ok(2) [OF pb ok] fresh_txD [OF f ts]
    unfolding ws by (intro conserves_zero gain_pay_pending) (simp_all add: q)
qed

end
