(* ===== verification/AccountSteps.thy ===== *)
theory AccountSteps
  imports Steps
begin

text \<open>
  The account handlers and callbacks keep the ledger invariant and conserve. An account is created
  together with its balance, under an address no account had.
\<close>

section \<open>Creating accounts\<close>

lemma account_ok_new:
  assumes "shake_ok sh" "matches_code code" "ty \<in> {AccountTypePersonal, AccountTypeJoint}"
    "addr = Address_String (NewAddress sh code ty i)"
  shows "ty = AccountTypePersonal \<Longrightarrow> account_ok sh (PersonalAccount (account_of ts addr code ty))"
    "ty = AccountTypeJoint \<Longrightarrow> distinct hs \<Longrightarrow> account_ok sh (JointAccount (account_of ts addr code ty) hs)"
  using wf_NewAddress [OF assms(1-3)] assms(4)
  unfolding account_ok_def Account_GetID_def Account_GetToken_def Account_GetType_def account_of_def
  by (intro exI [of _ "NewAddress sh code ty i"]; simp)+

lemma account_ok_joint:
  assumes "account_ok sh (JointAccount b hs)" "distinct hs'"
    "acc_id b' = acc_id b" "acc_token b' = acc_token b" "acc_type b' = acc_type b"
  shows "account_ok sh (JointAccount b' hs')"
  using assms by (auto simp: account_ok_def Account_GetID_def Account_GetToken_def Account_GetType_def)

lemma account_ok_personal:
  assumes "account_ok sh (PersonalAccount b)"
    "acc_id b' = acc_id b" "acc_token b' = acc_token b" "acc_type b' = acc_type b"
  shows "account_ok sh (PersonalAccount b')"
  using assms by (auto simp: account_ok_def Account_GetID_def Account_GetToken_def Account_GetType_def)

lemma write_ok_holders: "list_all (write_ok sh L) (map (put_holder ts a) kids)"
  by (induction kids) simp_all

lemma empty_balance_sel [simp]: "bal_id (empty_balance ts i) = i" "bal_amount (empty_balance ts i) = 0"
  by (simp_all add: empty_balance_def)

lemma create_ok:
  assumes "ledger_ok sh L" "account_ok sh a"
  shows "ledger_ok sh (commit (create_writes ts a kids) L)"
  using ledger_ok_commit [OF ledger_ok_new_account [OF assms, of "empty_balance ts (Account_GetID a)"] write_ok_holders]
  by (simp add: create_writes_def put_account_def put_balance_def)

lemma gain_holders: "keyed L \<Longrightarrow> gain (doc_value c) (map (put_holder ts a) kids) L = 0"
proof (induction kids arbitrary: L)
  case (Cons kid kids)
  have "keyed (apply_write (put_holder ts a kid) L)"
    using Cons.prems by (simp add: put_holder_def keyed_def)
  with Cons show ?case
    by (simp add: gain_simps)
qed simp

lemma no_balance:
  assumes "ledger_ok sh L" "L (AccountKey i) = None"
  shows "L (BalanceKey i) = None"
proof (rule ccontr)
  assume "L (BalanceKey i) \<noteq> None"
  then obtain d where d: "L (BalanceKey i) = Some d"
    by blast
  have "key_of d = BalanceKey i"
    using keyedD [OF ledger_okD(1) [OF assms(1)] d] .
  then have "doc_kind d = 2"
    by (metis key_kind_of key_kind_simps(3))
  then obtain b where "d = DBalance b"
    by (cases d) simp_all
  then show False
    using ledger_okD(3) [OF assms(1) d] \<open>key_of d = BalanceKey i\<close> assms(2) by (simp add: account_exists_def)
qed

lemma gain_create:
  assumes "ledger_ok sh L" "account_ok sh a" "L (AccountKey (Account_GetID a)) = None"
  shows "gain (doc_value c) (create_writes ts a kids) L = 0"
proof -
  let ?b = "empty_balance ts (Account_GetID a)"
  have k: "keyed L" "keyed (L(AccountKey (Account_GetID a) \<mapsto> DAccount a))"
    using ledger_okD(1) [OF assms(1)] by (auto simp: keyed_def)
  have "keyed (L(AccountKey (Account_GetID a) \<mapsto> DAccount a, BalanceKey (bal_id ?b) \<mapsto> DBalance ?b))"
    using ledger_okD(1) [OF ledger_ok_new_account [OF assms(1,2), of ?b]] by simp
  then show ?thesis
    using no_balance [OF assms(1,3)] k by (simp add: create_writes_def gain_holders gain_simps)
qed

lemma no_token_create [simp]: "no_token (create_writes ts a kids)"
  by (auto simp: create_writes_def no_token_def list_all_iff)

lemma create_step:
  assumes "running st" "account_ok (shake_of st) a" "world st (AccountKey (Account_GetID a)) = None"
  shows "keeps st (create_writes ts a kids)" "conserves st c (create_writes ts a kids)"
  using create_ok gain_create [OF runningD(2) [OF assms(1)] assms(2,3)] runningD(2) [OF assms(1)] assms(2)
  by (auto simp: keeps_def intro!: conserves_zero)

section \<open>Accounts\<close>

lemma put_account_step:
  assumes "running st" "account_ok (shake_of st) a" "account_exists (world st) (Account_GetID a)"
    "list_all (write_ok (shake_of st) (world st)) ws" "no_token ws" "gain (doc_value c) ws (commit [put_account a] (world st)) = 0"
  shows "keeps st (put_account a # ws)" "conserves st c (put_account a # ws)"
proof -
  show "keeps st (put_account a # ws)"
    using assms by (intro keeps_write_ok) simp_all
  show "conserves st c (put_account a # ws)"
    using assms gain_put_account [OF runningD(3) [OF assms(1)], of c a] by (intro conserves_zero) simp_all
qed

lemma account_of_id [simp]:
  "Account_GetID (PersonalAccount (account_of ts i c ty)) = i" "Account_GetID (JointAccount (account_of ts i c ty) hs) = i"
  by (simp_all add: Account_GetID_def account_of_def)

lemma accountCreate_step:
  assumes "running st" "accountCreate st params = Inr (p, ws)"
  shows "keeps st ws" "conserves st c ws"
proof -
  have "keeps st ws \<and> conserves st c ws"
    using accountCreate_run [OF assms(2)]
  proof (elim disjE exE conjE)
    fix kid a b code
    assume code: "ValidateTokenCode (params ! 0) = Inr code" and cr: "CreateAccount st code kid = Inr (a, b, ws)"
    let ?i = "Address_String (NewAddress (shake_of st) code AccountTypePersonal kid)"
    obtain ts where w: "world st (AccountKey ?i) = None"
      and a: "a = PersonalAccount (account_of ts ?i code AccountTypePersonal)" and ws: "ws = create_writes ts a [kid]"
      using CreateAccount_run [OF cr] by blast
    have "account_ok (shake_of st) a"
      using account_ok_new(1) [OF runningD(1) [OF assms(1)], of code AccountTypePersonal] code a
      by (auto simp: ValidateTokenCode_run)
    then show ?thesis
      using create_step [OF assms(1)] w a ws by simp
  qed (use assms(1) in simp)
  then show "keeps st ws" "conserves st c ws"
    by simp_all
qed

lemma suspend_step:
  assumes "running st" "matches_code code"
    and g: "GetAccount st (NewAddress (shake_of st) code AccountTypePersonal kid) = Inr (PersonalAccount pac)"
    and "acc_id b = acc_id pac" "acc_token b = acc_token pac" "acc_type b = acc_type pac"
  shows "keeps st [put_account (PersonalAccount b)]" "conserves st c [put_account (PersonalAccount b)]"
proof -
  have wf: "wf_address (shake_of st) (NewAddress (shake_of st) code AccountTypePersonal kid)"
    using runningD(1) [OF assms(1)] assms(2) by (simp add: wf_NewAddress)
  note acc = GetAccount_ok [OF g runningD(2) [OF assms(1)] wf]
  have "account_ok (shake_of st) (PersonalAccount b)" "account_exists (world st) (Account_GetID (PersonalAccount b))"
    using acc(2,3) assms(4-6) account_ok_personal by (auto simp: account_exists_def Account_GetID_def)
  then show "keeps st [put_account (PersonalAccount b)]" "conserves st c [put_account (PersonalAccount b)]"
    using put_account_step [OF assms(1), of "PersonalAccount b" "[]"] by simp_all
qed

lemma accountSuspend_step:
  assumes "running st" "accountSuspend st params = Inr (p, ws)"
  shows "keeps st ws" "conserves st c ws"
  using assms suspend_step [OF assms(1)]
  by (auto simp: accountSuspend_def run ValidateTokenCode_run dest!: SuspendAccount_run)

lemma accountUnsuspend_step:
  assumes "running st" "accountUnsuspend st params = Inr (p, ws)"
  shows "keeps st ws" "conserves st c ws"
  using assms suspend_step [OF assms(1)]
  by (auto simp: accountUnsuspend_def run ValidateTokenCode_run dest!: UnsuspendAccount_run)

lemma holder_step:
  assumes "running st" "GetAccount st adr = Inr (JointAccount jac hs)" "wf_address (shake_of st) adr"
    "acc_id b = acc_id jac" "acc_token b = acc_token jac" "acc_type b = acc_type jac" "distinct hs \<Longrightarrow> distinct hs'"
  shows "keeps st [put_account (JointAccount b hs'), put_holder ts (JointAccount b hs') kid]"
    "conserves st c [put_account (JointAccount b hs'), put_holder ts (JointAccount b hs') kid]"
    "keeps st [put_account (JointAccount b hs'), Del (HolderKey kid i)]"
    "conserves st c [put_account (JointAccount b hs'), Del (HolderKey kid i)]"
proof -
  let ?a = "JointAccount b hs'"
  note acc = GetAccount_ok [OF assms(2) runningD(2) [OF assms(1)] assms(3)]
  have a: "account_ok (shake_of st) ?a" "account_exists (world st) (Account_GetID ?a)"
    using acc(2,3) assms(4-7) account_ok_joint [of "shake_of st" jac hs hs' b]
    by (auto simp: account_exists_def Account_GetID_def account_ok_def)
  have "keyed (commit [put_account ?a] (world st))"
    using runningD(3) [OF assms(1)] by (simp add: put_account_def keyed_def)
  then have g: "gain (doc_value c) [put_holder ts ?a kid] (commit [put_account ?a] (world st)) = 0"
    "gain (doc_value c) [Del (HolderKey kid i)] (commit [put_account ?a] (world st)) = 0"
    by (simp_all add: put_holder_def value_less Let_def)
  show "keeps st [put_account ?a, put_holder ts ?a kid]" "conserves st c [put_account ?a, put_holder ts ?a kid]"
    "keeps st [put_account ?a, Del (HolderKey kid i)]" "conserves st c [put_account ?a, Del (HolderKey kid i)]"
    using put_account_step [OF assms(1) a, of "[put_holder ts ?a kid]"]
      put_account_step [OF assms(1) a, of "[Del (HolderKey kid i)]"] g by simp_all
qed

lemma accountHolderRemove_parts:
  assumes "accountHolderRemove st params = Inr (p, ws)"
  shows "ws = [] \<or> (\<exists>adr jac hs kid a. wf_address (shake_of st) adr \<and> GetAccount st adr = Inr (JointAccount jac hs) \<and>
    3 \<le> Set_Size hs \<and> RemoveHolder st jac hs kid = Inr (a, ws))"
  using assms
  by (auto simp: accountHolderRemove_def getValidatedAccountHolderParameters_def run Let_def not_less
      split: if_splits dest!: invokeContract_run dest: ParseAddress_run(1))

lemma distinct_remove: "distinct hs \<Longrightarrow> distinct (Set_Remove hs kid)"
  by (simp add: Set_Remove_def distinct_removeAll)

lemma accountHolderRemove_step:
  assumes "running st" "accountHolderRemove st params = Inr (p, ws)"
  shows "keeps st ws" "conserves st c ws"
proof -
  have "keeps st ws \<and> conserves st c ws"
    using accountHolderRemove_parts [OF assms(2)]
  proof (elim disjE exE conjE)
    fix adr jac hs kid a
    assume adr: "wf_address (shake_of st) adr" and g: "GetAccount st adr = Inr (JointAccount jac hs)"
      and "RemoveHolder st jac hs kid = Inr (a, ws)"
    then obtain ts where "a = JointAccount (jac\<lparr>acc_updated := Some ts\<rparr>) (Set_Remove hs kid)"
      "ws = [put_account a, Del (HolderKey kid (acc_id jac))]"
      using RemoveHolder_run by blast
    then show ?thesis
      using holder_step(3,4) [OF assms(1) g adr, of "jac\<lparr>acc_updated := Some ts\<rparr>"] distinct_remove by simp
  qed (use assms(1) in simp)
  then show "keeps st ws" "conserves st c ws"
    by simp_all
qed

lemma executeAccountHolderAdd_step:
  assumes "running st" "executeAccountHolderAdd st cid doc = Inr (p, ws)"
  shows "keeps st ws" "conserves st c ws"
proof -
  obtain s adr holder jac hs a where s: "ParseAddress (shake_of st) s = Inr adr"
    and g: "GetAccount st adr = Inr (JointAccount jac hs)" and r: "AddHolder st jac hs holder = Inr (a, ws)"
    using executeAccountHolderAdd_run [OF assms(2)] by blast
  obtain ts where "a = JointAccount (jac\<lparr>acc_updated := Some ts\<rparr>) (Set_Add hs holder)"
    "ws = [put_account a, put_holder ts a holder]"
    using AddHolder_run [OF r] by blast
  then show "keeps st ws" "conserves st c ws"
    using holder_step(1,2) [OF assms(1) g ParseAddress_run(1) [OF s], of "jac\<lparr>acc_updated := Some ts\<rparr>"] distinct_Set_Add
    by simp_all
qed

lemma executeAccountHolderRemove_step:
  assumes "running st" "executeAccountHolderRemove st cid doc = Inr (p, ws)"
  shows "keeps st ws" "conserves st c ws"
proof -
  obtain s adr holder jac hs a where s: "ParseAddress (shake_of st) s = Inr adr"
    and g: "GetAccount st adr = Inr (JointAccount jac hs)" and r: "RemoveHolder st jac hs holder = Inr (a, ws)"
    using executeAccountHolderRemove_run [OF assms(2)] by blast
  obtain ts where "a = JointAccount (jac\<lparr>acc_updated := Some ts\<rparr>) (Set_Remove hs holder)"
    "ws = [put_account a, Del (HolderKey holder (acc_id jac))]"
    using RemoveHolder_run [OF r] by blast
  then show "keeps st ws" "conserves st c ws"
    using holder_step(3,4) [OF assms(1) g ParseAddress_run(1) [OF s], of "jac\<lparr>acc_updated := Some ts\<rparr>"] distinct_remove
    by simp_all
qed

lemma distinct_holders: "distinct (foldl Set_Add (Set_New []) kids)"
  using sset.fold_add [of "Set_New []" kids] by (simp add: Set_New_id)

lemma executeAccountCreate_step:
  assumes "running st" "executeAccountCreate st cid doc = Inr (p, ws)"
    and "\<And>code. doc ! 1 = JStr code \<Longrightarrow> matches_code code"
  shows "keeps st ws" "conserves st c ws"
proof -
  obtain code kids a b where d: "doc ! 1 = JStr code"
    and cr: "CreateJointAccount st code (foldl Set_Add (Set_New []) kids) = Inr (a, b, ws)"
    using executeAccountCreate_run [OF assms(2)] by blast
  let ?i = "Address_String (NewAddress (shake_of st) code AccountTypeJoint (txid st))"
  obtain ts where w: "world st (AccountKey ?i) = None"
    and a: "a = JointAccount (account_of ts ?i code AccountTypeJoint) (foldl Set_Add (Set_New []) kids)"
    and ws: "ws = create_writes ts a (foldl Set_Add (Set_New []) kids)"
    using CreateJointAccount_run [OF cr] by blast
  have "account_ok (shake_of st) a"
    using account_ok_new(2) [OF runningD(1) [OF assms(1)] assms(3) [OF d]] a distinct_holders by simp
  then show "keeps st ws" "conserves st c ws"
    using create_step [OF assms(1)] w a ws by simp_all
qed

end
