(* ===== verification/TokenSteps.thy ===== *)
theory TokenSteps
  imports AccountSteps
begin

text \<open>
  The token and fee handlers: issuing, burning and minting change what the ledger holds of the token
  by exactly the change of its supply; an update of the fee policy changes neither.
\<close>

lemma supply_put_token [simp]:
  "supply_of c (apply_write (put_token t) L) = (if c = tok_code t then tok_supply t else supply_of c L)"
  by (simp add: supply_of_def put_token_def)

lemma supply_of_token: "L (TokenKey (tok_code t)) = Some (DToken t) \<Longrightarrow> supply_of (tok_code t) L = tok_supply t"
  by (simp add: supply_of_def)

lemma keyed_forms:
  "keyed L \<Longrightarrow> keyed (commit (supply_writes ts b n) L)" "keyed L \<Longrightarrow> keyed (commit [put_token t] L)"
  by (rule keyed_commit; simp add: supply_writes_def write_forms put_token_def Let_def)+

lemma token_ok_code:
  assumes "token_ok sh L t"
  shows "code_of (tok_genesis t) = tok_code t"
  using assms by (auto simp: token_ok_def code_of_String)

lemma token_ok_supply:
  assumes "token_ok sh L t" "n \<le> tok_max_supply t"
  shows "token_ok sh L (with_supply t n ts)"
  using assms by (simp add: token_ok_def policy_ok_def with_supply_def)

text \<open>Writing a token with a new supply next to the balance of its genesis account.\<close>

lemma supply_step:
  assumes "running st" and t: "GetToken st code = Inr t" and b: "GetBalance st (tok_genesis t) = Inr bal"
    and n: "tok_supply t + n \<le> tok_max_supply t"
  shows "keeps st (supply_writes ts bal n @ [put_token (with_supply t (tok_supply t + n) ts)])"
    "conserves st c (supply_writes ts bal n @ [put_token (with_supply t (tok_supply t + n) ts)])"
    "keeps st (put_token (with_supply t (tok_supply t + n) ts) # supply_writes ts bal n)"
    "conserves st c (put_token (with_supply t (tok_supply t + n) ts) # supply_writes ts bal n)"
proof -
  note ok = runningD(2) [OF assms(1)]
  note k = runningD(3) [OF assms(1)]
  let ?t = "with_supply t (tok_supply t + n) ts"
  let ?L = "world st"
  have tk: "tok_code t = code" "?L (TokenKey (tok_code t)) = Some (DToken t)" "token_ok (shake_of st) ?L t"
    using GetToken_ok [OF t ok] .
  have bal: "bal_id bal = tok_genesis t" "?L (BalanceKey (bal_id bal)) = Some (DBalance bal)"
    "account_exists ?L (bal_id bal)"
    using GetBalance_ok [OF b ok] .
  have w: "list_all (write_ok (shake_of st) ?L) (supply_writes ts bal n)" "write_ok (shake_of st) ?L (put_token ?t)"
    using bal(3) token_ok_supply [OF tk(3) n] by (simp_all add: write_ok_supply)
  show "keeps st (supply_writes ts bal n @ [put_token ?t])" "keeps st (put_token ?t # supply_writes ts bal n)"
    using w by (auto intro!: keeps_write_ok assms(1))
  have code: "code_of (bal_id bal) = tok_code t"
    using token_ok_code [OF tk(3)] bal(1) by simp
  have sup: "supply_of (tok_code t) ?L = tok_supply t"
    by (rule supply_of_token) (rule tk(2))
  have g1: "gain (doc_value c) (supply_writes ts bal n @ [put_token ?t]) ?L = (if tok_code t = c then n else 0)"
    using gain_supply [OF k bal(2), of c ts n] gain_put_token [OF keyed_forms(1) [OF k], of c ?t ts bal n] code
    by (simp only: gain_append)
  have b2: "commit [put_token ?t] ?L (BalanceKey (bal_id bal)) = Some (DBalance bal)"
    using bal(2) by (simp add: put_token_def)
  have g2: "gain (doc_value c) ([put_token ?t] @ supply_writes ts bal n) ?L = (if tok_code t = c then n else 0)"
    using gain_supply [OF keyed_forms(2) [OF k] b2, of c ts n] gain_put_token [OF k, of c ?t] code
    by (simp only: gain_append)
  have s1: "supply_of c (commit (supply_writes ts bal n @ [put_token ?t]) ?L) =
      (if c = tok_code t then tok_supply t + n else supply_of c ?L)"
    by (simp add: supply_same)
  have s2: "supply_of c (commit ([put_token ?t] @ supply_writes ts bal n) ?L) =
      (if c = tok_code t then tok_supply t + n else supply_of c ?L)"
    by (simp add: supply_same)
  show "conserves st c (supply_writes ts bal n @ [put_token ?t])"
    unfolding conserves_def g1 s1 using sup by auto
  have "conserves st c ([put_token ?t] @ supply_writes ts bal n)"
    unfolding conserves_def g2 s2 using sup by auto
  then show "conserves st c (put_token ?t # supply_writes ts bal n)"
    by simp
qed

lemma Burn_step:
  assumes "running st" "GetToken st code = Inr t" "GetBalance st (tok_genesis t) = Inr bal"
    "Burn st t bal amount = Inr (t', l, ws)"
  shows "keeps st ws" "conserves st c ws"
proof -
  have le: "tok_supply t \<le> tok_max_supply t"
    using GetToken_ok(3) [OF assms(2) runningD(2) [OF assms(1)]] by (simp add: token_ok_def)
  obtain ts where r: "if burnt bal amount \<le> 0 then t' = t \<and> l = None \<and> ws = []
     else t' = with_supply t (tok_supply t - burnt bal amount) ts \<and> l \<noteq> None \<and>
          ws = supply_writes ts bal (- burnt bal amount) @ [put_token t']"
    using Burn_run [OF assms(4)] by blast
  have "keeps st ws \<and> conserves st c ws"
  proof (cases "burnt bal amount \<le> 0")
    case True
    then show ?thesis
      using r assms(1) by simp
  next
    case False
    then show ?thesis
      using r supply_step(1,2) [OF assms(1-3), where n = "- burnt bal amount"] le by simp
  qed
  then show "keeps st ws" "conserves st c ws"
    by simp_all
qed

lemma Mint_step:
  assumes "running st" "GetToken st code = Inr t" "GetBalance st (tok_genesis t) = Inr bal"
    "Mint st t bal amount = Inr (t', l, ws)"
  shows "keeps st ws" "conserves st c ws"
proof -
  obtain ts where ws: "ws = put_token (with_supply t (tok_supply t + minted t amount) ts) #
      supply_writes ts bal (minted t amount)"
    using Mint_run [OF assms(4)] by blast
  have "tok_supply t + minted t amount \<le> tok_max_supply t"
    by (simp add: minted_def)
  then show "keeps st ws" "conserves st c ws"
    using supply_step(3,4) [OF assms(1-3)] ws by simp_all
qed

lemma genesis_balance:
  assumes "running st" "GetToken st code = Inr t" "genesis_account st t kid = Inr (account, bal)"
  shows "GetBalance st (tok_genesis t) = Inr bal"
proof -
  obtain addr where p: "ParseAddress (shake_of st) (tok_genesis t) = Inr addr" and g: "GetAccount st addr = Inr account"
    and b: "GetBalance st (Account_GetID account) = Inr bal"
    using genesis_account_run [OF assms(3)] by blast
  obtain adr where adr: "wf_address (shake_of st) adr" "tok_genesis t = Address_String adr"
    using GetToken_ok(3) [OF assms(2) runningD(2) [OF assms(1)]] by (auto simp: token_ok_def)
  then have "addr = adr"
    using p ParseAddress_String [of "shake_of st" adr] by simp
  then show ?thesis
    using GetAccount_ok(1) [OF g runningD(2) [OF assms(1)]] adr b by simp
qed

lemma tokenBurn_step:
  assumes "running st" "tokenBurn st params = Inr (p, ws)"
  shows "keeps st ws" "conserves st c ws"
  using tokenBurn_run [OF assms(2)] genesis_balance [OF assms(1)] Burn_step [OF assms(1)] assms(1)
  by (metis keeps_Nil, metis conserves_Nil)

lemma tokenMint_step:
  assumes "running st" "tokenMint st params = Inr (p, ws)"
  shows "keeps st ws" "conserves st c ws"
  using tokenMint_run [OF assms(2)] genesis_balance [OF assms(1)] Mint_step [OF assms(1)] assms(1)
  by (metis keeps_Nil, metis conserves_Nil)

lemma executeTokenBurn_step:
  assumes "running st" "executeTokenBurn st cid doc = Inr (p, ws)"
  shows "keeps st ws" "conserves st c ws"
  using executeTokenBurn_run [OF assms(2)] Burn_step [OF assms(1)] by blast+

lemma executeTokenMint_step:
  assumes "running st" "executeTokenMint st cid doc = Inr (p, ws)"
  shows "keeps st ws" "conserves st c ws"
  using executeTokenMint_run [OF assms(2)] Mint_step [OF assms(1)] by blast+

section \<open>Issuing\<close>

lemma issued_policy_cases:
  assumes "issued_policy g policy = Some q"
  obtains p where "policy = Some p" "fp_rates q = fp_rates p"
    "fp_target q = g \<or> (fp_target p \<noteq> [] \<and> fp_target q = fp_target p)"
proof -
  obtain p where p: "policy = Some p" "q = (if fp_target p = [] then p\<lparr>fp_target := g\<rparr> else p)"
    using assms by (auto simp: issued_policy_def)
  show thesis
    by (rule that [OF p(1)]) (simp_all add: p(2))
qed

lemma CreateToken_step:
  assumes "running st" and meta: "getValidatedTokenMeta st code' = Inr (decimal, maxSupply, supply, policy)"
    and code: "matches_code code" and free: "world st (TokenKey code) = None" and hs: "distinct hs"
    and run: "CreateToken st code decimal maxSupply supply policy hs = Inr (t, ws)"
  shows "keeps st ws" "conserves st c ws"
proof -
  let ?sh = "shake_of st" and ?L = "world st"
  let ?adr = "NewAddress ?sh code AccountTypeJoint (txid st)"
  let ?i = "Address_String ?adr"
  obtain ts a where free_i: "?L (AccountKey ?i) = None"
    and a: "a = JointAccount (account_of ts ?i code AccountTypeJoint) hs"
    and t: "t = new_token ts code decimal maxSupply supply ?i policy"
    and target: "\<And>p. policy = Some p \<Longrightarrow> fp_target p \<noteq> [] \<Longrightarrow> ?L (AccountKey (fp_target p)) \<noteq> None"
    and ws: "ws = create_writes ts a hs @
      (if supply > 0 then supply_writes ts (empty_balance ts ?i) supply else []) @ [put_token t]"
    using CreateToken_run [OF run] by blast
  have wf: "wf_address ?sh ?adr"
    using wf_NewAddress [OF runningD(1) [OF assms(1)] code] by simp
  have aok: "account_ok ?sh a"
    using account_ok_new(2) [OF runningD(1) [OF assms(1)] code] a hs by simp
  have aid: "Account_GetID a = ?i"
    by (simp add: a)
  note m = getValidatedTokenMeta_ok [OF meta]
  let ?L1 = "commit (create_writes ts a hs) ?L"
  have L1: "ledger_ok ?sh ?L1"
    using create_ok [OF runningD(2) [OF assms(1)] aok] .
  have acc1: "?L1 (AccountKey ?i) = Some (DAccount a)" "?L1 (BalanceKey ?i) = Some (DBalance (empty_balance ts ?i))"
    using aid by (simp_all add: create_writes_def put_account_def put_balance_def commit_other put_holder_def image_iff)
  have keep1: "account_exists ?L j \<Longrightarrow> account_exists ?L1 j" for j
    using aid by (cases "j = ?i") (auto simp: account_exists_def acc1 create_writes_def put_account_def
        put_balance_def commit_other put_holder_def image_iff)
  have tok: "token_ok ?sh ?L1 t"
    using m wf acc1 target keep1
    by (auto simp: token_ok_def t new_token_def policy_ok_def account_exists_def
        intro!: exI [of _ ?adr] elim!: issued_policy_cases)
  let ?sw = "if supply > 0 then supply_writes ts (empty_balance ts ?i) supply else []"
  have "list_all (write_ok ?sh ?L1) (?sw @ [put_token t])"
    using tok acc1 by (simp add: write_ok_supply account_exists_def)
  then have "ledger_ok ?sh (commit (?sw @ [put_token t]) ?L1)"
    by (rule ledger_ok_commit [OF L1])
  then show "keeps st ws"
    by (simp add: keeps_def ws del: commit_simps(1,2))
  have k1: "keyed ?L1"
    using ledger_okD(1) [OF L1] .
  have k2: "keyed (commit ?sw ?L1)"
    using k1 by (simp add: keyed_forms)
  have c: "code_of ?i = code"
    using code_of_String [OF wf] by simp
  have "gain (doc_value c) ?sw ?L1 = (if code = c then supply else 0)"
    using gain_supply [OF k1, of "empty_balance ts ?i" c ts "supply"] acc1 m c by auto
  then have g: "gain (doc_value c) ws ?L = (if code = c then supply else 0)"
    using gain_create [OF runningD(2) [OF assms(1)] aok, of c ts hs] free_i aid gain_put_token [OF k2, of c t]
    by (simp add: ws del: gain.simps)
  have "supply_of c (commit ws ?L) = (if c = code then supply else supply_of c ?L)"
    by (simp add: ws t new_token_def supply_same)
  moreover have "supply_of code ?L = 0"
    using free by (simp add: supply_of_def)
  ultimately show "conserves st c ws"
    using g by (auto simp: conserves_def)
qed

lemma tokenCreate_step:
  assumes "running st" "tokenCreate st params = Inr (p, ws)"
  shows "keeps st ws" "conserves st c ws"
proof -
  obtain code decimal maxSupply sup policy where code: "ValidateTokenCode (params ! 0) = Inr code"
    and free: "world st (TokenKey code) = None"
    and meta: "getValidatedTokenMeta st code = Inr (decimal, maxSupply, sup, policy)"
    and w: "ws = [] \<or> (\<exists>hs t. distinct hs \<and> Set_Size hs \<le> 1 \<and>
       CreateToken st code decimal maxSupply sup policy hs = Inr (t, ws))"
    using tokenCreate_run [OF assms(2)] by blast
  have "matches_code code"
    using code by (simp add: ValidateTokenCode_run)
  then show "keeps st ws" "conserves st c ws"
    using w CreateToken_step [OF assms(1) meta _ free] assms(1) by auto
qed

lemma executeTokenCreate_step:
  assumes "running st" "executeTokenCreate st cid doc = Inr (p, ws)"
    and "\<And>code. doc ! 1 = JStr code \<Longrightarrow> matches_code code"
  shows "keeps st ws" "conserves st c ws"
proof -
  obtain code kids decimal maxSupply sup policy t where code: "doc ! 1 = JStr code"
    and free: "world st (TokenKey code) = None"
    and meta: "getValidatedTokenMeta st code = Inr (decimal, maxSupply, sup, policy)"
    and cr: "CreateToken st code decimal maxSupply sup policy (foldl Set_Add (Set_New []) kids) = Inr (t, ws)"
    using executeTokenCreate_run [OF assms(2)] by blast
  show "keeps st ws" "conserves st c ws"
    using CreateToken_step [OF assms(1) meta assms(3) [OF code] free distinct_holders cr] by simp_all
qed

section \<open>Updating and pruning\<close>

lemma updated_policy_ok:
  assumes "updated_policy st t policy = Inr (Some q)" "token_ok sh (world st) t"
    "\<And>p. policy = Some p \<Longrightarrow> rates_ok (fp_rates p)"
  shows "rates_ok (fp_rates q) \<and> account_exists (world st) (fp_target q)"
  using assms
  by (auto simp: updated_policy_def run token_ok_def policy_ok_def account_exists_def rates_ok_def [of Map.empty]
      split: option.splits if_splits)

lemma put_token_step:
  assumes "running st" "GetToken st code = Inr t" "token_ok (shake_of st) (world st) t'"
    "tok_code t' = tok_code t" "tok_supply t' = tok_supply t"
  shows "keeps st [put_token t']" "conserves st c [put_token t']"
proof -
  show "keeps st [put_token t']"
    using assms(3) by (intro keeps_write_ok assms(1)) simp
  have "supply_of (tok_code t) (world st) = tok_supply t"
    by (rule supply_of_token) (rule GetToken_ok(2) [OF assms(2) runningD(2) [OF assms(1)]])
  then show "conserves st c [put_token t']"
    using gain_put_token [OF runningD(3) [OF assms(1)], of c t'] assms(4,5) by (auto simp: conserves_def)
qed

lemma tokenUpdate_step:
  assumes "running st" "tokenUpdate st params = Inr (p, ws)"
  shows "keeps st ws" "conserves st c ws"
proof -
  obtain code t d m s policy where t: "GetToken st code = Inr t"
    and meta: "getValidatedTokenMeta st code = Inr (d, m, s, policy)"
    and w: "ws = [] \<or> (\<exists>q ts. GetTime st = Inr ts \<and> updated_policy st t policy = Inr (Some q) \<and>
       ws = [put_token (t\<lparr>tok_policy := Some q, tok_updated := Some ts\<rparr>)])"
    using tokenUpdate_run [OF assms(2)] by blast
  have tok: "token_ok (shake_of st) (world st) t"
    using GetToken_ok(3) [OF t runningD(2) [OF assms(1)]] .
  have "token_ok (shake_of st) (world st) (t\<lparr>tok_policy := Some q, tok_updated := Some ts\<rparr>)"
    if "updated_policy st t policy = Inr (Some q)" for q ts
    using updated_policy_ok [OF that tok] getValidatedTokenMeta_ok [OF meta] tok
    by (auto simp: token_ok_def policy_ok_def)
  then show "keeps st ws" "conserves st c ws"
    using w put_token_step [OF assms(1) t] assms(1) by auto
qed

lemma feePrune_step:
  assumes "running st" "feePrune st params = Inr (p, ws)"
  shows "keeps st ws"
  using feePrune_run [OF assms(2) runningD(3) [OF assms(1)]]
proof (elim disjE exE conjE)
  fix code t account ts l w0 s bal
  assume t: "GetToken st code = Inr t" and b: "GetBalance st (Account_GetID account) = Inr bal"
    and l: "last_pruned_or_migrate st code t = Inr (l, w0)" and ws: "ws = w0 @ fee_prune_writes ts bal code s"
  note ok = runningD(2) [OF assms(1)]
  have "token_ok (shake_of st) (world st) (t\<lparr>tok_last_pruned_fee := []\<rparr>)"
    using GetToken_ok(3) [OF t ok] by (simp add: token_ok_def policy_ok_def)
  then have "list_all (write_ok (shake_of st) (world st)) w0"
    using last_pruned_or_migrate_run [OF l] by auto
  then show ?thesis
    using GetBalance_ok(3) [OF b ok] unfolding ws by (intro keeps_write_ok assms(1)) (simp add: write_ok_fee_prune)
qed (use assms(1) in simp)

end
