(* ===== verification/Dispatch.thy ===== *)
theory Dispatch
  imports TokenSteps
begin

text \<open>
  The dispatch: every transaction keeps the ledger invariant, and every one but the two prunes
  conserves. \<open>trusted_call\<close> is what is relied on of the contract chaincode: a document it calls back
  with is one that this chaincode made, so its token code is valid, the receiver of a transfer or pay
  is of the token of the pending balance, and a pay holds no fee.

  \<open>reachable\<close> is the step relation of the chaincode: the ledgers that committed transactions build from
  the empty one.
\<close>

section \<open>Callbacks\<close>

definition trusted_doc :: "ledger \<Rightarrow> json list \<Rightarrow> bool" where
  "trusted_doc L doc \<longleftrightarrow>
     (doc ! 0 \<in> {JStr ''account/create'', JStr ''token/create''} \<longrightarrow>
        (\<forall>code. doc ! 1 = JStr code \<longrightarrow> matches_code code)) \<and>
     (doc ! 0 \<in> {JStr ''transfer'', JStr ''pay''} \<longrightarrow> trusted_receiver L doc) \<and>
     (doc ! 0 = JStr ''pay'' \<longrightarrow>
        (\<forall>pid pb. doc ! 1 = JStr pid \<longrightarrow> L (PendingKey pid) = Some (DPending pb) \<longrightarrow> pb_fee pb = None))"

definition trusted_call :: "stub \<Rightarrow> string \<Rightarrow> string list \<Rightarrow> bool" where
  "trusted_call st fn params \<longleftrightarrow>
     (fn = ''contract/execute'' \<longrightarrow> (\<forall>doc. parse_doc (params ! 1) = Some doc \<longrightarrow> trusted_doc (world st) doc))"

lemma contractCallback_run:
  assumes "contractCallback st i params = Inr (p, ws)"
  shows "\<exists>doc dtype fns. parse_doc (params ! 1) = Some doc \<and> doc ! 0 = JStr dtype \<and>
    map_of ctrRoutes dtype = Some fns \<and> i < length fns \<and> (fns ! i) st (params ! 0) doc = Inr (p, ws) \<and>
    caller_cc st \<in> {Inr ''kiesnet-contract'', Inr ''kiesnet-cc-contract''}"
  using assms by (auto simp: contractCallback_def run ccid_GetID_def split: option.splits if_splits)

lemma ctr_cases:
  assumes "map_of ctrRoutes dtype = Some fns"
  shows "(dtype, fns) \<in> set ctrRoutes"
  using assms by (rule map_of_SomeD)

lemma contractVoid_step:
  "running st \<Longrightarrow> contractVoid st cid doc = Inr (p, ws) \<Longrightarrow> keeps st ws"
  "contractVoid st cid doc = Inr (p, ws) \<Longrightarrow> conserves st c ws"
  by (auto simp: contractVoid_def run)

lemma contractCancel_step:
  assumes "running st" "contractCancel st params = Inr (p, ws)"
  shows "keeps st ws" "conserves st c ws"
proof -
  obtain doc dtype fns where r: "map_of ctrRoutes dtype = Some fns" "(fns ! 0) st (params ! 0) doc = Inr (p, ws)"
    using contractCallback_run assms(2) unfolding contractCancel_def by blast
  have "fns ! 0 = contractVoid \<or> fns ! 0 = cancelTransfer"
    using ctr_cases [OF r(1)] by (auto simp: ctrRoutes_def)
  then show "keeps st ws" "conserves st c ws"
    using r(2) contractVoid_step cancelTransfer_step assms(1) by auto
qed

text \<open>What is shown of every handler's writes.\<close>

definition good :: "stub \<Rightarrow> string \<Rightarrow> state_op list \<Rightarrow> bool" where
  "good st c ws \<longleftrightarrow> keeps st ws \<and> (fresh_tx st \<longrightarrow> conserves st c ws)"

lemma goodI: "keeps st ws \<Longrightarrow> (fresh_tx st \<Longrightarrow> conserves st c ws) \<Longrightarrow> good st c ws"
  by (simp add: good_def)

lemma good_Nil: "running st \<Longrightarrow> good st c []"
  by (simp add: good_def)

lemma execute_good:
  assumes "running st" "trusted_doc (world st) doc" "doc ! 0 = JStr dtype"
  shows "dtype = ''account/create'' \<Longrightarrow> executeAccountCreate st cid doc = Inr (p, ws) \<Longrightarrow> good st c ws"
    "dtype = ''account/holder/add'' \<Longrightarrow> executeAccountHolderAdd st cid doc = Inr (p, ws) \<Longrightarrow> good st c ws"
    "dtype = ''account/holder/remove'' \<Longrightarrow> executeAccountHolderRemove st cid doc = Inr (p, ws) \<Longrightarrow> good st c ws"
    "dtype = ''pay'' \<Longrightarrow> executePay st cid doc = Inr (p, ws) \<Longrightarrow> good st c ws"
    "dtype = ''token/burn'' \<Longrightarrow> executeTokenBurn st cid doc = Inr (p, ws) \<Longrightarrow> good st c ws"
    "dtype = ''token/create'' \<Longrightarrow> executeTokenCreate st cid doc = Inr (p, ws) \<Longrightarrow> good st c ws"
    "dtype = ''token/mint'' \<Longrightarrow> executeTokenMint st cid doc = Inr (p, ws) \<Longrightarrow> good st c ws"
    "dtype = ''transfer'' \<Longrightarrow> executeTransfer st cid doc = Inr (p, ws) \<Longrightarrow> good st c ws"
proof -
  note t = assms(2) [unfolded trusted_doc_def assms(3)]
  show "dtype = ''account/create'' \<Longrightarrow> executeAccountCreate st cid doc = Inr (p, ws) \<Longrightarrow> good st c ws"
    using executeAccountCreate_step [OF assms(1)] t by (auto intro: goodI)
  show "dtype = ''account/holder/add'' \<Longrightarrow> executeAccountHolderAdd st cid doc = Inr (p, ws) \<Longrightarrow> good st c ws"
    using executeAccountHolderAdd_step [OF assms(1)] by (auto intro: goodI)
  show "dtype = ''account/holder/remove'' \<Longrightarrow> executeAccountHolderRemove st cid doc = Inr (p, ws) \<Longrightarrow> good st c ws"
    using executeAccountHolderRemove_step [OF assms(1)] by (auto intro: goodI)
  show "dtype = ''pay'' \<Longrightarrow> executePay st cid doc = Inr (p, ws) \<Longrightarrow> good st c ws"
    using executePay_step(1) [OF assms(1), of cid doc p ws] executePay_step(2) [OF assms(1), of cid doc p ws c] t by (auto intro!: goodI)
  show "dtype = ''token/burn'' \<Longrightarrow> executeTokenBurn st cid doc = Inr (p, ws) \<Longrightarrow> good st c ws"
    using executeTokenBurn_step [OF assms(1)] by (auto intro: goodI)
  show "dtype = ''token/create'' \<Longrightarrow> executeTokenCreate st cid doc = Inr (p, ws) \<Longrightarrow> good st c ws"
    using executeTokenCreate_step [OF assms(1)] t by (auto intro: goodI)
  show "dtype = ''token/mint'' \<Longrightarrow> executeTokenMint st cid doc = Inr (p, ws) \<Longrightarrow> good st c ws"
    using executeTokenMint_step [OF assms(1)] by (auto intro: goodI)
  show "dtype = ''transfer'' \<Longrightarrow> executeTransfer st cid doc = Inr (p, ws) \<Longrightarrow> good st c ws"
    using executeTransfer_step(1) [OF assms(1), of cid doc p ws] executeTransfer_step(2) [OF assms(1), of cid doc p ws c] t by (auto intro!: goodI)
qed

lemma contractExecute_good:
  assumes "running st" "contractExecute st params = Inr (p, ws)" "trusted_call st ''contract/execute'' params"
  shows "good st c ws"
proof -
  obtain doc dtype fns where doc: "parse_doc (params ! 1) = Some doc" and d: "doc ! 0 = JStr dtype"
    and r: "map_of ctrRoutes dtype = Some fns" "(fns ! 1) st (params ! 0) doc = Inr (p, ws)"
    using contractCallback_run assms(2) unfolding contractExecute_def by blast
  have t: "trusted_doc (world st) doc"
    using assms(3) doc by (simp add: trusted_call_def)
  show ?thesis
    using ctr_cases [OF r(1)] r(2) execute_good [OF assms(1) t d, of "params ! 0" p ws c]
    by (auto simp: ctrRoutes_def)
qed

section \<open>Transactions\<close>

lemma reads_write_nothing:
  assumes "txFn \<in> {accountGet, accountHolderAdd, accountList, balanceLogs, balancePendingGet, balancePendingList,
    feeList, payGet, payList, tokenGet, ver}" "txFn st params = Inr (p, ws)"
  shows "ws = []"
  using assms account_reads balance_reads list_handlers_write_nothing accountHolderAdd_run feeList_run
  by (auto simp: tokenGet_def ver_def run)

lemma Invoke_cases:
  assumes "Invoke st fn params = Inr (p, ws)"
  obtains txFn where "(fn, txFn) \<in> set routes" "txFn st params = Inr (p, ws)"
  using assms by (auto simp: Invoke_def split: option.splits dest: map_of_SomeD)

lemma handler_good:
  assumes "running st"
  shows "accountCreate st params = Inr (p, ws) \<Longrightarrow> good st c ws"
    "accountHolderRemove st params = Inr (p, ws) \<Longrightarrow> good st c ws"
    "accountSuspend st params = Inr (p, ws) \<Longrightarrow> good st c ws"
    "accountUnsuspend st params = Inr (p, ws) \<Longrightarrow> good st c ws"
    "balancePendingWithdraw st params = Inr (p, ws) \<Longrightarrow> good st c ws"
    "contractCancel st params = Inr (p, ws) \<Longrightarrow> good st c ws"
    "payRefund st params = Inr (p, ws) \<Longrightarrow> good st c ws"
    "tokenBurn st params = Inr (p, ws) \<Longrightarrow> good st c ws"
    "tokenCreate st params = Inr (p, ws) \<Longrightarrow> good st c ws"
    "tokenMint st params = Inr (p, ws) \<Longrightarrow> good st c ws"
    "tokenUpdate st params = Inr (p, ws) \<Longrightarrow> good st c ws"
    "transfer st params = Inr (p, ws) \<Longrightarrow> good st c ws"
    "pay st params = Inr (p, ws) \<Longrightarrow> good st c ws"
proof -
  show "accountCreate st params = Inr (p, ws) \<Longrightarrow> good st c ws"
    using accountCreate_step [OF assms] by (blast intro: goodI)
  show "accountHolderRemove st params = Inr (p, ws) \<Longrightarrow> good st c ws"
    using accountHolderRemove_step [OF assms] by (blast intro: goodI)
  show "accountSuspend st params = Inr (p, ws) \<Longrightarrow> good st c ws"
    using accountSuspend_step [OF assms] by (blast intro: goodI)
  show "accountUnsuspend st params = Inr (p, ws) \<Longrightarrow> good st c ws"
    using accountUnsuspend_step [OF assms] by (blast intro: goodI)
  show "balancePendingWithdraw st params = Inr (p, ws) \<Longrightarrow> good st c ws"
    using balancePendingWithdraw_step [OF assms] by (blast intro: goodI)
  show "contractCancel st params = Inr (p, ws) \<Longrightarrow> good st c ws"
    using contractCancel_step [OF assms] by (blast intro: goodI)
  show "payRefund st params = Inr (p, ws) \<Longrightarrow> good st c ws"
    using payRefund_step [OF assms] by (blast intro: goodI)
  show "tokenBurn st params = Inr (p, ws) \<Longrightarrow> good st c ws"
    using tokenBurn_step [OF assms] by (blast intro: goodI)
  show "tokenCreate st params = Inr (p, ws) \<Longrightarrow> good st c ws"
    using tokenCreate_step [OF assms] by (blast intro: goodI)
  show "tokenMint st params = Inr (p, ws) \<Longrightarrow> good st c ws"
    using tokenMint_step [OF assms] by (blast intro: goodI)
  show "tokenUpdate st params = Inr (p, ws) \<Longrightarrow> good st c ws"
    using tokenUpdate_step [OF assms] by (blast intro: goodI)
  show "transfer st params = Inr (p, ws) \<Longrightarrow> good st c ws"
    using transfer_keeps [OF assms] transfer_conserves [OF assms] by (blast intro: goodI)
  show "pay st params = Inr (p, ws) \<Longrightarrow> good st c ws"
    using pay_keeps [OF assms] pay_conserves [OF assms] by (blast intro: goodI)
qed

lemma route_cases:
  assumes "(fn, txFn) \<in> set routes"
  shows "txFn \<in> {accountGet, accountHolderAdd, accountList, balanceLogs, balancePendingGet, balancePendingList,
      feeList, payGet, payList, tokenGet, ver} \<or>
    txFn \<in> {accountCreate, accountHolderRemove, accountSuspend, accountUnsuspend, balancePendingWithdraw,
      contractCancel, payRefund, tokenBurn, tokenCreate, tokenMint, tokenUpdate, transfer, pay} \<or>
    (fn = ''contract/execute'' \<and> txFn = contractExecute) \<or>
    (fn = ''pay/prune'' \<and> txFn = payPrune) \<or> (fn = ''fee/prune'' \<and> txFn = feePrune)"
  using assms unfolding routes_def
  by (simp only: list.set insert_iff empty_iff prod.inject) (elim disjE conjE FalseE; simp)

lemma writer_good:
  assumes "running st" "txFn st params = Inr (p, ws)"
    "txFn \<in> {accountCreate, accountHolderRemove, accountSuspend, accountUnsuspend, balancePendingWithdraw,
      contractCancel, payRefund, tokenBurn, tokenCreate, tokenMint, tokenUpdate, transfer, pay}"
  shows "good st c ws"
  using assms(3) unfolding insert_iff empty_iff
  by (elim disjE) (rule handler_good [OF assms(1)], use assms(2) in simp)+

lemma Invoke_step:
  assumes "running st" "Invoke st fn params = Inr (p, ws)" "trusted_call st fn params"
  shows "keeps st ws" "fresh_tx st \<Longrightarrow> fn \<notin> {''pay/prune'', ''fee/prune''} \<Longrightarrow> conserves st c ws"
proof -
  obtain txFn where f: "(fn, txFn) \<in> set routes" and r: "txFn st params = Inr (p, ws)"
    using Invoke_cases [OF assms(2)] .
  have "good st c ws \<or> (fn \<in> {''pay/prune'', ''fee/prune''} \<and> keeps st ws)"
    using route_cases [OF f]
  proof (elim disjE conjE)
    assume "txFn \<in> {accountGet, accountHolderAdd, accountList, balanceLogs, balancePendingGet, balancePendingList,
      feeList, payGet, payList, tokenGet, ver}"
    then show ?thesis
      using reads_write_nothing r good_Nil [OF assms(1)] by blast
  next
    assume "txFn \<in> {accountCreate, accountHolderRemove, accountSuspend, accountUnsuspend, balancePendingWithdraw,
      contractCancel, payRefund, tokenBurn, tokenCreate, tokenMint, tokenUpdate, transfer, pay}"
    then show ?thesis
      using writer_good [where txFn = txFn, OF assms(1) r] by blast
  next
    assume "fn = ''contract/execute''" "txFn = contractExecute"
    then show ?thesis
      using contractExecute_good [OF assms(1)] r assms(3) by blast
  next
    assume "fn = ''pay/prune''" "txFn = payPrune"
    then show ?thesis
      using payPrune_step [OF assms(1)] r by blast
  next
    assume "fn = ''fee/prune''" "txFn = feePrune"
    then show ?thesis
      using feePrune_step [OF assms(1)] r by blast
  qed
  then show "keeps st ws" "fresh_tx st \<Longrightarrow> fn \<notin> {''pay/prune'', ''fee/prune''} \<Longrightarrow> conserves st c ws"
    by (auto simp: good_def)
qed

section \<open>Reachable ledgers\<close>

inductive reachable :: "shake \<Rightarrow> ledger \<Rightarrow> bool" for sh where
  empty: "reachable sh Map.empty"
| step: "reachable sh L \<Longrightarrow> world st = L \<Longrightarrow> shake_of st = sh \<Longrightarrow> trusted_call st fn params \<Longrightarrow>
    reachable sh (settle (Invoke st fn params) L)"

inductive_cases reachable_stepE: "reachable sh L"

lemma ledger_ok_empty: "ledger_ok sh Map.empty"
  by (simp add: ledger_ok_def account_exists_def)

lemma Invoke_keeps:
  assumes "ledger_ok (shake_of st) (world st)" "shake_ok (shake_of st)" "trusted_call st fn params"
  shows "ledger_ok (shake_of st) (settle (Invoke st fn params) (world st))"
proof (cases "Invoke st fn params")
  case (Inr r)
  moreover obtain p ws where "r = (p, ws)"
    by (cases r)
  ultimately show ?thesis
    using Invoke_step(1) [of st fn params p ws] assms by (simp add: settle_def running_def keeps_def)
qed (use assms in \<open>simp add: settle_def\<close>)

lemma reachable_ok: "reachable sh L \<Longrightarrow> shake_ok sh \<Longrightarrow> ledger_ok sh L"
proof (induction rule: reachable.induct)
  case empty
  show ?case by (rule ledger_ok_empty)
next
  case (step L st fn params)
  then show ?case
    using Invoke_keeps [of st fn params] by simp
qed

lemma Invoke_conserves:
  assumes "running st" "fresh_tx st" "trusted_call st fn params" "fn \<notin> {''pay/prune'', ''fee/prune''}"
  defines "L \<equiv> world st" and "L' \<equiv> settle (Invoke st fn params) (world st)"
  shows "held c L' - supply_of c L' = held c L - supply_of c L"
proof (cases "Invoke st fn params")
  case (Inr r)
  moreover obtain p ws where "r = (p, ws)"
    by (cases r)
  ultimately show ?thesis
    using Invoke_step(2) [OF assms(1) _ assms(3,2,4), of p ws c] conserves_held [OF assms(1)]
    by (simp add: settle_def L_def L'_def)
qed (simp add: settle_def L_def L'_def)

end
