(* ===== verification/Book.thy ===== *)
theory Book
  imports Dispatch
begin

text \<open>
  The abstract account book behind the ledger. A book has the amount of every balance, the owner and
  the amount of every pending balance, the supply of every token, and the amounts of the pays and fees;
  what is only information (times, memos, logs, holders) is forgotten. \<open>book_of\<close> abstracts a ledger, and
  the operations \<open>add_balance\<close>, \<open>hold\<close>, \<open>release\<close>, \<open>charge\<close>, \<open>bill\<close> and \<open>add_supply\<close> are the
  specification of what a transaction may do to it.

  For each closed form of writes a lemma says which abstract operations it implements. The refinement
  theorems of the handlers rest on them: committing the writes of a run and then abstracting gives the
  abstract operation on the abstracted ledger.
\<close>

named_theorems book \<open>the abstraction of a ledger after a write\<close>

section \<open>Books\<close>

record book =
  bk_balance :: "string \<rightharpoonup> amount"
  bk_pending :: "string \<rightharpoonup> string \<times> amount"
  bk_supply :: "string \<rightharpoonup> amount"
  bk_pay :: "string \<rightharpoonup> string \<times> amount"
  bk_fee :: "string \<rightharpoonup> string \<times> amount"

definition book_of :: "ledger \<Rightarrow> book" where
  "book_of L =
     \<lparr>bk_balance = (\<lambda>i. map_option bal_amount (Option.bind (L (BalanceKey i)) as_balance)),
      bk_pending = (\<lambda>i. map_option (\<lambda>p. (pb_account p, pb_amount p + fee_or_zero (pb_fee p)))
        (Option.bind (L (PendingKey i)) as_pending)),
      bk_supply = (\<lambda>c. map_option tok_supply (Option.bind (L (TokenKey c)) as_token)),
      bk_pay = (\<lambda>i. map_option (\<lambda>p. (pay_account p, pay_amount p)) (Option.bind (L (PayKey i)) as_pay)),
      bk_fee = (\<lambda>i. map_option (\<lambda>f. (fee_code f, fee_amount f)) (Option.bind (L (FeeKey i)) as_fee))\<rparr>"

section \<open>Operations\<close>

definition set_balance :: "string \<Rightarrow> amount \<Rightarrow> book \<Rightarrow> book" where
  "set_balance i n bk = bk\<lparr>bk_balance := (bk_balance bk)(i \<mapsto> n)\<rparr>"

definition add_balance :: "string \<Rightarrow> amount \<Rightarrow> book \<Rightarrow> book" where
  "add_balance i n bk = bk\<lparr>bk_balance := (bk_balance bk)(i := map_option (\<lambda>m. m + n) (bk_balance bk i))\<rparr>"

definition hold :: "string \<Rightarrow> string \<Rightarrow> amount \<Rightarrow> book \<Rightarrow> book" where
  "hold i owner n bk = bk\<lparr>bk_pending := (bk_pending bk)(i \<mapsto> (owner, n))\<rparr>"

definition release :: "string \<Rightarrow> book \<Rightarrow> book" where
  "release i bk = bk\<lparr>bk_pending := (bk_pending bk)(i := None)\<rparr>"

definition set_supply :: "string \<Rightarrow> amount \<Rightarrow> book \<Rightarrow> book" where
  "set_supply c n bk = bk\<lparr>bk_supply := (bk_supply bk)(c \<mapsto> n)\<rparr>"

definition add_supply :: "string \<Rightarrow> amount \<Rightarrow> book \<Rightarrow> book" where
  "add_supply c n bk = bk\<lparr>bk_supply := (bk_supply bk)(c := map_option (\<lambda>m. m + n) (bk_supply bk c))\<rparr>"

definition bill :: "string \<Rightarrow> string \<Rightarrow> amount \<Rightarrow> book \<Rightarrow> book" where
  "bill i merchant n bk = bk\<lparr>bk_pay := (bk_pay bk)(i \<mapsto> (merchant, n))\<rparr>"

definition charge :: "string \<Rightarrow> string \<Rightarrow> amount \<Rightarrow> book \<Rightarrow> book" where
  "charge i code n bk = (if n = 0 then bk else bk\<lparr>bk_fee := (bk_fee bk)(i \<mapsto> (code, n))\<rparr>)"

lemmas book_ops = set_balance_def add_balance_def hold_def release_def set_supply_def add_supply_def bill_def
  charge_def

text \<open>The ledger has this document, under its own key.\<close>

definition stores :: "ledger \<Rightarrow> doc \<Rightarrow> bool" where
  "stores L d \<longleftrightarrow> L (key_of d) = Some d"

lemma book_of_sel:
  "stores L (DBalance b) \<Longrightarrow> bk_balance (book_of L) (bal_id b) = Some (bal_amount b)"
  "stores L (DPending p) \<Longrightarrow> bk_pending (book_of L) (pb_id p) = Some (pb_account p, pb_amount p + fee_or_zero (pb_fee p))"
  "stores L (DToken t) \<Longrightarrow> bk_supply (book_of L) (tok_code t) = Some (tok_supply t)"
  "stores L (DPay q) \<Longrightarrow> bk_pay (book_of L) (pay_id q) = Some (pay_account q, pay_amount q)"
  by (simp_all add: book_of_def stores_def)

lemma bk_balance_ops [simp]:
  "bk_balance (hold i r n bk) = bk_balance bk" "bk_balance (release i bk) = bk_balance bk"
  "bk_balance (set_supply c n bk) = bk_balance bk" "bk_balance (add_supply c n bk) = bk_balance bk"
  "bk_balance (bill i r n bk) = bk_balance bk" "bk_balance (charge i c n bk) = bk_balance bk"
  "bk_balance (set_balance j n bk) i = (if i = j then Some n else bk_balance bk i)"
  "bk_balance (add_balance j n bk) i = (if i = j then map_option (\<lambda>m. m + n) (bk_balance bk i) else bk_balance bk i)"
  by (simp_all add: book_ops)

lemma set_add_balance: "bk_balance bk i = Some m \<Longrightarrow> set_balance i (m + n) bk = add_balance i n bk"
  by (simp add: book_ops)

lemma set_sub_balance: "bk_balance bk i = Some m \<Longrightarrow> set_balance i (m - n) bk = add_balance i (- n) bk"
  by (simp add: book_ops)

lemma set_add_supply: "bk_supply bk c = Some m \<Longrightarrow> set_supply c (m + n) bk = add_supply c n bk"
  by (simp add: book_ops)

section \<open>Writes\<close>

lemma book_of_put [book]:
  "book_of (apply_write (put_balance b) L) = set_balance (bal_id b) (bal_amount b) (book_of L)"
  "book_of (apply_write (put_log ts l) L) = book_of L"
  "book_of (apply_write (put_pending p) L) =
     hold (pb_id p) (pb_account p) (pb_amount p + fee_or_zero (pb_fee p)) (book_of L)"
  "book_of (L(PendingKey i := None)) = release i (book_of L)"
  "book_of (apply_write (put_token t) L) = set_supply (tok_code t) (tok_supply t) (book_of L)"
  "book_of (apply_write (put_pay q) L) = bill (pay_id q) (pay_account q) (pay_amount q) (book_of L)"
  "book_of (apply_write (put_account a) L) = book_of L"
  "book_of (apply_write (put_holder ts a kid) L) = book_of L"
  "book_of (L(HolderKey kid i := None)) = book_of L"
  "book_of (L(LastPrunedKey c \<mapsto> d)) = book_of L"
  by (simp_all add: book_of_def put_balance_def put_log_def put_pending_def put_token_def put_pay_def
      put_account_def put_holder_def log_key_def book_ops fun_eq_iff Let_def)

lemma book_of_fee [book]:
  "book_of (commit (fee_writes st ts addr n) L) = charge (stamp_id st ts) (code_of addr) n (book_of L)"
  by (simp add: fee_writes_def book_of_def book_ops fun_eq_iff)

lemma book_of_holders [book]: "book_of (commit (map (put_holder ts a) kids) L) = book_of L"
  by (induction kids arbitrary: L) (simp_all add: book)

text \<open>The last part of a list of writes may be separated from the first.\<close>

lemma book_of_supply [book]:
  assumes "stores L (DBalance b)"
  shows "book_of (commit (supply_writes ts b n) L) = add_balance (bal_id b) n (book_of L)"
  using set_add_balance [OF book_of_sel(1) [OF assms]] by (simp add: supply_writes_def book Let_def)

lemma book_of_receive [book]:
  assumes "stores L (DBalance r)"
  shows "book_of (commit (receive_writes st ts s r n memo pt) L) =
    (if is_later pt ts then hold (txid st) (bal_id r) n (book_of L) else add_balance (bal_id r) n (book_of L))"
  using set_add_balance [OF book_of_sel(1) [OF assms]] by (simp add: receive_writes_def book Let_def)

lemma balance_after_receive:
  assumes "stores L (DBalance s)" "bal_id s \<noteq> bal_id r"
  shows "bk_balance (book_of (commit (receive_writes st ts x r n memo pt) L)) (bal_id s) = Some (bal_amount s)"
  by (rule book_of_sel(1)) (use assms in \<open>simp add: commit_receive stores_def\<close>)

lemma book_of_transfer:
  assumes "stores L (DBalance s)" "stores L (DBalance r)"
    "bal_id s \<noteq> bal_id r"
  shows "book_of (commit (transfer_writes st ts s r n fee memo pt) L) =
    charge (stamp_id st ts) (code_of (bal_id s)) fee
      (add_balance (bal_id s) (- (n + fee))
        (if is_later pt ts then hold (txid st) (bal_id r) n (book_of L) else add_balance (bal_id r) n (book_of L)))"
proof -
  let ?L = "commit (receive_writes st ts s r n memo pt) L"
  have "set_balance (bal_id s) (bal_amount s - (n + fee)) (book_of ?L) = add_balance (bal_id s) (- (n + fee)) (book_of ?L)"
    by (rule set_sub_balance) (rule balance_after_receive [OF assms(1,3)])
  then show ?thesis
    by (simp add: transfer_writes_def book book_of_receive [OF assms(2)] Let_def diff_diff_eq)
qed

lemma book_of_transfer_pending:
  assumes "stores L (DBalance r)"
  shows "book_of (commit (transfer_pending_writes st ts pb r pt) L) =
    release (pb_id pb) (charge (stamp_id st ts) (code_of (pb_account pb)) (fee_or_zero (pb_fee pb))
      (if is_later pt ts then hold (txid st) (bal_id r) (pb_amount pb) (book_of L)
       else add_balance (bal_id r) (pb_amount pb) (book_of L)))"
  by (simp add: transfer_pending_writes_def book book_of_receive [OF assms])

lemma book_of_deposit:
  assumes "stores L (DBalance s)" "pb_account pb = bal_id s"
  shows "book_of (commit (deposit_writes ts s pb) L) =
    (let n = pb_amount pb + fee_or_zero (pb_fee pb) in
     add_balance (bal_id s) (- n) (hold (pb_id pb) (bal_id s) n (book_of L)))"
  using assms book_of_sel(1) [OF assms(1)]
  by (simp add: deposit_writes_def book Let_def set_sub_balance)

lemma book_of_withdraw:
  assumes "stores L (DBalance b)"
  shows "book_of (commit (withdraw_writes ts b pb) L) =
    release (pb_id pb) (add_balance (bal_id b) (pb_amount pb + fee_or_zero (pb_fee pb)) (book_of L))"
  using book_of_sel(1) [OF assms] by (simp add: withdraw_writes_def book Let_def set_add_balance)

lemma book_of_pay:
  assumes "stores L (DBalance s)"
  shows "book_of (commit (pay_writes ts s q) L) =
    add_balance (bal_id s) (- pay_amount q) (bill (pay_id q) (pay_account q) (pay_amount q) (book_of L))"
  using book_of_sel(1) [OF assms] by (simp add: pay_writes_def book Let_def set_sub_balance)

lemma bill_again: "bk_pay bk i = Some (m, n) \<Longrightarrow> bill i m n bk = bk"
  by (simp add: book_ops fun_upd_idem)

lemma book_of_refund:
  assumes "stores L (DBalance r)" "stores L (DPay parent)"
    "pay_id q \<noteq> pay_id parent"
  shows "book_of (commit (refund_writes ts r q parent) L) =
    add_balance (bal_id r) (- pay_amount q) (bill (pay_id q) (pay_account q) (pay_amount q) (book_of L))"
proof -
  let ?bk = "bill (pay_id q) (pay_account q) (pay_amount q) (book_of L)"
  have "bk_pay ?bk (pay_id parent) = Some (pay_account parent, pay_amount parent)"
    using assms(3) book_of_sel(4) [OF assms(2)] by (simp add: bill_def)
  then have "bill (pay_id parent) (pay_account parent) (pay_amount parent) ?bk = ?bk"
    by (rule bill_again)
  then show ?thesis
    using book_of_sel(1) [OF assms(1)] by (simp add: refund_writes_def book Let_def set_sub_balance)
qed

lemma book_of_prune:
  assumes "stores L (DBalance b)"
  shows "book_of (commit (prune_writes st ts (bal_id b) b s) L) =
    charge (stamp_id st ts) (code_of (bal_id b)) (ps_fee s) (add_balance (bal_id b) (ps_sum s - ps_fee s) (book_of L))"
proof -
  have "bal_id (pruned_balance b ts s) = bal_id b" "bal_amount (pruned_balance b ts s) = bal_amount b + (ps_sum s - ps_fee s)"
    by (simp_all add: pruned_balance_def)
  then show ?thesis
    using set_add_balance [OF book_of_sel(1) [OF assms], of "ps_sum s - ps_fee s"]
    by (simp add: prune_writes_def book Let_def)
qed

lemma book_of_fee_prune:
  assumes "stores L (DBalance b)"
  shows "book_of (commit (fee_prune_writes ts b code s) L) = add_balance (bal_id b) (fs_sum s) (book_of L)"
  using set_add_balance [OF book_of_sel(1) [OF assms]] by (simp add: fee_prune_writes_def book Let_def)

lemma book_of_create:
  "book_of (commit (create_writes ts a kids) L) = set_balance (Account_GetID a) 0 (book_of L)"
  by (simp add: create_writes_def book)

end
