(* ===== verification/Demo.thy ===== *)
theory Demo
  imports Book
begin

text \<open>
  A concrete stub on a concrete ledger, on which the witnesses of the properties run the chaincode.
  The hash repeats the length of its input, which is a legal parameter: only the length of its output is
  relied on. The ledger holds one token with three accounts, a pay and two pending balances. Addresses
  stay symbolic: the simplifier runs a handler with the facts on them in the collection \<open>demo\<close>.
\<close>

named_theorems demo \<open>facts that evaluate the chaincode on the concrete stub\<close>

section \<open>Addresses\<close>

definition demo_shake :: shake where
  "demo_shake n bs = replicate n (of_nat (length bs))"

definition kidA :: string where "kidA = hex_encode hex_lower (replicate 20 170)"
definition kidB :: string where "kidB = hex_encode hex_lower (replicate 20 187)"

definition adrA :: address where "adrA = NewAddress demo_shake ''TKN'' AccountTypePersonal kidA"
definition adrB :: address where "adrB = NewAddress demo_shake ''TKN'' AccountTypePersonal kidB"
definition adrG :: address where "adrG = NewAddress demo_shake ''TKN'' AccountTypeJoint ''gen''"

definition idA :: string where "idA = Address_String adrA"
definition idB :: string where "idB = Address_String adrB"
definition idG :: string where "idG = Address_String adrG"

section \<open>Documents\<close>

definition t0 :: time where "t0 = 1500000000 * nanos"
definition t1 :: time where "t1 = 1600000000 * nanos"

definition demo_token :: token where
  "demo_token =
     \<lparr>tok_code = ''TKN'', tok_decimal = 2, tok_max_supply = 10000, tok_supply = 1671, tok_last_pruned_fee = [],
      tok_genesis = idG,
      tok_policy = Some \<lparr>fp_target = idG, fp_rates =
        [''transfer'' \<mapsto> \<lparr>fr_rate = ''0.01'', fr_max = 5\<rparr>, ''pay'' \<mapsto> \<lparr>fr_rate = ''0.1'', fr_max = 0\<rparr>]\<rparr>,
      tok_created = Some t0, tok_updated = Some t0\<rparr>"

definition demo_balance :: "string \<Rightarrow> amount \<Rightarrow> balance" where
  "demo_balance i n = \<lparr>bal_id = i, bal_amount = n, bal_created = Some t0, bal_updated = Some t0, bal_last_pruned = []\<rparr>"

definition demo_pay :: pay where
  "demo_pay = NewPay idB ''p1'' 100 10 idA [] ''order'' ''memo'' t0"

definition demo_escrow :: pending_balance where
  "demo_escrow = (NewPendingBalance ''e1'' idA (IdContract ''c1'') 10 (Some 1) ''memo'' (Some t0))\<lparr>pb_created := Some t0\<rparr>"

definition demo_escrow_pay :: pending_balance where
  "demo_escrow_pay = (NewPendingBalance ''e2'' idA (IdContract ''c2'') 10 None ''memo'' (Some t0))\<lparr>pb_created := Some t0\<rparr>"

definition demo_docs :: "(string \<times> doc) list" where
  "demo_docs = map (\<lambda>d. (key_of d, d))
     [DAccount (PersonalAccount (account_of t0 idA ''TKN'' AccountTypePersonal)), DBalance (demo_balance idA 1000),
      DAccount (PersonalAccount (account_of t0 idB ''TKN'' AccountTypePersonal)), DBalance (demo_balance idB 50),
      DAccount (JointAccount (account_of t0 idG ''TKN'' AccountTypeJoint) [kidA]), DBalance (demo_balance idG 500),
      DToken demo_token, DPay demo_pay, DPending demo_escrow, DPending demo_escrow_pay]"

definition demo_ledger :: ledger where
  "demo_ledger = map_of demo_docs"

section \<open>The stub\<close>

definition demo_contract :: string where
  "demo_contract = json_print (JObj [(''@contract'', JStr ''c9''), (''expiry_time'', JStr (time_String t1))])"

definition demo_meta :: string where
  "demo_meta = json_print (JObj [(''decimal'', JStr ''2''), (''max_supply'', JStr ''10000''),
     (''initial_supply'', JStr ''100''), (''fee'', JStr ''pay=0.2,7''), (''target_address'', JStr [])])"

definition demo_invoke :: "string \<Rightarrow> string \<Rightarrow> string list \<Rightarrow> cc_response" where
  "demo_invoke kid cc args =
     \<lparr>cc_status = 200, cc_message = [],
      cc_payload =
        (if cc = ''kiesnet-id'' then kid
         else if cc = ''kiesnet-contract'' then demo_contract
         else if args = [''token''] then demo_meta else ''70'')\<rparr>"

definition demo :: "string \<Rightarrow> stub" where
  "demo kid =
     \<lparr>world = demo_ledger, get_fault = (\<lambda>_. None), put_fault = (\<lambda>_. None), txid = ''tx'',
      timestamp = Inr (1600000000, 0), clock = t1, invoke = demo_invoke kid,
      query = (\<lambda>_. Inr [Inr (DPay demo_pay)]), query_page = (\<lambda>_ _ _. Inr ([], [])),
      caller_cc = Inr ''kiesnet-contract'', shake_of = demo_shake, dev = False\<rparr>"

section \<open>Facts\<close>

lemma shake_ok_demo [demo]: "shake_ok demo_shake"
  by (simp add: shake_ok_def demo_shake_def)

lemma TKN [demo]: "matches_code ''TKN''" "ToUpper ''TKN'' = ''TKN''" "ValidateTokenCode ''TKN'' = Inr ''TKN''"
proof -
  show c: "matches_code ''TKN''"
    by (simp add: matches_code_def code_char_def is_upper_def ord_def)
  show "ToUpper ''TKN'' = ''TKN''" "ValidateTokenCode ''TKN'' = Inr ''TKN''"
    using c by (simp_all add: matches_code_upper)
qed

lemma wf_demo [demo]: "wf_address demo_shake adrA" "wf_address demo_shake adrB" "wf_address demo_shake adrG"
  by (simp_all add: adrA_def adrB_def adrG_def wf_NewAddress demo)

lemma adr_sel [demo]:
  "adr_code adrA = ''TKN''" "adr_code adrB = ''TKN''" "adr_code adrG = ''TKN''"
  "adr_type adrA = AccountTypePersonal" "adr_type adrB = AccountTypePersonal" "adr_type adrG = AccountTypeJoint"
  by (simp_all add: adrA_def adrB_def adrG_def)

lemma new_adr [demo]:
  "NewAddress demo_shake ''TKN'' AccountTypePersonal kidA = adrA"
  "NewAddress demo_shake ''TKN'' AccountTypePersonal kidB = adrB"
  "Address_String adrA = idA" "Address_String adrB = idB" "Address_String adrG = idG"
  by (simp_all add: adrA_def adrB_def idA_def idB_def idG_def)

lemma parse_id [demo]:
  "ParseAddress demo_shake idA = Inr adrA" "ParseAddress demo_shake idB = Inr adrB"
  "ParseAddress demo_shake idG = Inr adrG"
  unfolding idA_def idB_def idG_def by (rule ParseAddress_String, rule wf_demo)+

lemma ascii_id [demo]: "ascii idA" "ascii idB" "ascii idG"
  using parse_id [THEN ParseAddress_run(1)] by (simp_all add: idA_def idB_def idG_def ascii_address wf_address_def wf_demo)

lemma upper_id [demo]: "ToUpper idA = idA" "ToUpper idB = idB" "ToUpper idG = idG"
  using parse_id [THEN ParseAddress_run(2)] new_adr by simp_all

lemma adr_neq [demo]: "adrA \<noteq> adrB" "adrB \<noteq> adrA" "adrA \<noteq> adrG" "adrG \<noteq> adrA" "adrB \<noteq> adrG" "adrG \<noteq> adrB"
proof -
  have "take 20 (adr_hash adrA) = replicate 20 170" "take 20 (adr_hash adrB) = replicate 20 187"
    by (simp_all add: adrA_def adrB_def take_hash_NewAddress id_bytes_def kidA_def kidB_def demo)
  then show "adrA \<noteq> adrB" "adrB \<noteq> adrA"
    by auto
  show "adrA \<noteq> adrG" "adrG \<noteq> adrA" "adrB \<noteq> adrG" "adrG \<noteq> adrB"
    using adr_sel account_types by metis+
qed

lemma id_neq [demo]: "idA \<noteq> idB" "idB \<noteq> idA" "idA \<noteq> idG" "idG \<noteq> idA" "idB \<noteq> idG" "idG \<noteq> idB"
  using adr_neq Address_String_inject wf_demo unfolding idA_def idB_def idG_def by metis+

lemma kid_neq [demo]: "kidA \<noteq> kidB" "kidB \<noteq> kidA"
proof -
  have "hex_decode kidA \<noteq> hex_decode kidB"
    by (simp add: kidA_def kidB_def)
  then show "kidA \<noteq> kidB" "kidB \<noteq> kidA"
    by auto
qed

lemma length_id: "length idA = 53" "length idB = 53" "length idG = 53" "idA \<noteq> []" "idB \<noteq> []" "idG \<noteq> []"
proof -
  show "length idA = 53" "length idB = 53" "length idG = 53"
    using wf_demo by (simp_all add: idA_def idB_def idG_def length_Address_String wf_address_def adr_sel)
  then show "idA \<noteq> []" "idB \<noteq> []" "idG \<noteq> []"
    by auto
qed

declare length_id [demo]

lemma code_demo [demo]: "code_of idA = ''TKN''" "code_of idB = ''TKN''" "code_of idG = ''TKN''"
  unfolding idA_def idB_def idG_def
  by (simp_all only: code_of_String [OF wf_demo(1)] code_of_String [OF wf_demo(2)] code_of_String [OF wf_demo(3)]
      adr_sel)

lemma holder_demo [demo]:
  "acc_id a = idA \<Longrightarrow> Account_Holder a = kidA" "acc_id a = idB \<Longrightarrow> Account_Holder a = kidB"
  using Account_Holder_NewAddress [OF shake_ok_demo TKN(1), of _ "replicate 20 170" a]
    Account_Holder_NewAddress [OF shake_ok_demo TKN(1), of _ "replicate 20 187" a]
  by (simp_all add: kidA_def kidB_def idA_def idB_def adrA_def adrB_def)

section \<open>Reading the ledger\<close>

lemma demo_sel [demo]:
  "world (demo k) = demo_ledger" "get_fault (demo k) i = None" "put_fault (demo k) i = None"
  "txid (demo k) = ''tx''" "shake_of (demo k) = demo_shake" "caller_cc (demo k) = Inr ''kiesnet-contract''"
  "timestamp (demo k) = Inr (1600000000, 0)" "query (demo k) q = Inr [Inr (DPay demo_pay)]"
  "query_page (demo k) q n b = Inr ([], [])"
  by (simp_all add: demo_def)

lemma demo_time [demo]: "GetTime (demo k) = Inr t1"
  by (simp add: GetTime_def demo_def t1_def Unix_small nanos_def)

lemma demo_kid [demo]: "kid_GetID (demo k) b = Inr k"
  by (simp add: kid_GetID_def demo_def demo_invoke_def)

lemma demo_token_sel [demo]:
  "tok_code demo_token = ''TKN''" "tok_genesis demo_token = idG" "tok_supply demo_token = 1671"
  "tok_max_supply demo_token = 10000"
  by (simp_all add: demo_token_def)

lemma demo_docs_sel [demo]:
  "pb_id demo_escrow = ''e1''" "pb_id demo_escrow_pay = ''e2''" "pay_id demo_pay = ''p1''"
  "pb_account demo_escrow = idA" "pb_account demo_escrow_pay = idA" "pb_pending demo_escrow = Some t0"
  "pb_pending demo_escrow_pay = Some t0" "pb_created demo_escrow = Some t0" "pb_created demo_escrow_pay = Some t0"
  "pb_amount demo_escrow = 10" "pb_fee demo_escrow = Some 1" "pb_amount demo_escrow_pay = 10" "pb_fee demo_escrow_pay = None"
  "pb_rid demo_escrow = ''c1''" "pb_rid demo_escrow_pay = ''c2''"
  "pb_type demo_escrow = PendingBalanceTypeContract" "pb_type demo_escrow_pay = PendingBalanceTypeContract"
  "bal_id (demo_balance i n) = i" "bal_amount (demo_balance i n) = n" "bal_last_pruned (demo_balance i n) = []"
  by (simp_all add: demo_escrow_def demo_escrow_pay_def demo_pay_def demo_balance_def NewPendingBalance_def)

abbreviation demo_accA :: account_doc where
  "demo_accA \<equiv> PersonalAccount (account_of t0 idA ''TKN'' AccountTypePersonal)"
abbreviation demo_accB :: account_doc where
  "demo_accB \<equiv> PersonalAccount (account_of t0 idB ''TKN'' AccountTypePersonal)"
abbreviation demo_accG :: account_doc where
  "demo_accG \<equiv> JointAccount (account_of t0 idG ''TKN'' AccountTypeJoint) [kidA]"

lemma demo_ledger_keys:
  "demo_ledger = [AccountKey idA \<mapsto> DAccount demo_accA, BalanceKey idA \<mapsto> DBalance (demo_balance idA 1000),
     AccountKey idB \<mapsto> DAccount demo_accB, BalanceKey idB \<mapsto> DBalance (demo_balance idB 50),
     AccountKey idG \<mapsto> DAccount demo_accG, BalanceKey idG \<mapsto> DBalance (demo_balance idG 500),
     TokenKey ''TKN'' \<mapsto> DToken demo_token, PayKey ''p1'' \<mapsto> DPay demo_pay,
     PendingKey ''e1'' \<mapsto> DPending demo_escrow, PendingKey ''e2'' \<mapsto> DPending demo_escrow_pay]"
  by (rule ext) (simp add: demo_ledger_def demo_docs_def demo)

lemma demo_read [demo]:
  "demo_ledger (AccountKey idA) = Some (DAccount demo_accA)" "demo_ledger (AccountKey idB) = Some (DAccount demo_accB)"
  "demo_ledger (AccountKey idG) = Some (DAccount demo_accG)"
  "demo_ledger (BalanceKey idA) = Some (DBalance (demo_balance idA 1000))"
  "demo_ledger (BalanceKey idB) = Some (DBalance (demo_balance idB 50))"
  "demo_ledger (BalanceKey idG) = Some (DBalance (demo_balance idG 500))"
  "demo_ledger (TokenKey ''TKN'') = Some (DToken demo_token)" "demo_ledger (PayKey ''p1'') = Some (DPay demo_pay)"
  "demo_ledger (PendingKey ''e1'') = Some (DPending demo_escrow)"
  "demo_ledger (PendingKey ''e2'') = Some (DPending demo_escrow_pay)"
  "demo_ledger (PendingKey ''tx'') = None" "demo_ledger (FeeKey i) = None"
  "demo_ledger (LastPrunedKey i) = None"
  by (simp_all add: demo_ledger_keys demo)

lemma demo_kids [demo]:
  "HasHolder demo_accA k \<longleftrightarrow> k = kidA" "HasHolder demo_accB k \<longleftrightarrow> k = kidB" "HasHolder demo_accG k \<longleftrightarrow> k = kidA"
  "\<not> IsSuspended demo_accA" "\<not> IsSuspended demo_accB" "\<not> IsSuspended demo_accG"
  using holder_demo by (auto simp: account_of_def IsSuspended_def Set_Contains_def)

lemma demo_account_ok:
  "account_ok demo_shake demo_accA" "account_ok demo_shake demo_accB" "account_ok demo_shake demo_accG"
  using account_ok_new [OF shake_ok_demo TKN(1)]
  by (simp_all add: idA_def idB_def idG_def adrA_def adrB_def adrG_def)

lemma demo_token_ok: "token_ok demo_shake demo_ledger demo_token"
proof -
  have "Rat_SetString ''0.01'' \<noteq> None" "Rat_SetString ''0.1'' \<noteq> None"
    by (simp_all add: Rat_SetString_def rat_decimal_def scan_mantissa_def is_digit_def scan_exponent_def ord_def)
  then have "policy_ok demo_token"
    by (auto simp: policy_ok_def demo_token_def rates_ok_def isValidFn_def split: if_splits)
  then show ?thesis
    using wf_demo(3) by (auto simp: token_ok_def demo account_exists_def demo_token_def
        intro!: exI [of _ adrG])
qed

lemma demo_doc_ok:
  assumes "demo_ledger k = Some d"
  shows "key_of d = k \<and> doc_ok demo_shake demo_ledger d"
proof -
  have "(k, d) \<in> set demo_docs"
    using assms by (simp add: demo_ledger_def map_of_SomeD)
  then show ?thesis
    using demo_account_ok demo_token_ok by (auto simp: demo_docs_def demo account_exists_def demo_pay_def)
qed

lemma demo_ledger_ok [demo]: "ledger_ok demo_shake demo_ledger"
proof -
  have "i \<in> {idA, idB, idG}" if "account_exists demo_ledger i" for i
    using that by (auto simp: account_exists_def demo_ledger_keys split: if_splits)
  then have "demo_ledger (BalanceKey i) \<noteq> None" if "account_exists demo_ledger i" for i
    using that by (force simp: demo)
  moreover have "finite (dom demo_ledger)"
    by (simp add: demo_ledger_def finite_dom_map_of)
  ultimately show ?thesis
    using demo_doc_ok by (simp add: ledger_ok_def keyed_def)
qed

lemma demo_running [demo]: "running (demo k)"
  by (simp add: running_def demo)

lemma demo_fresh [demo]: "fresh_tx (demo k)"
proof -
  have "stamp_id (demo k) t1 \<noteq> ''p1''"
  proof
    assume "stamp_id (demo k) t1 = ''p1''"
    then have "last (stamp_id (demo k) t1) = CHR ''1''"
      by simp
    then show False
      by (simp add: stamp_id_def demo)
  qed
  then show ?thesis
    by (auto simp: fresh_tx_def demo demo_ledger_keys)
qed

section \<open>Running the code\<close>

lemma demo_gets [demo]:
  "GetBalance (demo k) idA = Inr (demo_balance idA 1000)" "GetBalance (demo k) idB = Inr (demo_balance idB 50)"
  "GetBalance (demo k) idG = Inr (demo_balance idG 500)" "GetToken (demo k) ''TKN'' = Inr demo_token"
  "GetPay (demo k) ''p1'' = Inr demo_pay"
  by (simp_all add: run demo)

lemma demo_get_account [demo]:
  "GetAccount (demo k) adrA = Inr demo_accA" "GetAccount (demo k) adrB = Inr demo_accB"
  "GetAccount (demo k) adrG = Inr demo_accG"
  by (simp_all add: GetAccount_def GetAccountState_def GetState_def demo account_of_def)

lemma demo_holder [demo]: "Account_Holder (account_of t idA c ty) = kidA" "Account_Holder (account_of t idB c ty) = kidB"
  using holder_demo by (simp_all add: account_of_def)

lemma time_year_eq: "time_year t = fst (year_yday (t div nanos div 86400 + epoch_days))"
  by (simp add: time_year_def civil_def Let_def split_def)

lemma years_demo: "time_year t0 = 2017" "time_year t1 = 2020"
proof -
  have "t0 div nanos = 1500000000" "t1 div nanos = 1600000000"
    by (simp_all add: t0_def t1_def nanos_def)
  then show "time_year t0 = 2017" "time_year t1 = 2020"
    by (simp_all add: time_year_eq epoch_days_def year_yday_def Let_def)
qed

lemma t0_readable [demo]: "readable_time (Some t0)" "readable_time (Some t1)"
  by (simp_all add: readable_time_def years_demo)

lemma t0_t1 [demo]: "t0 < t1" "t0 \<le> t1" "\<not> t1 < t0"
  by (simp_all add: t0_def t1_def nanos_def)

lemma demo_get_pending [demo]:
  "GetPendingBalance (demo k) ''e1'' = Inr demo_escrow" "GetPendingBalance (demo k) ''e2'' = Inr demo_escrow_pay"
  by (simp_all add: run demo readable_pending_def)

lemma demo_amount [demo]: "NewAmount ''100'' = Inr 100" "NewAmount ''70'' = Inr 70" "NewAmount ''7'' = Inr 7"
  by (simp_all add: NewAmount_def parse_digits_def is_digit_def ord_def dec_val_def digit_val_def)

lemma demo_rate [demo]: "Rat_SetString ''0.01'' = Some (1 / 100)" "Rat_SetString ''0.1'' = Some (1 / 10)"
  by (simp_all add: Rat_SetString_def rat_decimal_def scan_mantissa_def is_digit_def scan_exponent_def ord_def
      dec_val_def digit_val_def pow10_def)

lemma demo_fee [demo]:
  "CalcFee (demo k) adrA ''transfer'' 100 = Inr 1" "CalcFee (demo k) adrB ''pay'' 100 = Inr 10"
  "CalcFee (demo k) adrB ''pay'' 10 = Inr 1"
  by (simp_all add: CalcFee_def demo demo_token_def MulRat_floor)

lemma demo_put [demo]: "PutState (demo k) i d = Inr [Put i d]" "DelState (demo k) i = Inr [Del i]"
  by (simp_all add: PutState_def DelState_def demo)

lemmas put_defs = PutBalance_def PutBalanceLog_def PutPendingBalance_def PutFee_def PutToken_def PutPay_def
  PutParentPay_def PutAccount_def PutHolder_def PutLastPrunedFeeID_def CreateFee_def

lemmas set_defs = Set_New_def Set_AppendSlice_def Set_AppendSet_def Set_Add_def Set_Size_def Set_Contains_def
  Set_Strings_def Set_Remove_def

lemmas transfer_defs = transfer_def transfer_sender_def transfer_options_def transfer_move_def account_signers_def
  Transfer_def receive_def is_later_def set_defs put_defs Success_def Let_def

lemma demo_transfer:
  "\<exists>p ws. transfer (demo kidA) [[], idB, ''100''] = Inr (p, ws) \<and>
     bk_balance (book_of (commit ws demo_ledger)) idA = Some 899"
  by (simp add: transfer_defs demo book_of_def log_key_def)

lemmas pay_defs = pay_def pay_sender_def pay_options_def pay_move_def account_signers_def Pay_def set_defs put_defs
  Success_def Let_def

lemma demo_pays: "\<exists>p ws. pay (demo kidA) [[], idB, ''100''] = Inr (p, ws)"
  by (simp add: pay_defs demo)

text \<open>The contract chaincode's answer, and the callbacks on the two held amounts.\<close>

definition demo_con :: contract where
  "demo_con = \<lparr>con_payload = demo_contract, con_map = [(''@contract'', JStr ''c9''), (''expiry_time'', JStr (time_String t1))]\<rparr>"

lemma demo_con [demo]: "Contract_GetID demo_con = Inr ''c9''" "Contract_GetExpiryTime demo_con = Inr t1"
  by (simp_all add: Contract_GetID_def Contract_GetExpiryTime_def string_field_def demo_con_def Parse_String_iff years_demo)

lemma demo_deposit: "\<exists>l ws. Deposit (demo kidA) ''tx'' (demo_balance idA 1000) demo_con 10 (Some 1) [] = Inr (l, ws)"
  by (simp add: Deposit_def put_defs demo Let_def)

lemma demo_world [demo]:
  "GetTime (st\<lparr>world := L\<rparr>) = GetTime st" "kid_GetID (st\<lparr>world := L\<rparr>) sec = kid_GetID st sec"
  by (simp_all add: GetTime_def kid_GetID_def)

lemmas settle_defs = executeTransfer_def cancelTransfer_def TransferPendingBalance_def Withdraw_def str_at_def
  receive_def own_pending_def is_later_def put_defs Success_def Let_def

abbreviation demo_transfer_doc :: "json list" where
  "demo_transfer_doc \<equiv> [JStr ''transfer'', JStr ''e1'', JStr idA, JStr idB, JStr ''10'', JStr ''1'', JStr [], JStr ''0'']"

lemma demo_execute: "\<exists>p ws. executeTransfer (demo kidA) ''c1'' demo_transfer_doc = Inr (p, ws)"
  by (simp add: settle_defs demo)

lemma demo_withdraw: "\<exists>p ws. balancePendingWithdraw (demo kidA) [''e1''] = Inr (p, ws)"
  by (simp add: balancePendingWithdraw_def settle_defs demo)

text \<open>The callback as the contract chaincode sends it, and a transfer locked until the year 10000.\<close>

definition demo_text :: string where
  "demo_text = json_print (JArr demo_transfer_doc)"

lemma demo_parse [demo]: "parse_doc demo_text = Some demo_transfer_doc"
  unfolding parse_doc_def demo_text_def by (subst json_parse_print) (simp_all add: ascii_id)

lemma demo_callback:
  "\<exists>p ws. Invoke (demo kidA) ''contract/execute'' [''c1'', demo_text] = Inr (p, ws) \<and>
     commit ws demo_ledger (PendingKey ''e1'') = None"
  by (simp add: Invoke_def routes_def contractExecute_def contractCallback_def ccid_GetID_def ctrRoutes_def
      settle_defs demo)

definition t9 :: time where "t9 = 253402300800 * nanos"

lemma t9_year: "time_year t9 = 10000"
proof -
  have "t9 div nanos = 253402300800"
    by (simp add: t9_def nanos_def)
  then show ?thesis
    by (simp add: time_year_eq epoch_days_def year_yday_def Let_def)
qed

lemma demo_t9 [demo]: "ParseInt64 ''253402300800'' = Some 253402300800" "Unix 253402300800 0 = t9" "t1 < t9"
  by (simp_all add: ParseInt64_def ParseInt_def parse_digits_def is_digit_def ord_def dec_val_def digit_val_def
      Unix_small nanos_def t9_def t1_def)

lemma demo_lock:
  "\<exists>p ws pb. transfer (demo kidA) [[], idB, ''100'', [], ''253402300800''] = Inr (p, ws) \<and>
     commit ws demo_ledger (PendingKey ''tx'') = Some (DPending pb) \<and> pb_id pb = ''tx'' \<and> pb_pending pb = Some t9"
  by (simp add: transfer_defs demo log_key_def cut_memo_def NewPendingBalance_def)

lemma demo_execute_pay:
  "\<exists>p ws. executePay (demo kidA) ''c2'' [JStr ''pay'', JStr ''e2'', JStr idA, JStr idB, JStr ''10'', JStr ''order'', JStr ''memo''] =
     Inr (p, ws)"
  by (simp add: executePay_def PayPendingBalance_def settle_defs demo)

lemma demo_refund: "\<exists>p ws. payRefund (demo kidB) [''p1'', ''70''] = Inr (p, ws)"
  by (simp add: payRefund_def refund_fee_def Refund_def set_defs put_defs Success_def demo demo_pay_def Let_def)

lemma demo_bool [demo]: "ParseBool ''true'' = Some True"
  by (simp add: ParseBool_def)

lemma demo_start [demo]: "start_time [] = Inr 0"
  by (simp add: start_time_def Unix_small nanos_def)

lemma demo_prune: "\<exists>p ws. payPrune (demo kidB) [''TKN'', ''true''] = Inr (p, ws)"
  by (simp add: payPrune_def resolve_address_def prune_end_def GetPaySumByTime_def PaysPruneSize_def
      put_defs Success_def demo demo_pay_def Let_def)

text \<open>Minting and burning with the answer 70 of the token's chaincode.\<close>

lemma demo_knt [demo]: "cs \<noteq> [''token''] \<Longrightarrow> invokeKNT (demo k) ''TKN'' cs = Inr ''70''"
  by (simp add: invokeKNT_def demo_def demo_invoke_def ToLower_def lower_char_def ord_def)

lemmas issue_defs = Mint_def Burn_def Supply_def genesis_account_def as_joint_def put_defs Success_def Let_def

lemma demo_genesis [demo]: "HasHolder demo_accG kidA" "as_joint demo_accG = Some (account_of t0 idG ''TKN'' AccountTypeJoint, [kidA])"
  by (simp_all add: Set_Contains_def as_joint_def)

lemma demo_mint: "\<exists>p ws. tokenMint (demo kidA) [''TKN'', ''100''] = Inr (p, ws) \<and> ws \<noteq> []"
  by (simp add: tokenMint_def issue_defs set_defs demo)

lemma demo_burn: "\<exists>p ws. tokenBurn (demo kidA) [''TKN'', ''100''] = Inr (p, ws) \<and> ws \<noteq> []"
  by (simp add: tokenBurn_def issue_defs set_defs demo)

text \<open>The meta data of the token's chaincode, for a new token and for an update.\<close>

lemma NEW: "matches_code ''NEW''" "ToUpper ''new'' = ''NEW''" "ToUpper ''NEW'' = ''NEW''"
  using chr_ord [of "CHR ''N''"] chr_ord [of "CHR ''E''"] chr_ord [of "CHR ''W''"]
  by (simp_all add: matches_code_def code_char_def is_upper_def ToUpper_def upper_char_def ord_def)

lemma demo_meta_map: "Option.bind (json_parse demo_meta) string_map =
    Some [(''decimal'', ''2''), (''max_supply'', ''10000''), (''initial_supply'', ''100''), (''fee'', ''pay=0.2,7''),
      (''target_address'', [])]"
  unfolding demo_meta_def by (subst json_parse_print) (simp_all add: string_map_def)

lemma demo_policy: "ParseFeePolicy ''pay=0.2,7'' =
    Inr \<lparr>fp_target = [], fp_rates = [''pay'' \<mapsto> \<lparr>fr_rate = ''0.2'', fr_max = 7\<rparr>]\<rparr>"
proof -
  have "Rat_SetString ''0.2'' = Some (2 / 10)"
    by (simp add: Rat_SetString_def rat_decimal_def scan_mantissa_def is_digit_def scan_exponent_def ord_def
        dec_val_def digit_val_def pow10_def)
  then show ?thesis
    by (simp add: ParseFeePolicy_def parse_fee_def parse_max_def isValidFn_def ParseInt_def parse_digits_def is_digit_def
        ord_def dec_val_def digit_val_def Let_def)
qed

lemma demo_meta: "getValidatedTokenMeta (demo k) code =
    Inr (2, 10000, 100, Some \<lparr>fp_target = [], fp_rates = [''pay'' \<mapsto> \<lparr>fr_rate = ''0.2'', fr_max = 7\<rparr>]\<rparr>)"
proof -
  have "invokeKNT (demo k) code [''token''] = Inr demo_meta"
    by (simp add: invokeKNT_def demo_def demo_invoke_def)
  moreover have "Atoi ''2'' = Some 2" "NewAmount ''10000'' = Inr 10000"
    by (simp_all add: Atoi_def ParseInt_def NewAmount_def parse_digits_def is_digit_def ord_def dec_val_def digit_val_def)
  ultimately show ?thesis
    by (simp add: getValidatedTokenMeta_def demo_meta_map meta_at_def demo_policy demo Let_def)
qed

lemma demo_update: "\<exists>p ws. tokenUpdate (demo kidB) [''TKN''] = Inr (p, ws)"
proof -
  have "tok_policy demo_token \<noteq> None"
    by (simp add: demo_token_def)
  then show ?thesis
    by (auto simp: tokenUpdate_def demo demo_meta updated_policy_def put_defs Success_def Let_def)
qed

definition idN :: string where
  "idN = Address_String (NewAddress demo_shake ''NEW'' AccountTypeJoint ''tx'')"

lemma demo_new_account: "GetAccount (demo k) (NewAddress demo_shake ''NEW'' AccountTypeJoint ''tx'') =
    Inl (NotExistedAccountError idN)"
proof -
  have wf: "wf_address demo_shake (NewAddress demo_shake ''NEW'' AccountTypeJoint ''tx'')"
    using NEW(1) shake_ok_demo by (simp add: wf_NewAddress)
  then have "code_of idN = ''NEW''"
    by (simp add: idN_def code_of_String)
  then have "idN \<notin> {idA, idB, idG}"
    using code_demo by auto
  then have "demo_ledger (AccountKey idN) = None"
    by (simp add: demo_ledger_keys)
  then show ?thesis
    by (simp add: GetAccount_missing demo_sel idN_def)
qed

lemma demo_issue: "\<exists>p ws. tokenCreate (demo kidA) [''new''] = Inr (p, ws) \<and> ws \<noteq> []"
proof -
  have "demo_ledger (TokenKey ''NEW'') = None"
    by (simp add: demo_ledger_keys demo)
  then have "not_issued (demo kidA) ''NEW'' = Inr ()"
    by (simp add: not_issued_run demo_sel)
  then show ?thesis
    by (simp add: tokenCreate_def ValidateTokenCode_def NEW demo_meta demo_new_account CreateToken_def CreateJointAccount_def
        CreateBalance_def set_target_def initial_mint_def Supply_def is_NotExistedAccountError_def set_defs put_defs
        Success_def demo Let_def)
qed

end
