(* ===== verification/Tokens.thy ===== *)
theory Tokens
  imports Demo
begin

text \<open>
  Properties of tokens and fees (\<open>TokenTx\<close>, \<open>TokenStub\<close>, \<open>FeeTx\<close>, \<open>FeeStub\<close>): issuing, minting, burning and
  updating a token over the account book, the fee of an amount, the fee policy's text and the pruning of
  the collected fees.
\<close>

lemma ex2I: "P a b \<Longrightarrow> \<exists>x y. P x y"
  by blast

section \<open>Minting and burning\<close>

text \<open>The invoker as the sole holder of the genesis account.\<close>

definition sole_issuer :: "stub \<Rightarrow> token \<Rightarrow> bool" where
  "sole_issuer st token \<longleftrightarrow>
     (\<exists>kid jac hs. kid_GetID st True = Inr kid \<and> stores (world st) (DAccount (JointAccount jac hs)) \<and>
        acc_id jac = tok_genesis token \<and> kid \<in> set hs \<and> Set_Size hs \<le> 1)"

lemma genesis_issuer:
  assumes "running st" "GetToken st code = Inr token" "genesis_account st token kid = Inr (JointAccount jac hs, bal)"
    "kid_GetID st True = Inr kid" "Set_Size hs \<le> 1"
  shows "sole_issuer st token" "stores (world st) (DBalance bal)" "bal_id bal = tok_genesis token"
proof -
  note ok = runningD(2) [OF assms(1)]
  note b = GetBalance_ok [OF genesis_balance [OF assms(1-3)] ok]
  obtain addr where p: "ParseAddress (shake_of st) (tok_genesis token) = Inr addr"
    and g: "GetAccount st addr = Inr (JointAccount jac hs)" and h: "HasHolder (JointAccount jac hs) kid"
    using genesis_account_run [OF assms(3)] by blast
  obtain adr where "wf_address (shake_of st) adr" "tok_genesis token = Address_String adr"
    using GetToken_ok(3) [OF assms(2) ok] by (auto simp: token_ok_def)
  then have "Address_String addr = tok_genesis token"
    using p ParseAddress_String by auto
  then show "sole_issuer st token"
    using GetAccount_ok(1,2) [OF g ok ParseAddress_run(1) [OF p]] assms(4,5) h
    unfolding sole_issuer_def
    by (intro exI [of _ kid] exI [of _ jac] exI [of _ hs]) (auto simp: stores_def Account_GetID_def Set_Contains_def)
  show "stores (world st) (DBalance bal)" "bal_id bal = tok_genesis token"
    using b by (simp_all add: stores_def)
qed

lemma tokenMint_direct:
  assumes "tokenMint st params = Inr (p, ws)" "ws \<noteq> []"
  shows "\<exists>token kid jac hs bal n t' l. GetToken st (ToUpper (params ! 0)) = Inr token \<and> kid_GetID st True = Inr kid \<and>
    genesis_account st token kid = Inr (JointAccount jac hs, bal) \<and> Set_Size hs \<le> 1 \<and> 0 \<le> n \<and>
    Mint st token bal n = Inr (t', l, ws)"
  using assms by (auto simp: tokenMint_def run not_less Let_def ValidateTokenCode_run split: prod.splits if_splits)

lemma tokenBurn_direct:
  assumes "tokenBurn st params = Inr (p, ws)" "ws \<noteq> []"
  shows "\<exists>token kid jac hs bal n t' l. GetToken st (ToUpper (params ! 0)) = Inr token \<and> kid_GetID st True = Inr kid \<and>
    genesis_account st token kid = Inr (JointAccount jac hs, bal) \<and> Set_Size hs \<le> 1 \<and> 0 \<le> n \<and> n \<le> tok_supply token \<and>
    Burn st token bal n = Inr (t', l, ws)"
  using assms by (auto simp: tokenBurn_def run not_less Let_def ValidateTokenCode_run split: prod.splits if_splits)

lemma set_add_supply':
  assumes "stores L (DToken t)"
  shows "set_supply (tok_code t) (tok_supply t + n) (book_of L) = add_supply (tok_code t) n (book_of L)"
  by (rule set_add_supply) (rule book_of_sel(3) [OF assms])

lemma bk_ops_commute:
  "set_supply c n (add_balance i m bk) = add_balance i m (set_supply c n bk)"
  by (simp add: book_ops)

lemma book_of_mint:
  assumes "stores L (DBalance bal)" "stores L (DToken t)"
  shows "book_of (commit (put_token (with_supply t (tok_supply t + n) ts) # supply_writes ts bal n) L) =
    add_balance (bal_id bal) n (add_supply (tok_code t) n (book_of L))"
proof -
  let ?L = "apply_write (put_token (with_supply t (tok_supply t + n) ts)) L"
  have "stores ?L (DBalance bal)"
    using assms(1) by (simp add: stores_def put_token_def)
  then show ?thesis
    using book_of_supply [of ?L bal ts n] set_add_supply' [OF assms(2), of n] by (simp add: book)
qed

lemma book_of_burn:
  assumes "stores L (DBalance bal)" "stores L (DToken t)"
  shows "book_of (commit (supply_writes ts bal n @ [put_token (with_supply t (tok_supply t + n) ts)]) L) =
    add_balance (bal_id bal) n (add_supply (tok_code t) n (book_of L))"
  using book_of_supply [OF assms(1), of ts n] set_add_supply' [OF assms(2), of n] by (simp add: book bk_ops_commute)

text \<open>C14: minting. Only the sole holder of the genesis account mints without a contract; supply and genesis
  balance grow by the same amount, which is cut so that the supply does not pass the maximum.\<close>

theorem tokenMint_refines:
  assumes "running st" and "tokenMint st params = Inr (p, ws)" and "ws \<noteq> []"
  shows "\<exists>token n m. GetToken st (ToUpper (params ! 0)) = Inr token \<and> sole_issuer st token \<and> 0 \<le> n \<and>
    m = min n (tok_max_supply token - tok_supply token) \<and> 0 \<le> m \<and> tok_supply token + m \<le> tok_max_supply token \<and>
    book_of (commit ws (world st)) =
      add_balance (tok_genesis token) m (add_supply (ToUpper (params ! 0)) m (book_of (world st)))"
proof -
  note ok = runningD(2) [OF assms(1)]
  obtain token kid jac hs bal n t' l where t: "GetToken st (ToUpper (params ! 0)) = Inr token"
    and k: "kid_GetID st True = Inr kid" and g: "genesis_account st token kid = Inr (JointAccount jac hs, bal)"
    and hs: "Set_Size hs \<le> 1" and n: "0 \<le> n" and m: "Mint st token bal n = Inr (t', l, ws)"
    using tokenMint_direct [OF assms(2,3)] by blast
  note T = GetToken_ok [OF t ok] and G = genesis_issuer [OF assms(1) t g k hs]
  have "stores (world st) (DToken token)"
    using T by (simp add: stores_def)
  moreover obtain ts where "ws = put_token (with_supply token (tok_supply token + minted token n) ts) #
      supply_writes ts bal (minted token n)" "tok_supply token < tok_max_supply token"
    using Mint_run [OF m] by blast
  ultimately show ?thesis
    using t n T(1) G book_of_mint [OF G(2), of token "minted token n"]
    by (intro exI [of _ token] exI [of _ n] exI [of _ "minted token n"]) (auto simp: minted_def min.commute)
qed

theorem tokenMint_refines_witness:
  "\<exists>p ws. tokenMint (demo kidA) [''TKN'', ''100''] = Inr (p, ws) \<and> sole_issuer (demo kidA) demo_token"
proof -
  obtain p ws where "tokenMint (demo kidA) [''TKN'', ''100''] = Inr (p, ws)" "ws \<noteq> []"
    using demo_mint by blast
  then show ?thesis
    using tokenMint_refines [OF demo_running, of kidA "[''TKN'', ''100'']" p ws] by (auto simp: demo)
qed

text \<open>C15: burning. Only the sole holder of the genesis account burns without a contract; supply and genesis
  balance fall by the same positive amount, which is covered by both.\<close>

theorem tokenBurn_refines:
  assumes "running st" and "tokenBurn st params = Inr (p, ws)" and "ws \<noteq> []"
  shows "\<exists>token b m. GetToken st (ToUpper (params ! 0)) = Inr token \<and> sole_issuer st token \<and>
    bk_balance (book_of (world st)) (tok_genesis token) = Some b \<and> 0 < m \<and> m \<le> b \<and> m \<le> tok_supply token \<and>
    book_of (commit ws (world st)) =
      add_balance (tok_genesis token) (- m) (add_supply (ToUpper (params ! 0)) (- m) (book_of (world st)))"
proof -
  note ok = runningD(2) [OF assms(1)]
  obtain token kid jac hs bal n t' l where t: "GetToken st (ToUpper (params ! 0)) = Inr token"
    and k: "kid_GetID st True = Inr kid" and g: "genesis_account st token kid = Inr (JointAccount jac hs, bal)"
    and hs: "Set_Size hs \<le> 1" and n: "n \<le> tok_supply token" and m: "Burn st token bal n = Inr (t', l, ws)"
    using tokenBurn_direct [OF assms(2,3)] by blast
  note T = GetToken_ok [OF t ok] and G = genesis_issuer [OF assms(1) t g k hs]
  have st: "stores (world st) (DToken token)"
    using T by (simp add: stores_def)
  obtain ts where "0 < burnt bal n" "ws = supply_writes ts bal (- burnt bal n) @
      [put_token (with_supply token (tok_supply token + - burnt bal n) ts)]"
    using Burn_run [OF m] assms(3) by (auto split: if_splits)
  then show ?thesis
    using t n T(1) G st book_of_burn [OF G(2) st, of ts "- burnt bal n"] book_of_sel(1) [OF G(2)]
    by (intro exI [of _ token] exI [of _ "bal_amount bal"] exI [of _ "burnt bal n"]) (auto simp: burnt_def)
qed

theorem tokenBurn_refines_witness:
  "\<exists>p ws. tokenBurn (demo kidA) [''TKN'', ''100''] = Inr (p, ws) \<and> sole_issuer (demo kidA) demo_token"
proof -
  obtain p ws where "tokenBurn (demo kidA) [''TKN'', ''100''] = Inr (p, ws)" "ws \<noteq> []"
    using demo_burn by blast
  then show ?thesis
    using tokenBurn_refines [OF demo_running, of kidA "[''TKN'', ''100'']" p ws] by (auto simp: demo)
qed

section \<open>Issuing and updating\<close>

lemma tokenCreate_direct:
  assumes "tokenCreate st params = Inr (p, ws)" "ws \<noteq> []"
  shows "\<exists>d m n policy kid t. matches_code (ToUpper (params ! 0)) \<and> world st (TokenKey (ToUpper (params ! 0))) = None \<and>
    getValidatedTokenMeta st (ToUpper (params ! 0)) = Inr (d, m, n, policy) \<and> kid_GetID st True = Inr kid \<and>
    CreateToken st (ToUpper (params ! 0)) d m n policy [kid] = Inr (t, ws)"
proof -
  have "\<exists>code d m n policy kid hs t. ValidateTokenCode (params ! 0) = Inr code \<and> world st (TokenKey code) = None \<and>
      getValidatedTokenMeta st code = Inr (d, m, n, policy) \<and> kid_GetID st True = Inr kid \<and>
      (hs = [kid] \<or> (\<exists>xs. add_signables st code xs [kid] = Inr hs)) \<and> length hs \<le> 1 \<and>
      CreateToken st code d m n policy hs = Inr (t, ws)"
    using assms
    by (auto simp: tokenCreate_def run not_less Let_def set_defs split: prod.splits if_splits dest!: invokeContract_run)
      (fastforce+)?
  then obtain code d m n policy kid hs t where c: "ValidateTokenCode (params ! 0) = Inr code" "world st (TokenKey code) = None"
    and meta: "getValidatedTokenMeta st code = Inr (d, m, n, policy)" and kid: "kid_GetID st True = Inr kid"
    and hs: "hs = [kid] \<or> (\<exists>xs. add_signables st code xs [kid] = Inr hs)" "length hs \<le> 1"
    and r: "CreateToken st code d m n policy hs = Inr (t, ws)"
    by blast
  have "kid \<in> set hs" "length hs \<le> 1"
    using hs add_signables_mono [of st code _ "[kid]" hs] by (auto simp: Set_Size_def)
  then have "hs = [kid]"
    by (cases hs) auto
  then show ?thesis
    using c meta kid r by (auto simp: ValidateTokenCode_run)
qed

text \<open>C16: issuing. A token is issued once, under a valid code, with the meta data of its chaincode: at most 18
  decimals and an initial supply within the maximum. Its genesis account is a new joint account with the
  invoker as the only holder, its balance is the initial supply, and nothing else enters the book.\<close>

theorem tokenCreate_refines:
  assumes "running st" and "tokenCreate st params = Inr (p, ws)" and "ws \<noteq> []"
  shows "\<exists>t jac kid. matches_code (ToUpper (params ! 0)) \<and> world st (TokenKey (ToUpper (params ! 0))) = None \<and>
    stores (commit ws (world st)) (DToken t) \<and> tok_code t = ToUpper (params ! 0) \<and> 0 \<le> tok_decimal t \<and> tok_decimal t \<le> 18 \<and>
    0 \<le> tok_supply t \<and> tok_supply t \<le> tok_max_supply t \<and> kid_GetID st True = Inr kid \<and>
    world st (AccountKey (tok_genesis t)) = None \<and> acc_id jac = tok_genesis t \<and>
    stores (commit ws (world st)) (DAccount (JointAccount jac [kid])) \<and>
    book_of (commit ws (world st)) =
      set_supply (tok_code t) (tok_supply t) (set_balance (tok_genesis t) (tok_supply t) (book_of (world st)))"
proof -
  obtain d m n policy kid t where code: "matches_code (ToUpper (params ! 0))" "world st (TokenKey (ToUpper (params ! 0))) = None"
    and meta: "getValidatedTokenMeta st (ToUpper (params ! 0)) = Inr (d, m, n, policy)" and kid: "kid_GetID st True = Inr kid"
    and cr: "CreateToken st (ToUpper (params ! 0)) d m n policy [kid] = Inr (t, ws)"
    using tokenCreate_direct [OF assms(2,3)] by blast
  let ?code = "ToUpper (params ! 0)"
  let ?g = "Address_String (NewAddress (shake_of st) ?code AccountTypeJoint (txid st))"
  obtain ts a where a: "a = JointAccount (account_of ts ?g ?code AccountTypeJoint) [kid]"
    and new: "world st (AccountKey ?g) = None" and t: "t = new_token ts ?code d m n ?g policy"
    and ws: "ws = create_writes ts a [kid] @ (if n > 0 then supply_writes ts (empty_balance ts ?g) n else []) @ [put_token t]"
    using CreateToken_run [OF cr] by blast
  have sel: "tok_code t = ?code" "tok_decimal t = d" "tok_max_supply t = m" "tok_supply t = n" "tok_genesis t = ?g"
    by (simp_all add: t new_token_def)
  let ?L = "commit (create_writes ts a [kid]) (world st)"
  have "stores ?L (DBalance (empty_balance ts ?g))"
    by (simp add: stores_def create_writes_def a put_account_def put_balance_def put_holder_def)
  from book_of_supply [OF this, of ts n]
  have "book_of (commit ws (world st)) = set_supply ?code n (set_balance ?g n (book_of (world st)))"
    using getValidatedTokenMeta_ok [OF meta] sel
    by (auto simp: ws book book_of_create a book_ops)
  moreover have "stores (commit ws (world st)) (DToken t)" "stores (commit ws (world st)) (DAccount a)"
    by (simp_all add: stores_def ws a create_writes_def supply_writes_def put_account_def put_token_def put_holder_def
        write_forms log_key_def Let_def)
  ultimately show ?thesis
    using code kid new sel getValidatedTokenMeta_ok [OF meta]
    by (intro exI [of _ t] exI [of _ "account_of ts ?g ?code AccountTypeJoint"] exI [of _ kid])
      (simp add: a account_of_def)
qed

theorem tokenCreate_refines_witness:
  "\<exists>p ws t. tokenCreate (demo kidA) [''new''] = Inr (p, ws) \<and> stores (commit ws demo_ledger) (DToken t) \<and>
     tok_code t = ''NEW''"
proof -
  obtain p ws where "tokenCreate (demo kidA) [''new''] = Inr (p, ws)" "ws \<noteq> []"
    using demo_issue by blast
  then show ?thesis
    using tokenCreate_refines [OF demo_running, of kidA "[''new'']" p ws] by (auto simp: demo NEW)
qed

text \<open>C24: an update of a token changes its fee policy and nothing else: the supply, the maximum, the genesis
  account and the whole account book stay as they are. The new policy has valid rates and its target is an
  existing account; a policy that is there is never removed, only emptied of its rates.\<close>

theorem tokenUpdate_policy_only:
  assumes "running st" and "tokenUpdate st params = Inr (p, ws)"
  shows "\<exists>token token'. GetToken st (ToUpper (params ! 0)) = Inr token \<and> stores (commit ws (world st)) (DToken token') \<and>
    tok_code token' = tok_code token \<and> tok_supply token' = tok_supply token \<and> tok_max_supply token' = tok_max_supply token \<and>
    tok_genesis token' = tok_genesis token \<and> tok_decimal token' = tok_decimal token \<and>
    book_of (commit ws (world st)) = book_of (world st) \<and> policy_ok token' \<and>
    (tok_policy token \<noteq> None \<longrightarrow> tok_policy token' \<noteq> None) \<and>
    (\<forall>q. tok_policy token' = Some q \<longrightarrow> account_exists (world st) (fp_target q))"
proof -
  note ok = runningD(2) [OF assms(1)]
  obtain code token d m s policy where c: "ValidateTokenCode (params ! 0) = Inr code" and t: "GetToken st code = Inr token"
    and meta: "getValidatedTokenMeta st code = Inr (d, m, s, policy)"
    and w: "ws = [] \<or> (\<exists>q ts. GetTime st = Inr ts \<and> updated_policy st token policy = Inr (Some q) \<and>
       ws = [put_token (token\<lparr>tok_policy := Some q, tok_updated := Some ts\<rparr>)])"
    using tokenUpdate_run [OF assms(2)] by blast
  have code: "code = ToUpper (params ! 0)"
    using c by (simp add: ValidateTokenCode_run)
  note T = GetToken_ok [OF t ok]
  have st: "stores (world st) (DToken token)"
    using T by (simp add: stores_def)
  from w show ?thesis
  proof (elim disjE exE conjE)
    assume "ws = []"
    then show ?thesis
      using T st t code by (intro exI [of _ token]) (auto simp: token_ok_def)
  next
    fix q ts
    assume q: "updated_policy st token policy = Inr (Some q)"
      and ws: "ws = [put_token (token\<lparr>tok_policy := Some q, tok_updated := Some ts\<rparr>)]"
    have "rates_ok (fp_rates q) \<and> account_exists (world st) (fp_target q)"
      using updated_policy_ok [OF q T(3)] getValidatedTokenMeta_ok [OF meta] by blast
    moreover have "book_of (commit ws (world st)) = book_of (world st)"
      using book_of_sel(3) [OF st] by (simp add: ws book book_ops fun_upd_idem)
    moreover have "stores (commit ws (world st)) (DToken (token\<lparr>tok_policy := Some q, tok_updated := Some ts\<rparr>))"
      by (simp add: ws stores_def put_token_def)
    ultimately show ?thesis
      using t code
      by (intro ex2I [of _ token "token\<lparr>tok_policy := Some q, tok_updated := Some ts\<rparr>"]) (simp add: policy_ok_def)
  qed
qed

theorem tokenUpdate_policy_only_witness:
  "\<exists>p ws t. tokenUpdate (demo kidB) [''TKN''] = Inr (p, ws) \<and> stores (commit ws demo_ledger) (DToken t) \<and>
     tok_supply t = 1671"
proof -
  obtain p ws where "tokenUpdate (demo kidB) [''TKN''] = Inr (p, ws)"
    using demo_update by blast
  then show ?thesis
    using tokenUpdate_policy_only [OF demo_running, of kidB "[''TKN'']" p ws] by (auto simp: demo)
qed

end
