(* ===== verification/Fees.thy ===== *)
theory Fees
  imports Tokens
begin

text \<open>
  Properties of fees (\<open>FeeStub\<close>, \<open>FeeTx\<close>): the fee of an amount, the text of a fee policy, the sum of
  collected fees and its pruning into the balance of the fee target.
\<close>

section \<open>The fee of an amount\<close>

lemma fee_spec_le:
  assumes "tok_policy token = Some policy" "fp_rates policy fn = Some r" "Rat_SetString (fr_rate r) = Some q"
    "q \<le> 1" "0 \<le> amount"
  shows "fee_spec token payer fn amount \<le> amount"
proof -
  have "\<lfloor>of_int amount * q\<rfloor> \<le> amount"
    using MulRat_le [OF assms(5,4)] by (simp add: MulRat_floor)
  then show ?thesis
    using assms by (auto simp: fee_spec_def Let_def min_def)
qed

text \<open>C19: the fee of an amount. On a well-formed ledger it is always defined. Without a policy, without a rate
  for the function, for the genesis account and for the fee target it is zero; otherwise it is the floor of
  amount times rate, at least zero and at most the maximum when that is positive; with a rate of at most
  one it does not exceed the amount.\<close>

theorem CalcFee_exact:
  assumes "running st" and "GetToken st (adr_code payer) = Inr token" and "0 \<le> n"
  shows "\<exists>f. CalcFee st payer fn n = Inr f \<and> 0 \<le> f \<and>
    (case Option.bind (tok_policy token) (\<lambda>policy. map_option (Pair policy) (fp_rates policy fn)) of
       None \<Rightarrow> f = 0
     | Some (policy, r) \<Rightarrow>
         (if Address_String payer \<in> {tok_genesis token, fp_target policy} then f = 0
          else \<exists>q. Rat_SetString (fr_rate r) = Some q \<and>
            f = (if fr_max r > 0 then min (fr_max r) (max 0 \<lfloor>of_int n * q\<rfloor>) else max 0 \<lfloor>of_int n * q\<rfloor>) \<and>
            (q \<le> 1 \<longrightarrow> f \<le> n)))"
proof -
  let ?f = "fee_spec token (Address_String payer) fn n"
  have ok: "policy_ok token"
    using GetToken_ok(3) [OF assms(2) runningD(2) [OF assms(1)]] by (simp add: token_ok_def)
  note v = CalcFee_total [OF assms(2) ok] fee_spec_nonneg [of token "Address_String payer" fn n]
  show ?thesis
  proof (cases "Option.bind (tok_policy token) (\<lambda>policy. map_option (Pair policy) (fp_rates policy fn))")
    case None
    then have "?f = 0"
      by (auto simp: fee_spec_def bind_eq_None_conv split: option.splits)
    then show ?thesis
      using v None by simp
  next
    case (Some pr)
    then obtain policy r where p: "tok_policy token = Some policy" "fp_rates policy fn = Some r" "pr = (policy, r)"
      by (auto simp: bind_eq_Some_conv)
    obtain q where q: "Rat_SetString (fr_rate r) = Some q"
      using policy_ok_rate [OF ok p(1,2)] .
    show ?thesis
      using v Some p q fee_spec_le [OF p(1,2) q _ assms(3), of "Address_String payer"]
      by (intro exI [of _ ?f]) (auto simp: fee_spec_def Let_def min.commute)
  qed
qed

theorem CalcFee_exact_witness: "CalcFee (demo kidA) adrA ''transfer'' 1000000 = Inr 5"
proof -
  have "q * 100 = 1 \<Longrightarrow> q = 1 / 100" for q :: rat
    by simp
  then show ?thesis
    using CalcFee_exact [OF demo_running, of kidA adrA demo_token 1000000 "''transfer''"]
    by (fastforce simp: demo demo_token_def)
qed

section \<open>The text of a fee policy\<close>

text \<open>The text that the meta data of a token has for a list of rates: \<open>fn=rate,max\<close> joined by semicolons, where
  a maximum of zero is left out.\<close>

definition print_rate :: "string \<times> fee_rate \<Rightarrow> string" where
  "print_rate fr = fst fr @ CHR ''='' # fr_rate (snd fr) @ (if fr_max (snd fr) = 0 then [] else CHR '','' # dec_int (fr_max (snd fr)))"

fun print_rates :: "(string \<times> fee_rate) list \<Rightarrow> string" where
  "print_rates [] = []"
| "print_rates [fr] = print_rate fr"
| "print_rates (fr # frs) = print_rate fr @ CHR '';'' # print_rates frs"

definition printable :: "string \<times> fee_rate \<Rightarrow> bool" where
  "printable fr \<longleftrightarrow> isValidFn (fst fr) \<and> Rat_SetString (fr_rate (snd fr)) \<noteq> None \<and>
     set (fr_rate (snd fr)) \<inter> set '';,='' = {} \<and> - (2 ^ 63) \<le> fr_max (snd fr) \<and> fr_max (snd fr) < 2 ^ 63"

lemma dec_nat_chars: "c \<in> set (dec_nat n) \<Longrightarrow> is_digit c"
  using dec_nat_digits [of n] by (simp add: list_all_iff)

lemma dec_int_chars: "set (dec_int n) \<inter> set '';,='' = {}"
  by (auto simp: dec_int_def is_digit_def ord_def dest!: dec_nat_chars split: if_splits)

lemma isValidFn_chars: "isValidFn fn \<Longrightarrow> set fn \<inter> set '';,='' = {}"
  by (auto simp: isValidFn_def)

lemma parse_fee_print:
  assumes "printable fr"
  shows "parse_fee (print_rate fr) rates = Inr (rates(fst fr \<mapsto> snd fr))"
proof -
  obtain fn r where fr: "fr = (fn, r)"
    by fastforce
  obtain rate m where r: "r = \<lparr>fr_rate = rate, fr_max = m\<rparr>"
    by (cases r)
  have v: "isValidFn fn" "Rat_SetString (fr_rate r) \<noteq> None" "- (2 ^ 63) \<le> fr_max r" "fr_max r < 2 ^ 63"
    using assms by (simp_all add: printable_def fr)
  have c: "CHR ''='' \<notin> set fn" "CHR ''='' \<notin> set (fr_rate r)" "CHR '','' \<notin> set (fr_rate r)" "CHR ''='' \<notin> set (dec_int (fr_max r))"
    "CHR '','' \<notin> set (dec_int (fr_max r))"
    using assms isValidFn_chars [OF v(1)] dec_int_chars [of "fr_max r"] by (auto simp: printable_def fr)
  show ?thesis
    using v c r ParseInt_dec_int [OF v(3,4)]
    by (cases "m = 0") (auto simp: parse_fee_def print_rate_def fr split_at_append split_at_none parse_max_def Let_def)
qed

lemma print_rate_chars: "printable fr \<Longrightarrow> CHR '';'' \<notin> set (print_rate fr)"
  using isValidFn_chars [of "fst fr"] dec_int_chars [of "fr_max (snd fr)"] by (auto simp: printable_def print_rate_def)

lemma parse_fees_print:
  assumes "list_all printable frs"
  shows "parse_fees (split_at (CHR '';'') (print_rates frs)) rates = Inr (rates ++ map_of (rev frs))"
  using assms
proof (induction frs arbitrary: rates rule: print_rates.induct)
  case 1
  show ?case
    by (simp add: parse_fee_def)
next
  case (2 fr)
  then show ?case
    by (cases fr) (simp add: split_at_none print_rate_chars parse_fee_print map_add_def fun_eq_iff)
next
  case (3 fr fr' frs)
  have "rates(fst fr \<mapsto> snd fr) ++ map_of (rev (fr' # frs)) = rates ++ map_of (rev (fr # fr' # frs))"
    by (cases fr) (auto simp: map_add_def map_of_append fun_eq_iff split: option.splits)
  with 3 show ?case
    by (simp add: split_at_append print_rate_chars parse_fee_print del: rev.simps)
qed

text \<open>C35: reading back the text of a fee policy gives the rates it was printed from, the last one of a function
  where the list has more than one, and no target.\<close>

theorem ParseFeePolicy_print:
  assumes "list_all printable frs"
  shows "ParseFeePolicy (print_rates frs) = Inr \<lparr>fp_target = [], fp_rates = map_of (rev frs)\<rparr>"
  using parse_fees_print [OF assms] by (simp add: ParseFeePolicy_def)

theorem ParseFeePolicy_print_witness:
  "ParseFeePolicy (print_rates [(''transfer'', \<lparr>fr_rate = ''0.01'', fr_max = 5\<rparr>), (''pay'', \<lparr>fr_rate = ''0.1'', fr_max = 0\<rparr>)]) =
     Inr \<lparr>fp_target = [], fp_rates = [''transfer'' \<mapsto> \<lparr>fr_rate = ''0.01'', fr_max = 5\<rparr>, ''pay'' \<mapsto> \<lparr>fr_rate = ''0.1'', fr_max = 0\<rparr>]\<rparr>"
  by (subst ParseFeePolicy_print) (auto simp: printable_def isValidFn_def demo)

section \<open>Pruning the fees\<close>

text \<open>The loop over the fees of a prune stops at the limit: it sums the first 900 fees, counts them, names
  the first and the last of them, and reports more exactly when the query has further rows.\<close>

lemma GetFeeSumByTime_prefix:
  assumes "query st (CreateQueryPruneFee code s e) = Inr (map (\<lambda>x. Inr (DFee x)) fees)"
  shows "\<exists>r. GetFeeSumByTime st code s e = Inr r \<and> fs_count r = min 900 (length fees) \<and>
    fs_sum r = (\<Sum>x\<leftarrow>take 900 fees. fee_amount x) \<and> (fs_has_more r \<longleftrightarrow> 900 < length fees) \<and>
    (fees \<noteq> [] \<longrightarrow> fs_start r = fee_id (hd fees) \<and> fs_end r = fee_id (last (take 900 fees)))"
  using GetFeeSumByTime_rows [OF assms]
  by (cases fees) (auto simp: fee_total_def FeePruneSize_def last_or_def Let_def last_map)

definition demo_fee :: fee where
  "demo_fee = \<lparr>fee_code = ''TKN'', fee_id = ''f1'', fee_account = idA, fee_amount = 7, fee_created = Some t0\<rparr>"

definition demo_fees :: "string \<Rightarrow> stub" where
  "demo_fees kid = (demo kid)\<lparr>world := demo_ledger(FeeKey ''f1'' \<mapsto> DFee demo_fee), query := \<lambda>_. Inr [Inr (DFee demo_fee)]\<rparr>"

lemma demo_fees_sum:
  "\<exists>r. GetFeeSumByTime (demo_fees kidA) ''TKN'' t0 t1 = Inr r \<and> fs_count r = 1 \<and> fs_sum r = 7"
  using GetFeeSumByTime_prefix [of "demo_fees kidA" "''TKN''" t0 t1 "[demo_fee]"]
  by (auto simp: demo_fees_def demo_fee_def)

text \<open>The fee from which the next prune of a token starts: the recorded one, or the one that older versions kept
  in the token.\<close>

definition last_fee :: "ledger \<Rightarrow> token \<Rightarrow> string" where
  "last_fee L token =
     (case L (LastPrunedKey (tok_code token)) of
        Some (DLastPruned l) \<Rightarrow> lpf_fee_id l
      | _ \<Rightarrow> tok_last_pruned_fee token)"

lemma last_pruned_fee:
  assumes "last_pruned_or_migrate st code token = Inr (l, ws)" "tok_code token = code" "stores (world st) (DToken token)"
  shows "lpf_fee_id l = last_fee (world st) token" "book_of (commit ws (world st)) = book_of (world st)"
    "stores (world st) (DBalance b) \<Longrightarrow> stores (commit ws (world st)) (DBalance b)"
proof -
  have "set_supply code (tok_supply token) (book_of (world st)) = book_of (world st)"
    using book_of_sel(3) [OF assms(3)] assms(2) by (simp add: book_ops fun_upd_idem)
  then have "book_of (apply_write (put_token (token\<lparr>tok_last_pruned_fee := []\<rparr>)) (world st)) = book_of (world st)"
    using assms(2) by (simp add: book)
  then show "lpf_fee_id l = last_fee (world st) token" "book_of (commit ws (world st)) = book_of (world st)"
    "stores (world st) (DBalance b) \<Longrightarrow> stores (commit ws (world st)) (DBalance b)"
    using last_pruned_or_migrate_run [OF assms(1)] assms(2)
    by (auto simp: last_fee_def stores_def) (simp_all add: put_token_def)
qed

text \<open>C18: a prune of the collected fees. The invoker holds the fee target of the token's policy. The chaincode asks
  for the fees from the last pruned one to the end time and reads at most 901 rows of the answer, all of them
  fees. The balance of the target grows by the sum of the first 900, nothing else changes in the book, and the
  last of these fees is recorded as the start of the next prune.\<close>

theorem feePrune_refines:
  assumes "running st" and "feePrune st params = Inr (p, ws)" and "ws \<noteq> []"
  shows "\<exists>token policy kid a b stime etime etime0 flag ts s rows fees. GetToken st (ToUpper (params ! 0)) = Inr token \<and>
    tok_policy token = Some policy \<and> kid_GetID st True = Inr kid \<and> stores (world st) (DAccount a) \<and> HasHolder a kid \<and>
    Account_GetID a = ToUpper (fp_target policy) \<and> stores (world st) (DBalance b) \<and> bal_id b = Account_GetID a \<and>
    start_time (last_fee (world st) token) = Inr stime \<and> GetTime st = Inr ts \<and> prune_end params ts = Inr etime0 \<and>
    ParseBool (params ! 1) = Some flag \<and> etime = (if flag then min etime0 (ts - 600 * nanos) else etime0) \<and>
    query st (CreateQueryPruneFee (tok_code token) stime etime) = Inr rows \<and> take 901 rows = map (\<lambda>x. Inr (DFee x)) fees \<and>
    s = fee_total fees \<and> 0 < fs_count s \<and> p = FeeSum s \<and>
    stores (commit ws (world st)) (DLastPruned \<lparr>lpf_code = tok_code token, lpf_fee_id = fs_end s, lpf_updated = Some ts\<rparr>) \<and>
    book_of (commit ws (world st)) = add_balance (bal_id b) (fs_sum s) (book_of (world st))"
proof -
  note ok = runningD(2) [OF assms(1)]
  have keyed: "keyed (world st)"
    using ok by (simp add: ledger_ok_def)
  obtain code token policy addr account kid ts l w0 stime etime0 flag s bal
    where c: "ValidateTokenCode (params ! 0) = Inr code" "GetToken st code = Inr token" "tok_policy token = Some policy"
      and a: "ParseAddress (shake_of st) (fp_target policy) = Inr addr" "GetAccount st addr = Inr account"
      and k: "kid_GetID st True = Inr kid" "HasHolder account kid"
      and t: "GetTime st = Inr ts" "prune_end params ts = Inr etime0" "ParseBool (params ! 1) = Some flag"
      and l: "last_pruned_or_migrate st code token = Inr (l, w0)" "start_time (lpf_fee_id l) = Inr stime"
      and s: "GetFeeSumByTime st code stime (clamp_end ts etime0 flag) = Inr s" "0 < fs_count s"
      and bal: "GetBalance st (Account_GetID account) = Inr bal"
      and p: "p = FeeSum s" and ws: "ws = w0 @ fee_prune_writes ts bal code s"
    using feePrune_run [OF assms(2) keyed] assms(3) by blast
  note T = GetToken_ok [OF c(2) ok] and B = GetBalance_ok [OF bal ok] and A = ParseAddress_run [OF a(1)]
  note G = GetAccount_ok(1,2) [OF a(2) ok A(1)]
  have st: "stores (world st) (DToken token)" "stores (world st) (DBalance bal)" "stores (world st) (DAccount account)"
    using T B G by (simp_all add: stores_def)
  note L = last_pruned_fee [OF l(1) T(1) st(1)]
  have code: "GetToken st (ToUpper (params ! 0)) = Inr token"
    using c by (simp add: ValidateTokenCode_run)
  have clamp: "clamp_end ts etime0 flag = (if flag then min etime0 (ts - 600 * nanos) else etime0)"
    by (simp add: clamp_end_def Let_def min_def)
  have start: "start_time (last_fee (world st) token) = Inr stime"
    using l(2) L(1) by simp
  obtain rows fees where "query st (CreateQueryPruneFee code stime (clamp_end ts etime0 flag)) = Inr rows"
    "take (Suc FeePruneSize) rows = map (\<lambda>x. Inr (DFee x)) fees" and total: "s = fee_total fees"
    using GetFeeSumByTime_read [OF s(1)] .
  then have rows: "query st (CreateQueryPruneFee (tok_code token) stime (clamp_end ts etime0 flag)) = Inr rows"
    "take 901 rows = map (\<lambda>x. Inr (DFee x)) fees"
    using T(1) by (simp_all add: FeePruneSize_def)
  have put: "stores (commit ws (world st)) (DLastPruned \<lparr>lpf_code = tok_code token, lpf_fee_id = fs_end s, lpf_updated = Some ts\<rparr>)"
    using T(1) by (simp add: stores_def ws fee_prune_writes_def write_forms log_key_def Let_def)
  have id: "Account_GetID account = ToUpper (fp_target policy)"
    using G A by simp
  have book: "book_of (commit ws (world st)) = add_balance (bal_id bal) (fs_sum s) (book_of (world st))"
    using book_of_fee_prune [OF L(3) [OF st(2)], of ts code s] L(2) by (simp add: ws)
  show ?thesis
    by (intro exI [of _ token] exI [of _ policy] exI [of _ kid] exI [of _ account] exI [of _ bal] exI [of _ stime]
        exI [of _ "clamp_end ts etime0 flag"] exI [of _ etime0] exI [of _ flag] exI [of _ ts] exI [of _ s]
        exI [of _ rows] exI [of _ fees] conjI)
      (fact code c(3) k st id B(1) start t clamp rows total s(2) p put book)+
qed

lemma demo_fees_sel [demo]:
  "world (demo_fees k) = demo_ledger(FeeKey ''f1'' \<mapsto> DFee demo_fee)" "get_fault (demo_fees k) i = None" "put_fault (demo_fees k) i = None"
  "shake_of (demo_fees k) = demo_shake" "GetTime (demo_fees k) = Inr t1" "kid_GetID (demo_fees k) b = Inr k"
  using demo_time [of k] demo_kid [of k b] by (simp_all add: demo_fees_def demo GetTime_def kid_GetID_def)

lemma demo_fees_get [demo]:
  "GetToken (demo_fees k) ''TKN'' = Inr demo_token" "GetBalance (demo_fees k) idG = Inr (demo_balance idG 500)"
  by (simp_all add: run demo)

lemma demo_fees_rest [demo]:
  "GetAccount (demo_fees k) adrG = Inr demo_accG" "query (demo_fees k) q = Inr [Inr (DFee demo_fee)]"
  "PutState (demo_fees k) i d = Inr [Put i d]"
  by (simp_all add: GetAccount_def GetAccountState_def GetState_def PutState_def account_of_def demo)
    (simp add: demo_fees_def)

lemma demo_fees_running: "running (demo_fees k)"
  using ledger_ok_commit [OF demo_ledger_ok, of "[Put (FeeKey ''f1'') (DFee demo_fee)]"]
  by (simp add: running_def demo demo_fee_def)

lemma demo_fees_prune: "\<exists>p ws. feePrune (demo_fees kidA) [''TKN'', ''true''] = Inr (p, ws) \<and> ws \<noteq> []"
  by (simp add: feePrune_def set_defs last_pruned_or_migrate_def GetLastPrunedFeeID_def GetLastPrunedFeeIDState_def GetState_def
      is_NotInitLastPrunedFeeIDError_def prune_end_def GetFeeSumByTime_def FeePruneSize_def put_defs Success_def demo
      demo_token_def Let_def)

theorem feePrune_refines_witness:
  "\<exists>p ws. feePrune (demo_fees kidA) [''TKN'', ''true''] = Inr (p, ws) \<and>
     bk_balance (book_of (commit ws (world (demo_fees kidA)))) idG = Some 507"
proof -
  obtain p ws where "feePrune (demo_fees kidA) [''TKN'', ''true''] = Inr (p, ws)" "ws \<noteq> []"
    using demo_fees_prune by blast
  moreover have "bk_balance (book_of (world (demo_fees kidA))) idG = Some 500"
    using book_of_sel(1) [of "world (demo_fees kidA)" "demo_balance idG 500"] by (simp add: stores_def demo)
  ultimately show ?thesis
    using feePrune_refines [OF demo_fees_running, of kidA "[''TKN'', ''true'']" p ws]
    by (auto simp: demo demo_token_def fee_total_def FeePruneSize_def demo_fee_def take_Cons')
qed

end
