(* ===== verification/Holders.thy ===== *)
theory Holders
  imports Fees
begin

text \<open>
  Properties of accounts and their holders (\<open>AccountTx\<close>, \<open>AccountStub\<close>). The code keeps a document for
  each pair of a holder and an account, from which a holder's accounts are listed. \<open>index_ok\<close> says that
  these documents and the holder sets of the accounts agree; every transaction keeps it.
\<close>

section \<open>The index of holders\<close>

definition indexed :: "ledger \<Rightarrow> string \<Rightarrow> string set" where
  "indexed L i = {kid. L (HolderKey kid i) \<noteq> None}"

text \<open>The text of an address has no underscore, so the key of a holder document determines the pair.\<close>

definition address_like :: "string \<Rightarrow> bool" where
  "address_like i \<longleftrightarrow> CHR ''_'' \<notin> set i"

lemma HolderKey_inject:
  assumes "address_like i" "address_like j"
  shows "HolderKey k i = HolderKey l j \<longleftrightarrow> k = l \<and> i = j"
proof
  assume "HolderKey k i = HolderKey l j"
  then have eq: "k @ CHR ''_'' # i = l @ CHR ''_'' # j"
    by (simp add: HolderKey_def)
  then have "rev i @ CHR ''_'' # rev k = rev j @ CHR ''_'' # rev l"
    by (metis append.assoc append_Cons append_Nil rev.simps(2) rev_append)
  then have "takeWhile (\<lambda>c. c \<noteq> CHR ''_'') (rev i @ CHR ''_'' # rev k) = takeWhile (\<lambda>c. c \<noteq> CHR ''_'') (rev j @ CHR ''_'' # rev l)"
    by (rule arg_cong)
  moreover have "takeWhile (\<lambda>c. c \<noteq> CHR ''_'') (rev m @ CHR ''_'' # r) = rev m" if "address_like m" for m r
    using that by (subst takeWhile_append2) (auto simp: address_like_def)
  ultimately have "i = j"
    using assms by simp
  then show "k = l \<and> i = j"
    using eq by simp
qed simp

lemma hex_upper_char: "d < 16 \<Longrightarrow> hex_upper d \<noteq> CHR ''_''"
proof
  assume "d < 16" "hex_upper d = CHR ''_''"
  then have "unhex (CHR ''_'') = Some d"
    using unhex_upper [of d] by simp
  then show False
    by (simp add: unhex_def ord_def)
qed

lemma hex_like: "address_like (hex_encode hex_upper bs)" "address_like (hex_byte hex_upper b)"
proof -
  show byte: "address_like (hex_byte hex_upper b)" for b
  proof -
    have "unat b div 16 < 16"
      using unsigned_less [of b, where 'a = nat] by simp
    then show ?thesis
      using hex_upper_char [of "unat b div 16"] hex_upper_char [of "unat b mod 16"]
      by (auto simp: address_like_def hex_byte_def)
  qed
  show "address_like (hex_encode hex_upper bs)"
    using byte by (induction bs) (auto simp: address_like_def hex_encode_def)
qed

lemma wf_address_like: "wf_address sh a \<Longrightarrow> address_like (Address_String a)"
proof -
  assume "wf_address sh a"
  then have "list_all code_char (adr_code a)"
    by (simp add: wf_address_def matches_code_def)
  moreover have "\<not> code_char (CHR ''_'')"
    by (simp add: code_char_def is_upper_def is_digit_def ord_def)
  ultimately show ?thesis
    using hex_like by (auto simp: address_like_def Address_String_def list_all_iff)
qed

definition index_ok :: "ledger \<Rightarrow> bool" where
  "index_ok L \<longleftrightarrow> (\<forall>i. address_like i \<longrightarrow> (case L (AccountKey i) of
     None \<Rightarrow> indexed L i = {}
   | Some (DAccount (PersonalAccount a)) \<Rightarrow> (\<exists>kid. indexed L i = {kid})
   | Some (DAccount (JointAccount a hs)) \<Rightarrow> indexed L i = set hs
   | _ \<Rightarrow> False))"

text \<open>Writes that leave accounts and holders alone.\<close>

definition spares :: "state_op list \<Rightarrow> bool" where
  "spares ws \<longleftrightarrow> list_all (\<lambda>w. key_kind (write_key w) \<notin> {0, 1}) ws"

lemma spares_simps [simp]:
  "spares []" "spares (w # ws) \<longleftrightarrow> key_kind (write_key w) \<notin> {0, 1} \<and> spares ws"
  "spares (vs @ ws) \<longleftrightarrow> spares vs \<and> spares ws"
  by (simp_all add: spares_def)

lemma spares_fee [simp]: "spares (fee_writes st ts addr n)"
  by (simp add: fee_writes_def)

lemma spares_forms [simp]:
  "spares (supply_writes ts b n)" "spares (receive_writes st ts s r n memo pt)"
  "spares (transfer_writes st ts s r n fee memo pt)" "spares (transfer_pending_writes st ts pb r pt)"
  "spares (deposit_writes ts s pb)" "spares (withdraw_writes ts b pb)" "spares (pay_writes ts s q)"
  "spares (refund_writes ts r q parent)" "spares (prune_writes st ts i b ps)" "spares (fee_prune_writes ts b code fs)"
  by (simp_all add: supply_writes_def receive_writes_def transfer_writes_def transfer_pending_writes_def
      deposit_writes_def withdraw_writes_def pay_writes_def refund_writes_def prune_writes_def
      fee_prune_writes_def Let_def)

lemma spares_commit:
  assumes "spares ws"
  shows "commit ws L (AccountKey i) = L (AccountKey i)" "commit ws L (HolderKey kid i) = L (HolderKey kid i)"
proof -
  have "k \<notin> write_key ` set ws" if "key_kind k \<in> {0, 1}" for k
    using that assms by (auto simp: spares_def list_all_iff)
  then show "commit ws L (AccountKey i) = L (AccountKey i)" "commit ws L (HolderKey kid i) = L (HolderKey kid i)"
    by (simp_all add: commit_other)
qed

lemma index_spares:
  assumes "spares ws"
  shows "index_ok (commit ws L) = index_ok L"
proof -
  have "indexed (commit ws L) = indexed L"
    using assms by (simp add: indexed_def spares_commit fun_eq_iff)
  then show ?thesis
    using assms by (simp only: index_ok_def spares_commit)
qed

section \<open>Handlers that leave accounts alone\<close>

lemma spares_money:
  "transfer st params = Inr (p, ws) \<Longrightarrow> spares ws"
  "pay st params = Inr (p, ws) \<Longrightarrow> spares ws"
  "payRefund st params = Inr (p, ws) \<Longrightarrow> spares ws"
  "payPrune st params = Inr (p, ws) \<Longrightarrow> spares ws"
  "balancePendingWithdraw st params = Inr (p, ws) \<Longrightarrow> spares ws"
proof -
  show "spares ws" if t: "transfer st params = Inr (p, ws)"
  proof -
    obtain sBal rBal sender receiver amount fee opts l
      where m: "transfer_move st params sBal rBal sender receiver amount fee opts = Inr (l, ws)"
      using transfer_run [OF t] by blast
    obtain memo pt expiry signers where "opts = (memo, pt, expiry, signers)"
      by (cases opts)
    then show ?thesis
      using transfer_move_run m by (fastforce split: if_splits)
  qed
  show "spares ws" if t: "pay st params = Inr (p, ws)"
  proof -
    obtain sBal sender receiver rAddr amount signers opts q l
      where m: "pay_move st sBal sender receiver rAddr amount signers opts = Inr ((q, l), ws)"
      using pay_run [OF t] by blast
    obtain oid memo expiry where "opts = (oid, memo, expiry)"
      by (cases opts)
    then show ?thesis
      using pay_move_run m by (fastforce split: if_splits)
  qed
  show "payRefund st params = Inr (p, ws) \<Longrightarrow> spares ws" "payPrune st params = Inr (p, ws) \<Longrightarrow> spares ws"
    "balancePendingWithdraw st params = Inr (p, ws) \<Longrightarrow> spares ws"
    by (auto dest!: payRefund_run payPrune_run balancePendingWithdraw_run)
qed

lemma spares_Mint: "Mint st t b n = Inr (t', l, ws) \<Longrightarrow> spares ws"
  using Mint_run [of st t b n t' l ws] by auto

lemma spares_Burn: "Burn st t b n = Inr (t', l, ws) \<Longrightarrow> spares ws"
  using Burn_run [of st t b n t' l ws] by (auto split: if_splits)

lemma spares_token:
  "tokenMint st params = Inr (p, ws) \<Longrightarrow> spares ws" "tokenBurn st params = Inr (p, ws) \<Longrightarrow> spares ws"
  "tokenUpdate st params = Inr (p, ws) \<Longrightarrow> spares ws" "executeTokenMint st cid doc = Inr (p, ws) \<Longrightarrow> spares ws"
  "executeTokenBurn st cid doc = Inr (p, ws) \<Longrightarrow> spares ws"
  by (auto dest!: tokenMint_run tokenBurn_run tokenUpdate_run executeTokenMint_run executeTokenBurn_run spares_Mint spares_Burn)

lemma spares_feePrune: "feePrune st params = Inr (p, ws) \<Longrightarrow> keyed (world st) \<Longrightarrow> spares ws"
  by (auto dest!: feePrune_run last_pruned_or_migrate_run)

lemma spares_callbacks:
  "cancelTransfer st cid doc = Inr (p, ws) \<Longrightarrow> spares ws" "executeTransfer st cid doc = Inr (p, ws) \<Longrightarrow> spares ws"
  "executePay st cid doc = Inr (p, ws) \<Longrightarrow> spares ws" "contractVoid st cid doc = Inr (p, ws) \<Longrightarrow> spares ws"
  by (auto simp: contractVoid_def run dest!: cancelTransfer_run executeTransfer_run executePay_run)

section \<open>Handlers that write accounts\<close>

definition entry_ok :: "string set \<Rightarrow> account_doc \<Rightarrow> bool" where
  "entry_ok kids a \<longleftrightarrow> (case a of PersonalAccount _ \<Rightarrow> \<exists>kid. kids = {kid} | JointAccount _ hs \<Rightarrow> kids = set hs)"

lemma index_okD:
  assumes "index_ok L" "address_like i"
  shows "L (AccountKey i) = None \<Longrightarrow> indexed L i = {}" "L (AccountKey i) = Some (DAccount a) \<Longrightarrow> entry_ok (indexed L i) a"
  using assms unfolding index_ok_def entry_ok_def by (auto dest!: spec [of _ i] split: account_doc.splits)

text \<open>One account changes, with its index.\<close>

lemma index_putI:
  assumes "index_ok L" and "M (AccountKey i) = Some (DAccount a)" and "entry_ok (indexed M i) a"
    and "\<And>j. j \<noteq> i \<Longrightarrow> M (AccountKey j) = L (AccountKey j)"
    and "\<And>j. j \<noteq> i \<Longrightarrow> address_like j \<Longrightarrow> indexed M j = indexed L j"
  shows "index_ok M"
  unfolding index_ok_def
proof (intro allI impI)
  fix j
  assume j: "address_like j"
  show "case M (AccountKey j) of None \<Rightarrow> indexed M j = {}
    | Some (DAccount (PersonalAccount a)) \<Rightarrow> \<exists>kid. indexed M j = {kid}
    | Some (DAccount (JointAccount a hs)) \<Rightarrow> indexed M j = set hs | _ \<Rightarrow> False"
  proof (cases "j = i")
    case True
    then show ?thesis
      using assms(2,3) by (simp add: entry_ok_def split: account_doc.splits)
  next
    case False
    then show ?thesis
      using assms(1) j unfolding assms(4) [OF False] assms(5) [OF False j] index_ok_def by simp
  qed
qed

lemma indexed_put_holder:
  assumes "address_like i" "address_like (Account_GetID a)"
  shows "indexed (apply_write (put_holder ts a kid) L) i = (if i = Account_GetID a then {kid} else {}) \<union> indexed L i"
    "indexed (apply_write (Del (HolderKey kid (Account_GetID a))) L) i = indexed L i - (if i = Account_GetID a then {kid} else {})"
  using HolderKey_inject [OF assms] by (auto simp: indexed_def put_holder_def)

lemma indexed_holders:
  assumes "address_like i" "address_like (Account_GetID a)"
  shows "indexed (commit (map (put_holder ts a) kids) L) i = (if i = Account_GetID a then set kids else {}) \<union> indexed L i"
  by (induction kids arbitrary: L) (auto simp: indexed_put_holder [OF assms])

lemma holders_accounts: "commit (map (put_holder ts a) kids) L (AccountKey i) = L (AccountKey i)"
  by (induction kids arbitrary: L) (simp_all add: put_holder_def)

lemma put_account_other:
  "apply_write (put_account a) L (AccountKey i) = (if i = Account_GetID a then Some (DAccount a) else L (AccountKey i))"
  "indexed (apply_write (put_account a) L) i = indexed L i" "indexed (apply_write (put_balance b) L) i = indexed L i"
  "apply_write (put_balance b) L (AccountKey i) = L (AccountKey i)"
  "apply_write (put_holder ts a kid) L (AccountKey i) = L (AccountKey i)"
  "apply_write (Del (HolderKey kid j)) L (AccountKey i) = L (AccountKey i)"
  by (simp_all add: put_account_def put_balance_def put_holder_def indexed_def)

lemma index_create:
  assumes "index_ok L" "L (AccountKey (Account_GetID a)) = None" "entry_ok (set kids) a" "address_like (Account_GetID a)"
  shows "index_ok (commit (create_writes ts a kids) L)"
  using index_okD(1) [OF assms(1,4,2)] assms(3,4)
  by (intro index_putI [OF assms(1), of _ "Account_GetID a" a])
    (simp_all add: create_writes_def indexed_holders holders_accounts put_account_other)

lemma index_holder:
  assumes "index_ok L" "stores L (DAccount (JointAccount a hs))" "acc_id b = acc_id a" "address_like (acc_id a)"
  shows "index_ok (commit [put_account (JointAccount b (Set_Add hs kid)), put_holder ts (JointAccount b (Set_Add hs kid)) kid] L)"
    "index_ok (commit [put_account (JointAccount b (Set_Remove hs kid)), Del (HolderKey kid (acc_id a))] L)"
proof -
  have old: "indexed L (acc_id a) = set hs"
    using index_okD(2) [OF assms(1,4), of "JointAccount a hs"] assms(2)
    by (simp add: stores_def entry_ok_def Account_GetID_def)
  have id: "Account_GetID (JointAccount b hs') = acc_id a" for hs'
    using assms(3) by (simp add: Account_GetID_def)
  show "index_ok (commit [put_account (JointAccount b (Set_Add hs kid)), put_holder ts (JointAccount b (Set_Add hs kid)) kid] L)"
    using old assms(4)
    by (intro index_putI [OF assms(1), of _ "acc_id a" "JointAccount b (Set_Add hs kid)"])
      (simp_all add: put_account_other indexed_put_holder id entry_ok_def)
  show "index_ok (commit [put_account (JointAccount b (Set_Remove hs kid)), Del (HolderKey kid (acc_id a))] L)"
    using old assms(4) indexed_put_holder(2) [of _ "JointAccount b hs" kid, unfolded id]
    by (intro index_putI [OF assms(1), of _ "acc_id a" "JointAccount b (Set_Remove hs kid)"])
      (simp_all add: put_account_other id entry_ok_def Set_Remove_def del: apply_write.simps)
qed

lemma index_suspend:
  assumes "index_ok L" "stores L (DAccount (PersonalAccount a))" "acc_id b = acc_id a" "address_like (acc_id a)"
  shows "index_ok (commit [put_account (PersonalAccount b)] L)"
  using index_okD(2) [OF assms(1,4), of "PersonalAccount a"] assms(2,3)
  by (intro index_putI [OF assms(1), of _ "acc_id a" "PersonalAccount b"])
    (simp_all add: put_account_other stores_def entry_ok_def Account_GetID_def)

section \<open>Every transaction keeps the index\<close>

lemma account_like: "account_ok sh a \<Longrightarrow> address_like (Account_GetID a)"
  by (auto simp: account_ok_def wf_address_like)

lemma index_CreateJoint:
  assumes "index_ok (world st)" "shake_ok (shake_of st)" "matches_code code"
    "CreateJointAccount st code hs = Inr (a, b, ws)"
  shows "index_ok (commit ws (world st))"
proof -
  let ?adr = "NewAddress (shake_of st) code AccountTypeJoint (txid st)"
  obtain ts where "world st (AccountKey (Address_String ?adr)) = None"
    "a = JointAccount (account_of ts (Address_String ?adr) code AccountTypeJoint) hs" "ws = create_writes ts a hs"
    using CreateJointAccount_run [OF assms(4)] by blast
  then show ?thesis
    using wf_address_like [OF wf_NewAddress [OF assms(2,3)], of AccountTypeJoint "txid st"]
    by (simp add: index_create assms(1) entry_ok_def)
qed

lemma index_accountCreate:
  assumes "running st" "index_ok (world st)" "accountCreate st params = Inr (p, ws)"
  shows "index_ok (commit ws (world st))"
  using accountCreate_run [OF assms(3)]
proof (elim disjE exE conjE)
  fix kid a b code
  assume code: "ValidateTokenCode (params ! 0) = Inr code" and cr: "CreateAccount st code kid = Inr (a, b, ws)"
  let ?adr = "NewAddress (shake_of st) code AccountTypePersonal kid"
  obtain ts where "world st (AccountKey (Address_String ?adr)) = None"
    "a = PersonalAccount (account_of ts (Address_String ?adr) code AccountTypePersonal)" "ws = create_writes ts a [kid]"
    using CreateAccount_run [OF cr] by blast
  moreover have "address_like (Address_String ?adr)"
    using code by (intro wf_address_like [OF wf_NewAddress [OF runningD(1) [OF assms(1)]]]) (auto simp: ValidateTokenCode_run)
  ultimately show ?thesis
    by (simp add: index_create assms(2) entry_ok_def)
qed (simp add: assms(2))

lemma index_accountSuspend:
  assumes "running st" "index_ok (world st)" "accountSuspend st params = Inr (p, ws) \<or> accountUnsuspend st params = Inr (p, ws)"
  shows "index_ok (commit ws (world st))"
proof -
  obtain code kid pac x y where code: "matches_code code"
    and g: "GetAccount st (NewAddress (shake_of st) code AccountTypePersonal kid) = Inr (PersonalAccount pac)"
    and b: "ws = [put_account (PersonalAccount (pac\<lparr>acc_suspended := x, acc_updated := y\<rparr>))]"
    using assms(3) by (auto simp: accountSuspend_def accountUnsuspend_def run ValidateTokenCode_run
        dest!: SuspendAccount_run UnsuspendAccount_run)
  note A = GetAccount_ok [OF g runningD(2) [OF assms(1)]
      wf_NewAddress [OF runningD(1) [OF assms(1)] code, of AccountTypePersonal kid, simplified]]
  show ?thesis
    using index_suspend [OF assms(2), of pac "pac\<lparr>acc_suspended := x, acc_updated := y\<rparr>"] A account_like [OF A(3)] b
    by (simp add: stores_def Account_GetID_def)
qed

lemma index_holders:
  assumes "running st" "index_ok (world st)" "GetAccount st adr = Inr (JointAccount jac hs)" "wf_address (shake_of st) adr"
  shows "AddHolder st jac hs kid = Inr (a, ws) \<Longrightarrow> index_ok (commit ws (world st))"
    "RemoveHolder st jac hs kid = Inr (a, ws) \<Longrightarrow> index_ok (commit ws (world st))"
proof -
  note A = GetAccount_ok [OF assms(3) runningD(2) [OF assms(1)] assms(4)]
  have st: "stores (world st) (DAccount (JointAccount jac hs))" "address_like (acc_id jac)"
    using A account_like [OF A(3)] by (simp_all add: stores_def Account_GetID_def)
  show "AddHolder st jac hs kid = Inr (a, ws) \<Longrightarrow> index_ok (commit ws (world st))"
    "RemoveHolder st jac hs kid = Inr (a, ws) \<Longrightarrow> index_ok (commit ws (world st))"
    using index_holder [OF assms(2) st(1) _ st(2)] by (auto dest!: AddHolder_run RemoveHolder_run simp del: commit_simps)
qed

lemma index_CreateToken:
  assumes "index_ok (world st)" "shake_ok (shake_of st)" "matches_code code" "CreateToken st code d m n policy hs = Inr (t, ws)"
  shows "index_ok (commit ws (world st))"
proof -
  let ?adr = "NewAddress (shake_of st) code AccountTypeJoint (txid st)"
  obtain ts a where "world st (AccountKey (Address_String ?adr)) = None"
    and a: "a = JointAccount (account_of ts (Address_String ?adr) code AccountTypeJoint) hs"
    and ws: "ws = create_writes ts a hs @ (if n > 0 then supply_writes ts (empty_balance ts (Address_String ?adr)) n else []) @ [put_token t]"
    using CreateToken_run [OF assms(4)] by blast
  then have "index_ok (commit (create_writes ts a hs) (world st))"
    using wf_address_like [OF wf_NewAddress [OF assms(2,3)], of AccountTypeJoint "txid st"]
    by (simp add: index_create assms(1) entry_ok_def)
  moreover have "spares ((if n > 0 then supply_writes ts (empty_balance ts (Address_String ?adr)) n else []) @ [put_token t])"
    by simp
  ultimately show ?thesis
    unfolding ws commit_simps(3) [of "create_writes ts a hs"] by (simp only: index_spares)
qed

lemma index_tokenCreate:
  assumes "running st" "index_ok (world st)" "tokenCreate st params = Inr (p, ws)"
  shows "index_ok (commit ws (world st))"
  using tokenCreate_run [OF assms(3)] index_CreateToken [OF assms(2) runningD(1) [OF assms(1)]] assms(2)
  by (auto simp: ValidateTokenCode_run)

lemma index_accountHolderRemove:
  assumes "running st" "index_ok (world st)" "accountHolderRemove st params = Inr (p, ws)"
  shows "index_ok (commit ws (world st))"
  using accountHolderRemove_parts [OF assms(3)] index_holders(2) [OF assms(1,2)] assms(2) by auto

lemma spares_contractCancel:
  assumes "contractCancel st params = Inr (p, ws)"
  shows "spares ws"
proof -
  obtain doc dtype fns where r: "map_of ctrRoutes dtype = Some fns" "(fns ! 0) st (params ! 0) doc = Inr (p, ws)"
    using contractCallback_run assms unfolding contractCancel_def by blast
  have "fns ! 0 = contractVoid \<or> fns ! 0 = cancelTransfer"
    using ctr_cases [OF r(1)] by (auto simp: ctrRoutes_def)
  then show ?thesis
    using r(2) spares_callbacks by auto
qed

lemma index_execute_holders:
  assumes "running st" "index_ok (world st)"
  shows "executeAccountHolderAdd st cid doc = Inr (p, ws) \<Longrightarrow> index_ok (commit ws (world st))"
    "executeAccountHolderRemove st cid doc = Inr (p, ws) \<Longrightarrow> index_ok (commit ws (world st))"
  by (auto dest!: executeAccountHolderAdd_run executeAccountHolderRemove_run intro: index_holders [OF assms] ParseAddress_run(1))

lemma index_execute:
  assumes "running st" "index_ok (world st)" "trusted_call st ''contract/execute'' params"
    "contractExecute st params = Inr (p, ws)"
  shows "index_ok (commit ws (world st))"
proof -
  obtain doc dtype fns where doc: "parse_doc (params ! 1) = Some doc" and d: "doc ! 0 = JStr dtype"
    and r: "map_of ctrRoutes dtype = Some fns" "(fns ! 1) st (params ! 0) doc = Inr (p, ws)"
    using contractCallback_run assms(4) unfolding contractExecute_def by blast
  have t: "trusted_doc (world st) doc"
    using assms(3) doc by (simp add: trusted_call_def)
  note sh = runningD(1) [OF assms(1)]
  have create: "index_ok (commit ws (world st))"
    if "dtype = ''account/create''" "executeAccountCreate st (params ! 0) doc = Inr (p, ws)"
    using executeAccountCreate_run [OF that(2)] index_CreateJoint [OF assms(2) sh] t d that(1) by (auto simp: trusted_doc_def)
  have issue: "index_ok (commit ws (world st))"
    if "dtype = ''token/create''" "executeTokenCreate st (params ! 0) doc = Inr (p, ws)"
    using executeTokenCreate_run [OF that(2)] index_CreateToken [OF assms(2) sh] t d that(1) by (auto simp: trusted_doc_def)
  have spared: "index_ok (commit ws (world st))" if "spares ws"
    using index_spares [OF that] assms(2) by simp
  show ?thesis
    using ctr_cases [OF r(1)] r(2) create issue spared [OF spares_token(4)] spared [OF spares_token(5)]
      spared [OF spares_callbacks(2)] spared [OF spares_callbacks(3)] index_execute_holders [OF assms(1,2)]
    by (auto simp: ctrRoutes_def)
qed

lemma index_writers:
  assumes "running st" "index_ok (world st)" "txFn st params = Inr (p, ws)"
    "txFn \<in> {accountCreate, accountHolderRemove, accountSuspend, accountUnsuspend, balancePendingWithdraw,
      contractCancel, payRefund, tokenBurn, tokenCreate, tokenMint, tokenUpdate, transfer, pay}"
  shows "index_ok (commit ws (world st))"
proof -
  have spared: "index_ok (commit ws (world st))" if "spares ws"
    using index_spares [OF that] assms(2) by simp
  note spared_money = spared [OF spares_money(1)] spared [OF spares_money(2)] spared [OF spares_money(3)] spared [OF spares_money(5)]
    spared [OF spares_token(1)] spared [OF spares_token(2)] spared [OF spares_token(3)] spared [OF spares_contractCancel]
  show ?thesis
    using assms(4) unfolding insert_iff empty_iff
    by (elim disjE)
      (use assms(3) spared_money index_accountCreate [OF assms(1,2)] index_accountHolderRemove [OF assms(1,2)]
        index_accountSuspend [OF assms(1,2)] index_tokenCreate [OF assms(1,2)] in metis)+
qed

lemma Invoke_keeps_index:
  assumes "running st" "index_ok (world st)" "trusted_call st fn params" "Invoke st fn params = Inr (p, ws)"
  shows "index_ok (commit ws (world st))"
proof -
  have spared: ?thesis if "spares ws"
    using index_spares [OF that] assms(2) by simp
  obtain txFn where f: "(fn, txFn) \<in> set routes" and r: "txFn st params = Inr (p, ws)"
    using Invoke_cases [OF assms(4)] .
  from route_cases [OF f] show ?thesis
  proof (elim disjE conjE)
    assume "txFn \<in> {accountGet, accountHolderAdd, accountList, balanceLogs, balancePendingGet, balancePendingList,
      feeList, payGet, payList, tokenGet, ver}"
    then show ?thesis
      using reads_write_nothing [where txFn = txFn, OF _ r] assms(2) by simp
  next
    assume "txFn \<in> {accountCreate, accountHolderRemove, accountSuspend, accountUnsuspend, balancePendingWithdraw,
      contractCancel, payRefund, tokenBurn, tokenCreate, tokenMint, tokenUpdate, transfer, pay}"
    then show ?thesis
      using index_writers [where txFn = txFn, OF assms(1,2) r] by blast
  next
    assume "fn = ''contract/execute''" "txFn = contractExecute"
    then show ?thesis
      using index_execute [OF assms(1,2)] assms(3) r by blast
  qed (use r spared spares_money(4) spares_feePrune runningD(3) [OF assms(1)] in blast)+
qed

lemma reachable_index: "reachable sh L \<Longrightarrow> shake_ok sh \<Longrightarrow> index_ok L"
proof (induction rule: reachable.induct)
  case empty
  show ?case
    by (simp add: index_ok_def indexed_def)
next
  case (step L st fn params)
  have "running st"
    using step.hyps reachable_ok [OF step.hyps(1) step.prems] step.prems by (simp add: running_def)
  then show ?case
    using Invoke_keeps_index [of st fn params] step by (auto simp: settle_def split: sum.splits)
qed

text \<open>C8: the index of holders. On every ledger that committed transactions build, a document for a holder and an
  account exists exactly when the account exists and the holder is one of the set of a joint account, and
  a personal account has exactly one such document. So the list of a holder's accounts is complete and
  names no account that the holder has left.\<close>

theorem reachable_holder_index:
  assumes "reachable sh L" and "shake_ok sh" and "wf_address sh adr"
  shows "case L (AccountKey (Address_String adr)) of
      None \<Rightarrow> (\<forall>kid. L (HolderKey kid (Address_String adr)) = None)
    | Some (DAccount (JointAccount a hs)) \<Rightarrow> (\<forall>kid. L (HolderKey kid (Address_String adr)) \<noteq> None \<longleftrightarrow> kid \<in> set hs)
    | Some (DAccount (PersonalAccount a)) \<Rightarrow> (\<exists>!kid. L (HolderKey kid (Address_String adr)) \<noteq> None)
    | _ \<Rightarrow> False"
proof -
  let ?i = "Address_String adr"
  have ok: "case L (AccountKey ?i) of
     None \<Rightarrow> indexed L ?i = {}
   | Some (DAccount (PersonalAccount a)) \<Rightarrow> (\<exists>kid. indexed L ?i = {kid})
   | Some (DAccount (JointAccount a hs)) \<Rightarrow> indexed L ?i = set hs
   | _ \<Rightarrow> False"
    using reachable_index [OF assms(1,2)] wf_address_like [OF assms(3)] unfolding index_ok_def by blast
  have single: "(\<exists>kid. indexed L ?i = {kid}) \<longleftrightarrow> (\<exists>!kid. L (HolderKey kid ?i) \<noteq> None)"
    by (auto simp: indexed_def set_eq_iff Ex1_def)
  show ?thesis
    using ok single by (auto simp: indexed_def set_eq_iff split: option.splits doc.splits account_doc.splits)
qed

lemma demo_first:
  "\<exists>p ws. Invoke (demo kidA\<lparr>world := Map.empty\<rparr>) ''account/create'' [''TKN''] = Inr (p, ws) \<and>
     commit ws Map.empty (AccountKey idA) = Some (DAccount (PersonalAccount (account_of t1 idA ''TKN'' AccountTypePersonal)))"
proof -
  have "GetAccount (demo kidA\<lparr>world := Map.empty\<rparr>) adrA = Inl (NotExistedAccountError idA)"
    by (simp add: GetAccount_missing demo)
  moreover have "invokeKNT (demo kidA\<lparr>world := Map.empty\<rparr>) ''TKN'' [''token''] = Inr demo_meta"
    by (simp add: invokeKNT_def demo_def demo_invoke_def ToLower_def lower_char_def ord_def)
  ultimately show ?thesis
    by (simp add: Invoke_def routes_def accountCreate_def GetTokenState_def GetState_def CreateAccount_def CreateBalance_def
        is_NotIssuedTokenError_def is_NotExistedAccountError_def PutState_def account_of_def Account_GetID_def put_defs
        Success_def demo Let_def)
qed

theorem reachable_holder_index_witness:
  "\<exists>L. reachable demo_shake L \<and> L (AccountKey idA) \<noteq> None \<and> (\<exists>!kid. L (HolderKey kid idA) \<noteq> None)"
proof -
  obtain p ws where r: "Invoke (demo kidA\<lparr>world := Map.empty\<rparr>) ''account/create'' [''TKN''] = Inr (p, ws)"
    and a: "commit ws Map.empty (AccountKey idA) = Some (DAccount (PersonalAccount (account_of t1 idA ''TKN'' AccountTypePersonal)))"
    using demo_first by blast
  have L: "reachable demo_shake (commit ws Map.empty)"
    using reachable.step [OF reachable.empty, of "demo kidA\<lparr>world := Map.empty\<rparr>" demo_shake "''account/create''" "[''TKN'']"] r
    by (simp add: settle_def trusted_call_def demo)
  show ?thesis
    using reachable_holder_index [OF L shake_ok_demo wf_demo(1)] L a by (auto simp: demo)
qed

end
