(* ===== verification/Suspension.thy ===== *)
theory Suspension
  imports Holders
begin

text \<open>
  A suspended personal account takes no part in the movement of money: no transaction of a client writes its
  balance, except that a prune of fees credits a suspended fee target. The contract callbacks, which complete
  what was agreed before, are not transactions of a client.
\<close>

definition frozen :: "ledger \<Rightarrow> string \<Rightarrow> bool" where
  "frozen L i \<longleftrightarrow> (\<exists>a. L (AccountKey i) = Some (DAccount (PersonalAccount a)) \<and> acc_suspended a \<noteq> None)"

definition moved :: "state_op list \<Rightarrow> string set" where
  "moved ws = {i. BalanceKey i \<in> write_key ` set ws}"

lemma BalanceKey_inject [simp]: "BalanceKey i = BalanceKey j \<longleftrightarrow> i = j"
  by (simp add: BalanceKey_def)

lemma moved_simps [simp]:
  "moved [] = {}" "moved (vs @ ws) = moved vs \<union> moved ws" "moved (put_balance b # ws) = insert (bal_id b) (moved ws)"
  "key_kind (write_key w) \<noteq> 2 \<Longrightarrow> moved (w # ws) = moved ws"
proof -
  show "moved (w # ws) = moved ws" if "key_kind (write_key w) \<noteq> 2"
  proof -
    have "BalanceKey i \<noteq> write_key w" for i
      using that by (intro keys_apart) simp
    then show ?thesis
      by (simp add: moved_def)
  qed
qed (auto simp: moved_def put_balance_def)

lemma moved_fee [simp]: "moved (fee_writes st ts addr n) = {}"
  by (simp add: fee_writes_def)

lemma moved_holders [simp]: "moved (map (put_holder ts a) kids) = {}"
  by (induction kids) simp_all

lemma with_amount_id [simp]: "bal_id (with_amount b n ts) = bal_id b"
  by (simp add: with_amount_def)

lemma moved_forms:
  "moved (supply_writes ts b n) = {bal_id b}" "moved (deposit_writes ts b pb) = {bal_id b}"
  "moved (withdraw_writes ts b pb) = {bal_id b}" "moved (pay_writes ts b q) = {bal_id b}"
  "moved (refund_writes ts b q parent) = {bal_id b}" "moved (prune_writes st ts i b ps) = {bal_id b}"
  "moved (transfer_writes st ts s r n fee memo pt) \<subseteq> {bal_id s, bal_id r}"
  "moved (create_writes ts a kids) = {Account_GetID a}"
  by (auto simp: supply_writes_def deposit_writes_def withdraw_writes_def pay_writes_def refund_writes_def
      prune_writes_def pruned_balance_def transfer_writes_def receive_writes_def create_writes_def Let_def)

lemma unmoved: "i \<notin> moved ws \<Longrightarrow> commit ws L (BalanceKey i) = L (BalanceKey i)"
  by (rule commit_other) (simp add: moved_def)

text \<open>An account that was read and is not suspended is not frozen.\<close>

lemma thawed:
  assumes "running st" "GetAccount st adr = Inr a" "wf_address (shake_of st) adr" "\<not> IsSuspended a"
    "GetBalance st (Account_GetID a) = Inr b"
  shows "\<not> frozen (world st) (bal_id b)"
  using GetAccount_ok(2) [OF assms(2) runningD(2) [OF assms(1)] assms(3)] assms(4)
    GetBalance_ok(1) [OF assms(5) runningD(2) [OF assms(1)]]
  by (auto simp: frozen_def IsSuspended_def)

lemma transfer_thawed:
  assumes "running st" "transfer st params = Inr (p, ws)"
  shows "\<forall>i\<in>moved ws. \<not> frozen (world st) i"
proof -
  obtain kid amount sAddr rAddr sender receiver sBal rBal fee opts l
    where c: "transfer_checked st params kid amount sAddr rAddr sender receiver sBal rBal fee"
      and m: "transfer_move st params sBal rBal sender receiver amount fee opts = Inr (l, ws)"
    using transfer_run [OF assms(2)] by blast
  have r: "wf_address (shake_of st) rAddr"
    using c ParseAddress_run(1) by (auto simp: transfer_checked_def)
  then have s: "wf_address (shake_of st) sAddr"
    using c transfer_sender_run [of st kid rAddr _ sAddr] runningD(1) [OF assms(1)] by (auto simp: transfer_checked_def)
  have "\<not> frozen (world st) (bal_id sBal)" "\<not> frozen (world st) (bal_id rBal)"
    using c thawed [OF assms(1) _ s] thawed [OF assms(1) _ r] by (auto simp: transfer_checked_def)
  moreover obtain memo pt expiry signers where opts: "opts = (memo, pt, expiry, signers)"
    by (cases opts)
  have "moved ws \<subseteq> {bal_id sBal, bal_id rBal}"
    using transfer_move_run [OF m [unfolded opts]] moved_forms by (fastforce split: if_splits)
  ultimately show ?thesis
    by auto
qed

lemma pay_thawed:
  assumes "running st" "pay st params = Inr (p, ws)"
  shows "\<forall>i\<in>moved ws. \<not> frozen (world st) i"
proof -
  obtain kid amount sAddr rAddr sender receiver sBal q l
    where c: "pay_checked st params kid amount sAddr rAddr sender receiver sBal"
      and m: "pay_move st sBal sender receiver rAddr amount (account_signers kid sender) (pay_options params) = Inr ((q, l), ws)"
    using pay_run [OF assms(2)] by blast
  have "wf_address (shake_of st) rAddr"
    using c ParseAddress_run(1) by (auto simp: pay_checked_def)
  then have s: "wf_address (shake_of st) sAddr"
    using c pay_sender_run [of st kid rAddr _ sAddr] runningD(1) [OF assms(1)] by (auto simp: pay_checked_def)
  have "\<not> frozen (world st) (bal_id sBal)"
    using c thawed [OF assms(1) _ s] by (auto simp: pay_checked_def)
  moreover obtain oid memo expiry where opts: "pay_options params = (oid, memo, expiry)"
    by (cases "pay_options params")
  have "moved ws = {bal_id sBal}"
    using pay_move_run [OF m [unfolded opts]] moved_forms by (auto split: if_splits)
  ultimately show ?thesis
    by auto
qed

lemma payRefund_thawed:
  assumes "running st" "payRefund st params = Inr (p, ws)"
  shows "\<forall>i\<in>moved ws. \<not> frozen (world st) i"
  using payRefund_run [OF assms(2)] thawed [OF assms(1)] ParseAddress_run(1)
  by (fastforce simp: refund_checked_def moved_forms)

lemma payPrune_thawed:
  assumes "running st" "payPrune st params = Inr (p, ws)"
  shows "\<forall>i\<in>moved ws. \<not> frozen (world st) i"
  using payPrune_run [OF assms(2)] thawed [OF assms(1)] resolve_address_wf [OF _ runningD(1) [OF assms(1)]]
  by (fastforce simp: moved_forms)

lemma account_at:
  assumes "ledger_ok sh L" "account_exists L i" "ParseAddress sh i = Inr adr"
  shows "wf_address sh adr" "Address_String adr = i"
proof -
  obtain d where d: "L (AccountKey i) = Some d"
    using assms(2) by (auto simp: account_exists_def)
  have key: "key_of d = AccountKey i"
    using keyedD [OF ledger_okD(1) [OF assms(1)] d] .
  then have "doc_kind d = 0"
    by (metis key_kind_of key_kind_simps(1))
  then obtain a where a: "d = DAccount a"
    by (cases d) simp_all
  then have "account_ok sh a"
    using ledger_okD(3) [OF assms(1) d] by simp
  then obtain adr' where "wf_address sh adr'" "i = Address_String adr'"
    using key a by (auto simp: account_ok_def)
  then show "wf_address sh adr" "Address_String adr = i"
    using assms(3) by (auto simp: ParseAddress_String)
qed

lemma withdraw_thawed:
  assumes "running st" "balancePendingWithdraw st params = Inr (p, ws)"
  shows "\<forall>i\<in>moved ws. \<not> frozen (world st) i"
proof -
  note ok = runningD(2) [OF assms(1)]
  obtain pb addr account bal ts where c: "GetPendingBalance st (params ! 0) = Inr pb"
    "ParseAddress (shake_of st) (pb_account pb) = Inr addr" "GetAccount st addr = Inr account" "\<not> IsSuspended account"
    "GetBalance st (pb_account pb) = Inr bal" and ws: "ws = withdraw_writes ts bal pb"
    using balancePendingWithdraw_run [OF assms(2)] by blast
  note A = account_at [OF ok GetPendingBalance_ok(3) [OF c(1) ok] c(2)]
  have "GetBalance st (Account_GetID account) = Inr bal"
    using GetAccount_ok(1) [OF c(3) ok A(1)] A(2) c(5) by simp
  then show ?thesis
    using thawed [OF assms(1) c(3) A(1) c(4)] by (simp add: ws moved_forms)
qed

lemma genesis_thawed:
  assumes "running st" "GetToken st code = Inr t" "genesis_account st t kid = Inr (account, bal)"
  shows "\<not> frozen (world st) (bal_id bal)"
proof -
  note ok = runningD(2) [OF assms(1)]
  obtain addr where a: "ParseAddress (shake_of st) (tok_genesis t) = Inr addr" "GetAccount st addr = Inr account"
    and b: "GetBalance st (Account_GetID account) = Inr bal"
    using genesis_account_run [OF assms(3)] by blast
  obtain adr where adr: "wf_address (shake_of st) adr" "adr_type adr = AccountTypeJoint" "tok_genesis t = Address_String adr"
    using GetToken_ok(3) [OF assms(2) ok] by (auto simp: token_ok_def)
  then have "addr = adr"
    using a(1) ParseAddress_String by auto
  then obtain jac hs where "account = JointAccount jac hs"
    using GetAccount_type [OF a(2)] adr(2) by auto
  then show ?thesis
    using GetAccount_ok(1,2) [OF a(2) ok ParseAddress_run(1) [OF a(1)]] GetBalance_ok(1) [OF b ok]
    by (auto simp: frozen_def)
qed

lemma token_thawed:
  assumes "running st"
  shows "tokenMint st params = Inr (p, ws) \<Longrightarrow> \<forall>i\<in>moved ws. \<not> frozen (world st) i"
    "tokenBurn st params = Inr (p, ws) \<Longrightarrow> \<forall>i\<in>moved ws. \<not> frozen (world st) i"
proof -
  have mint: "moved ws = {bal_id b}" if "Mint st t b n = Inr (t', l, ws)" for t b n t' l
    using Mint_run [OF that] by (auto simp: moved_forms)
  have burn: "moved ws \<subseteq> {bal_id b}" if "Burn st t b n = Inr (t', l, ws)" for t b n t' l
    using Burn_run [OF that] by (auto simp: moved_forms split: if_splits)
  show "\<forall>i\<in>moved ws. \<not> frozen (world st) i" if r: "tokenMint st params = Inr (p, ws)"
  proof -
    obtain code t kid account bal n where g: "GetToken st code = Inr t" "genesis_account st t kid = Inr (account, bal)"
      and w: "ws = [] \<or> (\<exists>t' l. Mint st t bal n = Inr (t', l, ws))"
      using tokenMint_run [OF r] by blast
    show ?thesis
      using w mint genesis_thawed [OF assms g] by (elim disjE exE) auto
  qed
  show "\<forall>i\<in>moved ws. \<not> frozen (world st) i" if r: "tokenBurn st params = Inr (p, ws)"
  proof -
    obtain code t kid account bal n where g: "GetToken st code = Inr t" "genesis_account st t kid = Inr (account, bal)"
      and w: "ws = [] \<or> (\<exists>t' l. Burn st t bal n = Inr (t', l, ws))"
      using tokenBurn_run [OF r] by blast
    show ?thesis
      using w burn [of t bal n] genesis_thawed [OF assms g] by (elim disjE exE) (simp, blast)
  qed
qed

lemma tokenCreate_thawed:
  assumes "tokenCreate st params = Inr (p, ws)"
  shows "\<forall>i\<in>moved ws. \<not> frozen (world st) i"
proof -
  have "\<forall>i\<in>moved ws. \<not> frozen (world st) i" if "CreateToken st code d m n policy hs = Inr (t, ws)" for code d m n policy hs t
    using CreateToken_run [OF that] by (auto simp: moved_forms frozen_def split: if_splits)
  then show ?thesis
    using tokenCreate_run [OF assms] by fastforce
qed

lemma accountCreate_thawed:
  assumes "accountCreate st params = Inr (p, ws)"
  shows "\<forall>i\<in>moved ws. \<not> frozen (world st) i"
  using accountCreate_run [OF assms] by (auto simp: moved_forms frozen_def dest!: CreateAccount_run)

lemma accounts_unmoved:
  "accountSuspend st params = Inr (p, ws) \<Longrightarrow> moved ws = {}" "accountUnsuspend st params = Inr (p, ws) \<Longrightarrow> moved ws = {}"
  "accountHolderRemove st params = Inr (p, ws) \<Longrightarrow> moved ws = {}" "tokenUpdate st params = Inr (p, ws) \<Longrightarrow> moved ws = {}"
  by (auto simp: accountSuspend_def accountUnsuspend_def run
      dest!: SuspendAccount_run UnsuspendAccount_run accountHolderRemove_run RemoveHolder_run tokenUpdate_run)

lemma reads_unmoved:
  assumes "txFn \<in> {accountGet, accountHolderAdd, accountList, balanceLogs, balancePendingGet, balancePendingList,
    feeList, payGet, payList, tokenGet, ver}" "txFn st params = Inr (p, ws)"
  shows "moved ws = {}"
  using reads_write_nothing [where txFn = txFn, OF assms] by simp

lemma client_routes:
  assumes "(fn, txFn) \<in> set routes" "fn \<notin> {''contract/execute'', ''contract/cancel'', ''fee/prune''}"
  shows "txFn \<in> {accountGet, accountHolderAdd, accountList, balanceLogs, balancePendingGet, balancePendingList,
      feeList, payGet, payList, tokenGet, ver} \<or>
    txFn \<in> {accountCreate, accountHolderRemove, accountSuspend, accountUnsuspend, balancePendingWithdraw, payPrune,
      payRefund, tokenBurn, tokenCreate, tokenMint, tokenUpdate, transfer, pay}"
  using assms unfolding routes_def
  by (simp only: list.set insert_iff empty_iff prod.inject) (elim disjE conjE FalseE; simp)

lemma client_thawed:
  assumes "running st" "txFn st params = Inr (p, ws)"
    "txFn \<in> {accountCreate, accountHolderRemove, accountSuspend, accountUnsuspend, balancePendingWithdraw, payPrune,
      payRefund, tokenBurn, tokenCreate, tokenMint, tokenUpdate, transfer, pay}"
  shows "\<forall>i\<in>moved ws. \<not> frozen (world st) i"
proof -
  note thawed = transfer_thawed [OF assms(1)] pay_thawed [OF assms(1)] payRefund_thawed [OF assms(1)] payPrune_thawed [OF assms(1)]
    withdraw_thawed [OF assms(1)] token_thawed [OF assms(1)] tokenCreate_thawed accountCreate_thawed
  show ?thesis
    using assms(3) unfolding insert_iff empty_iff
    by (elim disjE) (use assms(2) thawed accounts_unmoved in \<open>metis empty_iff\<close>)+
qed

text \<open>A prune of fees writes one balance, that of the fee target.\<close>

lemma feePrune_credit:
  assumes "running st" "feePrune st params = Inr (p, ws)" "i \<in> moved ws"
  shows "\<exists>token policy b b' s. GetToken st (ToUpper (params ! 0)) = Inr token \<and> tok_policy token = Some policy \<and>
    i = ToUpper (fp_target policy) \<and> p = FeeSum s \<and> world st (BalanceKey i) = Some (DBalance b) \<and>
    commit ws (world st) (BalanceKey i) = Some (DBalance b') \<and> bal_amount b' = bal_amount b + fs_sum s"
proof -
  note ok = runningD(2) [OF assms(1)]
  obtain code token policy addr account l w0 ts s bal
    where c: "ValidateTokenCode (params ! 0) = Inr code" "GetToken st code = Inr token" "tok_policy token = Some policy"
      and a: "ParseAddress (shake_of st) (fp_target policy) = Inr addr" "GetAccount st addr = Inr account"
      and l: "last_pruned_or_migrate st code token = Inr (l, w0)"
      and b: "GetBalance st (Account_GetID account) = Inr bal"
      and p: "p = FeeSum s" and ws: "ws = w0 @ fee_prune_writes ts bal code s"
    using feePrune_run [OF assms(2) runningD(3) [OF assms(1)]] assms(3) by auto
  note A = ParseAddress_run [OF a(1)]
  note G = GetAccount_ok(1,2) [OF a(2) ok A(1)] and B = GetBalance_ok [OF b ok]
  have "moved w0 = {}"
    using last_pruned_or_migrate_run [OF l] by (auto simp: put_token_def)
  then have i: "i = bal_id bal"
    using assms(3) by (simp add: ws fee_prune_writes_def Let_def)
  then have "commit ws (world st) (BalanceKey i) = Some (DBalance (with_amount bal (bal_amount bal + fs_sum s) ts))"
    by (simp add: ws fee_prune_writes_def write_forms log_key_def Let_def)
  moreover have "i = ToUpper (fp_target policy)"
    using G A B(1) by (simp add: i)
  moreover have "GetToken st (ToUpper (params ! 0)) = Inr token"
    using c by (simp add: ValidateTokenCode_run)
  ultimately show ?thesis
    using c(3) p B(1,2) i
    by (intro exI [of _ token] exI [of _ policy] exI [of _ bal] exI [of _ "with_amount bal (bal_amount bal + fs_sum s) ts"]
        exI [of _ s]) (simp add: with_amount_def)
qed

text \<open>C7: a suspended account is frozen, but for the fees. A client's transaction, which is any but the two callbacks
  of the contract chaincode, leaves the balance of a suspended personal account as it is: the account can neither send
  nor receive, pay, refund, be refunded, withdraw or prune. The one exception is a prune of fees, which asks no
  fee target whether it is suspended: it credits the target of the token's policy with the sum of the fees.\<close>

theorem suspended_frozen:
  assumes "running st" and "stores (world st) (DAccount (PersonalAccount a))" and "acc_suspended a \<noteq> None"
    and "Invoke st fn params = Inr (p, ws)" and "fn \<notin> {''contract/execute'', ''contract/cancel''}"
  shows "commit ws (world st) (BalanceKey (acc_id a)) = world st (BalanceKey (acc_id a)) \<or>
    fn = ''fee/prune'' \<and> (\<exists>token policy b b' s. GetToken st (ToUpper (params ! 0)) = Inr token \<and>
      tok_policy token = Some policy \<and> acc_id a = ToUpper (fp_target policy) \<and> p = FeeSum s \<and>
      world st (BalanceKey (acc_id a)) = Some (DBalance b) \<and>
      commit ws (world st) (BalanceKey (acc_id a)) = Some (DBalance b') \<and> bal_amount b' = bal_amount b + fs_sum s)"
proof (cases "acc_id a \<in> moved ws")
  case True
  obtain txFn where f: "(fn, txFn) \<in> set routes" and r: "txFn st params = Inr (p, ws)"
    using Invoke_cases [OF assms(4)] .
  have frozen: "frozen (world st) (acc_id a)"
    using assms(2,3) by (auto simp: frozen_def stores_def Account_GetID_def)
  have "\<forall>i\<in>moved ws. \<not> frozen (world st) i" if "fn \<noteq> ''fee/prune''"
    using client_routes [OF f] that assms(5) reads_unmoved [where txFn = txFn, OF _ r]
      client_thawed [where txFn = txFn, OF assms(1) r] by blast
  with True frozen have fn: "fn = ''fee/prune''"
    by blast
  then have "txFn = feePrune"
    using f by (simp add: routes_def)
  with fn show ?thesis
    using feePrune_credit [OF assms(1) _ True] r by blast
qed (simp add: unmoved)

definition demo_suspended :: account where
  "demo_suspended = (account_of t0 idA ''TKN'' AccountTypePersonal)\<lparr>acc_suspended := Some t0, acc_updated := Some t0\<rparr>"

definition demo_frozen :: stub where
  "demo_frozen = (demo kidA)\<lparr>world := demo_ledger(AccountKey idA \<mapsto> DAccount (PersonalAccount demo_suspended))\<rparr>"

lemma demo_suspended_sel [demo]: "acc_id demo_suspended = idA" "acc_suspended demo_suspended = Some t0"
  by (simp_all add: demo_suspended_def account_of_def)

lemma demo_frozen_running: "running demo_frozen"
proof -
  have "keeps (demo kidA) [put_account (PersonalAccount demo_suspended)]"
    by (rule suspend_step(1) [OF demo_running, of "''TKN''" kidA kidA]) (simp_all add: demo demo_suspended_def)
  then show ?thesis
    by (simp add: keeps_def running_def demo_frozen_def put_account_def Account_GetID_def demo)
qed

lemma demo_frozen_get: "GetAccount demo_frozen adrA = Inr (PersonalAccount demo_suspended)"
  by (simp add: GetAccount_def GetAccountState_def GetState_def demo_frozen_def demo demo_suspended_def account_of_def)

lemma demo_unsuspend: "\<exists>p ws. Invoke demo_frozen ''account/unsuspend'' [''TKN''] = Inr (p, ws) \<and> ws \<noteq> []"
  using demo_frozen_get
  by (simp add: Invoke_def routes_def accountUnsuspend_def UnsuspendAccount_def PutState_def put_defs Success_def
      demo_frozen_def demo Let_def)

theorem suspended_frozen_witness:
  "\<exists>p ws. Invoke demo_frozen ''account/unsuspend'' [''TKN''] = Inr (p, ws) \<and>
     commit ws (world demo_frozen) (BalanceKey idA) = Some (DBalance (demo_balance idA 1000))"
proof -
  obtain p ws where "Invoke demo_frozen ''account/unsuspend'' [''TKN''] = Inr (p, ws)"
    using demo_unsuspend by blast
  then show ?thesis
    using suspended_frozen [OF demo_frozen_running, of demo_suspended "''account/unsuspend''" "[''TKN'']" p ws]
    by (auto simp: stores_def demo_frozen_def Account_GetID_def demo)
qed

end
