(* ===== verification/Accounts.thy ===== *)
theory Accounts
  imports Suspension
begin

text \<open>
  Properties of the account operations (\<open>AccountTx\<close>, \<open>AccountStub\<close>): what creating an account, changing
  the holders of a joint account and suspending an account do to the ledger.
\<close>

lemma stores_account: "stores L (DAccount a) \<longleftrightarrow> L (AccountKey (Account_GetID a)) = Some (DAccount a)"
  by (simp add: stores_def)

lemma holders_stores [simp]:
  "key_kind (key_of d) \<noteq> 1 \<Longrightarrow> stores (commit (map (put_holder ts a) kids) L) d = stores L d"
proof (induction kids arbitrary: L)
  case (Cons kid kids)
  have "key_of d \<noteq> HolderKey kid i" for i
    using Cons.prems by (intro keys_apart) simp
  then show ?case
    using Cons by (simp add: put_holder_def stores_def)
qed simp

lemma create_stores:
  "stores (commit (create_writes ts a kids) L) (DAccount a)"
  "stores (commit (create_writes ts a kids) L) (DBalance (empty_balance ts (Account_GetID a)))"
  by (simp_all add: create_writes_def) (simp_all add: stores_def put_account_def put_balance_def)

section \<open>Creating accounts\<close>

text \<open>C25: creating a personal account. It takes a valid token code of a known token, it is the first account at
  the address made of the code and the invoker's ID, it holds nothing, and nothing else enters the book.
  With more parameters nothing is written: the co-holders have to sign a contract first.\<close>

theorem accountCreate_refines:
  assumes "running st" and "accountCreate st params = Inr (p, ws)"
  shows "(ws = [] \<and> 2 \<le> length params) \<or>
    (\<exists>kid code i a b. length params = 1 \<and> kid_GetID st True = Inr kid \<and> code = ToUpper (params ! 0) \<and> matches_code code \<and>
      (world st (TokenKey code) \<noteq> None \<or> (\<exists>meta. invokeKNT st code [''token''] = Inr meta)) \<and>
      i = Address_String (NewAddress (shake_of st) code AccountTypePersonal kid) \<and> world st (AccountKey i) = None \<and>
      stores (commit ws (world st)) (DAccount (PersonalAccount a)) \<and> acc_id a = i \<and> acc_token a = code \<and>
      acc_suspended a = None \<and> stores (commit ws (world st)) (DBalance b) \<and> bal_id b = i \<and> bal_amount b = 0 \<and>
      book_of (commit ws (world st)) = set_balance i 0 (book_of (world st)))"
proof (cases "length params < 2")
  case False
  then have "ws = []"
    using assms(2) by (auto simp: accountCreate_def run Let_def split: if_splits dest!: invokeContract_run)
  then show ?thesis
    using False by simp
next
  case True
  have len: "length params = 1"
  proof -
    have "params \<noteq> []"
      using assms(2) by (auto simp: accountCreate_def run)
    then show ?thesis
      using True by (cases params) auto
  qed
  obtain code kid where c: "ValidateTokenCode (params ! 0) = Inr code" "kid_GetID st True = Inr kid"
    using assms(2) by (auto simp: accountCreate_def run)
  have known: "world st (TokenKey code) \<noteq> None \<or> (\<exists>meta. invokeKNT st code [''token''] = Inr meta)"
  proof (cases "GetTokenState st code")
    case (Inl e)
    then show ?thesis
      using assms(2) c by (auto simp: accountCreate_def run)
  next
    case (Inr d)
    then show ?thesis
      by (simp add: run)
  qed
  obtain a b where cr: "CreateAccount st code kid = Inr (a, b, ws)"
    using assms(2) True c by (auto simp: accountCreate_def run)
  let ?i = "Address_String (NewAddress (shake_of st) code AccountTypePersonal kid)"
  obtain ts where ts: "world st (AccountKey ?i) = None"
    "a = PersonalAccount (account_of ts ?i code AccountTypePersonal)" "ws = create_writes ts a [kid]"
    using CreateAccount_run [OF cr] by blast
  have "acc_id (account_of ts ?i code AccountTypePersonal) = ?i" "acc_token (account_of ts ?i code AccountTypePersonal) = code"
    "acc_suspended (account_of ts ?i code AccountTypePersonal) = None"
    by (simp_all add: account_of_def)
  then show ?thesis
    using len c known ts create_stores [of ts a "[kid]" "world st"] book_of_create [of ts a "[kid]" "world st"]
    by (intro disjI2 exI [of _ kid] exI [of _ code] exI [of _ ?i] exI [of _ "account_of ts ?i code AccountTypePersonal"]
        exI [of _ "empty_balance ts ?i"]) (simp add: ValidateTokenCode_run)
qed

theorem accountCreate_refines_witness:
  "\<exists>p ws. accountCreate (demo kidA\<lparr>world := Map.empty\<rparr>) [''TKN''] = Inr (p, ws) \<and>
     book_of (commit ws Map.empty) = set_balance idA 0 (book_of Map.empty)"
proof -
  have run: "running (demo kidA\<lparr>world := Map.empty\<rparr>)"
    by (simp add: running_def ledger_ok_empty demo)
  obtain p ws where r: "accountCreate (demo kidA\<lparr>world := Map.empty\<rparr>) [''TKN''] = Inr (p, ws)"
    using demo_first by (auto simp: Invoke_def routes_def)
  then show ?thesis
    using accountCreate_refines [OF run r] by (auto simp: demo)
qed

text \<open>C26: creating a joint account by the contract's callback: it has the holders of the document, each once and
  each with its index entry, a new address made of the transaction, and no money.\<close>

theorem executeAccountCreate_refines:
  assumes "executeAccountCreate st cid doc = Inr (p, ws)"
  shows "\<exists>code kids i a hs. doc ! 1 = JStr code \<and> strs_of (doc ! 2) = Inr kids \<and> set hs = set kids \<and> distinct hs \<and>
    i = Address_String (NewAddress (shake_of st) code AccountTypeJoint (txid st)) \<and> world st (AccountKey i) = None \<and>
    stores (commit ws (world st)) (DAccount (JointAccount a hs)) \<and> acc_id a = i \<and>
    (\<forall>kid\<in>set kids. commit ws (world st) (HolderKey kid i) \<noteq> None) \<and>
    book_of (commit ws (world st)) = set_balance i 0 (book_of (world st))"
proof -
  obtain code kids a b where d: "doc ! 1 = JStr code" "strs_of (doc ! 2) = Inr kids"
    and cr: "CreateJointAccount st code (foldl Set_Add (Set_New []) kids) = Inr (a, b, ws)"
    using executeAccountCreate_run [OF assms] by blast
  let ?i = "Address_String (NewAddress (shake_of st) code AccountTypeJoint (txid st))"
  let ?hs = "foldl Set_Add (Set_New []) kids"
  obtain ts where new: "world st (AccountKey ?i) = None"
    and a: "a = JointAccount (account_of ts ?i code AccountTypeJoint) ?hs" and ws: "ws = create_writes ts a ?hs"
    using CreateJointAccount_run [OF cr] by blast
  have hs: "set ?hs = set kids" "distinct ?hs"
    using sset.fold_add [of "Set_New []" kids] by (simp_all add: Set_New_id Set_Strings_def)
  have idx: "commit (map (put_holder ts a) ks) L (HolderKey kid ?i) \<noteq> None" if "kid \<in> set ks \<or> L (HolderKey kid ?i) \<noteq> None" for ks kid L
    using that by (induction ks arbitrary: L) (auto simp: put_holder_def a)
  have "acc_id (account_of ts ?i code AccountTypeJoint) = ?i"
    by (simp add: account_of_def)
  moreover have "\<forall>kid\<in>set kids. commit ws (world st) (HolderKey kid ?i) \<noteq> None"
    using idx hs(1) by (simp add: ws create_writes_def)
  moreover have "stores (commit ws (world st)) (DAccount (JointAccount (account_of ts ?i code AccountTypeJoint) ?hs))"
    using create_stores(1) [of ts a ?hs "world st"] by (simp add: ws a)
  moreover have "book_of (commit ws (world st)) = set_balance ?i 0 (book_of (world st))"
    using book_of_create [of ts a ?hs "world st"] by (simp add: ws a)
  ultimately show ?thesis
    using d hs new by blast
qed

lemma demo_joint:
  "\<exists>p ws. executeAccountCreate (demo kidA) ''c9'' [JStr ''account/create'', JStr ''NEW'', JArr [JStr kidA, JStr kidB]] = Inr (p, ws)"
  by (simp add: executeAccountCreate_def str_at_def strs_of_def CreateJointAccount_def CreateBalance_def set_defs put_defs
      demo_new_account is_NotExistedAccountError_def Success_def demo Let_def)

theorem executeAccountCreate_refines_witness:
  "\<exists>p ws a hs. executeAccountCreate (demo kidA) ''c9'' [JStr ''account/create'', JStr ''NEW'', JArr [JStr kidA, JStr kidB]] = Inr (p, ws) \<and>
     stores (commit ws demo_ledger) (DAccount (JointAccount a hs)) \<and> set hs = {kidA, kidB}"
proof -
  obtain p ws where r: "executeAccountCreate (demo kidA) ''c9'' [JStr ''account/create'', JStr ''NEW'', JArr [JStr kidA, JStr kidB]] = Inr (p, ws)"
    using demo_joint by blast
  then show ?thesis
    using executeAccountCreate_refines [OF r] by (auto simp: strs_of_def demo)
qed

section \<open>Holders\<close>

lemma holder_account:
  assumes "running st" "ParseAddress (shake_of st) s = Inr adr" "GetAccount st adr = Inr (JointAccount jac hs)"
  shows "stores (world st) (DAccount (JointAccount jac hs))" "acc_id jac = ToUpper s" "length hs = card (set hs)"
proof -
  note A = GetAccount_ok [OF assms(3) runningD(2) [OF assms(1)] ParseAddress_run(1) [OF assms(2)]]
  show "stores (world st) (DAccount (JointAccount jac hs))" "acc_id jac = ToUpper s"
    using A(1,2) ParseAddress_run(2) [OF assms(2)] by (simp_all add: stores_def Account_GetID_def)
  have "distinct hs"
    using A(3) by (auto simp: account_ok_def)
  then show "length hs = card (set hs)"
    by (simp add: distinct_card)
qed

lemma demo_add: "\<exists>p ws. executeAccountHolderAdd (demo kidA) ''c9'' [JStr ''account/holder/add'', JStr idG, JStr kidB] = Inr (p, ws)"
  by (simp add: executeAccountHolderAdd_def str_at_def as_joint_def AddHolder_def set_defs put_defs Success_def demo Let_def)

text \<open>C27: adding a holder. The callback adds one new holder to a joint account of at most 127 holders; the account
  has at most 128 holders afterwards, the index gets the entry, and the book stays as it is.\<close>

theorem executeAccountHolderAdd_refines:
  assumes "running st" and "executeAccountHolderAdd st cid doc = Inr (p, ws)"
  shows "\<exists>s kid a a' hs hs'. doc ! 1 = JStr s \<and> doc ! 2 = JStr kid \<and> stores (world st) (DAccount (JointAccount a hs)) \<and>
    acc_id a = ToUpper s \<and> kid \<notin> set hs \<and> card (set hs) \<le> 127 \<and>
    stores (commit ws (world st)) (DAccount (JointAccount a' hs')) \<and> acc_id a' = acc_id a \<and>
    set hs' = insert kid (set hs) \<and> card (set hs') \<le> 128 \<and>
    commit ws (world st) (HolderKey kid (acc_id a)) \<noteq> None \<and> book_of (commit ws (world st)) = book_of (world st)"
proof -
  obtain s adr kid jac hs a where d: "doc ! 1 = JStr s" "doc ! 2 = JStr kid"
    and p: "ParseAddress (shake_of st) s = Inr adr" and g: "GetAccount st adr = Inr (JointAccount jac hs)"
    and n: "Set_Size hs \<le> 127" and r: "AddHolder st jac hs kid = Inr (a, ws)"
    using executeAccountHolderAdd_run [OF assms(2)] by blast
  obtain ts where new: "kid \<notin> set hs" and a: "a = JointAccount (jac\<lparr>acc_updated := Some ts\<rparr>) (Set_Add hs kid)"
    and ws: "ws = [put_account a, put_holder ts a kid]"
    using AddHolder_run [OF r] by blast
  note H = holder_account [OF assms(1) p g]
  have "card (set hs) \<le> 127"
    using n H(3) by (simp add: Set_Size_def)
  moreover have "set (Set_Add hs kid) = insert kid (set hs)" "card (set (Set_Add hs kid)) \<le> 128"
    using calculation by (simp_all add: card_insert_if)
  moreover have "stores (commit ws (world st)) (DAccount (JointAccount (jac\<lparr>acc_updated := Some ts\<rparr>) (Set_Add hs kid)))"
    by (simp add: ws a stores_def put_account_def put_holder_def)
  moreover have "acc_id (jac\<lparr>acc_updated := Some ts\<rparr>) = acc_id jac"
    by simp
  moreover have "commit ws (world st) (HolderKey kid (acc_id jac)) \<noteq> None"
    by (simp add: ws a put_account_def put_holder_def Account_GetID_def)
  moreover have "book_of (commit ws (world st)) = book_of (world st)"
    by (simp add: ws book)
  ultimately show ?thesis
    using d H(1,2) new by blast
qed

theorem executeAccountHolderAdd_refines_witness:
  "\<exists>p ws a hs. executeAccountHolderAdd (demo kidA) ''c9'' [JStr ''account/holder/add'', JStr idG, JStr kidB] = Inr (p, ws) \<and>
     commit ws demo_ledger (AccountKey idG) = Some (DAccount (JointAccount a hs)) \<and> set hs = {kidB, kidA}"
proof -
  obtain p ws where r: "executeAccountHolderAdd (demo kidA) ''c9'' [JStr ''account/holder/add'', JStr idG, JStr kidB] = Inr (p, ws)"
    using demo_add by blast
  then show ?thesis
    using executeAccountHolderAdd_refines [OF demo_running r] by (auto simp: stores_def Account_GetID_def demo)
qed

text \<open>C28: removing a holder. The callback removes one holder of a joint account of at least three; at least two
  stay, the index entry goes, and the book stays as it is.\<close>

theorem executeAccountHolderRemove_refines:
  assumes "running st" and "executeAccountHolderRemove st cid doc = Inr (p, ws)"
  shows "\<exists>s kid a a' hs hs'. doc ! 1 = JStr s \<and> doc ! 2 = JStr kid \<and> stores (world st) (DAccount (JointAccount a hs)) \<and>
    acc_id a = ToUpper s \<and> kid \<in> set hs \<and> 3 \<le> card (set hs) \<and>
    stores (commit ws (world st)) (DAccount (JointAccount a' hs')) \<and> acc_id a' = acc_id a \<and>
    set hs' = set hs - {kid} \<and> 2 \<le> card (set hs') \<and>
    commit ws (world st) (HolderKey kid (acc_id a)) = None \<and> book_of (commit ws (world st)) = book_of (world st)"
proof -
  obtain s adr kid jac hs a where d: "doc ! 1 = JStr s" "doc ! 2 = JStr kid"
    and p: "ParseAddress (shake_of st) s = Inr adr" and g: "GetAccount st adr = Inr (JointAccount jac hs)"
    and n: "3 \<le> Set_Size hs" and r: "RemoveHolder st jac hs kid = Inr (a, ws)"
    using executeAccountHolderRemove_run [OF assms(2)] by blast
  obtain ts where old: "kid \<in> set hs" and a: "a = JointAccount (jac\<lparr>acc_updated := Some ts\<rparr>) (Set_Remove hs kid)"
    and ws: "ws = [put_account a, Del (HolderKey kid (acc_id jac))]"
    using RemoveHolder_run [OF r] by blast
  note H = holder_account [OF assms(1) p g]
  have "3 \<le> card (set hs)"
    using n H(3) by (simp add: Set_Size_def)
  moreover have "set (Set_Remove hs kid) = set hs - {kid}" "2 \<le> card (set (Set_Remove hs kid))"
    using calculation old by (simp_all add: Set_Remove_def card_Diff_singleton)
  moreover have "stores (commit ws (world st)) (DAccount (JointAccount (jac\<lparr>acc_updated := Some ts\<rparr>) (Set_Remove hs kid)))"
    by (simp add: ws a stores_def put_account_def)
  moreover have "acc_id (jac\<lparr>acc_updated := Some ts\<rparr>) = acc_id jac"
    by simp
  moreover have "commit ws (world st) (HolderKey kid (acc_id jac)) = None"
    by (simp add: ws)
  moreover have "book_of (commit ws (world st)) = book_of (world st)"
    by (simp add: ws book)
  ultimately show ?thesis
    using d H(1,2) old by blast
qed

text \<open>The demo ledger with three holders of the genesis account.\<close>

definition demo_three :: "string \<Rightarrow> stub" where
  "demo_three k = (demo k)\<lparr>world := demo_ledger(AccountKey idG \<mapsto>
     DAccount (JointAccount (account_of t0 idG ''TKN'' AccountTypeJoint) [kidA, kidB, ''k'']))\<rparr>"

lemma kid_other [demo]: "kidA \<noteq> ''k''" "kidB \<noteq> ''k''"
proof -
  have "length kidA \<noteq> length ''k''" "length kidB \<noteq> length ''k''"
    by (simp_all add: kidA_def kidB_def)
  then show "kidA \<noteq> ''k''" "kidB \<noteq> ''k''"
    by metis+
qed

lemma demo_three_running: "running (demo_three k)"
proof -
  let ?hs = "[kidA, kidB, ''k'']"
  have "distinct ?hs"
    by (simp add: demo)
  then have "keeps (demo k) [put_account (JointAccount (account_of t0 idG ''TKN'' AccountTypeJoint) ?hs), Del (HolderKey ''k'' [])]"
    by (intro holder_step(3) [OF demo_running, of _ adrG "account_of t0 idG ''TKN'' AccountTypeJoint" "[kidA]"]) (simp_all add: demo)
  moreover have "commit [put_account (JointAccount (account_of t0 idG ''TKN'' AccountTypeJoint) ?hs), Del (HolderKey ''k'' [])] demo_ledger =
      world (demo_three k)"
    by (auto simp: demo_three_def put_account_def demo_ledger_keys fun_eq_iff)
  ultimately show ?thesis
    by (simp add: keeps_def running_def demo del: commit_simps) (simp add: demo_three_def demo)
qed

lemma demo_three_get: "GetAccount (demo_three k) adrG = Inr (JointAccount (account_of t0 idG ''TKN'' AccountTypeJoint) [kidA, kidB, ''k''])"
  by (simp add: GetAccount_def GetAccountState_def GetState_def demo_three_def demo account_of_def)

lemma demo_remove:
  "\<exists>p ws. executeAccountHolderRemove (demo_three kidA) ''c9'' [JStr ''account/holder/remove'', JStr idG, JStr kidB] = Inr (p, ws)"
proof -
  have "ParseAddress (shake_of (demo_three kidA)) idG = Inr adrG" "GetTime (demo_three kidA) = Inr t1"
    by (simp_all add: demo_three_def demo)
  then show ?thesis
    using demo_three_get [of kidA]
    by (simp add: executeAccountHolderRemove_def str_at_def as_joint_def RemoveHolder_def set_defs PutAccount_def PutState_def
        DelState_def Success_def Let_def demo) (simp add: demo_three_def demo Success_def)
qed

theorem executeAccountHolderRemove_refines_witness:
  "\<exists>p ws a hs. executeAccountHolderRemove (demo_three kidA) ''c9'' [JStr ''account/holder/remove'', JStr idG, JStr kidB] = Inr (p, ws) \<and>
     commit ws (world (demo_three kidA)) (AccountKey idG) = Some (DAccount (JointAccount a hs)) \<and> 2 \<le> card (set hs)"
proof -
  obtain p ws where r: "executeAccountHolderRemove (demo_three kidA) ''c9'' [JStr ''account/holder/remove'', JStr idG, JStr kidB] = Inr (p, ws)"
    using demo_remove by blast
  then show ?thesis
    using executeAccountHolderRemove_refines [OF demo_three_running r] by (auto simp: stores_def Account_GetID_def demo)
qed

section \<open>Suspending\<close>

text \<open>C29: suspending and unsuspending. Once an account is suspended, suspending it again fails, and unsuspending it
  with the same invoker succeeds and restores the ledger but for the time of the last update.\<close>

theorem suspend_roundtrip:
  assumes "running st" and "accountSuspend st params = Inr (p, ws)" and "st' = st\<lparr>world := commit ws (world st)\<rparr>"
  shows "\<exists>i a ts p' ws'. world st (AccountKey i) = Some (DAccount (PersonalAccount a)) \<and> acc_suspended a = None \<and>
    GetTime st = Inr ts \<and> (\<exists>e. accountSuspend st' params = Inl e) \<and>
    accountUnsuspend st' params = Inr (p', ws') \<and>
    commit ws' (world st') = (world st)(AccountKey i \<mapsto> DAccount (PersonalAccount (a\<lparr>acc_updated := Some ts\<rparr>)))"
proof -
  obtain code kid a0 where len: "length params = 1" and c: "ValidateTokenCode (params ! 0) = Inr code" "kid_GetID st True = Inr kid"
    and s: "SuspendAccount st code kid = Inr (a0, ws)"
    using assms(2) by (auto simp: accountSuspend_def run)
  let ?adr = "NewAddress (shake_of st) code AccountTypePersonal kid"
  obtain ts pac where ts: "GetTime st = Inr ts" and g: "GetAccount st ?adr = Inr (PersonalAccount pac)"
    and n: "acc_suspended pac = None" and a0: "a0 = PersonalAccount (pac\<lparr>acc_suspended := Some ts, acc_updated := Some ts\<rparr>)"
    and ws: "ws = [put_account a0]"
    using SuspendAccount_run [OF s] by blast
  have wf: "wf_address (shake_of st) ?adr"
    using c(1) by (intro wf_NewAddress runningD(1) [OF assms(1)]) (auto simp: ValidateTokenCode_run)
  note A = GetAccount_ok [OF g runningD(2) [OF assms(1)] wf]
  have fault: "put_fault st (AccountKey (acc_id pac)) = None" "get_fault st (AccountKey (acc_id pac)) = None"
    using s ts g n A(1) by (auto simp: SuspendAccount_def run Account_GetID_def GetAccount_def)
  have g': "GetAccount st' ?adr = Inr a0"
    using g A(1,2) fault by (auto simp: assms(3) ws a0 GetAccount_def GetAccountState_def GetState_def put_account_def Account_GetID_def
        run require_def split: option.splits if_splits)
  have restored: "(pac\<lparr>acc_suspended := Some ts, acc_updated := Some ts\<rparr>)\<lparr>acc_suspended := None, acc_updated := Some ts\<rparr> = pac\<lparr>acc_updated := Some ts\<rparr>"
    using n by simp
  have eqs: "shake_of st' = shake_of st" "GetTime st' = Inr ts" "kid_GetID st' b = kid_GetID st b" "put_fault st' = put_fault st"
    "world st' = (world st)(AccountKey (acc_id pac) \<mapsto> DAccount a0)" for b
    using ts by (simp_all add: assms(3) GetTime_def kid_GetID_def ws a0 put_account_def Account_GetID_def)
  let ?a = "PersonalAccount (pac\<lparr>acc_updated := Some ts\<rparr>)"
  have "SuspendAccount st' code kid = Inl (Plain ''already suspended'')"
    using g' by (simp add: SuspendAccount_def eqs a0)
  then have "\<exists>e. accountSuspend st' params = Inl e"
    using len c by (simp add: accountSuspend_def eqs)
  moreover have "UnsuspendAccount st' code kid = Inr (?a, [Put (AccountKey (acc_id pac)) (DAccount ?a)])"
    using g' fault restored by (simp add: UnsuspendAccount_def eqs a0 PutAccount_def PutState_def Account_GetID_def Let_def)
  then have "accountUnsuspend st' params = Inr (AccountOnly ?a, [Put (AccountKey (acc_id pac)) (DAccount ?a)])"
    using len c by (simp add: accountUnsuspend_def eqs Success_def)
  moreover have "commit [Put (AccountKey (acc_id pac)) (DAccount ?a)] (world st') = (world st)(AccountKey (acc_id pac) \<mapsto> DAccount ?a)"
    by (simp add: eqs)
  moreover have "world st (AccountKey (acc_id pac)) = Some (DAccount (PersonalAccount pac))"
    using A(2) by (simp add: Account_GetID_def)
  ultimately show ?thesis
    using n ts by blast
qed

lemma demo_suspend: "\<exists>p ws. accountSuspend (demo kidA) [''TKN''] = Inr (p, ws)"
  by (simp add: accountSuspend_def SuspendAccount_def put_defs Success_def demo account_of_def Let_def)

theorem suspend_roundtrip_witness:
  "\<exists>p ws p' ws'. accountSuspend (demo kidA) [''TKN''] = Inr (p, ws) \<and>
     accountUnsuspend (demo kidA\<lparr>world := commit ws demo_ledger\<rparr>) [''TKN''] = Inr (p', ws')"
proof -
  obtain p ws where r: "accountSuspend (demo kidA) [''TKN''] = Inr (p, ws)"
    using demo_suspend by blast
  then show ?thesis
    using suspend_roundtrip [OF demo_running r refl] by (auto simp: demo)
qed

end
