(* ===== verification/JsonFuel.thy ===== *)
theory JsonFuel
  imports Json
begin

text \<open>
  The fuel of \<open>json_parse\<close>. More fuel changes no answer, and the fuel that a text needs is bounded by its length:
  what \<open>json_parse\<close> does not read is read with no amount of fuel, so the model refuses a text only where the
  grammar does.
\<close>

section \<open>More fuel\<close>

definition more :: "'a option \<Rightarrow> 'a option \<Rightarrow> bool" where
  "more a b \<longleftrightarrow> a = None \<or> a = b"

lemma more_rules:
  "more a a"
  "more m m' \<Longrightarrow> more (map_option f m) (map_option f m')"
  "more a a' \<Longrightarrow> more b b' \<Longrightarrow> more (if c then a else b) (if c then a' else b')"
  "(\<And>x xs. l = x # xs \<Longrightarrow> more (g x xs) (g' x xs)) \<Longrightarrow>
     more (case l of [] \<Rightarrow> None | x # xs \<Rightarrow> g x xs) (case l of [] \<Rightarrow> None | x # xs \<Rightarrow> g' x xs)"
  "more m m' \<Longrightarrow> (\<And>x. m = Some x \<Longrightarrow> more (k x) (k' x)) \<Longrightarrow>
     more (case m of None \<Rightarrow> None | Some x \<Rightarrow> k x) (case m' of None \<Rightarrow> None | Some x \<Rightarrow> k' x)"
  "(\<And>x y. p = (x, y) \<Longrightarrow> more (h x y) (h' x y)) \<Longrightarrow> more (case p of (x, y) \<Rightarrow> h x y) (case p of (x, y) \<Rightarrow> h' x y)"
  by (auto simp: more_def split: list.splits option.splits prod.splits)

lemma more_antisym: "more a b \<Longrightarrow> more b a \<Longrightarrow> a = b"
  by (auto simp: more_def)

lemma parse_more:
  "more (parse_value n s) (parse_value (Suc n) s) \<and> more (parse_elems n s) (parse_elems (Suc n) s) \<and>
   more (parse_fields n s) (parse_fields (Suc n) s)"
proof (induction n arbitrary: s)
  case 0
  show ?case
    by (simp add: more_def parse_value.simps parse_elems.simps parse_fields.simps)
next
  case (Suc n)
  have v: "more (parse_value n t) (parse_value (Suc n) t)" and e: "more (parse_elems n t) (parse_elems (Suc n) t)"
    and f: "more (parse_fields n t) (parse_fields (Suc n) t)" for t
    using Suc by blast+
  have "more (parse_value (Suc n) s) (parse_value (Suc (Suc n)) s)"
    unfolding parse_value.simps(2) [of n s] parse_value.simps(2) [of "Suc n" s] by (intro more_rules e f)
  moreover have "more (parse_elems (Suc n) s) (parse_elems (Suc (Suc n)) s)"
    unfolding parse_elems.simps(2) [of n s] parse_elems.simps(2) [of "Suc n" s] by (intro more_rules v e)
  moreover have "more (parse_fields (Suc n) s) (parse_fields (Suc (Suc n)) s)"
    unfolding parse_fields.simps(2) [of n s] parse_fields.simps(2) [of "Suc n" s] by (intro more_rules v f)
  ultimately show ?case
    by blast
qed

lemma parse_up:
  assumes "n \<le> m"
  shows "more (parse_value n s) (parse_value m s) \<and> more (parse_elems n s) (parse_elems m s) \<and>
    more (parse_fields n s) (parse_fields m s)"
  using assms
proof (induction m rule: dec_induct)
  case (step m)
  then show ?case
    using parse_more [of m s] by (auto simp: more_def)
qed (simp add: more_def)

section \<open>What is left of a text\<close>

lemma parse_str_shorter: "parse_str s = Some (t, r) \<Longrightarrow> length r < length s"
proof (induction s arbitrary: t rule: parse_str.induct)
  case (2 c s)
  show ?case
    using "2.prems" "2.IH"
    by (subst (asm) parse_str.simps) (fastforce split: if_splits list.splits option.splits)
qed (simp add: parse_str.simps)

lemma skip_ws_Cons: "skip_ws s = c # r \<Longrightarrow> length r < length s"
  using length_dropWhile_le [of is_space s] by (simp add: skip_ws_def)

lemma number_shorter: "number_chars s = (num, rest) \<Longrightarrow> valid_number num \<Longrightarrow> length rest < length s"
proof -
  assume n: "number_chars s = (num, rest)" "valid_number num"
  then have "num \<noteq> []"
    by (auto simp: valid_number_def)
  moreover have "s = num @ rest"
    using n(1) by (auto simp: number_chars_def Let_def)
  ultimately show "length rest < length s"
    by simp
qed

lemma parse_shorter:
  "(\<forall>j r. parse_value n s = Some (j, r) \<longrightarrow> length r < length s) \<and>
   (\<forall>js r. parse_elems n s = Some (js, r) \<longrightarrow> length r < length s) \<and>
   (\<forall>kvs r. parse_fields n s = Some (kvs, r) \<longrightarrow> length r < length s)"
proof (induction n arbitrary: s)
  case 0
  show ?case
    by (simp add: parse_value.simps parse_elems.simps parse_fields.simps)
next
  case (Suc n)
  have v: "parse_value n t = Some (j, r) \<Longrightarrow> length r < length t" and e: "parse_elems n t = Some (js, r) \<Longrightarrow> length r < length t"
    and f: "parse_fields n t = Some (kvs, r) \<Longrightarrow> length r < length t" for t j js kvs r
    using Suc by blast+
  have "length r < length s" if p: "parse_value (Suc n) s = Some (j, r)" for j r
  proof -
    obtain c t where s: "skip_ws s = c # t"
      using p by (cases "skip_ws s") (simp_all add: parse_value.simps)
    have "length r \<le> length t"
      using p s
      by (fastforce simp: parse_value.simps dest: e f parse_str_shorter skip_ws_Cons number_shorter
          split: list.splits if_splits prod.splits)
    then show ?thesis
      using skip_ws_Cons [OF s] by simp
  qed
  moreover have "length r < length s" if "parse_elems (Suc n) s = Some (js, r)" for js r
    using that
    by (fastforce simp: parse_elems.simps dest: v e skip_ws_Cons split: option.splits list.splits if_splits)
  moreover have "length r < length s" if "parse_fields (Suc n) s = Some (kvs, r)" for kvs r
    using that
    by (fastforce simp: parse_fields.simps dest: v f parse_str_shorter skip_ws_Cons
        split: option.splits list.splits if_splits)
  ultimately show ?case
    by blast
qed

lemma element_shorter:
  "parse_value n s = Some (j, r) \<Longrightarrow> skip_ws r = d # t \<Longrightarrow> length t < length s"
  using parse_shorter [of n s] skip_ws_Cons [of r d t] by (meson less_trans)

lemma field_shorter:
  assumes "skip_ws s = q # r" "parse_str r = Some (k, u)" "skip_ws u = d # t"
  shows "length t < length s" "parse_value n t = Some (j, v) \<Longrightarrow> skip_ws v = e # w \<Longrightarrow> length w < length s"
proof -
  show t: "length t < length s"
    using skip_ws_Cons [OF assms(1)] parse_str_shorter [OF assms(2)] skip_ws_Cons [OF assms(3)] by simp
  show "parse_value n t = Some (j, v) \<Longrightarrow> skip_ws v = e # w \<Longrightarrow> length w < length s"
    using element_shorter [of n t j v e w] t by simp
qed

section \<open>Enough fuel\<close>

lemma parse_enough:
  "more (parse_value n s) (parse_value (2 * length s) s) \<and> more (parse_elems n s) (parse_elems (2 * length s + 1) s) \<and>
   more (parse_fields n s) (parse_fields (2 * length s + 1) s)"
proof (induction n arbitrary: s)
  case 0
  show ?case
    by (simp add: more_def parse_value.simps parse_elems.simps parse_fields.simps)
next
  case (Suc n)
  have v: "more (parse_value n t) (parse_value m t)" if "2 * length t \<le> m" for t m
    using Suc [of t] parse_up [OF that, of t] by (auto simp: more_def)
  have e: "more (parse_elems n t) (parse_elems m t)" "more (parse_fields n t) (parse_fields m t)" if "2 * length t + 1 \<le> m" for t m
    using Suc [of t] parse_up [OF that, of t] by (auto simp: more_def)
  have "more (parse_value (Suc n) s) (parse_value (2 * length s) s)"
  proof (cases s)
    case Nil
    then show ?thesis
      by (simp add: more_def parse_value.simps skip_ws_def)
  next
    case (Cons x xs)
    then obtain m where m: "2 * length s = Suc m" "m = 2 * length s - 1"
      by simp
    show ?thesis
      unfolding m(1) parse_value.simps(2) [of _ s]
      by (intro more_rules e) (use m in \<open>auto dest!: skip_ws_Cons\<close>)
  qed
  moreover have "more (parse_elems (Suc n) s) (parse_elems (2 * length s + 1) s)"
    unfolding Suc_eq_plus1 [symmetric] parse_elems.simps(2) [of _ s]
    by (intro more_rules v e) (auto dest: element_shorter)
  moreover have "more (parse_fields (Suc n) s) (parse_fields (2 * length s + 1) s)"
    unfolding Suc_eq_plus1 [symmetric] parse_fields.simps(2) [of _ s]
    by (intro more_rules v e) (auto dest: field_shorter)
  ultimately show ?case
    by blast
qed

theorem json_parse_fuel:
  assumes "2 * length s \<le> n"
  shows "json_parse s = (case parse_value n s of None \<Rightarrow> None | Some (j, r) \<Rightarrow> if skip_ws r = [] then Some j else None)"
proof -
  have eq: "parse_value m s = parse_value (2 * length s) s" if "2 * length s \<le> m" for m
    using more_antisym parse_enough [of m s] parse_up [OF that, of s] by blast
  show ?thesis
    unfolding json_parse_def eq [OF assms] by (subst eq) simp_all
qed

end
