(* ===== verification/Texts.thy ===== *)
theory Texts
  imports Accounts JsonFuel
begin

text \<open>
  Properties of the texts the chaincode writes and reads back: addresses (\<open>Address\<close>), contract documents
  (\<open>Json\<close>) and the identifiers of pays and fees, which carry the time from which the next prune starts.
\<close>

section \<open>Addresses\<close>

text \<open>C36: an address parses exactly when its upper case is the canonical text of a well-formed address, that is
  with a valid token code, a known type and a hash of 24 bytes that ends with the checksum.\<close>

theorem ParseAddress_exact:
  "ParseAddress sh s = Inr a \<longleftrightarrow>
     Address_String a = ToUpper s \<and> matches_code (adr_code a) \<and> adr_type a \<in> {AccountTypePersonal, AccountTypeJoint} \<and>
     length (adr_hash a) = 24 \<and> has_suffix (adr_hash a) (Checksum sh a (take 20 (adr_hash a)))"
proof -
  have "ParseAddress sh s = ParseAddress sh (ToUpper s)"
    by (simp add: ParseAddress_def Let_def)
  moreover have "wf_address sh a \<Longrightarrow> ParseAddress sh (Address_String a) = Inr a"
    by (rule ParseAddress_String)
  ultimately show ?thesis
    using ParseAddress_run [of sh s a] by (auto simp: wf_address_def)
qed

text \<open>C37: a new address. Its text has the code in front of 50 characters and parses back to the address and to the
  code; for the 20 bytes of a kiesnet ID in lower-case hexadecimal the address gives the ID back.\<close>

theorem NewAddress_roundtrip:
  assumes "shake_ok sh" and "matches_code code" and "type \<in> {AccountTypePersonal, AccountTypeJoint}" and "length bs = 20"
  shows "let a = NewAddress sh code type (hex_encode hex_lower bs); s = Address_String a
    in ParseAddress sh s = Inr a \<and> ParseCode s = Inr code \<and> length s = length code + 50 \<and> take (length code) s = code \<and>
      Address_ID a = hex_encode hex_lower bs"
proof -
  let ?a = "NewAddress sh code type (hex_encode hex_lower bs)"
  have wf: "wf_address sh ?a"
    using assms by (simp add: wf_NewAddress)
  then have "length (Address_String ?a) = length code + 50"
    by (simp add: length_Address_String wf_address_def)
  moreover have "Address_ID ?a = hex_encode hex_lower bs"
    using assms by (intro Address_ID_NewAddress) simp_all
  ultimately show ?thesis
    using ParseAddress_String [OF wf] ParseCode_String [OF wf] by (simp add: Let_def) (simp add: Address_String_def)
qed

theorem NewAddress_roundtrip_witness:
  "ParseAddress demo_shake idA = Inr adrA \<and> ParseCode idA = Inr ''TKN'' \<and> length idA = 53"
  using NewAddress_roundtrip [OF shake_ok_demo TKN(1), of AccountTypePersonal "replicate 20 170"]
  by (simp add: Let_def demo flip: kidA_def)

section \<open>Contract documents\<close>

text \<open>C38: what a handler sends to the contract chaincode is what the callback reads: a document of strings parses
  back to a list of the same length, and every position is the string that was put there with its invalid UTF-8
  replaced by U+FFFD. So a string is read back as it is exactly when it is valid UTF-8, as every ASCII text is; a memo
  that was cut inside a character is not.\<close>

theorem contract_doc_roundtrip:
  "\<exists>doc. parse_doc (doc_bytes ss) = Some doc \<and> length doc = length ss \<and>
     (\<forall>i<length ss. str_at doc i = Inr (to_valid (ss ! i)) \<and> (str_at doc i = Inr (ss ! i) \<longleftrightarrow> valid_utf8 (ss ! i)))"
proof -
  have "parse_doc (doc_bytes ss) = Some (map (\<lambda>s. JStr (to_valid s)) ss)"
    by (simp add: parse_doc_def doc_bytes_def json_parse_strings del: json_print.simps)
  then show ?thesis
    by (auto simp: run to_valid_iff)
qed

theorem contract_doc_roundtrip_witness:
  "\<exists>doc. parse_doc (doc_bytes [''pay'', ''tx'', idA, [CHR 0xC3]]) = Some doc \<and> str_at doc 0 = Inr ''pay'' \<and>
     str_at doc 2 = Inr idA \<and> str_at doc 3 = Inr [CHR 0xEF, CHR 0xBF, CHR 0xBD]"
proof -
  let ?ss = "[''pay'', ''tx'', idA, [CHR 0xC3]]"
  obtain doc where d: "parse_doc (doc_bytes ?ss) = Some doc" "length doc = 4"
    and i: "\<forall>i<4. str_at doc i = Inr (to_valid (?ss ! i))"
    using contract_doc_roundtrip [of ?ss] by auto
  have "to_valid [CHR 0xC3] = [CHR 0xEF, CHR 0xBF, CHR 0xBD]"
    by (simp add: to_valid_def runes.simps(2) rune_size_def rune_tail_def rune_bytes_def replacement ord_def)
  then show ?thesis
    using d i [rule_format, of 0] i [rule_format, of 2] i [rule_format, of 3] by (intro exI [of _ doc]) (simp add: ascii_id)
qed

section \<open>Identifiers of pays and fees\<close>

lemma dec_nat_split:
  assumes "10 ^ 18 \<le> n" "n < 10 ^ 19"
  shows "length (dec_nat n) = 19" "dec_val (take 10 (dec_nat n)) = n div 10 ^ 9"
    "dec_val (drop 10 (dec_nat n)) = n mod 10 ^ 9"
proof -
  show len: "length (dec_nat n) = 19"
    using dec_nat_length [of 18 n] assms by simp
  let ?a = "take 10 (dec_nat n)" and ?b = "drop 10 (dec_nat n)"
  have "dec_val (?a @ ?b) = n"
    by (simp only: append_take_drop_id dec_val_dec_nat)
  then have n: "dec_val ?a * 10 ^ 9 + dec_val ?b = n"
    using len by (simp add: dec_val_append del: append_take_drop_id)
  have "list_all is_digit ?b"
    using dec_nat_digits [of n] by (auto simp: list_all_iff dest: in_set_dropD)
  then have "dec_val ?b < 10 ^ 9"
    using dec_val_bound [of ?b] len by simp
  then show "dec_val ?a = n div 10 ^ 9" "dec_val ?b = n mod 10 ^ 9"
    using n by (metis add.commute div_mult_self3 div_less add.right_neutral mult.commute not_less_zero zero_less_iff_neq_zero,
      metis mod_less mod_mult_self3)
qed

lemma ParseInt64_digits:
  assumes "list_all is_digit s" "s \<noteq> []" "dec_val s < 2 ^ 63"
  shows "ParseInt64 s = Some (int (dec_val s))"
proof -
  have "parse_int s = Some (int (dec_val s))"
    using assms(1,2) by (cases s) (auto simp: parse_digits_def)
  then show ?thesis
    using assms(3) by (simp add: ParseInt64_def ParseInt_def)
qed

text \<open>C39: the identifier of a pay or a fee gives its time back. For the instants of 19 digits (the years 2001 to
  2262) the seconds and nanoseconds that the next prune reads off the identifier are the transaction's time.\<close>

theorem id_time_stamp:
  assumes "10 ^ 18 \<le> ts" and "ts < 2 ^ 63"
  shows "id_time (stamp_id st ts) = Inr ts"
proof -
  let ?n = "nat ts" and ?d = "dec_nat (nat ts)"
  have n: "10 ^ 18 \<le> ?n" "?n < 10 ^ 19" "?n < 2 ^ 63"
    using assms by (simp_all add: le_nat_iff nat_less_iff)
  note S = dec_nat_split [OF n(1,2)]
  have id: "stamp_id st ts = ?d @ txid st"
    using assms by (simp add: stamp_id_def UnixNano_def swrap64_id dec_int_def)
  have digits: "list_all is_digit (take 10 ?d)" "list_all is_digit (drop 10 ?d)" "take 10 ?d \<noteq> []" "drop 10 ?d \<noteq> []"
    using dec_nat_digits [of ?n] S(1) by (auto simp: list_all_iff dest: in_set_takeD in_set_dropD)
  have vals: "dec_val (take 10 ?d) < 2 ^ 62" "dec_val (drop 10 ?d) < 10 ^ 9"
    using S(2,3) n(3) by simp_all
  have "?n mod 10 ^ 9 < 2 ^ 63"
    by (rule less_trans [of _ "10 ^ 9"]) simp_all
  then have "ParseInt64 (take 10 ?d) = Some (int (?n div 10 ^ 9))" "ParseInt64 (drop 10 ?d) = Some (int (?n mod 10 ^ 9))"
    using ParseInt64_digits [OF digits(1,3)] ParseInt64_digits [OF digits(2,4)] vals S(2,3) by simp_all
  moreover have "take 10 (?d @ txid st) = take 10 ?d" "take 9 (drop 10 (?d @ txid st)) = drop 10 ?d"
    using S(1) by simp_all
  moreover have "Unix (int (?n div 10 ^ 9)) (int (?n mod 10 ^ 9)) = ts"
  proof -
    have "?n div 10 ^ 9 < 2 ^ 62"
      using vals(1) S(2) by (simp only:)
    then have "int (?n div 10 ^ 9) < int (2 ^ 62)"
      by (simp only: of_nat_less_iff)
    then have "Unix (int (?n div 10 ^ 9)) (int (?n mod 10 ^ 9)) = int (?n div 10 ^ 9) * nanos + int (?n mod 10 ^ 9)"
      by (intro Unix_small) (simp_all add: nanos_def)
    also have "\<dots> = int ?n"
      using div_mult_mod_eq [of ?n "10 ^ 9"] by (simp add: nanos_def zdiv_int zmod_int)
    finally show ?thesis
      using assms by simp
  qed
  ultimately show ?thesis
    using S(1) by (simp add: id_time_def id del: take_append drop_append)
qed

theorem id_time_stamp_witness: "id_time (stamp_id (demo kidA) t1) = Inr t1"
  using id_time_stamp [of t1 "demo kidA"] by (simp add: t1_def nanos_def)

end
