(* ===== verification/Wire.thy ===== *)
theory Wire
  imports BalanceStub
begin

text \<open>
  The JSON of the ledger documents: the tags of the structs in \<open>account.go\<close>, \<open>balance.go\<close>, \<open>fee.go\<close>, \<open>pay.go\<close>,
  \<open>token.go\<close> and \<open>last_pruned_fee_id.go\<close>, and the encoders and decoders of amounts, times and sets. \<open>doc_members\<close> lists
  the members of a document as \<open>json.Marshal\<close> prints them, \<open>read_members\<close> is \<open>json.Unmarshal\<close> into the struct of
  a shape. The stubs keep a document as the struct it was marshalled from; \<open>marshal_read_back\<close> says what is read
  back: nothing when a time is not readable, and else \<open>clean_doc\<close> of the document, the same document with
  the invalid UTF-8 of its texts replaced. Nothing the chaincode decides depends on that replacement, which
  only texts that clients choose freely (memos, order ids) can need.

  \<open>json.Unmarshal\<close> assigns the members in their order, so the last one of a name wins; a name is matched in any
  case; a member that is missing or null leaves the zero value, or nil for a pointer. The decoders are followed on
  the texts that the encoders write: a member's text is its printed form, an amount has no base prefix, a
  log type is one of the ten.
\<close>

section \<open>Encoding\<close>

definition Time_MarshalJSON :: "time \<Rightarrow> string" where
  "Time_MarshalJSON t = [quote] @ time_String t @ [quote]"

definition Set_MarshalJSON :: "stringset \<Rightarrow> json" where
  "Set_MarshalJSON s = JArr (map JStr (Set_Strings s))"

definition json_int :: "int \<Rightarrow> json" where
  "json_int n = JNum (dec_int n)"

definition json_amount :: "amount \<Rightarrow> json" where
  "json_amount a = JStr (Amount_String a)"

text \<open>The members that are left out when empty.\<close>

definition time_member :: "string \<Rightarrow> time option \<Rightarrow> (string \<times> json) list" where
  "time_member k t = (case t of None \<Rightarrow> [] | Some u \<Rightarrow> [(k, JStr (time_String u))])"

definition text_member :: "string \<Rightarrow> string \<Rightarrow> (string \<times> json) list" where
  "text_member k s = (if s = [] then [] else [(k, JStr s)])"

definition amount_member :: "string \<Rightarrow> amount option \<Rightarrow> (string \<times> json) list" where
  "amount_member k a = (case a of None \<Rightarrow> [] | Some n \<Rightarrow> [(k, json_amount n)])"

fun log_type_code :: "balance_log_type \<Rightarrow> int" where
  "log_type_code BalanceLogTypeMint = 0"
| "log_type_code BalanceLogTypeBurn = 1"
| "log_type_code BalanceLogTypeSend = 2"
| "log_type_code BalanceLogTypeReceive = 3"
| "log_type_code BalanceLogTypeDeposit = 4"
| "log_type_code BalanceLogTypeWithdraw = 5"
| "log_type_code BalanceLogTypePay = 6"
| "log_type_code BalanceLogTypeRefund = 7"
| "log_type_code BalanceLogTypePrunePay = 8"
| "log_type_code BalanceLogTypePruneFee = 9"

fun pending_type_code :: "pending_type \<Rightarrow> int" where
  "pending_type_code PendingBalanceTypeAccount = 0"
| "pending_type_code PendingBalanceTypeContract = 1"

definition account_members :: "account \<Rightarrow> (string \<times> json) list" where
  "account_members a =
     [(''@account'', JStr (acc_id a)), (''token'', JStr (acc_token a)), (''type'', json_int (uint (acc_type a)))] @
     time_member ''created_time'' (acc_created a) @ time_member ''updated_time'' (acc_updated a) @
     time_member ''suspended_time'' (acc_suspended a)"

fun account_doc_members :: "account_doc \<Rightarrow> (string \<times> json) list" where
  "account_doc_members (PersonalAccount a) = account_members a"
| "account_doc_members (JointAccount a hs) = account_members a @ [(''holders'', Set_MarshalJSON hs)]"

definition holder_members :: "holder \<Rightarrow> (string \<times> json) list" where
  "holder_members h =
     [(''@holder'', JStr (hld_id h)), (''address'', JStr (hld_address h)), (''token'', JStr (hld_token h)),
      (''type'', json_int (uint (hld_type h)))] @ time_member ''created_time'' (hld_created h)"

definition balance_members :: "balance \<Rightarrow> (string \<times> json) list" where
  "balance_members b =
     [(''@balance'', JStr (bal_id b)), (''amount'', json_amount (bal_amount b))] @
     time_member ''created_time'' (bal_created b) @ time_member ''updated_time'' (bal_updated b) @
     text_member ''last_pruned_pay_id'' (bal_last_pruned b)"

definition log_members :: "balance_log \<Rightarrow> (string \<times> json) list" where
  "log_members l =
     [(''@balance_log'', JStr (blog_id l)), (''type'', json_int (log_type_code (blog_type l))), (''rid'', JStr (blog_rid l)),
      (''diff'', json_amount (blog_diff l))] @ amount_member ''fee'' (blog_fee l) @
     [(''amount'', json_amount (blog_amount l)), (''memo'', JStr (blog_memo l))] @
     time_member ''created_time'' (blog_created l) @ text_member ''prune_start_id'' (blog_prune_start l) @
     text_member ''prune_end_id'' (blog_prune_end l) @ text_member ''pay_id'' (blog_pay_id l)"

definition pending_members :: "pending_balance \<Rightarrow> (string \<times> json) list" where
  "pending_members p =
     [(''@pending_balance'', JStr (pb_id p)), (''type'', json_int (pending_type_code (pb_type p))),
      (''account'', JStr (pb_account p)), (''rid'', JStr (pb_rid p)), (''amount'', json_amount (pb_amount p))] @
     amount_member ''fee'' (pb_fee p) @ [(''memo'', JStr (pb_memo p))] @
     time_member ''created_time'' (pb_created p) @ time_member ''pending_time'' (pb_pending p)"

text \<open>The members of a map are printed in the order of their keys; a policy only has these two.\<close>

definition rate_members :: "(string \<rightharpoonup> fee_rate) \<Rightarrow> (string \<times> json) list" where
  "rate_members rates =
     concat (map (\<lambda>fn. case rates fn of None \<Rightarrow> []
       | Some r \<Rightarrow> [(fn, JObj [(''rate'', JStr (fr_rate r)), (''max_amount'', json_int (fr_max r))])]) [''pay'', ''transfer''])"

definition policy_json :: "fee_policy \<Rightarrow> json" where
  "policy_json p = JObj [(''target_address'', JStr (fp_target p)), (''rates'', JObj (rate_members (fp_rates p)))]"

definition token_members :: "token \<Rightarrow> (string \<times> json) list" where
  "token_members t =
     [(''@token'', JStr (tok_code t)), (''decimal'', json_int (tok_decimal t)),
      (''max_supply'', json_amount (tok_max_supply t)), (''supply'', json_amount (tok_supply t))] @
     text_member ''last_pruned_fee_id'' (tok_last_pruned_fee t) @ [(''genesis_account'', JStr (tok_genesis t))] @
     (case tok_policy t of None \<Rightarrow> [] | Some p \<Rightarrow> [(''fee_policy'', policy_json p)]) @
     time_member ''created_time'' (tok_created t) @ time_member ''updated_time'' (tok_updated t)"

definition fee_members :: "fee \<Rightarrow> (string \<times> json) list" where
  "fee_members f =
     [(''@fee'', JStr (fee_code f)), (''fee_id'', JStr (fee_id f)), (''account'', JStr (fee_account f)),
      (''amount'', json_amount (fee_amount f)),
      (''created_time'', case fee_created f of None \<Rightarrow> JNull | Some u \<Rightarrow> JStr (time_String u))]"

definition pay_members :: "pay \<Rightarrow> (string \<times> json) list" where
  "pay_members q =
     [(''@pay'', JStr (pay_account q)), (''pay_id'', JStr (pay_id q)), (''amount'', json_amount (pay_amount q)),
      (''fee'', json_amount (pay_fee q)), (''total_refund'', json_amount (pay_total_refund q)), (''rid'', JStr (pay_rid q))] @
     text_member ''parent_id'' (pay_parent q) @ text_member ''order_id'' (pay_order q) @ [(''memo'', JStr (pay_memo q))] @
     time_member ''created_time'' (pay_created q)"

definition last_pruned_members :: "last_pruned_fee_id \<Rightarrow> (string \<times> json) list" where
  "last_pruned_members l =
     [(''@last_pruned_fee_id'', JStr (lpf_code l)), (''fee_id'', JStr (lpf_fee_id l))] @
     time_member ''updated_time'' (lpf_updated l)"

fun doc_members :: "doc \<Rightarrow> (string \<times> json) list" where
  "doc_members (DAccount a) = account_doc_members a"
| "doc_members (DHolder h) = holder_members h"
| "doc_members (DBalance b) = balance_members b"
| "doc_members (DBalanceLog l) = log_members l"
| "doc_members (DPending p) = pending_members p"
| "doc_members (DToken t) = token_members t"
| "doc_members (DFee f) = fee_members f"
| "doc_members (DPay q) = pay_members q"
| "doc_members (DLastPruned l) = last_pruned_members l"

definition marshal :: "doc \<Rightarrow> json" where
  "marshal d = JObj (doc_members d)"

section \<open>Decoding\<close>

definition or_else :: "'a option \<Rightarrow> 'a option \<Rightarrow> 'a option" where
  "or_else v w = (case v of None \<Rightarrow> w | Some x \<Rightarrow> Some x)"

fun field_of :: "(string \<times> json) list \<Rightarrow> string \<Rightarrow> json option" where
  "field_of [] k = None"
| "field_of ((n, j) # m) k = or_else (field_of m k) (if ToLower n = k then Some j else None)"

definition bad_json :: err where
  "bad_json = Plain ''cannot unmarshal''"

text \<open>The slice of the quotes panics on a text of one character.\<close>

definition Amount_UnmarshalJSON :: "string \<Rightarrow> err + amount" where
  "Amount_UnmarshalJSON text =
     (if length text < 2 then Inl GoPanic
      else let inner = take (length text - 2) (drop 1 text) in
        if inner = ''null'' then Inr 0 else require (parse_int inner) bad_json Inr)"

definition trim_quotes :: "string \<Rightarrow> string" where
  "trim_quotes s = rev (dropWhile (\<lambda>c. c = quote) (rev (dropWhile (\<lambda>c. c = quote) s)))"

definition Time_UnmarshalJSON :: "time \<Rightarrow> string \<Rightarrow> err + time" where
  "Time_UnmarshalJSON t data =
     (if data = ''null'' then Inr t else require (time_Parse (trim_quotes data)) bad_json Inr)"

definition Set_UnmarshalJSON :: "stringset \<Rightarrow> json \<Rightarrow> err + stringset" where
  "Set_UnmarshalJSON s j =
     (case j of
        JNull \<Rightarrow> Inr s
      | JArr js \<Rightarrow>
          (if list_all (\<lambda>x. case x of JStr _ \<Rightarrow> True | JNull \<Rightarrow> True | _ \<Rightarrow> False) js
           then Inr (Set_AppendSlice s (map (\<lambda>x. case x of JStr t \<Rightarrow> t | _ \<Rightarrow> []) js)) else Inl bad_json)
      | _ \<Rightarrow> Inl bad_json)"

text \<open>What a field of each Go type becomes, from the member of its name if there is one.\<close>

definition str_field :: "json option \<Rightarrow> err + string" where
  "str_field v =
     (case v of None \<Rightarrow> Inr [] | Some JNull \<Rightarrow> Inr [] | Some (JStr s) \<Rightarrow> Inr s | Some _ \<Rightarrow> Inl bad_json)"

definition amount_field :: "json option \<Rightarrow> err + amount" where
  "amount_field v = (case v of None \<Rightarrow> Inr 0 | Some j \<Rightarrow> Amount_UnmarshalJSON (json_print j))"

definition amount_pointer :: "json option \<Rightarrow> err + amount option" where
  "amount_pointer v =
     (case v of
        None \<Rightarrow> Inr None
      | Some JNull \<Rightarrow> Inr None
      | Some j \<Rightarrow> attempt (Amount_UnmarshalJSON (json_print j)) (\<lambda>e. e) (\<lambda>n. Inr (Some n)))"

definition time_pointer :: "json option \<Rightarrow> err + time option" where
  "time_pointer v =
     (case v of
        None \<Rightarrow> Inr None
      | Some JNull \<Rightarrow> Inr None
      | Some j \<Rightarrow> attempt (Time_UnmarshalJSON 0 (json_print j)) (\<lambda>e. e) (\<lambda>t. Inr (Some t)))"

definition int_field :: "json option \<Rightarrow> err + int" where
  "int_field v =
     (case v of
        None \<Rightarrow> Inr 0
      | Some JNull \<Rightarrow> Inr 0
      | Some (JNum s) \<Rightarrow> (case ParseInt s 64 of (n, ok) \<Rightarrow> if ok then Inr n else Inl bad_json)
      | Some _ \<Rightarrow> Inl bad_json)"

definition byte_field :: "json option \<Rightarrow> err + byte" where
  "byte_field v =
     attempt (int_field v) (\<lambda>e. e) (\<lambda>n. if 0 \<le> n \<and> n < 256 then Inr (word_of_int n) else Inl bad_json)"

definition log_types :: "balance_log_type list" where
  "log_types =
     [BalanceLogTypeMint, BalanceLogTypeBurn, BalanceLogTypeSend, BalanceLogTypeReceive, BalanceLogTypeDeposit,
      BalanceLogTypeWithdraw, BalanceLogTypePay, BalanceLogTypeRefund, BalanceLogTypePrunePay, BalanceLogTypePruneFee]"

definition log_type_field :: "json option \<Rightarrow> err + balance_log_type" where
  "log_type_field v =
     (attempt (int_field v) (\<lambda>e. e) (\<lambda>n. require (find (\<lambda>t. log_type_code t = n) log_types) bad_json Inr))"

definition pending_type_field :: "json option \<Rightarrow> err + pending_type" where
  "pending_type_field v =
     (attempt (int_field v) (\<lambda>e. e) (\<lambda>n.
      require (find (\<lambda>t. pending_type_code t = n) [PendingBalanceTypeAccount, PendingBalanceTypeContract]) bad_json Inr))"

definition members_of :: "json \<Rightarrow> err + (string \<times> json) list" where
  "members_of j = (case j of JObj m \<Rightarrow> Inr m | JNull \<Rightarrow> Inr [] | _ \<Rightarrow> Inl bad_json)"

section \<open>Structs\<close>

definition read_account :: "(string \<times> json) list \<Rightarrow> err + account" where
  "read_account m =
     attempt (str_field (field_of m ''@account'')) (\<lambda>e. e) (\<lambda>i.
      attempt (str_field (field_of m ''token'')) (\<lambda>e. e) (\<lambda>token.
      attempt (byte_field (field_of m ''type'')) (\<lambda>e. e) (\<lambda>ty.
      attempt (time_pointer (field_of m ''created_time'')) (\<lambda>e. e) (\<lambda>c.
      attempt (time_pointer (field_of m ''updated_time'')) (\<lambda>e. e) (\<lambda>u.
      attempt (time_pointer (field_of m ''suspended_time'')) (\<lambda>e. e) (\<lambda>s.
      Inr \<lparr>acc_id = i, acc_token = token, acc_type = ty, acc_created = c, acc_updated = u, acc_suspended = s\<rparr>))))))"

text \<open>A joint account without holders has a nil set, on whose first use the code panics.\<close>

definition read_joint :: "(string \<times> json) list \<Rightarrow> err + account_doc" where
  "read_joint m =
     attempt (read_account m) (\<lambda>e. e) (\<lambda>a.
      case field_of m ''holders'' of
        None \<Rightarrow> Inl GoPanic
      | Some JNull \<Rightarrow> Inl GoPanic
      | Some j \<Rightarrow> attempt (Set_UnmarshalJSON (Set_New []) j) (\<lambda>e. e) (\<lambda>hs. Inr (JointAccount a hs)))"

definition read_holder :: "(string \<times> json) list \<Rightarrow> err + holder" where
  "read_holder m =
     attempt (str_field (field_of m ''@holder'')) (\<lambda>e. e) (\<lambda>i.
      attempt (str_field (field_of m ''address'')) (\<lambda>e. e) (\<lambda>addr.
      attempt (str_field (field_of m ''token'')) (\<lambda>e. e) (\<lambda>token.
      attempt (byte_field (field_of m ''type'')) (\<lambda>e. e) (\<lambda>ty.
      attempt (time_pointer (field_of m ''created_time'')) (\<lambda>e. e) (\<lambda>c.
      Inr \<lparr>hld_id = i, hld_address = addr, hld_token = token, hld_type = ty, hld_created = c\<rparr>)))))"

definition read_balance :: "(string \<times> json) list \<Rightarrow> err + balance" where
  "read_balance m =
     attempt (str_field (field_of m ''@balance'')) (\<lambda>e. e) (\<lambda>i.
      attempt (amount_field (field_of m ''amount'')) (\<lambda>e. e) (\<lambda>n.
      attempt (time_pointer (field_of m ''created_time'')) (\<lambda>e. e) (\<lambda>c.
      attempt (time_pointer (field_of m ''updated_time'')) (\<lambda>e. e) (\<lambda>u.
      attempt (str_field (field_of m ''last_pruned_pay_id'')) (\<lambda>e. e) (\<lambda>l.
      Inr \<lparr>bal_id = i, bal_amount = n, bal_created = c, bal_updated = u, bal_last_pruned = l\<rparr>)))))"

definition read_log :: "(string \<times> json) list \<Rightarrow> err + balance_log" where
  "read_log m =
     attempt (str_field (field_of m ''@balance_log'')) (\<lambda>e. e) (\<lambda>i.
      attempt (log_type_field (field_of m ''type'')) (\<lambda>e. e) (\<lambda>ty.
      attempt (str_field (field_of m ''rid'')) (\<lambda>e. e) (\<lambda>rid.
      attempt (amount_field (field_of m ''diff'')) (\<lambda>e. e) (\<lambda>diff.
      attempt (amount_pointer (field_of m ''fee'')) (\<lambda>e. e) (\<lambda>fee.
      attempt (amount_field (field_of m ''amount'')) (\<lambda>e. e) (\<lambda>n.
      attempt (str_field (field_of m ''memo'')) (\<lambda>e. e) (\<lambda>memo.
      attempt (time_pointer (field_of m ''created_time'')) (\<lambda>e. e) (\<lambda>c.
      attempt (str_field (field_of m ''prune_start_id'')) (\<lambda>e. e) (\<lambda>ps.
      attempt (str_field (field_of m ''prune_end_id'')) (\<lambda>e. e) (\<lambda>pe.
      attempt (str_field (field_of m ''pay_id'')) (\<lambda>e. e) (\<lambda>pid.
      Inr \<lparr>blog_id = i, blog_type = ty, blog_rid = rid, blog_diff = diff, blog_fee = fee, blog_amount = n, blog_memo = memo,
           blog_created = c, blog_prune_start = ps, blog_prune_end = pe, blog_pay_id = pid\<rparr>)))))))))))"

definition read_pending :: "(string \<times> json) list \<Rightarrow> err + pending_balance" where
  "read_pending m =
     attempt (str_field (field_of m ''@pending_balance'')) (\<lambda>e. e) (\<lambda>i.
      attempt (pending_type_field (field_of m ''type'')) (\<lambda>e. e) (\<lambda>ty.
      attempt (str_field (field_of m ''account'')) (\<lambda>e. e) (\<lambda>acc.
      attempt (str_field (field_of m ''rid'')) (\<lambda>e. e) (\<lambda>rid.
      attempt (amount_field (field_of m ''amount'')) (\<lambda>e. e) (\<lambda>n.
      attempt (amount_pointer (field_of m ''fee'')) (\<lambda>e. e) (\<lambda>fee.
      attempt (str_field (field_of m ''memo'')) (\<lambda>e. e) (\<lambda>memo.
      attempt (time_pointer (field_of m ''created_time'')) (\<lambda>e. e) (\<lambda>c.
      attempt (time_pointer (field_of m ''pending_time'')) (\<lambda>e. e) (\<lambda>pt.
      Inr \<lparr>pb_id = i, pb_type = ty, pb_account = acc, pb_rid = rid, pb_amount = n, pb_fee = fee, pb_memo = memo,
           pb_created = c, pb_pending = pt\<rparr>)))))))))"

definition read_rate :: "json \<Rightarrow> err + fee_rate" where
  "read_rate j =
     attempt (members_of j) (\<lambda>e. e) (\<lambda>m.
      attempt (str_field (field_of m ''rate'')) (\<lambda>e. e) (\<lambda>r.
      attempt (int_field (field_of m ''max_amount'')) (\<lambda>e. e) (\<lambda>n.
      Inr \<lparr>fr_rate = r, fr_max = n\<rparr>)))"

fun read_rates :: "(string \<times> json) list \<Rightarrow> (string \<rightharpoonup> fee_rate) \<Rightarrow> err + (string \<rightharpoonup> fee_rate)" where
  "read_rates [] rates = Inr rates"
| "read_rates ((k, j) # m) rates = attempt (read_rate j) (\<lambda>e. e) (\<lambda>r. read_rates m (rates(k \<mapsto> r)))"

definition read_policy :: "json \<Rightarrow> err + fee_policy" where
  "read_policy j =
     attempt (members_of j) (\<lambda>e. e) (\<lambda>m.
      attempt (str_field (field_of m ''target_address'')) (\<lambda>e. e) (\<lambda>target.
      attempt (case field_of m ''rates'' of None \<Rightarrow> Inr [] | Some i \<Rightarrow> members_of i) (\<lambda>e. e) (\<lambda>kvs.
      attempt (read_rates kvs Map.empty) (\<lambda>e. e) (\<lambda>rates.
      Inr \<lparr>fp_target = target, fp_rates = rates\<rparr>))))"

definition policy_pointer :: "json option \<Rightarrow> err + fee_policy option" where
  "policy_pointer v =
     (case v of
        None \<Rightarrow> Inr None
      | Some JNull \<Rightarrow> Inr None
      | Some j \<Rightarrow> attempt (read_policy j) (\<lambda>e. e) (\<lambda>p. Inr (Some p)))"

definition read_token :: "(string \<times> json) list \<Rightarrow> err + token" where
  "read_token m =
     attempt (str_field (field_of m ''@token'')) (\<lambda>e. e) (\<lambda>i.
      attempt (int_field (field_of m ''decimal'')) (\<lambda>e. e) (\<lambda>d.
      attempt (amount_field (field_of m ''max_supply'')) (\<lambda>e. e) (\<lambda>mx.
      attempt (amount_field (field_of m ''supply'')) (\<lambda>e. e) (\<lambda>n.
      attempt (str_field (field_of m ''last_pruned_fee_id'')) (\<lambda>e. e) (\<lambda>l.
      attempt (str_field (field_of m ''genesis_account'')) (\<lambda>e. e) (\<lambda>g.
      attempt (policy_pointer (field_of m ''fee_policy'')) (\<lambda>e. e) (\<lambda>p.
      attempt (time_pointer (field_of m ''created_time'')) (\<lambda>e. e) (\<lambda>c.
      attempt (time_pointer (field_of m ''updated_time'')) (\<lambda>e. e) (\<lambda>u.
      Inr \<lparr>tok_code = i, tok_decimal = d, tok_max_supply = mx, tok_supply = n, tok_last_pruned_fee = l, tok_genesis = g,
           tok_policy = p, tok_created = c, tok_updated = u\<rparr>)))))))))"

definition read_fee :: "(string \<times> json) list \<Rightarrow> err + fee" where
  "read_fee m =
     attempt (str_field (field_of m ''@fee'')) (\<lambda>e. e) (\<lambda>code.
      attempt (str_field (field_of m ''fee_id'')) (\<lambda>e. e) (\<lambda>i.
      attempt (str_field (field_of m ''account'')) (\<lambda>e. e) (\<lambda>acc.
      attempt (amount_field (field_of m ''amount'')) (\<lambda>e. e) (\<lambda>n.
      attempt (time_pointer (field_of m ''created_time'')) (\<lambda>e. e) (\<lambda>c.
      Inr \<lparr>fee_code = code, fee_id = i, fee_account = acc, fee_amount = n, fee_created = c\<rparr>)))))"

definition read_pay :: "(string \<times> json) list \<Rightarrow> err + pay" where
  "read_pay m =
     attempt (str_field (field_of m ''@pay'')) (\<lambda>e. e) (\<lambda>acc.
      attempt (str_field (field_of m ''pay_id'')) (\<lambda>e. e) (\<lambda>i.
      attempt (amount_field (field_of m ''amount'')) (\<lambda>e. e) (\<lambda>n.
      attempt (amount_field (field_of m ''fee'')) (\<lambda>e. e) (\<lambda>fee.
      attempt (amount_field (field_of m ''total_refund'')) (\<lambda>e. e) (\<lambda>total.
      attempt (str_field (field_of m ''rid'')) (\<lambda>e. e) (\<lambda>rid.
      attempt (str_field (field_of m ''parent_id'')) (\<lambda>e. e) (\<lambda>parent.
      attempt (str_field (field_of m ''order_id'')) (\<lambda>e. e) (\<lambda>ord.
      attempt (str_field (field_of m ''memo'')) (\<lambda>e. e) (\<lambda>memo.
      attempt (time_pointer (field_of m ''created_time'')) (\<lambda>e. e) (\<lambda>c.
      Inr \<lparr>pay_account = acc, pay_id = i, pay_amount = n, pay_fee = fee, pay_total_refund = total, pay_rid = rid,
           pay_parent = parent, pay_order = ord, pay_memo = memo, pay_created = c\<rparr>))))))))))"

definition read_last_pruned :: "(string \<times> json) list \<Rightarrow> err + last_pruned_fee_id" where
  "read_last_pruned m =
     attempt (str_field (field_of m ''@last_pruned_fee_id'')) (\<lambda>e. e) (\<lambda>code.
      attempt (str_field (field_of m ''fee_id'')) (\<lambda>e. e) (\<lambda>i.
      attempt (time_pointer (field_of m ''updated_time'')) (\<lambda>e. e) (\<lambda>u.
      Inr \<lparr>lpf_code = code, lpf_fee_id = i, lpf_updated = u\<rparr>)))"

text \<open>The struct that a document is unmarshalled into.\<close>

datatype shape = SAccount | SJoint | SHolder | SBalance | SLog | SPending | SToken | SFee | SPay | SLastPruned

fun shape_of :: "doc \<Rightarrow> shape" where
  "shape_of (DAccount (PersonalAccount a)) = SAccount"
| "shape_of (DAccount (JointAccount a hs)) = SJoint"
| "shape_of (DHolder h) = SHolder"
| "shape_of (DBalance b) = SBalance"
| "shape_of (DBalanceLog l) = SLog"
| "shape_of (DPending p) = SPending"
| "shape_of (DToken t) = SToken"
| "shape_of (DFee f) = SFee"
| "shape_of (DPay q) = SPay"
| "shape_of (DLastPruned l) = SLastPruned"

fun read_members :: "shape \<Rightarrow> (string \<times> json) list \<Rightarrow> err + doc" where
  "read_members SAccount m = attempt (read_account m) (\<lambda>e. e) (\<lambda>a. Inr (DAccount (PersonalAccount a)))"
| "read_members SJoint m = attempt (read_joint m) (\<lambda>e. e) (\<lambda>a. Inr (DAccount a))"
| "read_members SHolder m = attempt (read_holder m) (\<lambda>e. e) (\<lambda>h. Inr (DHolder h))"
| "read_members SBalance m = attempt (read_balance m) (\<lambda>e. e) (\<lambda>b. Inr (DBalance b))"
| "read_members SLog m = attempt (read_log m) (\<lambda>e. e) (\<lambda>l. Inr (DBalanceLog l))"
| "read_members SPending m = attempt (read_pending m) (\<lambda>e. e) (\<lambda>p. Inr (DPending p))"
| "read_members SToken m = attempt (read_token m) (\<lambda>e. e) (\<lambda>t. Inr (DToken t))"
| "read_members SFee m = attempt (read_fee m) (\<lambda>e. e) (\<lambda>f. Inr (DFee f))"
| "read_members SPay m = attempt (read_pay m) (\<lambda>e. e) (\<lambda>q. Inr (DPay q))"
| "read_members SLastPruned m = attempt (read_last_pruned m) (\<lambda>e. e) (\<lambda>l. Inr (DLastPruned l))"

definition unmarshal :: "shape \<Rightarrow> string \<Rightarrow> err + doc" where
  "unmarshal sh text =
     require (json_parse text) bad_json (\<lambda>j. attempt (members_of j) (\<lambda>e. e) (read_members sh))"

section \<open>Texts of the values\<close>

lemma ToLower_names [simp]:
  "ToLower ''@account'' = ''@account''" "ToLower ''token'' = ''token''" "ToLower ''type'' = ''type''"
  "ToLower ''created_time'' = ''created_time''" "ToLower ''updated_time'' = ''updated_time''"
  "ToLower ''suspended_time'' = ''suspended_time''" "ToLower ''holders'' = ''holders''" "ToLower ''@holder'' = ''@holder''"
  "ToLower ''address'' = ''address''" "ToLower ''@balance'' = ''@balance''" "ToLower ''amount'' = ''amount''"
  "ToLower ''last_pruned_pay_id'' = ''last_pruned_pay_id''" "ToLower ''@balance_log'' = ''@balance_log''"
  "ToLower ''rid'' = ''rid''" "ToLower ''diff'' = ''diff''" "ToLower ''fee'' = ''fee''" "ToLower ''memo'' = ''memo''"
  "ToLower ''prune_start_id'' = ''prune_start_id''" "ToLower ''prune_end_id'' = ''prune_end_id''"
  "ToLower ''pay_id'' = ''pay_id''" "ToLower ''@pending_balance'' = ''@pending_balance''" "ToLower ''account'' = ''account''"
  "ToLower ''pending_time'' = ''pending_time''" "ToLower ''rate'' = ''rate''" "ToLower ''max_amount'' = ''max_amount''"
  "ToLower ''pay'' = ''pay''" "ToLower ''transfer'' = ''transfer''" "ToLower ''target_address'' = ''target_address''"
  "ToLower ''rates'' = ''rates''" "ToLower ''@token'' = ''@token''" "ToLower ''decimal'' = ''decimal''"
  "ToLower ''max_supply'' = ''max_supply''" "ToLower ''supply'' = ''supply''"
  "ToLower ''last_pruned_fee_id'' = ''last_pruned_fee_id''" "ToLower ''genesis_account'' = ''genesis_account''"
  "ToLower ''fee_policy'' = ''fee_policy''" "ToLower ''@fee'' = ''@fee''" "ToLower ''fee_id'' = ''fee_id''"
  "ToLower ''@pay'' = ''@pay''" "ToLower ''total_refund'' = ''total_refund''" "ToLower ''parent_id'' = ''parent_id''"
  "ToLower ''order_id'' = ''order_id''" "ToLower ''@last_pruned_fee_id'' = ''@last_pruned_fee_id''"
  by code_simp+

lemma or_else_simps [simp]: "or_else None v = v" "or_else (Some x) v = Some x" "or_else v None = v"
  by (simp_all add: or_else_def split: option.splits)

lemma field_of_append [simp]: "field_of (l @ m) k = or_else (field_of m k) (field_of l k)"
  by (induction l) (auto simp: or_else_def split: option.splits)

lemma field_of_members [simp]:
  "field_of (time_member n t) k = (if ToLower n = k then map_option (\<lambda>u. JStr (time_String u)) t else None)"
  "field_of (text_member n s) k = (if ToLower n = k \<and> s \<noteq> [] then Some (JStr s) else None)"
  "field_of (amount_member n a) k = (if ToLower n = k then map_option json_amount a else None)"
  by (auto simp: time_member_def text_member_def amount_member_def split: option.splits)

text \<open>Digits, signs and the punctuation of a time need no escape.\<close>

definition bare :: "char \<Rightarrow> bool" where
  "bare c \<longleftrightarrow> escape_char c = [c] \<and> c \<noteq> quote \<and> ord c < 128"

lemma digit_bare: "is_digit c \<Longrightarrow> bare c"
proof -
  assume d: "is_digit c"
  have other: "c \<noteq> x" if "\<not> is_digit x" for x
    using d that by blast
  have "\<not> is_digit quote" "\<not> is_digit backslash" "\<not> is_digit (CHR 0x0A)" "\<not> is_digit (CHR 0x0D)" "\<not> is_digit (CHR 0x09)"
    "\<not> is_digit (CHR ''<'')" "\<not> is_digit (CHR ''>'')" "\<not> is_digit (CHR ''&'')" "\<not> ord c < 32"
    using d by (simp_all add: is_digit_def) (simp_all add: ord_def)
  then show ?thesis
    using d by (simp add: bare_def escape_char_def other) (simp add: is_digit_def)
qed

lemma bare_simps [simp]:
  "bare (CHR ''-'')" "bare (CHR '':'')" "bare (CHR ''.'')" "bare (CHR ''T'')" "bare (CHR ''Z'')"
  by (simp_all add: bare_def escape_char_def quote_def backslash_def) (simp_all add: ord_def)

lemma bare_string: "list_all bare s \<Longrightarrow> json_string s = quote # s @ [quote]"
proof -
  assume s: "list_all bare s"
  then have "ascii s" "concat (map escape_char s) = s"
    by (induction s) (simp_all add: bare_def)
  then show ?thesis
    by (simp add: json_string_def runes_ascii escape_rune_def comp_def)
qed

lemma digits_bare: "list_all is_digit s \<Longrightarrow> list_all bare s"
  using digit_bare by (auto simp: list_all_iff)

lemma dec_nat_bare [simp]: "list_all bare (dec_nat n)"
  by (simp add: digits_bare)

lemma dec_int_bare [simp]: "list_all bare (dec_int n)"
  by (simp add: dec_int_def)

lemma pad_bare [simp]: "list_all bare (pad w n)"
  by (rule digits_bare) (simp add: pad_def replicate_zero del: list_all_append)

lemma time_String_bare [simp]: "list_all bare (time_String t)"
  by (simp add: time_String_def split: prod.splits)

lemma amount_text: "json_print (json_amount a) = quote # dec_int a @ [quote]"
  by (simp add: json_amount_def Amount_String_def bare_string)

lemma amount_text_code: "json_print (json_amount a) = Amount_MarshalJSON a"
  by (simp add: amount_text Amount_MarshalJSON_def Amount_String_def quote_def)

lemma time_text: "json_print (JStr (time_String t)) = Time_MarshalJSON t"
  by (simp add: bare_string Time_MarshalJSON_def)

lemma trim_quotes_bare: "list_all bare s \<Longrightarrow> s \<noteq> [] \<Longrightarrow> trim_quotes (quote # s @ [quote]) = s"
proof -
  assume s: "list_all bare s" "s \<noteq> []"
  then have "hd s \<noteq> quote" "last s \<noteq> quote"
    by (auto simp: list_all_iff bare_def)
  then have "dropWhile (\<lambda>c. c = quote) (s @ [quote]) = s @ [quote]"
    "dropWhile (\<lambda>c. c = quote) (rev s) = rev s"
    using s(2) by (cases s, simp_all) (cases s rule: rev_cases, simp_all)
  then show ?thesis
    by (simp add: trim_quotes_def)
qed

lemma time_String_not_Nil: "time_String t \<noteq> []" "time_String t \<noteq> ''null''"
  by (simp_all add: time_String_def pad_def Cons_eq_append_conv split: prod.splits)

lemma null_no_int: "parse_int ''null'' = None"
  by code_simp

lemma dec_int_not_null: "dec_int n \<noteq> ''null''" "dec_int n \<noteq> []"
  by (metis parse_int_dec_int option.distinct(1) null_no_int) (simp add: dec_int_def)

lemma Amount_read [simp]: "Amount_UnmarshalJSON (json_print (json_amount a)) = Inr a"
  by (simp add: amount_text Amount_UnmarshalJSON_def dec_int_not_null)

lemma Time_read: "Time_UnmarshalJSON t (Time_MarshalJSON u) = (if readable_time (Some u) then Inr u else Inl bad_json)"
proof -
  have "quote \<noteq> CHR ''n''"
    by (simp add: quote_def)
  then show ?thesis
    by (simp add: Time_UnmarshalJSON_def Time_MarshalJSON_def trim_quotes_bare time_String_not_Nil Parse_String_iff readable_time_def)
qed

lemma Set_read: "Set_UnmarshalJSON (Set_New []) (Set_MarshalJSON hs) = Inr (Set_New hs)"
  by (simp add: Set_UnmarshalJSON_def Set_MarshalJSON_def Set_Strings_def list_all_iff comp_def Set_New_def Set_AppendSlice_def)

text \<open>What each reader makes of the member its writer leaves.\<close>

lemma str_read [simp]:
  "str_field (Some (JStr s)) = Inr s" "str_field (if s \<noteq> [] then Some (JStr s) else None) = Inr s"
  by (simp_all add: str_field_def)

lemma amount_read [simp]:
  "amount_field (Some (json_amount a)) = Inr a" "amount_pointer (map_option json_amount v) = Inr v"
  using Amount_read [of a] Amount_read by (auto simp: amount_field_def amount_pointer_def json_amount_def split: option.splits)

lemma time_read [simp]:
  "time_pointer (map_option (\<lambda>u. JStr (time_String u)) t) = (if readable_time t then Inr t else Inl bad_json)"
  "time_pointer (Some (case t of None \<Rightarrow> JNull | Some u \<Rightarrow> JStr (time_String u))) =
     (if readable_time t then Inr t else Inl bad_json)"
  using Time_read [of 0]
  by (auto simp del: json_print.simps simp: time_text time_pointer_def readable_time_def split: option.splits)

lemma dec_nat_hd: "hd (dec_nat n) = CHR ''0'' \<Longrightarrow> length (dec_nat n) = 1"
proof (induction n rule: dec_nat.induct)
  case (1 n)
  show ?case
  proof (cases "n < 10")
    case True
    then show ?thesis by (subst dec_nat.simps) simp
  next
    case False
    then have split: "dec_nat n = dec_nat (n div 10) @ [digit_char (n mod 10)]"
      by (subst dec_nat.simps) simp
    with 1 False have "length (dec_nat (n div 10)) = 1" "hd (dec_nat (n div 10)) = CHR ''0''"
      by simp_all
    then have "dec_nat (n div 10) = [CHR ''0'']"
      by (cases "dec_nat (n div 10)") simp_all
    then have "n div 10 = dec_val [CHR ''0'']"
      using dec_val_dec_nat [of "n div 10"] by simp
    then have "n div 10 = 0"
      by (simp add: dec_val_def digit_val_def ord_def)
    with False show ?thesis by simp
  qed
qed

lemma dec_int_plain [simp]: "plain (json_int n)"
proof -
  have all: "takeWhile is_digit (dec_nat k) = dec_nat k" "dropWhile is_digit (dec_nat k) = []" for k
    using dec_nat_digits [of k] by (auto simp: list_all_iff)
  have chars: "list_all number_char (dec_nat k)" for k
    using dec_nat_digits [of k] by (auto simp: list_all_iff number_char_def)
  have num: "valid_number (CHR ''-'' # dec_nat k)" "valid_number (dec_nat k)" for k
  proof -
    have "(case dec_nat k of c # t \<Rightarrow> if c = CHR ''-'' then t else dec_nat k | [] \<Rightarrow> dec_nat k) = dec_nat k"
      using dec_nat_head [of k] by auto
    then show "valid_number (CHR ''-'' # dec_nat k)" "valid_number (dec_nat k)"
      using dec_nat_hd [of k] by (simp_all add: valid_number_def valid_fraction_def Let_def all)
  qed
  show ?thesis
    by (simp add: json_int_def dec_int_def chars num number_char_def)
qed

lemma int_read: "- (2 ^ 63) \<le> n \<Longrightarrow> n < 2 ^ 63 \<Longrightarrow> int_field (Some (json_int n)) = Inr n"
  by (simp add: int_field_def json_int_def ParseInt_dec_int)

lemma small_read: "0 \<le> n \<Longrightarrow> n < 256 \<Longrightarrow> int_field (Some (json_int n)) = Inr n"
  by (simp add: int_read)

lemma byte_read [simp]: "byte_field (Some (json_int (uint (b :: byte)))) = Inr b"
  using small_read [of "uint b"] uint_lt2p [of b] by (simp add: byte_field_def)

lemma type_read [simp]:
  "log_type_field (Some (json_int (log_type_code t))) = Inr t"
  "pending_type_field (Some (json_int (pending_type_code p))) = Inr p"
  by (cases t; simp add: log_type_field_def log_types_def int_read)
    (cases p; simp add: pending_type_field_def int_read)

section \<open>Structs read back\<close>

definition int64 :: "int \<Rightarrow> bool" where
  "int64 n \<longleftrightarrow> - (2 ^ 63) \<le> n \<and> n < 2 ^ 63"

text \<open>The documents the code can hold: its integers fit their types, a policy has the rates \<open>isValidFn\<close>
  allows, and the holders of a joint account are the keys of a map.\<close>

definition rates_fit :: "(string \<rightharpoonup> fee_rate) \<Rightarrow> bool" where
  "rates_fit rates \<longleftrightarrow> (\<forall>fn r. rates fn = Some r \<longrightarrow> isValidFn fn \<and> int64 (fr_max r))"

fun wire_ok :: "doc \<Rightarrow> bool" where
  "wire_ok (DAccount (JointAccount a hs)) = distinct hs"
| "wire_ok (DToken t) = (int64 (tok_decimal t) \<and> (case tok_policy t of None \<Rightarrow> True | Some p \<Rightarrow> rates_fit (fp_rates p)))"
| "wire_ok _ = True"

fun doc_times :: "doc \<Rightarrow> time option list" where
  "doc_times (DAccount a) = (let x = acc_base a in [acc_created x, acc_updated x, acc_suspended x])"
| "doc_times (DHolder h) = [hld_created h]"
| "doc_times (DBalance b) = [bal_created b, bal_updated b]"
| "doc_times (DBalanceLog l) = [blog_created l]"
| "doc_times (DPending p) = [pb_created p, pb_pending p]"
| "doc_times (DToken t) = [tok_created t, tok_updated t]"
| "doc_times (DFee f) = [fee_created f]"
| "doc_times (DPay q) = [pay_created q]"
| "doc_times (DLastPruned l) = [lpf_updated l]"

lemma read_account_members:
  "read_account (account_members a @ m) =
     (if list_all readable_time [acc_created a, acc_updated a, acc_suspended a] then Inr a else Inl bad_json)"
  if "\<forall>k \<in> {''@account'', ''token'', ''type'', ''created_time'', ''updated_time'', ''suspended_time''}. field_of m k = None"
  using that by (simp add: read_account_def account_members_def)

lemma read_joint_members:
  shows "read_joint (account_members a @ [(''holders'', Set_MarshalJSON hs)]) =
     (if list_all readable_time [acc_created a, acc_updated a, acc_suspended a] then Inr (JointAccount a (Set_New hs)) else Inl bad_json)"
  using Set_read [of hs]
  by (simp add: read_joint_def read_account_members) (simp add: Set_MarshalJSON_def)

lemma read_simple:
  "read_holder (holder_members h) = (if readable_time (hld_created h) then Inr h else Inl bad_json)"
  "read_balance (balance_members b) =
     (if list_all readable_time [bal_created b, bal_updated b] then Inr b else Inl bad_json)"
  "read_fee (fee_members f) = (if readable_time (fee_created f) then Inr f else Inl bad_json)"
  "read_last_pruned (last_pruned_members r) = (if readable_time (lpf_updated r) then Inr r else Inl bad_json)"
  by (simp_all add: read_holder_def holder_members_def read_balance_def balance_members_def read_fee_def fee_members_def
      read_last_pruned_def last_pruned_members_def)

lemma read_log_members: "read_log (log_members l) = (if readable_time (blog_created l) then Inr l else Inl bad_json)"
  by (simp add: read_log_def log_members_def)

lemma read_pending_members:
  "read_pending (pending_members p) =
     (if list_all readable_time [pb_created p, pb_pending p] then Inr p else Inl bad_json)"
  by (simp add: read_pending_def pending_members_def)

lemma read_pay_members: "read_pay (pay_members q) = (if readable_time (pay_created q) then Inr q else Inl bad_json)"
  by (simp add: read_pay_def pay_members_def)

lemma read_rate_json:
  "int64 (fr_max r) \<Longrightarrow> read_rate (JObj [(''rate'', JStr (fr_rate r)), (''max_amount'', json_int (fr_max r))]) = Inr r"
  by (simp add: read_rate_def members_of_def int64_def int_read)

lemma read_rate_members:
  assumes "rates_fit rates"
  shows "read_rates (rate_members rates) Map.empty = Inr rates"
proof -
  have small: "int64 (fr_max r)" if "rates k = Some r" for k r
    using assms that by (auto simp: rates_fit_def)
  have "read_rates (rate_members rates) Map.empty =
      Inr (\<lambda>k. if k = ''pay'' then rates ''pay'' else if k = ''transfer'' then rates ''transfer'' else None)"
    using small [of "''pay''"] small [of "''transfer''"]
    by (auto simp: rate_members_def read_rate_json fun_eq_iff split: option.splits)
  also have "(\<lambda>k. if k = ''pay'' then rates ''pay'' else if k = ''transfer'' then rates ''transfer'' else None) = rates"
  proof
    fix k
    have "rates k = None" if "k \<notin> {''pay'', ''transfer''}"
      using assms that by (cases "rates k") (auto simp: rates_fit_def isValidFn_def)
    then show "(if k = ''pay'' then rates ''pay'' else if k = ''transfer'' then rates ''transfer'' else None) = rates k"
      by simp
  qed
  finally show ?thesis .
qed

lemma read_policy_json: "rates_fit (fp_rates p) \<Longrightarrow> read_policy (policy_json p) = Inr p"
  by (simp add: read_policy_def policy_json_def members_of_def read_rate_members)

lemma read_token_members:
  assumes "wire_ok (DToken t)"
  shows "read_token (token_members t) =
     (if list_all readable_time [tok_created t, tok_updated t] then Inr t else Inl bad_json)"
proof -
  have policy: "policy_pointer (case tok_policy t of None \<Rightarrow> None | Some p \<Rightarrow> Some (policy_json p)) = Inr (tok_policy t)"
    using assms
    by (auto simp: policy_pointer_def read_policy_json [unfolded policy_json_def] policy_json_def split: option.splits)
  have field: "field_of (case tok_policy t of None \<Rightarrow> [] | Some p \<Rightarrow> [(''fee_policy'', policy_json p)]) k =
      (if k = ''fee_policy'' then (case tok_policy t of None \<Rightarrow> None | Some p \<Rightarrow> Some (policy_json p)) else None)" for k
    by (auto split: option.splits)
  have decimal: "int_field (Some (json_int (tok_decimal t))) = Inr (tok_decimal t)"
    using assms by (simp add: int64_def int_read)
  show ?thesis
    by (simp add: read_token_def token_members_def field policy decimal)
qed

lemma members_plain [simp]:
  "plain (json_amount n)" "list_all (\<lambda>kv. plain (snd kv)) (time_member k t)"
  "list_all (\<lambda>kv. plain (snd kv)) (text_member k s)" "list_all (\<lambda>kv. plain (snd kv)) (amount_member k v)"
  by (simp_all add: json_amount_def time_member_def text_member_def amount_member_def split: option.splits)

lemma policy_plain [simp]: "plain (policy_json p)"
  by (simp add: policy_json_def rate_members_def split: option.splits)

lemma marshal_plain: "plain (marshal d)"
  unfolding marshal_def
proof (cases d)
  case (DAccount a)
  then show "plain (JObj (doc_members d))"
    by (cases a) (simp_all add: account_members_def Set_MarshalJSON_def list_all_iff [of plain "map _ _"])
qed (simp_all add: holder_members_def balance_members_def log_members_def pending_members_def token_members_def
    fee_members_def pay_members_def last_pruned_members_def split: option.splits)

section \<open>What is read back\<close>

definition clean_account :: "account \<Rightarrow> account" where
  "clean_account a = a\<lparr>acc_id := to_valid (acc_id a), acc_token := to_valid (acc_token a)\<rparr>"

definition clean_rate :: "fee_rate \<Rightarrow> fee_rate" where
  "clean_rate r = r\<lparr>fr_rate := to_valid (fr_rate r)\<rparr>"

definition clean_policy :: "fee_policy \<Rightarrow> fee_policy" where
  "clean_policy p = p\<lparr>fp_target := to_valid (fp_target p), fp_rates := map_option clean_rate \<circ> fp_rates p\<rparr>"

fun clean_doc :: "doc \<Rightarrow> doc" where
  "clean_doc (DAccount (PersonalAccount a)) = DAccount (PersonalAccount (clean_account a))"
| "clean_doc (DAccount (JointAccount a hs)) = DAccount (JointAccount (clean_account a) (Set_New (map to_valid hs)))"
| "clean_doc (DHolder h) =
     DHolder (h\<lparr>hld_id := to_valid (hld_id h), hld_address := to_valid (hld_address h), hld_token := to_valid (hld_token h)\<rparr>)"
| "clean_doc (DBalance b) =
     DBalance (b\<lparr>bal_id := to_valid (bal_id b), bal_last_pruned := to_valid (bal_last_pruned b)\<rparr>)"
| "clean_doc (DBalanceLog l) =
     DBalanceLog (l\<lparr>blog_id := to_valid (blog_id l), blog_rid := to_valid (blog_rid l), blog_memo := to_valid (blog_memo l),
       blog_prune_start := to_valid (blog_prune_start l), blog_prune_end := to_valid (blog_prune_end l),
       blog_pay_id := to_valid (blog_pay_id l)\<rparr>)"
| "clean_doc (DPending p) =
     DPending (p\<lparr>pb_id := to_valid (pb_id p), pb_account := to_valid (pb_account p), pb_rid := to_valid (pb_rid p),
       pb_memo := to_valid (pb_memo p)\<rparr>)"
| "clean_doc (DToken t) =
     DToken (t\<lparr>tok_code := to_valid (tok_code t), tok_last_pruned_fee := to_valid (tok_last_pruned_fee t),
       tok_genesis := to_valid (tok_genesis t), tok_policy := map_option clean_policy (tok_policy t)\<rparr>)"
| "clean_doc (DFee f) =
     DFee (f\<lparr>fee_code := to_valid (fee_code f), fee_id := to_valid (fee_id f), fee_account := to_valid (fee_account f)\<rparr>)"
| "clean_doc (DPay q) =
     DPay (q\<lparr>pay_account := to_valid (pay_account q), pay_id := to_valid (pay_id q), pay_rid := to_valid (pay_rid q),
       pay_parent := to_valid (pay_parent q), pay_order := to_valid (pay_order q), pay_memo := to_valid (pay_memo q)\<rparr>)"
| "clean_doc (DLastPruned r) =
     DLastPruned (r\<lparr>lpf_code := to_valid (lpf_code r), lpf_fee_id := to_valid (lpf_fee_id r)\<rparr>)"

text \<open>The texts of a document.\<close>

fun doc_texts :: "doc \<Rightarrow> string list" where
  "doc_texts (DAccount (PersonalAccount a)) = [acc_id a, acc_token a]"
| "doc_texts (DAccount (JointAccount a hs)) = acc_id a # acc_token a # hs"
| "doc_texts (DHolder h) = [hld_id h, hld_address h, hld_token h]"
| "doc_texts (DBalance b) = [bal_id b, bal_last_pruned b]"
| "doc_texts (DBalanceLog l) = [blog_id l, blog_rid l, blog_memo l, blog_prune_start l, blog_prune_end l, blog_pay_id l]"
| "doc_texts (DPending p) = [pb_id p, pb_account p, pb_rid p, pb_memo p]"
| "doc_texts (DToken t) =
     [tok_code t, tok_last_pruned_fee t, tok_genesis t] @
     (case tok_policy t of None \<Rightarrow> []
      | Some p \<Rightarrow> fp_target p # concat (map (\<lambda>fn. case fp_rates p fn of None \<Rightarrow> [] | Some r \<Rightarrow> [fr_rate r]) [''pay'', ''transfer'']))"
| "doc_texts (DFee f) = [fee_code f, fee_id f, fee_account f]"
| "doc_texts (DPay q) = [pay_account q, pay_id q, pay_rid q, pay_parent q, pay_order q, pay_memo q]"
| "doc_texts (DLastPruned r) = [lpf_code r, lpf_fee_id r]"

text \<open>Cleaning the members is cleaning the document.\<close>

lemma clean_members_simps [simp]:
  "ascii k \<Longrightarrow> clean_member (k, j) = (k, clean_json j)" "clean_json (json_amount n) = json_amount n"
  "clean_json (json_int n) = json_int n" "clean_json (Set_MarshalJSON hs) = Set_MarshalJSON (map to_valid hs)"
  "ascii k \<Longrightarrow> map clean_member (time_member k t) = time_member k t"
  "ascii k \<Longrightarrow> map clean_member (text_member k s) = text_member k (to_valid s)"
  "ascii k \<Longrightarrow> map clean_member (amount_member k v) = amount_member k v"
  by (simp_all add: clean_member_def json_amount_def json_int_def Set_MarshalJSON_def Set_Strings_def time_member_def
      text_member_def amount_member_def Amount_String_def split: option.splits)

lemma clean_account_members: "map clean_member (account_members a) = account_members (clean_account a)"
  by (simp add: account_members_def clean_account_def)

lemma clean_policy_json: "clean_json (policy_json p) = policy_json (clean_policy p)"
  by (simp add: policy_json_def rate_members_def clean_policy_def clean_rate_def split: option.splits)

lemma clean_token_members: "map clean_member (token_members t) =
    token_members (t\<lparr>tok_code := to_valid (tok_code t), tok_last_pruned_fee := to_valid (tok_last_pruned_fee t),
      tok_genesis := to_valid (tok_genesis t), tok_policy := map_option clean_policy (tok_policy t)\<rparr>)"
  by (simp add: token_members_def clean_policy_json split: option.splits)

lemma clean_doc_members: "\<not> (\<exists>a hs. d = DAccount (JointAccount a hs)) \<Longrightarrow> map clean_member (doc_members d) = doc_members (clean_doc d)"
  by (cases d rule: clean_doc.cases)
    (simp_all add: clean_account_members clean_token_members holder_members_def balance_members_def log_members_def
      pending_members_def fee_members_def pay_members_def last_pruned_members_def split: option.splits)

lemma unmarshal_marshal: "unmarshal sh (json_print (marshal d)) = read_members sh (map clean_member (doc_members d))"
  using json_parse_print [OF marshal_plain [of d]]
  by (simp only: unmarshal_def) (simp add: marshal_def members_of_def clean_members del: clean_json.simps)

lemma wire_ok_clean: "wire_ok (DToken t) \<Longrightarrow> wire_ok (clean_doc (DToken t))"
  by (auto simp: rates_fit_def clean_policy_def clean_rate_def split: option.splits)

lemma marshal_read_back:
  assumes "wire_ok d"
  shows "unmarshal (shape_of d) (json_print (marshal d)) =
    (if list_all readable_time (doc_times d) then Inr (clean_doc d) else Inl bad_json)"
proof (cases "\<exists>a hs. d = DAccount (JointAccount a hs)")
  case True
  then show ?thesis
    by (auto simp: unmarshal_marshal clean_account_members read_joint_members clean_account_def)
next
  case False
  then have eq: "unmarshal (shape_of d) (json_print (marshal d)) = read_members (shape_of d) (doc_members (clean_doc d))"
    by (simp only: unmarshal_marshal clean_doc_members simp_thms)
  show ?thesis
    unfolding eq
  proof (cases d)
    case (DToken t)
    with assms wire_ok_clean [of t] show "read_members (shape_of d) (doc_members (clean_doc d)) =
        (if list_all readable_time (doc_times d) then Inr (clean_doc d) else Inl bad_json)"
      by (simp add: read_token_members del: wire_ok.simps)
  next
    case (DAccount a)
    with False show "read_members (shape_of d) (doc_members (clean_doc d)) =
        (if list_all readable_time (doc_times d) then Inr (clean_doc d) else Inl bad_json)"
      using read_account_members [of "[]"] by (cases a) (simp_all add: clean_account_def)
  qed (simp_all add: read_simple read_log_members read_pending_members read_pay_members)
qed

text \<open>A document comes back as it was exactly when its texts are valid UTF-8; what came back does not change again.\<close>

lemma clean_policy_id:
  assumes "rates_fit (fp_rates p)"
  shows "clean_policy p = p \<longleftrightarrow>
    list_all valid_utf8 (fp_target p # concat (map (\<lambda>fn. case fp_rates p fn of None \<Rightarrow> [] | Some r \<Rightarrow> [fr_rate r]) [''pay'', ''transfer'']))"
proof -
  have rate: "clean_rate r = r \<longleftrightarrow> valid_utf8 (fr_rate r)" for r
    by (cases r) (simp add: clean_rate_def to_valid_iff)
  have "map_option clean_rate \<circ> fp_rates p = fp_rates p \<longleftrightarrow> (\<forall>fn r. fp_rates p fn = Some r \<longrightarrow> valid_utf8 (fr_rate r))"
    unfolding fun_eq_iff comp_def
  proof (intro iff_allI)
    fix fn
    show "map_option clean_rate (fp_rates p fn) = fp_rates p fn \<longleftrightarrow> (\<forall>r. fp_rates p fn = Some r \<longrightarrow> valid_utf8 (fr_rate r))"
      by (cases "fp_rates p fn") (simp_all add: rate)
  qed
  also have "\<dots> \<longleftrightarrow> (\<forall>fn \<in> {''pay'', ''transfer''}. \<forall>r. fp_rates p fn = Some r \<longrightarrow> valid_utf8 (fr_rate r))"
    using assms by (auto simp: rates_fit_def isValidFn_def)
  finally show ?thesis
    by (cases p) (auto simp: clean_policy_def to_valid_iff split: option.splits)
qed

lemma clean_holders: "distinct hs \<Longrightarrow> Set_New (map to_valid hs) = hs \<longleftrightarrow> list_all valid_utf8 hs"
proof
  assume "Set_New (map to_valid hs) = hs"
  then have "set hs = to_valid ` set hs"
    using set_Set_New [of "map to_valid hs"] by simp
  then have "valid_utf8 h" if "h \<in> set hs" for h
    using that by (metis imageE valid_to_valid)
  then show "list_all valid_utf8 hs"
    by (simp add: list_all_iff)
next
  assume "distinct hs" "list_all valid_utf8 hs"
  then show "Set_New (map to_valid hs) = hs"
    by (simp add: map_idI list_all_iff valid_id Set_New_id)
qed

lemma clean_account_id: "clean_account a = a \<longleftrightarrow> valid_utf8 (acc_id a) \<and> valid_utf8 (acc_token a)"
  by (cases a) (simp add: clean_account_def to_valid_iff)

lemma clean_token_id:
  assumes "wire_ok (DToken t)"
  shows "clean_doc (DToken t) = DToken t \<longleftrightarrow> list_all valid_utf8 (doc_texts (DToken t))"
proof -
  have "map_option clean_policy (tok_policy t) = tok_policy t \<longleftrightarrow> (\<forall>p. tok_policy t = Some p \<longrightarrow> clean_policy p = p)"
    by (cases "tok_policy t") simp_all
  then show ?thesis
    using assms by (cases t) (auto simp: to_valid_iff clean_policy_id split: option.splits)
qed

lemma clean_id:
  assumes "wire_ok d"
  shows "clean_doc d = d \<longleftrightarrow> list_all valid_utf8 (doc_texts d)"
proof (cases d)
  case (DAccount a)
  with assms show ?thesis
    by (cases a) (auto simp: clean_account_id clean_holders)
next
  case (DHolder h)
  then show ?thesis
    by (cases h) (simp add: to_valid_iff)
next
  case (DBalance b)
  then show ?thesis
    by (cases b) (simp add: to_valid_iff)
next
  case (DBalanceLog l)
  then show ?thesis
    by (cases l) (simp add: to_valid_iff)
next
  case (DPending q)
  then show ?thesis
    by (cases q) (simp add: to_valid_iff)
next
  case (DToken t)
  with assms show ?thesis
    by (simp only: clean_token_id)
next
  case (DFee f)
  then show ?thesis
    by (cases f) (simp add: to_valid_iff)
next
  case (DPay q)
  then show ?thesis
    by (cases q) (simp add: to_valid_iff)
next
  case (DLastPruned r)
  then show ?thesis
    by (cases r) (simp add: to_valid_iff)
qed

lemma wire_ok_cleaned: "wire_ok d \<Longrightarrow> wire_ok (clean_doc d)"
  using wire_ok_clean by (cases d rule: clean_doc.cases) auto

lemma clean_texts: "list_all valid_utf8 (doc_texts (clean_doc d))"
  by (cases d rule: clean_doc.cases)
    (auto simp: clean_account_def clean_policy_def clean_rate_def list_all_iff split: option.splits)

lemma clean_idem: "wire_ok d \<Longrightarrow> clean_doc (clean_doc d) = clean_doc d"
  using clean_id [OF wire_ok_cleaned] clean_texts by simp

text \<open>The getter of a pending balance, whose times a client chose, fails exactly when its text is not read.\<close>

lemma GetPendingBalance_wire:
  assumes "get_fault st (PendingKey i) = None" "world st (PendingKey i) = Some (DPending p)"
  shows "GetPendingBalance st i = Inr q \<longrightarrow> q = p \<and> unmarshal SPending (json_print (marshal (DPending p))) = Inr (clean_doc (DPending q))"
    "(\<exists>q. GetPendingBalance st i = Inr q) \<longleftrightarrow> (\<exists>d. unmarshal SPending (json_print (marshal (DPending p))) = Inr d)"
  using assms marshal_read_back [of "DPending p"] by (auto simp: run readable_pending_def)

section \<open>Answers with an account\<close>

text \<open>\<open>responseAccountWithBalance\<close> marshals the account and the balance together;
  \<open>responseAccountWithBalanceState\<close> puts the text of the balance behind the members of the account.\<close>

definition responseAccountWithBalance :: "account_doc \<Rightarrow> balance \<Rightarrow> string" where
  "responseAccountWithBalance account bal =
     json_print (JObj (account_doc_members account @ [(''balance'', marshal (DBalance bal))]))"

definition responseAccountWithBalanceState :: "account_doc \<Rightarrow> string \<Rightarrow> string" where
  "responseAccountWithBalanceState account bal =
     butlast (json_print (marshal (DAccount account))) @ CHR '','' # [quote] @ ''balance'' @ [quote] @ CHR '':'' # bal @ ''}''"

lemma print_fields_snoc:
  "m \<noteq> [] \<Longrightarrow> json_print_fields (m @ [(k, j)]) = json_print_fields m @ CHR '','' # json_string k @ CHR '':'' # json_print j"
proof (induction m)
  case (Cons x m)
  then show ?case
    by (cases x; cases m) simp_all
qed simp

lemma balance_name: "json_string ''balance'' = quote # ''balance'' @ [quote]"
  by code_simp

text \<open>Both give the same text.\<close>

lemma account_answers:
  "responseAccountWithBalanceState a (json_print (marshal (DBalance b))) = responseAccountWithBalance a b"
proof -
  have "account_doc_members a \<noteq> []"
    by (cases a) (simp_all add: account_members_def)
  then show ?thesis
    by (simp add: responseAccountWithBalanceState_def responseAccountWithBalance_def marshal_def print_fields_snoc balance_name
        butlast_append)
qed

end
