(* ===== verification/Ledgers.thy ===== *)
theory Ledgers
  imports Texts Wire
begin

text \<open>
  Properties of whole runs of the chaincode (\<open>Chaincode\<close>, \<open>Dispatch\<close>): what a transaction of any kind keeps
  of the ledger, and what holds of every ledger that committed transactions build from the empty one.
\<close>

section \<open>Conservation\<close>

text \<open>C10: no money is made or lost. A transaction with a fresh identifier, whatever it is and whether it succeeds or
  fails, changes what the ledger holds of a token, in balances, pending balances, pays and fees together, by
  exactly the change of the token's supply. Prunes, which credit amounts whose pays and fees stay in the
  ledger as history, are left out.\<close>

theorem Invoke_conserves_money:
  assumes "running st" and "fresh_tx st" and "trusted_call st fn params" and "fn \<notin> {''pay/prune'', ''fee/prune''}"
  shows "held c (settle (Invoke st fn params) (world st)) - held c (world st) =
    supply_of c (settle (Invoke st fn params) (world st)) - supply_of c (world st)"
  using Invoke_conserves [OF assms, of c] by simp

theorem Invoke_conserves_money_witness:
  "\<exists>p ws. Invoke (demo kidA) ''transfer'' [[], idB, ''100''] = Inr (p, ws) \<and>
     held ''TKN'' (settle (Invoke (demo kidA) ''transfer'' [[], idB, ''100'']) demo_ledger) - held ''TKN'' demo_ledger =
     supply_of ''TKN'' (settle (Invoke (demo kidA) ''transfer'' [[], idB, ''100'']) demo_ledger) - supply_of ''TKN'' demo_ledger"
proof -
  obtain p ws where "Invoke (demo kidA) ''transfer'' [[], idB, ''100''] = Inr (p, ws)"
    using demo_transfer by (auto simp: Invoke_def routes_def)
  then show ?thesis
    using Invoke_conserves_money [OF demo_running demo_fresh, of kidA "''transfer''" "[[], idB, ''100'']" "''TKN''"]
    by (simp add: trusted_call_def demo)
qed

text \<open>The ledgers that transactions other than prunes build from the empty one, each with a fresh identifier.\<close>

inductive unpruned :: "shake \<Rightarrow> ledger \<Rightarrow> bool" for sh where
  empty: "unpruned sh Map.empty"
| step: "unpruned sh L \<Longrightarrow> world st = L \<Longrightarrow> shake_of st = sh \<Longrightarrow> trusted_call st fn params \<Longrightarrow> fresh_tx st \<Longrightarrow>
    fn \<notin> {''pay/prune'', ''fee/prune''} \<Longrightarrow> unpruned sh (settle (Invoke st fn params) L)"

inductive_cases unpruned_stepE: "unpruned sh L"

lemma unpruned_reachable: "unpruned sh L \<Longrightarrow> reachable sh L"
  by (induction rule: unpruned.induct) (auto intro: reachable.intros)

text \<open>C3: the ledger adds up. On every ledger that fresh transactions other than prunes build, the balances, the
  pending balances with their fees, the pays and the fees of a token sum up to its supply.\<close>

theorem unpruned_adds_up:
  assumes "unpruned sh L" and "shake_ok sh"
  shows "held c L = supply_of c L"
  using assms
proof (induction rule: unpruned.induct)
  case empty
  show ?case
    by (simp add: held_def supply_of_def)
next
  case (step L st fn params)
  have "running st"
    using reachable_ok [OF unpruned_reachable [OF step.hyps(1)] step.prems] step by (simp add: running_def)
  then show ?case
    using Invoke_conserves [OF _ step.hyps(5,4,6), of c] step by simp
qed

text \<open>Issuing a token on the empty ledger.\<close>

abbreviation demo_empty :: stub where
  "demo_empty \<equiv> demo kidA\<lparr>world := Map.empty\<rparr>"

lemma demo_first_token:
  "\<exists>p ws t. Invoke demo_empty ''token/create'' [''new''] = Inr (p, ws) \<and>
     commit ws Map.empty (TokenKey ''NEW'') = Some (DToken t) \<and> tok_supply t = 100"
proof -
  have "GetAccount demo_empty (NewAddress demo_shake ''NEW'' AccountTypeJoint ''tx'') = Inl (NotExistedAccountError idN)"
    by (simp add: GetAccount_missing demo idN_def)
  moreover have "getValidatedTokenMeta demo_empty ''NEW'' = getValidatedTokenMeta (demo kidA) ''NEW''"
    by (simp add: getValidatedTokenMeta_def invokeKNT_def)
  moreover have "not_issued demo_empty ''NEW'' = Inr ()"
    by (simp add: not_issued_run demo)
  ultimately show ?thesis
    by (simp add: Invoke_def routes_def tokenCreate_def ValidateTokenCode_def NEW demo_meta CreateToken_def CreateJointAccount_def
        CreateBalance_def set_target_def initial_mint_def Supply_def is_NotExistedAccountError_def set_defs put_defs PutState_def
        Success_def demo log_key_def Let_def)
qed

lemma demo_empty_running: "running demo_empty" "fresh_tx demo_empty" "trusted_call demo_empty ''token/create'' params"
  by (simp_all add: running_def fresh_tx_def trusted_call_def ledger_ok_empty demo)

theorem unpruned_adds_up_witness: "\<exists>L. unpruned demo_shake L \<and> held ''NEW'' L = 100"
proof -
  obtain p ws t where r: "Invoke demo_empty ''token/create'' [''new''] = Inr (p, ws)"
    and t: "commit ws Map.empty (TokenKey ''NEW'') = Some (DToken t)" "tok_supply t = 100"
    using demo_first_token by blast
  have "unpruned demo_shake (commit ws Map.empty)"
    using unpruned.step [OF unpruned.empty, of demo_empty demo_shake "''token/create''" "[''new'']"] demo_empty_running r
    by (simp add: settle_def demo)
  then show ?thesis
    using unpruned_adds_up [OF _ shake_ok_demo, of "commit ws Map.empty" "''NEW''"] t by (auto simp: supply_of_def)
qed

section \<open>The ledger invariant\<close>

text \<open>C9: what holds of every reachable ledger. Every document lies under its own key, every account has a balance,
  every balance and pending balance belongs to an account, no supply is above its maximum, a token's genesis
  account and the target of its fee policy exist and it has at most 18 decimals, and no pay is refunded beyond its amount.\<close>

theorem reachable_invariant:
  assumes "reachable sh L" and "shake_ok sh" and "L k = Some d"
  shows "key_of d = k \<and>
    (case d of
       DAccount a \<Rightarrow> \<exists>b. L (BalanceKey (Account_GetID a)) = Some (DBalance b)
     | DBalance b \<Rightarrow> \<exists>a. L (AccountKey (bal_id b)) = Some (DAccount a)
     | DPending q \<Rightarrow> \<exists>a. L (AccountKey (pb_account q)) = Some (DAccount a)
     | DToken t \<Rightarrow> tok_supply t \<le> tok_max_supply t \<and> tok_decimal t \<in> {0..18} \<and>
         (\<exists>a. L (AccountKey (tok_genesis t)) = Some (DAccount a)) \<and>
         (\<forall>policy. tok_policy t = Some policy \<longrightarrow> (\<exists>a. L (AccountKey (fp_target policy)) = Some (DAccount a)))
     | DPay q \<Rightarrow> 0 \<le> pay_total_refund q \<and> (pay_total_refund q = 0 \<or> pay_total_refund q \<le> pay_amount q)
     | _ \<Rightarrow> True)"
proof -
  note ok = reachable_ok [OF assms(1,2)]
  have keyed: "keyed L"
    using ledger_okD(1) [OF ok] .
  have acc: "\<exists>a. L (AccountKey i) = Some (DAccount a)" if ex: "account_exists L i" for i
  proof -
    obtain e where e: "L (AccountKey i) = Some e"
      using ex by (auto simp: account_exists_def)
    then have "doc_kind e = 0"
      using keyed_kind [OF keyed e] by simp
    then show ?thesis
      using e by (cases e) simp_all
  qed
  have bal: "\<exists>b. L (BalanceKey i) = Some (DBalance b)" if ex: "account_exists L i" for i
  proof -
    obtain e where e: "L (BalanceKey i) = Some e"
      using ledger_okD(4) [OF ok ex] by auto
    then have "doc_kind e = 2"
      using keyed_kind [OF keyed e] by simp
    then show ?thesis
      using e by (cases e) simp_all
  qed
  have d: "doc_ok sh L d" "key_of d = k"
    using ledger_okD(3) [OF ok assms(3)] keyedD [OF keyed assms(3)] .
  have "account_exists L (Account_GetID a)" if "d = DAccount a" for a
    using assms(3) d(2) that by (auto simp: account_exists_def)
  then show ?thesis
    using d acc bal by (cases d) (auto simp: token_ok_def pay_ok_def)
qed

theorem reachable_invariant_witness:
  "\<exists>L t. reachable demo_shake L \<and> L (TokenKey ''NEW'') = Some (DToken t) \<and> tok_supply t \<le> tok_max_supply t"
proof -
  obtain p ws t where r: "Invoke demo_empty ''token/create'' [''new''] = Inr (p, ws)"
    and t: "commit ws Map.empty (TokenKey ''NEW'') = Some (DToken t)"
    using demo_first_token by blast
  have "reachable demo_shake (commit ws Map.empty)"
    using reachable.step [OF reachable.empty, of demo_empty demo_shake "''token/create''" "[''new'']"] demo_empty_running r
    by (simp add: settle_def demo)
  then show ?thesis
    using reachable_invariant [where L = "commit ws Map.empty", OF _ shake_ok_demo t] t by auto
qed

section \<open>Documents\<close>

text \<open>C40: what the ledger is read back as. The JSON text of a document of a reachable ledger decodes into the struct
  of its kind, unless a time in it has a year that does not have four digits. It decodes to the same document with
  the invalid UTF-8 of its texts replaced by U+FFFD, so to the document itself exactly when all its texts are
  valid UTF-8; and to write and read it once more changes nothing.\<close>

theorem reachable_read_back:
  assumes "reachable sh L" and "shake_ok sh" and "L k = Some d"
  shows "unmarshal (shape_of d) (json_print (marshal d)) =
      (if list_all readable_time (doc_times d) then Inr (clean_doc d) else Inl bad_json) \<and>
    (clean_doc d = d \<longleftrightarrow> list_all valid_utf8 (doc_texts d)) \<and> clean_doc (clean_doc d) = clean_doc d"
proof -
  have "doc_ok sh L d"
    using ledger_okD(3) [OF reachable_ok [OF assms(1,2)] assms(3)] .
  then have "wire_ok d"
    by (cases d rule: wire_ok.cases)
      (auto simp: account_ok_def token_ok_def int64_def policy_ok_def rates_ok_def rates_fit_def split: option.splits)
  then show ?thesis
    by (simp add: marshal_read_back clean_id clean_idem)
qed

theorem reachable_read_back_witness:
  "\<exists>L t. reachable demo_shake L \<and> L (TokenKey ''NEW'') = Some (DToken t) \<and> tok_supply t = 100 \<and>
     unmarshal SToken (json_print (marshal (DToken t))) =
       (if readable_time (tok_created t) \<and> readable_time (tok_updated t) then Inr (clean_doc (DToken t)) else Inl bad_json)"
proof -
  obtain p ws t where r: "Invoke demo_empty ''token/create'' [''new''] = Inr (p, ws)"
    and t: "commit ws Map.empty (TokenKey ''NEW'') = Some (DToken t)" "tok_supply t = 100"
    using demo_first_token by blast
  have "reachable demo_shake (commit ws Map.empty)"
    using reachable.step [OF reachable.empty, of demo_empty demo_shake "''token/create''" "[''new'']"] demo_empty_running r
    by (simp add: settle_def demo)
  then show ?thesis
    using reachable_read_back [where L = "commit ws Map.empty", OF _ shake_ok_demo t(1)] t
    by (intro exI [of _ "commit ws Map.empty"] exI [of _ t]) simp
qed

section \<open>Queries\<close>

text \<open>C34: the reading functions change nothing: whatever the parameters, they write nothing.\<close>

theorem queries_read_only:
  assumes "fn \<in> {''account/get'', ''account/holder/add'', ''account/list'', ''balance/logs'', ''balance/pending/get'',
      ''balance/pending/list'', ''fee/list'', ''pay/get'', ''pay/list'', ''token/get'', ''ver''}"
  shows "settle (Invoke st fn params) L = L"
proof (cases "Invoke st fn params")
  case (Inr r)
  obtain p ws where r: "Invoke st fn params = Inr (p, ws)"
    using Inr by (cases r) auto
  obtain txFn where f: "(fn, txFn) \<in> set routes" and t: "txFn st params = Inr (p, ws)"
    using Invoke_cases [OF r] .
  have "txFn \<in> {accountGet, accountHolderAdd, accountList, balanceLogs, balancePendingGet, balancePendingList,
      feeList, payGet, payList, tokenGet, ver}"
    using f assms by (auto simp: routes_def)
  then have "ws = []"
    using reads_write_nothing [where txFn = txFn, OF _ t] by blast
  then show ?thesis
    by (simp add: r settle_def)
qed (simp add: settle_def)

theorem queries_read_only_witness: "settle (Invoke (demo kidA) ''ver'' []) demo_ledger = demo_ledger"
  by (rule queries_read_only) simp

end
