(* ===== verification/Marks.thy ===== *)
theory Marks
  imports Ledgers
begin

text \<open>
  The identifiers of pays and fees, and the marks that a prune leaves (\<open>PayTx\<close>, \<open>FeeTx\<close>): the next prune cuts
  a mark into the seconds and nanoseconds of its first nineteen digits. \<open>marks_ok\<close> says that every identifier
  in the ledger is long enough and every mark is empty or such an identifier; every transaction keeps it.
\<close>

definition mark_ok :: "string \<Rightarrow> bool" where
  "mark_ok i \<longleftrightarrow> i = [] \<or> 19 \<le> length i"

fun stamped :: "doc \<Rightarrow> bool" where
  "stamped (DBalance b) \<longleftrightarrow> mark_ok (bal_last_pruned b)"
| "stamped (DToken t) \<longleftrightarrow> mark_ok (tok_last_pruned_fee t)"
| "stamped (DLastPruned l) \<longleftrightarrow> mark_ok (lpf_fee_id l)"
| "stamped (DPay q) \<longleftrightarrow> 19 \<le> length (pay_id q)"
| "stamped (DFee f) \<longleftrightarrow> 19 \<le> length (fee_id f)"
| "stamped _ \<longleftrightarrow> True"

definition marks_ok :: "ledger \<Rightarrow> bool" where
  "marks_ok L \<longleftrightarrow> (\<forall>k d. L k = Some d \<longrightarrow> stamped d)"

fun stamped_op :: "state_op \<Rightarrow> bool" where
  "stamped_op (Put k d) \<longleftrightarrow> stamped d"
| "stamped_op (Del k) \<longleftrightarrow> True"

text \<open>What is relied on of the platform: the identifiers of transactions are long, and a query answers with
  documents of the ledger.\<close>

definition honest :: "stub \<Rightarrow> bool" where
  "honest st \<longleftrightarrow> 18 \<le> length (txid st) \<and>
     (\<forall>q rows d. query st q = Inr rows \<longrightarrow> Inr d \<in> set rows \<longrightarrow> d \<in> ran (world st))"

lemma marks_okD: "marks_ok L \<Longrightarrow> L k = Some d \<Longrightarrow> stamped d"
  by (simp add: marks_ok_def)

lemma marks_ok_empty [simp]: "marks_ok Map.empty"
  by (simp add: marks_ok_def)

lemma marks_commit: "list_all stamped_op ws \<Longrightarrow> marks_ok L \<Longrightarrow> marks_ok (commit ws L)"
proof (induction ws arbitrary: L)
  case (Cons w ws)
  have "marks_ok (apply_write w L)"
    using Cons.prems by (cases w) (simp_all add: marks_ok_def)
  with Cons show ?case by simp
qed simp

lemma mark_ok_Nil [simp]: "mark_ok []"
  by (simp add: mark_ok_def)

lemma mark_ok_id: "19 \<le> length i \<Longrightarrow> mark_ok i"
  by (simp add: mark_ok_def)

section \<open>What a read finds\<close>

lemma marks_read:
  assumes "marks_ok (world st)"
  shows "GetBalance st i = Inr b \<Longrightarrow> mark_ok (bal_last_pruned b)"
    "GetToken st code = Inr t \<Longrightarrow> mark_ok (tok_last_pruned_fee t)"
    "GetPay st i = Inr q \<Longrightarrow> 19 \<le> length (pay_id q)"
    "last_pruned_or_migrate st code t = Inr (l, ws) \<Longrightarrow> mark_ok (tok_last_pruned_fee t) \<Longrightarrow>
       mark_ok (lpf_fee_id l) \<and> list_all stamped_op ws"
  using marks_okD [OF assms] by (fastforce simp: run put_token_def dest: last_pruned_or_migrate_run)+

lemma stamp_id_long: "honest st \<Longrightarrow> 19 \<le> length (stamp_id st ts)"
proof -
  assume "honest st"
  then have "18 \<le> length (txid st)"
    by (simp add: honest_def)
  moreover have "dec_int (UnixNano ts) \<noteq> []"
    by (simp add: dec_int_def)
  ultimately show ?thesis
    by (cases "dec_int (UnixNano ts)") (simp_all add: stamp_id_def)
qed

text \<open>The loops of the prunes end with the identifier of a row.\<close>

lemma pay_sum_end:
  "pay_sum_loop rows cnt acc fee cs = Inr s \<Longrightarrow> ps_end s = ps_end cs \<or> (\<exists>q. Inr (DPay q) \<in> set rows \<and> ps_end s = pay_id q)"
  by (induction rows arbitrary: cnt acc fee cs)
    (fastforce simp: run Let_def as_pay_def split: if_splits doc.splits)+

lemma fee_sum_end:
  "fee_sum_loop rows cnt acc fs = Inr s \<Longrightarrow> fs_end s = fs_end fs \<or> (\<exists>f. Inr (DFee f) \<in> set rows \<and> fs_end s = fee_id f)"
  by (induction rows arbitrary: cnt acc fs)
    (fastforce simp: run Let_def as_fee_def split: if_splits doc.splits)+

lemma prune_ends:
  assumes "honest st" "marks_ok (world st)"
  shows "GetPaySumByTime st i a b = Inr s \<Longrightarrow> mark_ok (ps_end s)" "GetFeeSumByTime st i a b = Inr fs \<Longrightarrow> mark_ok (fs_end fs)"
proof -
  have row: "stamped d" if "query st q = Inr rows" "Inr d \<in> set rows" for q rows d
    using assms that by (simp add: honest_def marks_ok_def ran_def) blast
  have ids: "query st q = Inr rows \<Longrightarrow> Inr (DPay c) \<in> set rows \<Longrightarrow> mark_ok (pay_id c)"
    "query st q = Inr rows \<Longrightarrow> Inr (DFee f) \<in> set rows \<Longrightarrow> mark_ok (fee_id f)" for q rows c f
    using row [of q rows "DPay c"] row [of q rows "DFee f"] by (simp_all add: mark_ok_id)
  show "GetPaySumByTime st i a b = Inr s \<Longrightarrow> mark_ok (ps_end s)" "GetFeeSumByTime st i a b = Inr fs \<Longrightarrow> mark_ok (fs_end fs)"
    by (auto simp: GetPaySumByTime_def GetFeeSumByTime_def run dest!: pay_sum_end fee_sum_end intro: ids)
qed

section \<open>The closed forms\<close>

lemma stamped_ops [simp]:
  "stamped_op (put_balance b) \<longleftrightarrow> mark_ok (bal_last_pruned b)" "stamped_op (put_log ts l)" "stamped_op (put_pending pb)"
  "stamped_op (put_token t) \<longleftrightarrow> mark_ok (tok_last_pruned_fee t)" "stamped_op (put_pay q) \<longleftrightarrow> 19 \<le> length (pay_id q)"
  "stamped_op (put_account a)" "stamped_op (put_holder ts a kid)"
  by (simp_all add: put_balance_def put_log_def put_pending_def put_token_def put_pay_def put_account_def put_holder_def Let_def)

lemma stamped_fee [simp]: "honest st \<Longrightarrow> list_all stamped_op (fee_writes st ts i n)"
  by (simp add: fee_writes_def stamp_id_long)

lemma stamped_forms:
  "mark_ok (bal_last_pruned b) \<Longrightarrow> list_all stamped_op (supply_writes ts b n)"
  "mark_ok (bal_last_pruned b) \<Longrightarrow> list_all stamped_op (deposit_writes ts b pb)"
  "mark_ok (bal_last_pruned b) \<Longrightarrow> list_all stamped_op (withdraw_writes ts b pb)"
  "mark_ok (bal_last_pruned b) \<Longrightarrow> list_all stamped_op (receive_writes st ts s b n memo pt)"
  "19 \<le> length (pay_id q) \<Longrightarrow> mark_ok (bal_last_pruned b) \<Longrightarrow> list_all stamped_op (pay_writes ts b q)"
  "19 \<le> length (pay_id q) \<Longrightarrow> 19 \<le> length (pay_id parent) \<Longrightarrow> mark_ok (bal_last_pruned b) \<Longrightarrow>
     list_all stamped_op (refund_writes ts b q parent)"
  "list_all stamped_op (create_writes ts a kids)"
  "mark_ok (bal_last_pruned b) \<Longrightarrow> mark_ok (fs_end fs) \<Longrightarrow> list_all stamped_op (fee_prune_writes ts b code fs)"
  by (auto simp: supply_writes_def deposit_writes_def withdraw_writes_def receive_writes_def pay_writes_def refund_writes_def
      create_writes_def fee_prune_writes_def empty_balance_def list_all_iff Let_def)

lemma stamped_sends:
  assumes "honest st" "mark_ok (bal_last_pruned r)"
  shows "mark_ok (bal_last_pruned s) \<Longrightarrow> list_all stamped_op (transfer_writes st ts s r n fee memo pt)"
    "list_all stamped_op (transfer_pending_writes st ts pb r pt)"
    "mark_ok (ps_end ps) \<Longrightarrow> list_all stamped_op (prune_writes st ts i r ps)"
  using assms
  by (simp_all add: transfer_writes_def transfer_pending_writes_def prune_writes_def pruned_balance_def stamped_forms Let_def)

lemma with_supply_pruned [simp]: "tok_last_pruned_fee (with_supply t n ts) = tok_last_pruned_fee t"
  by (simp add: with_supply_def)

lemma stamped_supplies:
  assumes "mark_ok (bal_last_pruned b)" "mark_ok (tok_last_pruned_fee t)"
  shows "Mint st t b n = Inr (t', l, ws) \<Longrightarrow> list_all stamped_op ws" "Burn st t b n = Inr (t', l, ws) \<Longrightarrow> list_all stamped_op ws"
proof -
  show "Mint st t b n = Inr (t', l, ws) \<Longrightarrow> list_all stamped_op ws"
    using Mint_run [of st t b n t' l ws] assms by (auto simp: stamped_forms)
  show "Burn st t b n = Inr (t', l, ws) \<Longrightarrow> list_all stamped_op ws"
    using Burn_run [of st t b n t' l ws] assms by (auto simp: stamped_forms split: if_splits)
qed

lemma stamped_creates:
  "CreateAccount st code kid = Inr (a, b, ws) \<Longrightarrow> list_all stamped_op ws"
  "CreateJointAccount st code hs = Inr (a, b, ws) \<Longrightarrow> list_all stamped_op ws"
  "CreateToken st code d m n policy hs = Inr (t, ws) \<Longrightarrow> list_all stamped_op ws"
  by (auto simp: stamped_forms new_token_def empty_balance_def dest!: CreateAccount_run CreateJointAccount_run CreateToken_run)

lemma stamped_holders:
  "AddHolder st jac hs kid = Inr (a, ws) \<Longrightarrow> list_all stamped_op ws"
  "RemoveHolder st jac hs kid = Inr (a, ws) \<Longrightarrow> list_all stamped_op ws"
  by (auto dest!: AddHolder_run RemoveHolder_run)

section \<open>Handlers\<close>

lemma stamped_money:
  assumes "honest st" "marks_ok (world st)"
  shows "transfer st params = Inr (p, ws) \<Longrightarrow> list_all stamped_op ws"
    "pay st params = Inr (p, ws) \<Longrightarrow> list_all stamped_op ws"
    "payRefund st params = Inr (p, ws) \<Longrightarrow> list_all stamped_op ws"
    "payPrune st params = Inr (p, ws) \<Longrightarrow> list_all stamped_op ws"
    "balancePendingWithdraw st params = Inr (p, ws) \<Longrightarrow> list_all stamped_op ws"
proof -
  note reads = marks_read [OF assms(2)] stamp_id_long [OF assms(1)]
  show "list_all stamped_op ws" if t: "transfer st params = Inr (p, ws)"
  proof -
    obtain kid amount sAddr rAddr sBal rBal sender receiver fee opts l
      where c: "transfer_checked st params kid amount sAddr rAddr sender receiver sBal rBal fee"
        and m: "transfer_move st params sBal rBal sender receiver amount fee opts = Inr (l, ws)"
      using transfer_run [OF t] by blast
    obtain memo pt expiry signers where o: "opts = (memo, pt, expiry, signers)"
      by (cases opts)
    have "mark_ok (bal_last_pruned sBal)" "mark_ok (bal_last_pruned rBal)"
      using c reads by (auto simp: transfer_checked_def)
    then show ?thesis
      using transfer_move_run [OF m [unfolded o]] by (auto simp: stamped_forms stamped_sends assms(1) split: if_splits)
  qed
  show "list_all stamped_op ws" if t: "pay st params = Inr (p, ws)"
  proof -
    obtain kid amount sAddr rAddr sBal sender receiver q l
      where c: "pay_checked st params kid amount sAddr rAddr sender receiver sBal"
        and m: "pay_move st sBal sender receiver rAddr amount (account_signers kid sender) (pay_options params) = Inr ((q, l), ws)"
      using pay_run [OF t] by blast
    obtain oid memo expiry where o: "pay_options params = (oid, memo, expiry)"
      by (cases "pay_options params")
    have "mark_ok (bal_last_pruned sBal)"
      using c reads by (auto simp: pay_checked_def)
    then show ?thesis
      using pay_move_run [OF m [unfolded o]] by (auto simp: stamped_forms reads split: if_splits)
  qed
  show "payRefund st params = Inr (p, ws) \<Longrightarrow> list_all stamped_op ws"
    by (auto simp: refund_checked_def stamped_forms reads dest!: payRefund_run)
  show "payPrune st params = Inr (p, ws) \<Longrightarrow> list_all stamped_op ws"
    by (auto simp: stamped_sends assms(1) reads prune_ends [OF assms] dest!: payPrune_run)
  show "balancePendingWithdraw st params = Inr (p, ws) \<Longrightarrow> list_all stamped_op ws"
    by (auto simp: stamped_forms reads dest!: balancePendingWithdraw_run)
qed

lemma stamped_feePrune:
  assumes "running st" "honest st" "marks_ok (world st)" "feePrune st params = Inr (p, ws)"
  shows "list_all stamped_op ws"
  using feePrune_run [OF assms(4) runningD(3) [OF assms(1)]]
proof (elim disjE exE conjE)
  fix code token l w0 stime etime0 b ts s bal account
  assume "GetToken st code = Inr token" "last_pruned_or_migrate st code token = Inr (l, w0)"
    "GetFeeSumByTime st code stime (clamp_end ts etime0 b) = Inr s" "GetBalance st (Account_GetID account) = Inr bal"
    "ws = w0 @ fee_prune_writes ts bal code s"
  then show ?thesis
    using marks_read [OF assms(3)] prune_ends(2) [OF assms(2,3)] by (simp add: stamped_forms)
qed simp

lemma stamped_tokens:
  assumes "marks_ok (world st)"
  shows "tokenMint st params = Inr (p, ws) \<Longrightarrow> list_all stamped_op ws" "tokenBurn st params = Inr (p, ws) \<Longrightarrow> list_all stamped_op ws"
    "tokenUpdate st params = Inr (p, ws) \<Longrightarrow> list_all stamped_op ws" "tokenCreate st params = Inr (p, ws) \<Longrightarrow> list_all stamped_op ws"
    "executeTokenMint st cid doc = Inr (p, ws) \<Longrightarrow> list_all stamped_op ws"
    "executeTokenBurn st cid doc = Inr (p, ws) \<Longrightarrow> list_all stamped_op ws"
    "executeTokenCreate st cid doc = Inr (p, ws) \<Longrightarrow> list_all stamped_op ws"
  by (auto dest!: tokenMint_run tokenBurn_run tokenUpdate_run tokenCreate_run executeTokenMint_run executeTokenBurn_run
      executeTokenCreate_run genesis_account_run dest: marks_read [OF assms] stamped_supplies stamped_creates)

lemma stamped_accounts:
  "accountCreate st params = Inr (p, ws) \<Longrightarrow> list_all stamped_op ws"
  "accountSuspend st params = Inr (p, ws) \<Longrightarrow> list_all stamped_op ws"
  "accountUnsuspend st params = Inr (p, ws) \<Longrightarrow> list_all stamped_op ws"
  "accountHolderRemove st params = Inr (p, ws) \<Longrightarrow> list_all stamped_op ws"
  "executeAccountCreate st cid doc = Inr (p, ws) \<Longrightarrow> list_all stamped_op ws"
  "executeAccountHolderAdd st cid doc = Inr (p, ws) \<Longrightarrow> list_all stamped_op ws"
  "executeAccountHolderRemove st cid doc = Inr (p, ws) \<Longrightarrow> list_all stamped_op ws"
  by (auto simp: accountSuspend_def accountUnsuspend_def run dest!: SuspendAccount_run UnsuspendAccount_run accountCreate_run
      accountHolderRemove_run executeAccountCreate_run executeAccountHolderAdd_run executeAccountHolderRemove_run
      dest: stamped_creates stamped_holders)

lemma stamped_settles:
  assumes "honest st" "marks_ok (world st)"
  shows "cancelTransfer st cid doc = Inr (p, ws) \<Longrightarrow> list_all stamped_op ws"
    "executeTransfer st cid doc = Inr (p, ws) \<Longrightarrow> list_all stamped_op ws"
    "executePay st cid doc = Inr (p, ws) \<Longrightarrow> list_all stamped_op ws"
    "contractVoid st cid doc = Inr (p, ws) \<Longrightarrow> list_all stamped_op ws"
  by (auto simp: contractVoid_def run stamped_forms stamped_sends assms(1) stamp_id_long marks_read [OF assms(2)]
      dest!: cancelTransfer_run executeTransfer_run executePay_run)

section \<open>Every transaction\<close>

lemma stamped_callback:
  assumes "honest st" "marks_ok (world st)" "contractCallback st i params = Inr (p, ws)"
  shows "list_all stamped_op ws"
proof -
  obtain dtype fns doc where r: "map_of ctrRoutes dtype = Some fns" "i < length fns" "(fns ! i) st (params ! 0) doc = Inr (p, ws)"
    using contractCallback_run [OF assms(3)] by blast
  then have "fns ! i \<in> {contractVoid, cancelTransfer, executeAccountCreate, executeAccountHolderAdd, executeAccountHolderRemove,
      executePay, executeTokenBurn, executeTokenCreate, executeTokenMint, executeTransfer}"
    using ctr_cases [OF r(1)] by (auto simp: ctrRoutes_def less_Suc_eq)
  then show ?thesis
    using r(3) stamped_settles [OF assms(1,2)] stamped_tokens [OF assms(2)] stamped_accounts
    unfolding insert_iff empty_iff by (elim disjE) metis+
qed

lemma Invoke_keeps_marks:
  assumes "running st" "honest st" "marks_ok (world st)"
  shows "marks_ok (settle (Invoke st fn params) (world st))"
proof (cases "Invoke st fn params")
  case (Inr r)
  obtain p ws where r: "Invoke st fn params = Inr (p, ws)"
    using Inr by (cases r) auto
  obtain txFn where f: "(fn, txFn) \<in> set routes" and t: "txFn st params = Inr (p, ws)"
    using Invoke_cases [OF r] .
  note writers = stamped_money [OF assms(2,3)] stamped_feePrune [OF assms] stamped_tokens [OF assms(3)] stamped_accounts
  have "list_all stamped_op ws"
    using route_cases [OF f]
  proof (elim disjE conjE)
    assume "txFn \<in> {accountGet, accountHolderAdd, accountList, balanceLogs, balancePendingGet, balancePendingList,
      feeList, payGet, payList, tokenGet, ver}"
    then show ?thesis
      using reads_write_nothing [where txFn = txFn, OF _ t] by simp
  next
    assume "txFn \<in> {accountCreate, accountHolderRemove, accountSuspend, accountUnsuspend, balancePendingWithdraw,
      contractCancel, payRefund, tokenBurn, tokenCreate, tokenMint, tokenUpdate, transfer, pay}"
    then show ?thesis
      using t writers stamped_callback [OF assms(2,3)] unfolding contractCancel_def insert_iff empty_iff
      by (elim disjE) (metis contractCancel_def)+
  qed (use t writers stamped_callback [OF assms(2,3)] in \<open>metis contractExecute_def\<close>)+
  then show ?thesis
    using marks_commit assms(3) by (simp add: r settle_def)
qed (simp add: settle_def assms(3))

end
