(* ===== verification/Panics.thy ===== *)
theory Panics
  imports Marks
begin

text \<open>
  Progress beside the preservation of \<open>Dispatch\<close>: on a well-formed ledger no transaction panics. \<open>calm\<close> says
  that a fallible operation does not panic, \<open>safe\<close> the same of a handler. The collection \<open>quiet\<close> has one
  introduction rule per construct of a chain, so that a handler is taken apart along its code, with what
  each step returned at hand; the facts \<open>calm\<close> on the operations of the stubs close the steps.
\<close>

named_theorems quiet \<open>a chain of fallible steps does not panic\<close>

definition calm :: "err + 'a \<Rightarrow> bool" where
  "calm m \<longleftrightarrow> m \<noteq> Inl GoPanic"

definition safe :: "failure + 'a \<Rightarrow> bool" where
  "safe m \<longleftrightarrow> m \<noteq> Inl Panic"

section \<open>One rule per construct\<close>

lemma calm_leaf [simp]: "calm (Inr x)" "calm (Inl e) \<longleftrightarrow> e \<noteq> GoPanic"
  by (simp_all add: calm_def)

lemma safe_leaf [simp]: "safe (Inr x)" "safe (Success p ws)" "safe (Inl f) \<longleftrightarrow> f \<noteq> Panic"
  by (simp_all add: safe_def Success_def)

lemma calm_Inr [quiet]: "calm (Inr x)"
  by simp

lemma safe_Inr [quiet]: "safe (Inr x)" "safe (Success p ws)" "safe (Inl (Error s))"
  by simp_all

lemma calm_if [quiet]: "(c \<Longrightarrow> calm a) \<Longrightarrow> (\<not> c \<Longrightarrow> calm b) \<Longrightarrow> calm (if c then a else b)"
  by simp

lemma safe_if [quiet]: "(c \<Longrightarrow> safe a) \<Longrightarrow> (\<not> c \<Longrightarrow> safe b) \<Longrightarrow> safe (if c then a else b)"
  by simp

lemma calm_Let [quiet]: "calm (k v) \<Longrightarrow> calm (Let v k)"
  by simp

lemma safe_Let [quiet]: "safe (k v) \<Longrightarrow> safe (Let v k)"
  by simp

lemma calm_prod [quiet]: "(\<And>a b. p = (a, b) \<Longrightarrow> calm (k a b)) \<Longrightarrow> calm (case p of (a, b) \<Rightarrow> k a b)"
  by (cases p) simp

lemma safe_prod [quiet]: "(\<And>a b. p = (a, b) \<Longrightarrow> safe (k a b)) \<Longrightarrow> safe (case p of (a, b) \<Rightarrow> k a b)"
  by (cases p) simp

lemma calm_option [quiet]:
  "(m = None \<Longrightarrow> calm a) \<Longrightarrow> (\<And>x. m = Some x \<Longrightarrow> calm (k x)) \<Longrightarrow> calm (case m of None \<Rightarrow> a | Some x \<Rightarrow> k x)"
  by (cases m) simp_all

lemma safe_option [quiet]:
  "(m = None \<Longrightarrow> safe a) \<Longrightarrow> (\<And>x. m = Some x \<Longrightarrow> safe (k x)) \<Longrightarrow> safe (case m of None \<Rightarrow> a | Some x \<Rightarrow> k x)"
  by (cases m) simp_all

lemma calm_sum [quiet]:
  "(\<And>e. m = Inl e \<Longrightarrow> calm (f e)) \<Longrightarrow> (\<And>x. m = Inr x \<Longrightarrow> calm (k x)) \<Longrightarrow> calm (case m of Inl e \<Rightarrow> f e | Inr x \<Rightarrow> k x)"
  by (cases m) simp_all

lemma safe_sum [quiet]:
  "(\<And>e. m = Inl e \<Longrightarrow> safe (f e)) \<Longrightarrow> (\<And>x. m = Inr x \<Longrightarrow> safe (k x)) \<Longrightarrow> safe (case m of Inl e \<Rightarrow> f e | Inr x \<Rightarrow> k x)"
  by (cases m) simp_all

text \<open>A failing step that answers with the panic itself must be shown not to fail.\<close>

lemma calm_require [quiet]:
  "(m = None \<Longrightarrow> e \<noteq> GoPanic) \<Longrightarrow> (\<And>x. m = Some x \<Longrightarrow> calm (k x)) \<Longrightarrow> calm (require m e k)"
  by (cases m) simp_all

lemma safe_require [quiet]:
  "(m = None \<Longrightarrow> f \<noteq> Panic) \<Longrightarrow> (\<And>x. m = Some x \<Longrightarrow> safe (k x)) \<Longrightarrow> safe (require m f k)"
  by (cases m) simp_all

lemma calm_attempt [quiet]:
  "calm m \<Longrightarrow> (\<And>x. m = Inr x \<Longrightarrow> calm (k x)) \<Longrightarrow> calm (attempt m (\<lambda>e. e) k)"
  "calm m \<Longrightarrow> (\<And>x. m = Inr x \<Longrightarrow> calm (k x)) \<Longrightarrow> calm (attempt m (wrap w) k)"
  "(\<And>x. n = Inr x \<Longrightarrow> calm (k x)) \<Longrightarrow> calm (attempt n Plain k)"
  by (cases m; cases n; simp add: failure_panics)+

lemma calm_attempt_const [quiet]:
  "(\<And>e. m = Inl e \<Longrightarrow> b \<noteq> GoPanic) \<Longrightarrow> (\<And>x. m = Inr x \<Longrightarrow> calm (k x)) \<Longrightarrow> calm (attempt m (\<lambda>_. b) k)"
  by (cases m) simp_all

lemma safe_attempt [quiet]:
  "safe n \<Longrightarrow> (\<And>x. n = Inr x \<Longrightarrow> safe (k x)) \<Longrightarrow> safe (attempt n (\<lambda>e. e) k)"
  "calm m \<Longrightarrow> (\<And>x. m = Inr x \<Longrightarrow> safe (k x)) \<Longrightarrow> safe (attempt m (responseError s) k)"
  "calm m \<Longrightarrow> (\<And>x. m = Inr x \<Longrightarrow> safe (k x)) \<Longrightarrow> safe (attempt m (failWith s) k)"
  "calm m \<Longrightarrow> (\<And>x. m = Inr x \<Longrightarrow> safe (k x)) \<Longrightarrow> safe (attempt m shimError k)"
  by (cases m; cases n; simp add: failure_panics)+

lemma safe_attempt_const [quiet]:
  "(\<And>e. m = Inl e \<Longrightarrow> f \<noteq> Panic) \<Longrightarrow> (\<And>x. m = Inr x \<Longrightarrow> safe (k x)) \<Longrightarrow> safe (attempt m (\<lambda>_. f) k)"
  by (cases m) simp_all

section \<open>The stubs\<close>

lemma calm_ops [simp]:
  "calm (GetState st key)" "calm (PutState st key d)" "calm (DelState st key)" "calm (GetTime st)"
  "calm (GetToken st code)" "calm (GetTokenState st code)" "calm (PutToken st t)"
  "calm (GetLastPrunedFeeID st code)" "calm (PutLastPrunedFeeID st l)"
  "calm (GetBalanceState st i)" "calm (GetBalance st i)" "calm (PutBalance st b)"
  "calm (GetPendingBalance st i)" "calm (PutPendingBalance st pb)" "calm (GetPay st i)" "calm (PutPay st q)"
  "calm (CreateFee st i n)" "calm (ValidateTokenCode s)" "calm (ParseAddress sh s)" "calm (ParseFeePolicy s)"
  by (simp_all add: calm_def State_no_panic GetTime_no_panic token_no_panic last_pruned_no_panic balance_no_panic
      pending_no_panic pay_no_panic CreateFee_no_panic ValidateTokenCode_no_panic ParseAddress_no_panic
      ParseFeePolicy_no_panic)

lemma calm_account [quiet]:
  "(\<And>a. d = PersonalAccount a \<Longrightarrow> calm (f a)) \<Longrightarrow> (\<And>a hs. d = JointAccount a hs \<Longrightarrow> calm (g a hs)) \<Longrightarrow>
   calm (case d of PersonalAccount a \<Rightarrow> f a | JointAccount a hs \<Rightarrow> g a hs)"
  by (cases d) simp_all

lemma calm_calls [simp]: "calm (kid_GetID st sec)" "calm (invokeKNT st code args)" "calm (ccid_GetID st)"
  "calm (CreateContract st docb ex signers)"
  by (auto simp: kid_GetID_def invokeKNT_def ccid_GetID_def CreateContract_def Let_def intro!: quiet split: option.splits json.splits)

lemma calm_NewAmount [simp]: "calm (NewAmount s)"
  unfolding NewAmount_def by (intro quiet) simp_all

lemma calm_puts [simp]:
  "calm (PutAccount st a)" "calm (PutHolder st h)" "calm (PutParentPay st key q)" "calm (GetAccountState st i)"
  "calm (CreateBalance st i)"
  unfolding PutAccount_def PutHolder_def PutParentPay_def GetAccountState_def CreateBalance_def
  by (intro quiet; simp)+

lemma calm_PutBalanceLog [simp]: "blog_created l \<noteq> None \<Longrightarrow> calm (PutBalanceLog st l)"
  unfolding PutBalanceLog_def by (elim not_None_eq [THEN iffD1, THEN exE]) (auto intro!: quiet)

lemma calm_put_holders [simp]: "calm (put_holders st ts a kids)"
  by (induction kids) (auto intro!: quiet)

section \<open>Queries\<close>

lemma calm_join_rows [simp]: "calm (join_rows rows)"
  by (induction rows) (auto intro!: quiet)

lemma calm_run_page [simp]: "calm (run_page st q n b)"
  unfolding run_page_def NewQueryResult_def by (intro quiet) simp_all

lemma calm_pages [simp]:
  "calm (GetQueryFees st code b n s e)" "calm (GetQueryBalanceLogs st i ty b n s e)"
  "calm (GetQueryPendingBalances st i srt b n)" "calm (GetQueryHolderAccounts st code kid b n)"
  "calm (GetPaysByTime st i srt b s e n)"
  by (simp_all add: GetQueryFees_def GetQueryBalanceLogs_def GetQueryPendingBalances_def GetQueryHolderAccounts_def
      GetPaysByTime_def Let_def)

lemma calm_pay_sum_loop [simp]: "calm (pay_sum_loop rows cnt acc fee cs)"
  by (induction rows arbitrary: cnt acc fee cs) (auto intro!: quiet simp: Let_def)

lemma calm_fee_sum_loop [simp]: "calm (fee_sum_loop rows cnt acc fs)"
  by (induction rows arbitrary: cnt acc fs) (auto intro!: quiet simp: Let_def)

lemma calm_queries [simp]:
  "calm (GetPaySumByTime st i s e)" "calm (GetFeeSumByTime st i s e)" "calm (GetPayByOrderID st oid)"
  unfolding GetPaySumByTime_def GetFeeSumByTime_def GetPayByOrderID_def
  by (auto intro!: quiet split: list.split)

section \<open>Moving amounts\<close>

lemma calm_moves [simp]:
  "calm (Supply st b n)" "calm (receive st ts s r n memo pt)" "calm (Withdraw st pb)"
  "calm (Pay st b i n fee oid memo)" "calm (Refund st s r n fee memo q)" "calm (PayPendingBalance st pb fee i memo oid)"
  unfolding Supply_def receive_def Withdraw_def Pay_def Refund_def PayPendingBalance_def
  by (intro quiet; simp)+

lemma calm_transfers [simp]:
  "calm (Transfer st s r n fee memo pt)" "calm (TransferPendingBalance st pb r pt)"
  unfolding Transfer_def TransferPendingBalance_def by (intro quiet; simp)+

lemma calm_supplies [simp]: "calm (Burn st t b n)" "calm (Mint st t b n)" "calm (initial_mint st b n)" "calm (set_target st a q)"
  unfolding Burn_def Mint_def initial_mint_def set_target_def by (intro quiet; simp)+

text \<open>Holding an amount reads two fields of the contract that was made.\<close>

lemma calm_Deposit:
  assumes "calm (Contract_GetID con)" "calm (Contract_GetExpiryTime con)"
  shows "calm (Deposit st pid b con n fee memo)"
  using assms unfolding Deposit_def by (intro quiet) simp_all

section \<open>Accounts\<close>

text \<open>Reading an account panics only where a document of a personal account is decoded as one of a joint
  account; on a well-formed ledger the type in the address is that of the document.\<close>

lemma calm_GetAccount:
  assumes "running st" "wf_address (shake_of st) adr"
  shows "calm (GetAccount st adr)"
proof -
  note ok = runningD(2) [OF assms(1)]
  have joint: "\<exists>b hs. d = JointAccount b hs"
    if type: "adr_type adr = AccountTypeJoint" and d: "world st (AccountKey (Address_String adr)) = Some (DAccount d)" for d
  proof -
    have "Account_GetID d = Address_String adr"
      using keyedD [OF ledger_okD(1) [OF ok] d] by simp
    then obtain adr' where "wf_address (shake_of st) adr'" "Address_String adr = Address_String adr'"
      and t: "case d of PersonalAccount _ \<Rightarrow> adr_type adr' = AccountTypePersonal
         | JointAccount _ hs \<Rightarrow> adr_type adr' = AccountTypeJoint \<and> distinct hs"
      using ledger_okD(3) [OF ok d] by (auto simp: account_ok_def)
    then have "adr = adr'"
      using Address_String_inject [OF assms(2)] by blast
    then show ?thesis
      using t type by (cases d) simp_all
  qed
  show ?thesis
    unfolding GetAccount_def
    by (intro quiet) (auto simp: run as_account_def split: doc.splits dest!: joint)
qed

lemma calm_GetAccount_personal [simp]: "calm (GetAccount st (NewAddress sh code AccountTypePersonal kid))"
  unfolding GetAccount_def by (intro quiet) simp_all

lemma calm_personal [simp]:
  "calm (CreateAccount st code kid)" "calm (SuspendAccount st code kid)" "calm (UnsuspendAccount st code kid)"
  "calm (AddHolder st jac hs kid)" "calm (RemoveHolder st jac hs kid)"
  unfolding CreateAccount_def SuspendAccount_def UnsuspendAccount_def AddHolder_def RemoveHolder_def
  by (intro quiet; auto simp: failure_panics dest: calm_GetAccount_personal [THEN calm_def [THEN iffD1], THEN notE])+

lemma calm_GetAccount_at [intro]:
  "running st \<Longrightarrow> ParseAddress (shake_of st) s = Inr adr \<Longrightarrow> calm (GetAccount st adr)"
  "running st \<Longrightarrow> resolve_address st kid s = Inr adr \<Longrightarrow> calm (GetAccount st adr)"
  by (simp_all add: calm_GetAccount ParseAddress_run(1) resolve_address_wf runningD(1))

lemma account_address:
  assumes "running st" "account_exists (world st) i"
  shows "\<exists>adr. ParseAddress (shake_of st) i = Inr adr"
proof -
  note ok = runningD(2) [OF assms(1)]
  obtain d where d: "world st (AccountKey i) = Some d"
    using assms(2) by (auto simp: account_exists_def)
  then have "doc_kind d = 0"
    using keyed_kind [OF ledger_okD(1) [OF ok] d] by simp
  then obtain a where a: "d = DAccount a"
    by (cases d) simp_all
  then obtain adr where "wf_address (shake_of st) adr" "i = Address_String adr"
    using ledger_okD(3) [OF ok d] keyedD [OF ledger_okD(1) [OF ok] d] by (auto simp: account_ok_def)
  then show ?thesis
    using ParseAddress_String by blast
qed

lemma calm_resolve [simp]: "calm (resolve_address st kid s)"
  unfolding resolve_address_def by (intro quiet) simp_all

lemma calm_signables:
  assumes "running st"
  shows "calm (GetSignableIDs st code i)" "calm (add_signables st code addrs signers)"
proof -
  show g: "calm (GetSignableIDs st code i)" for i
    unfolding GetSignableIDs_def by (intro quiet) (auto intro: assms)
  show "calm (add_signables st code addrs signers)"
    by (induction addrs arbitrary: signers) (auto intro!: quiet g)
qed

lemma calm_joint_account:
  assumes "running st" "matches_code code"
  shows "calm (CreateJointAccount st code holders)" "calm (CreateToken st code decimal m s q holders)"
proof -
  have "calm (GetAccount st (NewAddress (shake_of st) code AccountTypeJoint (txid st)))"
    using assms by (intro calm_GetAccount) (simp_all add: wf_NewAddress runningD(1))
  then show j: "calm (CreateJointAccount st code holders)"
    unfolding CreateJointAccount_def by (intro quiet) (auto simp: failure_panics calm_def [of "Inl _"])
  show "calm (CreateToken st code decimal m s q holders)"
    unfolding CreateToken_def by (intro quiet) (simp_all add: j)
qed

section \<open>Fees and meta data\<close>

lemma calm_CalcFee: "running st \<Longrightarrow> calm (CalcFee st payer fn n)"
proof (cases "GetToken st (adr_code payer)")
  case (Inl e)
  then show "calm (CalcFee st payer fn n)"
    using calm_ops(5) [of st "adr_code payer"] by (simp add: CalcFee_def)
next
  case (Inr t)
  moreover assume "running st"
  ultimately have "policy_ok t"
    using GetToken_ok(3) [OF Inr runningD(2)] by (simp add: token_ok_def)
  then show "calm (CalcFee st payer fn n)"
    using CalcFee_total [OF Inr] by simp
qed

lemma calm_meta [simp]: "calm (getValidatedTokenMeta st code)"
  unfolding getValidatedTokenMeta_def by (intro quiet) simp_all

lemma refund_fee_safe:
  assumes "pay_ok q" "0 < n" "pay_total_refund q + n \<le> pay_amount q"
  shows "safe (refund_fee q n)"
  using assms by (auto simp: refund_fee_def pay_ok_def)

lemma calm_holder_parameters:
  assumes "running st"
  shows "calm (getValidatedAccountHolderParameters st params)"
  unfolding getValidatedAccountHolderParameters_def
  by (intro quiet) (auto intro: assms simp: as_joint_def dest!: GetAccount_type split: account_doc.splits)

section \<open>What is relied on\<close>

text \<open>The contract chaincode answers the creation of a contract with an object that holds its identifier and
  its expiry time as strings.\<close>

definition contract_answers :: "stub \<Rightarrow> bool" where
  "contract_answers st \<longleftrightarrow>
     (\<forall>args. let res = invoke st (if dev st then ''kiesnet-cc-contract'' else ''kiesnet-contract'') (''create'' # args) in
        cc_status res = 200 \<longrightarrow>
        (\<exists>m cid ex. json_parse (cc_payload res) = Some (JObj m) \<and> map_of (rev m) ''@contract'' = Some (JStr cid) \<and>
           map_of (rev m) ''expiry_time'' = Some (JStr ex)))"

text \<open>The documents that this chaincode sends to the contract chaincode.\<close>

inductive made_doc :: "shake \<Rightarrow> json list \<Rightarrow> bool" for sh where
  account_create: "matches_code code \<Longrightarrow> made_doc sh [JStr ''account/create'', JStr code, JArr (map JStr kids)]"
| holder_add: "wf_address sh adr \<Longrightarrow> adr_type adr = AccountTypeJoint \<Longrightarrow>
    made_doc sh [JStr ''account/holder/add'', JStr (Address_String adr), JStr kid]"
| holder_remove: "wf_address sh adr \<Longrightarrow> adr_type adr = AccountTypeJoint \<Longrightarrow>
    made_doc sh [JStr ''account/holder/remove'', JStr (Address_String adr), JStr kid]"
| pay: "wf_address sh adr \<Longrightarrow>
    made_doc sh (map JStr [''pay'', pid, sender, Address_String adr, amount, orderID, memo])"
| burn: "made_doc sh [JStr ''token/burn'', JStr code, JStr amount]"
| token_create: "matches_code code \<Longrightarrow> made_doc sh [JStr ''token/create'', JStr code, JArr (map JStr kids)]"
| mint: "made_doc sh [JStr ''token/mint'', JStr code, JStr amount]"
| transfer: "made_doc sh (map JStr [''transfer'', pid, sender, receiver, amount, fee, memo, pt])"

definition made_call :: "stub \<Rightarrow> string list \<Rightarrow> bool" where
  "made_call st params \<longleftrightarrow> (\<forall>doc. parse_doc (params ! 1) = Some doc \<longrightarrow> made_doc (shake_of st) doc)"

lemma contract_fields:
  assumes "contract_answers st" "CreateContract st docb ex signers = Inr con"
  shows "calm (Contract_GetID con)" "calm (Contract_GetExpiryTime con)"
proof -
  have "\<exists>cid t. map_of (rev (con_map con)) ''@contract'' = Some (JStr cid) \<and>
      map_of (rev (con_map con)) ''expiry_time'' = Some (JStr t)"
    using assms(2) assms(1) [unfolded contract_answers_def, rule_format, of "docb # dec_int ex # Set_Strings signers"]
    by (auto simp: CreateContract_def Let_def split: if_splits option.splits json.splits)
  then show "calm (Contract_GetID con)" "calm (Contract_GetExpiryTime con)"
    by (auto simp: Contract_GetID_def Contract_GetExpiryTime_def string_field_def intro!: quiet)
qed

lemma calm_Deposit_made [intro]:
  "contract_answers st \<Longrightarrow> CreateContract st docb ex signers = Inr con \<Longrightarrow> calm (Deposit st pid b con n fee memo)"
  by (intro calm_Deposit contract_fields)

lemma safe_id_time: "19 \<le> length i \<Longrightarrow> safe (id_time i)"
  unfolding id_time_def by (intro quiet) simp_all

lemma safe_start_time: "mark_ok i \<Longrightarrow> safe (start_time i)"
  unfolding start_time_def mark_ok_def by (intro quiet) (auto intro: safe_id_time)

section \<open>Handlers\<close>

lemma safe_invokeContract [simp]: "safe (invokeContract st doc signers)"
  unfolding invokeContract_def by (intro quiet) simp_all

lemma safe_time_params [simp]: "safe (time_params params i)" "safe (prune_end params ts)"
  unfolding time_params_def time_param_def prune_end_def by (intro quiet; simp)+

lemma safe_senders [simp]: "safe (transfer_sender st kid rAddr s)" "safe (pay_sender st kid rAddr s)"
  unfolding transfer_sender_def pay_sender_def by (intro quiet; simp)+

lemma sender_calm [intro]:
  assumes "running st" "ParseAddress (shake_of st) r = Inr rAddr"
  shows "transfer_sender st kid rAddr s = Inr sAddr \<Longrightarrow> calm (GetAccount st sAddr)"
    "pay_sender st kid rAddr s = Inr sAddr \<Longrightarrow> calm (GetAccount st sAddr)"
  using assms by (auto simp: transfer_sender_def pay_sender_def run split: if_splits)

lemma safe_transfer_options: "running st \<Longrightarrow> safe (transfer_options st code params signers)"
  unfolding transfer_options_def by (intro quiet) (simp_all add: calm_signables)

lemma safe_transfer_move: "contract_answers st \<Longrightarrow> safe (transfer_move st params sBal rBal s r n fee opts)"
  unfolding transfer_move_def by (intro quiet) auto

lemma safe_pay_move:
  "running st \<Longrightarrow> contract_answers st \<Longrightarrow> safe (pay_move st sBal s r rAddr n signers opts)"
  unfolding pay_move_def by (intro quiet) (auto intro: calm_CalcFee)

lemma safe_moves:
  assumes "running st" "contract_answers st"
  shows "safe (transfer st params)" "safe (pay st params)"
  unfolding transfer_def pay_def using assms
  by (intro quiet; auto intro: calm_CalcFee safe_transfer_options safe_transfer_move safe_pay_move)+

lemma safe_payRefund: "running st \<Longrightarrow> safe (payRefund st params)"
  unfolding payRefund_def
  by (intro quiet) (auto intro!: refund_fee_safe dest: GetPay_ok(3) [OF _ runningD(2)])

lemma safe_marks:
  assumes "marks_ok (world st)"
  shows "GetBalance st i = Inr b \<Longrightarrow> safe (start_time (bal_last_pruned b))"
    "GetToken st code = Inr t \<Longrightarrow> last_pruned_or_migrate st code t = Inr (l, ws) \<Longrightarrow> safe (start_time (lpf_fee_id l))"
proof -
  show "GetBalance st i = Inr b \<Longrightarrow> safe (start_time (bal_last_pruned b))"
    using marks_read(1) [OF assms] by (auto intro: safe_start_time)
  assume t: "GetToken st code = Inr t" and l: "last_pruned_or_migrate st code t = Inr (l, ws)"
  show "safe (start_time (lpf_fee_id l))"
    using marks_read(2,4) [OF assms] t l by (blast intro: safe_start_time)
qed

lemma safe_payPrune: "running st \<Longrightarrow> marks_ok (world st) \<Longrightarrow> safe (payPrune st params)"
  unfolding payPrune_def by (intro quiet) (auto intro: safe_marks)

lemma fee_target_address:
  assumes "running st" "GetToken st code = Inr t" "tok_policy t = Some policy"
  shows "\<exists>adr. ParseAddress (shake_of st) (fp_target policy) = Inr adr"
  using account_address [OF assms(1)] GetToken_ok(3) [OF assms(2) runningD(2) [OF assms(1)]] assms(3)
  by (simp add: token_ok_def)

lemma safe_migrate [simp]: "safe (last_pruned_or_migrate st code t)"
  unfolding last_pruned_or_migrate_def
  by (intro quiet) (auto simp: failure_panics dest: calm_ops(8) [unfolded calm_def, THEN notE])

lemma safe_feePrune:
  assumes "running st" "marks_ok (world st)"
  shows "safe (feePrune st params)"
  unfolding feePrune_def using assms
  by (intro quiet) (auto intro: safe_marks dest: fee_target_address [rotated])

lemma safe_lists [simp]:
  "safe (payList st params)" "safe (payGet st params)" "safe (balanceLogs st params)" "safe (balancePendingGet st params)"
  "safe (balancePendingList st params)" "safe (feeList st params)" "safe (accountList st params)" "safe (tokenGet st params)"
  "safe (ver st params)"
  unfolding payList_def payGet_def balanceLogs_def balancePendingGet_def balancePendingList_def feeList_def accountList_def
    tokenGet_def ver_def
  by (intro quiet; simp)+

lemma pending_address:
  assumes "running st" "GetPendingBalance st i = Inr pb"
  shows "ParseAddress (shake_of st) (pb_account pb) \<noteq> Inl e" "pb_pending pb \<noteq> None"
  using account_address [OF assms(1)] GetPendingBalance_ok(3,4) [OF assms(2) runningD(2) [OF assms(1)]] by force+

lemma safe_withdraw: "running st \<Longrightarrow> safe (balancePendingWithdraw st params)"
  unfolding balancePendingWithdraw_def by (intro quiet) (auto dest: pending_address)

lemma safe_accounts:
  assumes "running st"
  shows "safe (accountCreate st params)" "safe (accountGet st params)" "safe (accountSuspend st params)"
    "safe (accountUnsuspend st params)"
  unfolding accountCreate_def accountGet_def accountSuspend_def accountUnsuspend_def using assms
  by (intro quiet; auto simp: failure_panics calm_signables dest: calm_ops(6) [unfolded calm_def, THEN notE])+

lemma safe_holders:
  assumes "running st"
  shows "safe (accountHolderAdd st params)" "safe (accountHolderRemove st params)"
proof -
  have personal: "as_personal a \<noteq> None"
    if "getValidatedAccountHolderParameters st params = Inr (x, taddr)" "GetAccount st taddr = Inr a" for x taddr a
    using that GetAccount_type [OF that(2)]
    by (auto simp: getValidatedAccountHolderParameters_def run as_personal_def split: if_splits)
  have wf: "calm (GetAccount st taddr)"
    if "getValidatedAccountHolderParameters st params = Inr (x, taddr)" for x taddr
    using that assms by (auto simp: getValidatedAccountHolderParameters_def run split: if_splits)
  show "safe (accountHolderAdd st params)" "safe (accountHolderRemove st params)"
    unfolding accountHolderAdd_def accountHolderRemove_def
    by (intro quiet; auto simp: calm_holder_parameters assms dest: personal wf)+
qed

text \<open>The genesis account of a token is a joint account, so both type assertions hold.\<close>

lemma genesis_address:
  assumes "running st" "GetToken st code = Inr t"
  shows "\<exists>adr. ParseAddress (shake_of st) (tok_genesis t) = Inr adr \<and> adr_type adr = AccountTypeJoint"
  using GetToken_ok(3) [OF assms(2) runningD(2) [OF assms(1)]] ParseAddress_String by (fastforce simp: token_ok_def)

lemma safe_genesis:
  assumes "running st" "GetToken st code = Inr t"
  shows "safe (genesis_account st t kid)" "genesis_account st t kid = Inr (a, b) \<Longrightarrow> as_joint a \<noteq> None"
proof -
  obtain adr where adr: "ParseAddress (shake_of st) (tok_genesis t) = Inr adr" "adr_type adr = AccountTypeJoint"
    using genesis_address [OF assms] by blast
  show "safe (genesis_account st t kid)"
    unfolding genesis_account_def using adr(1) assms(1) by (intro quiet) auto
  show "genesis_account st t kid = Inr (a, b) \<Longrightarrow> as_joint a \<noteq> None"
    using adr by (auto simp: genesis_account_def run as_joint_def dest!: GetAccount_type)
qed

lemma safe_not_issued [simp]: "safe (not_issued st code)" "safe (updated_policy st t q)"
  unfolding not_issued_def updated_policy_def
  by (intro quiet; auto simp: failure_panics dest: calm_ops(6) [unfolded calm_def, THEN notE])+

lemma safe_tokens:
  assumes "running st"
  shows "safe (tokenBurn st params)" "safe (tokenMint st params)" "safe (tokenUpdate st params)"
  unfolding tokenBurn_def tokenMint_def tokenUpdate_def using assms
  by (intro quiet; auto intro: safe_genesis(1) dest: safe_genesis(2))+

lemma safe_tokenCreate: "running st \<Longrightarrow> safe (tokenCreate st params)"
  unfolding tokenCreate_def
  by (intro quiet) (auto simp: calm_signables calm_joint_account ValidateTokenCode_run)

section \<open>Callbacks\<close>

lemma str_at_nth [simp]: "i < length doc \<Longrightarrow> doc ! i = JStr s \<Longrightarrow> str_at doc i = Inr s"
  by (simp add: str_at_run)

lemma safe_executeAccountCreate:
  "running st \<Longrightarrow> matches_code code \<Longrightarrow> safe (executeAccountCreate st cid [JStr ty, JStr code, JArr (map JStr kids)])"
  unfolding executeAccountCreate_def by (intro quiet) (auto simp: calm_joint_account)

lemma safe_executeTokenCreate:
  "running st \<Longrightarrow> matches_code code \<Longrightarrow> safe (executeTokenCreate st cid [JStr ty, JStr code, JArr (map JStr kids)])"
  unfolding executeTokenCreate_def by (intro quiet) (auto simp: calm_joint_account)

lemma safe_executeHolders:
  assumes "running st" "wf_address (shake_of st) adr" "adr_type adr = AccountTypeJoint"
  shows "safe (executeAccountHolderAdd st cid [JStr ty, JStr (Address_String adr), JStr kid])"
    "safe (executeAccountHolderRemove st cid [JStr ty, JStr (Address_String adr), JStr kid])"
  unfolding executeAccountHolderAdd_def executeAccountHolderRemove_def
  by (intro quiet; auto simp: assms ParseAddress_String as_joint_def intro: calm_GetAccount dest!: GetAccount_type)+

lemma safe_executeSupplies:
  "safe (executeTokenBurn st cid [JStr ty, JStr code, JStr n])" "safe (executeTokenMint st cid [JStr ty, JStr code, JStr n])"
  unfolding executeTokenBurn_def executeTokenMint_def by (intro quiet; simp)+

lemma safe_executeTransfer:
  "safe (executeTransfer st cid (map JStr [ty, pid, sender, receiver, amount, fee, memo, pt]))"
  unfolding executeTransfer_def by (intro quiet) (simp_all add: numeral_nat)

lemma safe_executePay:
  "running st \<Longrightarrow> wf_address (shake_of st) adr \<Longrightarrow>
   safe (executePay st cid (map JStr [ty, pid, sender, Address_String adr, amount, orderID, memo]))"
  unfolding executePay_def by (intro quiet) (auto simp: numeral_nat ParseAddress_String calm_CalcFee)

lemma safe_cancelTransfer: "doc = ty # JStr pid # rest \<Longrightarrow> safe (cancelTransfer st cid doc)"
  unfolding cancelTransfer_def by (intro quiet) simp_all

lemma safe_contractVoid [simp]: "safe (contractVoid st cid doc)"
  by (simp add: contractVoid_def)

lemma made_doc_routes:
  assumes "running st" "made_doc (shake_of st) doc"
  shows "\<exists>dtype fns. str_at doc 0 = Inr dtype \<and> map_of ctrRoutes dtype = Some fns \<and>
    (\<forall>i<2. i < length fns \<and> safe ((fns ! i) st cid doc))"
  using assms(2)
proof cases
qed (use assms(1) in \<open>auto simp: ctrRoutes_def less_2_cases_iff safe_executeAccountCreate safe_executeTokenCreate
    safe_executeHolders safe_executeSupplies
    intro: safe_cancelTransfer safe_executeTransfer [simplified] safe_executePay [simplified]\<close>)

lemma safe_callback:
  assumes "running st" "made_call st params" "i < 2"
  shows "safe (contractCallback st i params)"
proof -
  have "\<exists>dtype fns. str_at doc 0 = Inr dtype \<and> map_of ctrRoutes dtype = Some fns \<and> i < length fns \<and>
      safe ((fns ! i) st (params ! 0) doc)" if "parse_doc (params ! 1) = Some doc" for doc
    using made_doc_routes [OF assms(1), of doc "params ! 0"] assms(2,3) that by (auto simp: made_call_def)
  then show ?thesis
    unfolding contractCallback_def by (intro quiet) fastforce+
qed

section \<open>Every transaction\<close>

lemma Invoke_safe:
  assumes "running st" "contract_answers st" "marks_ok (world st)"
    "fn \<in> {''contract/execute'', ''contract/cancel''} \<Longrightarrow> made_call st params"
  shows "Invoke st fn params \<noteq> Inl Panic"
proof (cases "map_of routes fn")
  case (Some txFn)
  have "safe (txFn st params)"
    using map_of_SomeD [OF Some] assms
    by (auto simp: routes_def contractExecute_def contractCancel_def safe_accounts safe_holders safe_withdraw safe_callback
        safe_feePrune safe_moves safe_payPrune safe_payRefund safe_tokens safe_tokenCreate)
  then show ?thesis
    using Some by (simp add: Invoke_def safe_def)
qed (simp add: Invoke_def)

text \<open>The ledgers that transactions build from the empty one on an honest platform.\<close>

inductive served :: "shake \<Rightarrow> ledger \<Rightarrow> bool" for sh where
  empty: "served sh Map.empty"
| step: "served sh L \<Longrightarrow> world st = L \<Longrightarrow> shake_of st = sh \<Longrightarrow> trusted_call st fn params \<Longrightarrow> honest st \<Longrightarrow>
    served sh (settle (Invoke st fn params) L)"

lemma served_reachable: "served sh L \<Longrightarrow> reachable sh L"
  by (induction rule: served.induct) (auto intro: reachable.intros)

lemma served_ok: "served sh L \<Longrightarrow> shake_ok sh \<Longrightarrow> ledger_ok sh L"
  using reachable_ok served_reachable by blast

lemma served_marks: "served sh L \<Longrightarrow> shake_ok sh \<Longrightarrow> marks_ok L"
proof (induction rule: served.induct)
  case (step L st fn params)
  then have "running st"
    using served_ok [OF step.hyps(1) step.prems] by (simp add: running_def)
  then show ?case
    using Invoke_keeps_marks [of st fn params] step by simp
qed simp

text \<open>C5: no transaction panics. On every ledger that transactions build from the empty one, whatever the
  function, the parameters and the faults of the ledger, the chaincode answers with a result or an error and
  never with a run-time panic: no type assertion fails, no index or slice is out of range, no nil is
  dereferenced and nothing is divided by zero. What is relied on: identifiers of transactions are long and
  queries answer with documents of the ledger; the contract chaincode answers with the two fields that are
  read and calls back with documents that this chaincode made.\<close>

theorem Invoke_never_panics:
  assumes "served (shake_of st) (world st)" and "shake_ok (shake_of st)" and "contract_answers st"
    and "fn \<in> {''contract/execute'', ''contract/cancel''} \<longrightarrow> made_call st params"
  shows "Invoke st fn params \<noteq> Inl Panic"
  using Invoke_safe [of st fn params] served_ok [OF assms(1,2)] served_marks [OF assms(1,2)] assms
  by (simp add: running_def)

abbreviation demo_long :: stub where
  "demo_long \<equiv> demo kidA\<lparr>world := Map.empty, txid := replicate 64 CHR ''a'', query := \<lambda>_. Inr []\<rparr>"

lemma demo_long_sel:
  "GetTime demo_long = Inr t1" "kid_GetID demo_long sec = Inr kidA" "not_issued demo_long ''NEW'' = Inr ()"
  "getValidatedTokenMeta demo_long ''NEW'' = getValidatedTokenMeta (demo kidA) ''NEW''"
  using demo_time [of kidA] demo_kid [of kidA sec]
  by (simp_all add: GetTime_def kid_GetID_def not_issued_run demo_sel getValidatedTokenMeta_def invokeKNT_def)

lemma demo_long_token:
  "\<exists>p ws t. Invoke demo_long ''token/create'' [''new''] = Inr (p, ws) \<and>
     commit ws Map.empty (TokenKey ''NEW'') = Some (DToken t) \<and> tok_supply t = 100"
proof -
  define adr where "adr = NewAddress demo_shake ''NEW'' AccountTypeJoint (replicate 64 CHR ''a'')"
  have "GetAccount demo_long adr = Inl (NotExistedAccountError (Address_String adr))"
    by (simp add: GetAccount_missing demo)
  then show ?thesis
    by (simp add: Invoke_def routes_def tokenCreate_def ValidateTokenCode_def NEW demo_meta CreateToken_def CreateJointAccount_def
        CreateBalance_def set_target_def initial_mint_def Supply_def is_NotExistedAccountError_def set_defs put_defs PutState_def
        Success_def demo demo_long_sel log_key_def Let_def adr_def [symmetric] del: replicate.simps)
qed

lemma demo_long_ok: "honest demo_long" "trusted_call demo_long ''token/create'' params" "contract_answers (demo_long\<lparr>world := L\<rparr>)"
proof -
  show "honest demo_long" "trusted_call demo_long ''token/create'' params"
    by (simp_all add: honest_def trusted_call_def)
  show "contract_answers (demo_long\<lparr>world := L\<rparr>)"
    unfolding contract_answers_def
    by (simp add: demo_def demo_invoke_def demo_contract_def json_parse_print del: json_print.simps)
qed

theorem Invoke_never_panics_witness:
  "\<exists>L. L (TokenKey ''NEW'') \<noteq> None \<and>
     (\<forall>fn params. fn \<notin> {''contract/execute'', ''contract/cancel''} \<longrightarrow> Invoke (demo_long\<lparr>world := L\<rparr>) fn params \<noteq> Inl Panic)"
proof -
  obtain p ws t where r: "Invoke demo_long ''token/create'' [''new''] = Inr (p, ws)"
    and t: "commit ws Map.empty (TokenKey ''NEW'') = Some (DToken t)"
    using demo_long_token by blast
  have "served demo_shake (commit ws Map.empty)"
    using served.step [OF served.empty, of demo_long demo_shake "''token/create''" "[''new'']"] demo_long_ok r
    by (simp add: settle_def demo)
  then have "Invoke (demo_long\<lparr>world := commit ws Map.empty\<rparr>) fn params \<noteq> Inl Panic"
    if "fn \<notin> {''contract/execute'', ''contract/cancel''}" for fn params
    using Invoke_never_panics [of "demo_long\<lparr>world := commit ws Map.empty\<rparr>" fn params] that demo_long_ok(3) by (simp add: demo)
  then show ?thesis
    using t by blast
qed

end
