(* ===== verification/Progress.thy ===== *)
theory Progress
  imports Panics
begin

text \<open>
  Liveness (\<open>TransferTx\<close>, \<open>BalanceTx\<close>): what is allowed goes through. Where no read or write of the ledger fails, a
  transfer that is covered succeeds, and so does the withdrawal of a pending balance that is due. The other
  theories say what a successful transaction does; these say when there is one.
\<close>

definition faultless :: "stub \<Rightarrow> bool" where
  "faultless st \<longleftrightarrow> (\<forall>k. get_fault st k = None \<and> put_fault st k = None)"

lemma faultless_state:
  assumes "faultless st"
  shows "GetState st k = Inr (world st k)" "PutState st k d = Inr [Put k d]" "DelState st k = Inr [Del k]"
  using assms by (simp_all add: faultless_def GetState_def PutState_def DelState_def)

text \<open>A stored account is what its own address gives, and its balance is there.\<close>

lemma stored_account:
  assumes "running st" "faultless st" "stores (world st) (DAccount a)"
  obtains adr b where "ParseAddress (shake_of st) (Account_GetID a) = Inr adr" "GetAccount st adr = Inr a"
    "adr_code adr = Account_GetToken a" "Address_String adr = Account_GetID a"
    "GetBalance st (Account_GetID a) = Inr b" "bal_id b = Account_GetID a" "stores (world st) (DBalance b)"
proof -
  note ok = runningD(2) [OF assms(1)]
  let ?i = "Account_GetID a"
  have a: "world st (AccountKey ?i) = Some (DAccount a)"
    using assms(3) by (simp add: stores_def)
  obtain adr where adr: "wf_address (shake_of st) adr" "?i = Address_String adr" "Account_GetToken a = adr_code adr"
    and type: "case a of PersonalAccount _ \<Rightarrow> adr_type adr = AccountTypePersonal
         | JointAccount _ hs \<Rightarrow> adr_type adr = AccountTypeJoint \<and> distinct hs"
    using ledger_okD(3) [OF ok a] by (auto simp: account_ok_def)
  have "ParseAddress (shake_of st) ?i = Inr adr"
    using ParseAddress_String [OF adr(1)] adr(2) by simp
  moreover have "GetAccount st adr = Inr a"
    using type a by (simp add: GetAccount_def GetAccountState_def faultless_state [OF assms(2)] adr(2) split: account_doc.splits)
  moreover obtain b where b: "world st (BalanceKey ?i) = Some (DBalance b)"
  proof -
    obtain d where d: "world st (BalanceKey ?i) = Some d"
      using ledger_okD(4) [OF ok, of ?i] a by (auto simp: account_exists_def)
    then have "doc_kind d = 2"
      using keyed_kind [OF ledger_okD(1) [OF ok] d] by simp
    then show thesis
      using d that by (cases d) simp_all
  qed
  then have g: "GetBalance st ?i = Inr b"
    using assms(2) by (simp add: run faultless_def)
  ultimately show thesis
    using that adr GetBalance_ok(1,2) [OF g ok] by (simp add: stores_def)
qed

lemma faultless_puts:
  assumes "faultless st"
  shows "PutBalance st b = Inr [put_balance b]" "PutPendingBalance st pb = Inr [put_pending pb]"
    "blog_created l \<noteq> None \<Longrightarrow> PutBalanceLog st l = Inr [Put (log_key l) (DBalanceLog l)]"
    "GetTime st = Inr ts \<Longrightarrow> \<exists>f. CreateFee st i n = Inr (f, fee_writes st ts i n)"
proof -
  note states = faultless_state [OF assms]
  show "PutBalance st b = Inr [put_balance b]" "PutPendingBalance st pb = Inr [put_pending pb]"
    by (simp_all add: PutBalance_def PutPendingBalance_def states put_balance_def put_pending_def)
  show "blog_created l \<noteq> None \<Longrightarrow> PutBalanceLog st l = Inr [Put (log_key l) (DBalanceLog l)]"
    using assms by (simp add: run faultless_def)
  show "GetTime st = Inr ts \<Longrightarrow> \<exists>f. CreateFee st i n = Inr (f, fee_writes st ts i n)"
    by (simp add: CreateFee_def PutFee_def states fee_writes_def Let_def)
qed

lemma Transfer_goes_through:
  assumes "faultless st" "GetTime st = Inr ts"
  shows "\<exists>l. Transfer st s r n fee memo pt = Inr (l, transfer_writes st ts s r n fee memo pt)"
proof -
  have "receive st ts s r n memo pt = Inr (receive_writes st ts s r n memo pt)"
    by (auto simp: receive_def receive_writes_def faultless_puts [OF assms(1)] put_log_def with_amount_def Let_def)
  moreover obtain f where "CreateFee st (bal_id s) fee = Inr (f, fee_writes st ts (bal_id s) fee)"
    using faultless_puts(4) [OF assms] by blast
  ultimately show ?thesis
    using assms(2) by (simp add: Transfer_def transfer_writes_def faultless_puts [OF assms(1)] put_log_def with_amount_def Let_def)
qed

lemma Withdraw_goes_through:
  assumes "faultless st" "GetTime st = Inr ts" "GetBalance st (pb_account pb) = Inr b"
  shows "\<exists>l. Withdraw st pb = Inr (l, withdraw_writes ts b pb)"
  using assms(2,3)
  by (auto simp: Withdraw_def withdraw_writes_def faultless_puts [OF assms(1)] faultless_state [OF assms(1)] put_log_def
      with_amount_def fee_or_zero_def Let_def split: option.splits)

section \<open>Transfers\<close>

lemma sole_signer:
  assumes "HasHolder a kid" "\<forall>k. HasHolder a k \<longrightarrow> k = kid"
  shows "Set_Size (account_signers kid a) = 1"
proof -
  have new: "Set_New [kid] = [kid]"
    by (simp add: set_defs)
  have one: "foldl Set_Add [kid] hs = [kid]" if "set hs \<subseteq> {kid}" for hs
    using that by (induction hs) (simp_all add: Set_Add_def)
  show ?thesis
  proof (cases a)
    case (JointAccount jac hs)
    then have "set hs \<subseteq> {kid}"
      using assms(2) by (auto simp: Set_Contains_def)
    then show ?thesis
      using one JointAccount by (simp add: account_signers_def new Set_AppendSet_def Set_Strings_def Set_Size_def)
  qed (simp add: account_signers_def new Set_Size_def)
qed

lemma parsed_nonempty: "ParseAddress sh i = Inr adr \<Longrightarrow> i \<noteq> []"
  by (auto simp: ParseAddress_def ToUpper_def)

text \<open>C2: a covered transfer goes through. The only holder of an account that is not suspended can send any
  positive amount that together with its fee is within the balance to any other account of the token that is
  not suspended.\<close>

theorem covered_transfer_succeeds:
  assumes "running st" and "faultless st" and "GetTime st = Inr ts" and "kid_GetID st True = Inr kid"
    and "stores (world st) (DAccount a)" and "stores (world st) (DAccount b)"
    and "Account_GetID a \<noteq> Account_GetID b" and "Account_GetToken a = Account_GetToken b"
    and "HasHolder a kid" and "\<forall>k. HasHolder a k \<longrightarrow> k = kid" and "\<not> IsSuspended a" and "\<not> IsSuspended b"
    and "stores (world st) (DToken t)" and "tok_code t = Account_GetToken a"
    and "stores (world st) (DBalance bal)" and "bal_id bal = Account_GetID a"
    and "0 < n" and "n + fee_spec t (Account_GetID a) ''transfer'' n \<le> bal_amount bal"
  shows "\<exists>l ws. transfer st [Account_GetID a, Account_GetID b, dec_int n] = Inr (Log l, ws)"
proof -
  obtain adrA bA where A: "ParseAddress (shake_of st) (Account_GetID a) = Inr adrA" "GetAccount st adrA = Inr a"
    "adr_code adrA = Account_GetToken a" "Address_String adrA = Account_GetID a" "GetBalance st (Account_GetID a) = Inr bA"
    "bal_id bA = Account_GetID a" "stores (world st) (DBalance bA)"
    using stored_account [OF assms(1,2,5)] .
  obtain adrB bB where B: "ParseAddress (shake_of st) (Account_GetID b) = Inr adrB" "GetAccount st adrB = Inr b"
    "adr_code adrB = Account_GetToken b" "Address_String adrB = Account_GetID b" "GetBalance st (Account_GetID b) = Inr bB"
    using stored_account [OF assms(1,2,6)] .
  have bal: "bA = bal"
    using A(6,7) assms(15,16) by (simp add: stores_def)
  have neq: "adrA \<noteq> adrB"
    using assms(7) A(4) B(4) by metis
  have t: "GetToken st (adr_code adrA) = Inr t"
    using assms(2,13,14) A(3) by (simp add: run stores_def faultless_def)
  let ?fee = "fee_spec t (Account_GetID a) ''transfer'' n"
  have fee: "CalcFee st adrA ''transfer'' n = Inr ?fee"
    using CalcFee_total [OF t] GetToken_ok(3) [OF t runningD(2) [OF assms(1)]] A(4) by (simp add: token_ok_def)
  have n: "NewAmount (dec_int n) = Inr n"
    by (simp add: NewAmount_def dec_int_def)
  obtain l where l: "Transfer st bal bB n ?fee [] None = Inr (l, transfer_writes st ts bal bB n ?fee [] None)"
    using Transfer_goes_through [OF assms(2,3)] by blast
  have "adr_code adrA = Account_GetToken b"
    using A(3) assms(8) by simp
  then show ?thesis
    by (simp add: transfer_def transfer_sender_def transfer_options_def transfer_move_def Success_def Let_def
        A(1,2,5) B(1,2,3,5) neq fee n bal l sole_signer [OF assms(9,10)] parsed_nonempty [OF A(1)] assms(4,9,11,12,17,18) not_less not_le)
qed

theorem covered_transfer_succeeds_witness: "\<exists>l ws. transfer (demo kidA) [idA, idB, dec_int 100] = Inr (Log l, ws)"
proof -
  have "fee_spec demo_token idA ''transfer'' 100 = 1"
    using CalcFee_total [of "demo kidA" adrA demo_token "''transfer''" 100] demo_token_ok
    by (simp add: demo token_ok_def)
  then show ?thesis
    using covered_transfer_succeeds [of "demo kidA" t1 kidA demo_accA demo_accB demo_token "demo_balance idA 1000" 100]
    by (simp add: demo stores_def faultless_def IsSuspended_def Account_GetID_def Account_GetToken_def account_of_def)
qed

section \<open>Withdrawals\<close>

text \<open>C21: a pending balance that is due can be withdrawn. Once its time has come, a holder of its account, which
  is not suspended, gets it.\<close>

theorem due_withdrawal_succeeds:
  assumes "running st" and "faultless st" and "GetTime st = Inr ts" and "kid_GetID st True = Inr kid"
    and "stores (world st) (DPending pb)" and "readable_pending pb" and "pb_pending pb = Some pt" and "pt \<le> ts"
    and "stores (world st) (DAccount a)" and "Account_GetID a = pb_account pb" and "HasHolder a kid" and "\<not> IsSuspended a"
  shows "\<exists>l ws. balancePendingWithdraw st [pb_id pb] = Inr (Log l, ws)"
proof -
  obtain adr b where A: "ParseAddress (shake_of st) (Account_GetID a) = Inr adr" "GetAccount st adr = Inr a"
    "GetBalance st (Account_GetID a) = Inr b"
    using stored_account [OF assms(1,2,9)] .
  have "GetPendingBalance st (pb_id pb) = Inr pb"
    using assms(2,5,6) by (simp add: run stores_def faultless_def)
  then show ?thesis
    using A assms Withdraw_goes_through [OF assms(2,3), of pb b]
    by (auto simp: balancePendingWithdraw_def Success_def not_less)
qed

theorem due_withdrawal_succeeds_witness: "\<exists>l ws. balancePendingWithdraw (demo kidA) [''e1''] = Inr (Log l, ws)"
  using due_withdrawal_succeeds [of "demo kidA" t1 kidA demo_escrow t0 demo_accA]
  by (simp add: demo stores_def faultless_def IsSuspended_def Account_GetID_def account_of_def readable_pending_def)

end
