(* ===== verification/Pays.thy ===== *)
theory Pays
  imports Demo
begin

text \<open>
  Properties of the pay handlers (\<open>PayTx\<close>) over the account book: paying, executing a multi-signature
  pay, refunding, the fee of a refund, and pruning.
\<close>

section \<open>Paying\<close>

text \<open>The abstract pay: the amount leaves the sender; it stands in a pay to the merchant, or is held for the
  signers of a contract.\<close>

definition pay_spec :: "stub \<Rightarrow> string list \<Rightarrow> string \<Rightarrow> ledger \<Rightarrow> bool" where
  "pay_spec st params s L' \<longleftrightarrow>
     (\<exists>kid sender n m ts. kid_GetID st True = Inr kid \<and> stores (world st) (DAccount sender) \<and>
        Account_GetID sender = s \<and> HasHolder sender kid \<and> \<not> IsSuspended sender \<and>
        NewAmount (params ! 2) = Inr n \<and> 0 < n \<and> s \<noteq> ToUpper (params ! 1) \<and>
        code_of s = code_of (ToUpper (params ! 1)) \<and>
        bk_balance (book_of (world st)) s = Some m \<and> n \<le> m \<and> GetTime st = Inr ts \<and>
        (if Set_Size (account_signers kid sender) > 1
         then book_of L' = add_balance s (- n) (hold (txid st) s n (book_of (world st)))
         else book_of L' = add_balance s (- n) (bill (stamp_id st ts) (ToUpper (params ! 1)) n (book_of (world st))) \<and>
           (\<exists>token q. GetToken st (code_of s) = Inr token \<and> L' (PayKey (stamp_id st ts)) = Some (DPay q) \<and>
              pay_fee q = fee_spec token (ToUpper (params ! 1)) ''pay'' n \<and> pay_rid q = s \<and> pay_total_refund q = 0 \<and>
              pay_order q = (if length params > 3 then params ! 3 else []) \<and>
              pay_memo q = (if length params > 4 then cut_memo (params ! 4) else []))))"

lemma pay_ids:
  assumes "running st" "pay_checked st params kid n sAddr rAddr sender receiver sBal"
  shows "bal_id sBal = Address_String sAddr" "Account_GetID receiver = ToUpper (params ! 1)"
    "Address_String rAddr = ToUpper (params ! 1)" "bal_id sBal \<noteq> ToUpper (params ! 1)"
    "code_of (bal_id sBal) = adr_code rAddr" "code_of (ToUpper (params ! 1)) = adr_code rAddr"
    "stores (world st) (DBalance sBal)" "stores (world st) (DAccount sender)" "Account_GetID sender = bal_id sBal"
proof -
  let ?sh = "shake_of st"
  note sh = runningD(1) [OF assms(1)] and ok = runningD(2) [OF assms(1)]
  note c = assms(2) [unfolded pay_checked_def]
  have r: "wf_address ?sh rAddr" "Address_String rAddr = ToUpper (params ! 1)"
    using c ParseAddress_run by auto
  then have s: "wf_address ?sh sAddr" "adr_code sAddr = adr_code rAddr"
    using c pay_sender_run [of st kid rAddr _ sAddr] sh by auto
  have a: "Account_GetID sender = Address_String sAddr" "Account_GetID receiver = Address_String rAddr"
    "stores (world st) (DAccount sender)"
    using GetAccount_ok(1,2) [OF _ ok s(1), of sender] GetAccount_ok(1) [OF _ ok r(1), of receiver] c
    by (simp_all add: stores_def)
  have sb: "GetBalance st (Account_GetID sender) = Inr sBal"
    using c by auto
  note b = GetBalance_ok [OF sb ok]
  show "bal_id sBal = Address_String sAddr" "Account_GetID receiver = ToUpper (params ! 1)"
    "Address_String rAddr = ToUpper (params ! 1)"
    "stores (world st) (DBalance sBal)" "stores (world st) (DAccount sender)" "Account_GetID sender = bal_id sBal"
    using a b r by (simp_all add: stores_def)
  show "bal_id sBal \<noteq> ToUpper (params ! 1)"
    using a b r Address_String_inject [OF s(1) r(1)] c by auto
  show "code_of (bal_id sBal) = adr_code rAddr"
    using a b s code_of_String [OF s(1)] by simp
  show "code_of (ToUpper (params ! 1)) = adr_code rAddr"
    using code_of_String [OF r(1)] r(2) by simp
qed

lemma pay_options_parts:
  "fst (pay_options params) = (if length params > 3 then params ! 3 else [])"
  "fst (snd (pay_options params)) = (if length params > 4 then cut_memo (params ! 4) else [])"
  by (simp_all add: pay_options_def Let_def)

text \<open>C13: a successful pay refines the abstract pay. The amount is positive and covered, it leaves an account of
  the invoker that is not suspended, and it stands in a new pay to the merchant, or is held when the sender
  has several holders. The pay records the sender, the order id, the memo and the merchant's fee by the
  token's policy, which is only charged when the pay is pruned.\<close>

theorem pay_refines:
  assumes "running st" and "pay st params = Inr (p, ws)"
  shows "\<exists>s. pay_spec st params s (commit ws (world st))"
proof -
  obtain kid n sAddr rAddr sender receiver sBal q l
    where c: "pay_checked st params kid n sAddr rAddr sender receiver sBal"
      and m: "pay_move st sBal sender receiver rAddr n (account_signers kid sender) (pay_options params) = Inr ((q, l), ws)"
    using pay_run [OF assms(2)] by blast
  note ids = pay_ids [OF assms(1) c]
  obtain oid memo expiry where o: "pay_options params = (oid, memo, expiry)"
    by (cases "pay_options params")
  let ?signers = "account_signers kid sender"
  obtain ts where ts: "GetTime st = Inr ts"
    and w: "if Set_Size ?signers > 1
     then q = None \<and> Set_Size ?signers \<le> 128 \<and>
       (\<exists>con cid ex. Contract_GetID con = Inr cid \<and> Contract_GetExpiryTime con = Inr ex \<and>
          ws = deposit_writes ts sBal (deposit_pending ts (txid st) (bal_id sBal) cid n None memo ex))
     else \<exists>fee p. CalcFee st rAddr ''pay'' n = Inr fee \<and> q = Some p \<and>
       p = NewPay (Account_GetID receiver) (stamp_id st ts) n fee (bal_id sBal) [] oid memo ts \<and>
       ws = pay_writes ts sBal p"
    using pay_move_run [OF m [unfolded o]] by blast
  have "pay_spec st params (bal_id sBal) (commit ws (world st))"
  proof (cases "Set_Size ?signers > 1")
    case True
    with w have "book_of (commit ws (world st)) = add_balance (bal_id sBal) (- n)
        (hold (txid st) (bal_id sBal) n (book_of (world st)))"
      using book_of_deposit [OF ids(7)] by (auto simp: Let_def)
    then show ?thesis
      unfolding pay_spec_def
      by (intro exI [of _ kid] exI [of _ sender] exI [of _ n] exI [of _ "bal_amount sBal"] exI [of _ ts])
        (use True ts ids c book_of_sel(1) [OF ids(7)] in \<open>auto simp: pay_checked_def\<close>)
  next
    case False
    with w obtain fee p where fee: "CalcFee st rAddr ''pay'' n = Inr fee"
      and p: "p = NewPay (ToUpper (params ! 1)) (stamp_id st ts) n fee (bal_id sBal) [] oid memo ts"
      and ws: "ws = pay_writes ts sBal p"
      using ids(2) by auto
    obtain token where t: "GetToken st (adr_code rAddr) = Inr token"
      "fee = fee_spec token (ToUpper (params ! 1)) ''pay'' n"
      using CalcFee_value [OF fee] ids(3) by metis
    have "commit ws (world st) (PayKey (stamp_id st ts)) = Some (DPay p)"
      by (simp add: ws p pay_writes_def put_pay_def write_forms log_key_def Let_def)
    moreover have "book_of (commit ws (world st)) = add_balance (bal_id sBal) (- n)
        (bill (stamp_id st ts) (ToUpper (params ! 1)) n (book_of (world st)))"
      using book_of_pay [OF ids(7), of ts p] by (simp add: ws p)
    ultimately show ?thesis
      unfolding pay_spec_def
      by (intro exI [of _ kid] exI [of _ sender] exI [of _ n] exI [of _ "bal_amount sBal"] exI [of _ ts])
        (use False ts ids t c p pay_options_parts [of params] book_of_sel(1) [OF ids(7)]
          in \<open>auto simp: pay_checked_def o\<close>)
  qed
  then show ?thesis ..
qed

theorem pay_refines_witness:
  "\<exists>p ws s. pay (demo kidA) [[], idB, ''100''] = Inr (p, ws) \<and>
     pay_spec (demo kidA) [[], idB, ''100''] s (commit ws demo_ledger)"
proof -
  obtain p ws where "pay (demo kidA) [[], idB, ''100''] = Inr (p, ws)"
    using demo_pays by blast
  then show ?thesis
    using pay_refines [OF demo_running, of kidA "[[], idB, ''100'']" p ws] by (auto simp: demo)
qed

text \<open>C23: the execution of a multi-signature pay turns the held amount into a pay to the merchant of the
  document with the merchant's fee, and exchanges two of its fields: the document that \<open>pay\<close> made carries
  the order id before the memo, but the new pay has the order id as its memo and the memo as its order id.\<close>

theorem executePay_swaps:
  assumes "running st"
    and "executePay st cid
      [JStr ''pay'', JStr pid, JStr s, JStr merchant, JStr amount, JStr orderID, JStr memo] = Inr (p, ws)"
  shows "\<exists>pb ts q. GetPendingBalance st pid = Inr pb \<and> own_pending pb cid \<and> GetTime st = Inr ts \<and>
    commit ws (world st) (PayKey (stamp_id st ts)) = Some (DPay q) \<and>
    pay_memo q = orderID \<and> pay_order q = memo \<and>
    pay_account q = merchant \<and> pay_amount q = pb_amount pb \<and> pay_rid q = pb_account pb \<and> pay_total_refund q = 0 \<and>
    commit ws (world st) (PendingKey pid) = None"
proof -
  obtain pb rAddr fee ts q where "GetPendingBalance st pid = Inr pb" "own_pending pb cid" "GetTime st = Inr ts"
    and "ws = [put_pay q, Del (PendingKey (pb_id pb))]"
    and "q = NewPay merchant (stamp_id st ts) (pb_amount pb) fee (pb_account pb) [] memo orderID ts"
    using executePay_run [OF assms(2)] by auto
  moreover have "pb_id pb = pid"
    using GetPendingBalance_ok(1) [OF calculation(1) runningD(2) [OF assms(1)]] .
  ultimately show ?thesis
    by (auto simp: put_pay_def)
qed

theorem executePay_swaps_witness:
  "\<exists>p ws q. executePay (demo kidA) ''c2'' [JStr ''pay'', JStr ''e2'', JStr idA, JStr idB, JStr ''10'', JStr ''order'', JStr ''memo''] =
       Inr (p, ws) \<and>
     commit ws demo_ledger (PayKey (stamp_id (demo kidA) t1)) = Some (DPay q) \<and>
     pay_memo q = ''order'' \<and> pay_order q = ''memo''"
proof -
  obtain p ws where "executePay (demo kidA) ''c2''
      [JStr ''pay'', JStr ''e2'', JStr idA, JStr idB, JStr ''10'', JStr ''order'', JStr ''memo''] = Inr (p, ws)"
    using demo_execute_pay by blast
  then show ?thesis
    using executePay_swaps [OF demo_running, of kidA "''c2''" "''e2''" idA idB "''10''" "''order''" "''memo''" p ws]
    by (auto simp: demo)
qed

section \<open>Refunding\<close>

text \<open>C12: a refund is made by a holder of the merchant's account, which is not suspended, to the payer of the
  original pay; together with the earlier refunds it stays within the amount of that pay, which the pay's
  total records. The payer's balance grows by the amount and a pay of the negated amount is booked for the
  merchant; nothing is taken from the merchant's balance.\<close>

theorem payRefund_refines:
  assumes "running st" and "fresh_tx st" and "payRefund st params = Inr (p, ws)"
  shows "\<exists>parent n kid a ts. stores (world st) (DPay parent) \<and> pay_id parent = params ! 0 \<and>
    NewAmount (params ! 1) = Inr n \<and> 0 < n \<and> pay_total_refund parent + n \<le> pay_amount parent \<and>
    kid_GetID st True = Inr kid \<and> stores (world st) (DAccount a) \<and>
    Account_GetID a = ToUpper (pay_account parent) \<and> HasHolder a kid \<and> \<not> IsSuspended a \<and> GetTime st = Inr ts \<and>
    commit ws (world st) (PayKey (params ! 0)) = Some (DPay (parent\<lparr>pay_total_refund := pay_total_refund parent + n\<rparr>)) \<and>
    book_of (commit ws (world st)) =
      add_balance (ToUpper (pay_rid parent)) n
        (bill (stamp_id st ts) (ToUpper (pay_account parent)) (- n) (book_of (world st)))"
proof -
  note ok = runningD(2) [OF assms(1)]
  obtain kid n parent sAddr rAddr sender receiver sBal rBal fee memo ts q
    where c: "refund_checked st params kid n parent sAddr rAddr sender receiver sBal rBal fee"
      and ts: "GetTime st = Inr ts" and ws: "ws = refund_writes ts rBal q parent"
      and q: "q = NewPay (bal_id sBal) (stamp_id st ts) (- n) (- fee) (bal_id rBal) (pay_id parent) [] memo ts"
    using payRefund_run [OF assms(3)] by blast
  note c = c [unfolded refund_checked_def]
  have parse: "ParseAddress (shake_of st) (pay_account parent) = Inr sAddr" "ParseAddress (shake_of st) (pay_rid parent) = Inr rAddr"
    using c by auto
  note S = ParseAddress_run [OF parse(1)] and R = ParseAddress_run [OF parse(2)]
  have p: "GetPay st (params ! 0) = Inr parent"
    using c by simp
  note P = GetPay_ok [OF p ok]
  have ids: "Account_GetID sender = ToUpper (pay_account parent)" "Account_GetID receiver = ToUpper (pay_rid parent)"
    "stores (world st) (DAccount sender)"
    using GetAccount_ok(1,2) [OF _ ok S(1), of sender] GetAccount_ok(1) [OF _ ok R(1), of receiver] c S R
    by (simp_all add: stores_def)
  have bals: "GetBalance st (ToUpper (pay_account parent)) = Inr sBal" "GetBalance st (ToUpper (pay_rid parent)) = Inr rBal"
    using c ids by auto
  note SB = GetBalance_ok [OF bals(1) ok] and RB = GetBalance_ok [OF bals(2) ok]
  have st: "stores (world st) (DBalance rBal)" "stores (world st) (DPay parent)"
    using RB P by (simp_all add: stores_def)
  have neq: "pay_id q \<noteq> pay_id parent"
    using fresh_txD(3) [OF assms(2) ts] P(2) by (auto simp: q)
  have "commit ws (world st) (PayKey (params ! 0)) = Some (DPay (parent\<lparr>pay_total_refund := pay_total_refund parent + n\<rparr>))"
    using neq P(1) by (auto simp: ws q refund_writes_def put_pay_def write_forms log_key_def Let_def)
  then show ?thesis
    using c ts st ids P(1) SB(1) RB(1) book_of_refund [OF st neq, of ts] unfolding ws by (auto simp: q)
qed

theorem payRefund_refines_witness:
  "\<exists>p ws. payRefund (demo kidB) [''p1'', ''70''] = Inr (p, ws) \<and>
     commit ws demo_ledger (PayKey ''p1'') = Some (DPay (demo_pay\<lparr>pay_total_refund := 70\<rparr>))"
proof -
  obtain p ws where "payRefund (demo kidB) [''p1'', ''70''] = Inr (p, ws)"
    using demo_refund by blast
  then show ?thesis
    using payRefund_refines [OF demo_running demo_fresh, of kidB "[''p1'', ''70'']" p ws]
    by (auto simp: demo stores_def demo_pay_def)
qed

text \<open>C30: the part of the fee that a refund gives back. For a pay whose fee is between zero and its amount, a
  refund of part of it gives back a fee between zero and the smaller of the refund and the whole fee, a
  total refund gives back the whole fee, and two partial refunds never give back more than one refund of
  their sum.\<close>

theorem refund_fee_bounds:
  assumes "0 \<le> pay_fee q" and "pay_fee q \<le> pay_amount q" and "0 < m" and "0 < n" and "m + n \<le> pay_amount q"
  shows "\<exists>f g h. refund_fee q m = Inr f \<and> refund_fee q n = Inr g \<and> refund_fee q (m + n) = Inr h \<and>
    0 \<le> f \<and> f \<le> m \<and> f \<le> pay_fee q \<and> f + g \<le> h \<and> refund_fee q (pay_amount q) = Inr (pay_fee q)"
proof -
  let ?r = "of_int (pay_fee q) / of_int (pay_amount q) :: rat"
  have a: "0 < pay_amount q" "m \<noteq> pay_amount q" "n \<noteq> pay_amount q"
    using assms by linarith+
  have r: "0 \<le> ?r" "?r \<le> 1"
    using assms a by (simp_all add: divide_le_eq_1)
  let ?F = "\<lambda>k. \<lfloor>of_int k * ?r\<rfloor>"
  have whole: "?F (pay_amount q) = pay_fee q"
    using a by simp
  have F: "refund_fee q k = Inr (?F k)" for k
    using a whole by (auto simp: refund_fee_def MulRat_floor)
  have "of_int (m + n) * ?r = of_int m * ?r + of_int n * ?r"
    by (simp only: of_int_add distrib_right)
  then have "?F m + ?F n \<le> ?F (m + n)"
    using le_floor_add [of "of_int m * ?r" "of_int n * ?r"] by (simp only:)
  moreover have "0 \<le> ?F m" "?F m \<le> m"
    using r assms(3) MulRat_nonneg [of m ?r] MulRat_le [of m ?r] by (simp_all only: MulRat_floor)
  moreover have "?F m \<le> ?F (pay_amount q)"
    using r assms by (intro floor_mono mult_right_mono) simp_all
  ultimately show ?thesis
    using F whole by auto
qed

theorem refund_fee_bounds_witness:
  "\<exists>f g h. refund_fee demo_pay 70 = Inr f \<and> refund_fee demo_pay 7 = Inr g \<and> refund_fee demo_pay (70 + 7) = Inr h \<and>
     0 \<le> f \<and> f \<le> 70 \<and> f \<le> 10 \<and> f + g \<le> h \<and> refund_fee demo_pay 100 = Inr 10"
  using refund_fee_bounds [of demo_pay 70 7] by (simp add: demo_pay_def)

section \<open>Pruning\<close>

text \<open>C17: a prune of a merchant's pays. The invoker holds the account, which is not suspended. The chaincode asks for
  the pays from the last pruned one to the end time, which lies ten minutes back when the flag asks for it, and
  reads at most 901 rows of the answer, all of them pays. The balance grows by the sum of the amounts less the
  sum of the fees of the first 900, the fees are charged as one fee, and the last of these pays is recorded as
  the start of the next prune.\<close>

theorem payPrune_refines:
  assumes "running st" and "payPrune st params = Inr (p, ws)"
  shows "\<exists>kid a b b' stime etime etime0 flag ts s rows pays. kid_GetID st True = Inr kid \<and> stores (world st) (DAccount a) \<and> HasHolder a kid \<and>
    \<not> IsSuspended a \<and> stores (world st) (DBalance b) \<and> bal_id b = Account_GetID a \<and>
    start_time (bal_last_pruned b) = Inr stime \<and> GetTime st = Inr ts \<and> prune_end params ts = Inr etime0 \<and>
    ParseBool (params ! 1) = Some flag \<and> etime = (if flag then min etime0 (ts - 600 * nanos) else etime0) \<and>
    query st (CreateQueryPrunePays (bal_id b) stime etime) = Inr rows \<and> take 901 rows = map (\<lambda>x. Inr (DPay x)) pays \<and>
    s = pay_total pays \<and> 0 < ps_count s \<and> p = PaySum s \<and>
    stores (commit ws (world st)) (DBalance b') \<and> bal_id b' = bal_id b \<and>
    bal_last_pruned b' = (if ps_end s \<noteq> [] then ps_end s else bal_last_pruned b) \<and>
    book_of (commit ws (world st)) =
      charge (stamp_id st ts) (code_of (bal_id b)) (ps_fee s)
        (add_balance (bal_id b) (ps_sum s - ps_fee s) (book_of (world st)))"
proof -
  note ok = runningD(2) [OF assms(1)]
  obtain kid addr account bal stime ts etime0 flag s
    where k: "kid_GetID st True = Inr kid" "HasHolder account kid" "\<not> IsSuspended account"
      and addr: "resolve_address st kid (params ! 0) = Inr addr" and acc: "GetAccount st addr = Inr account"
      and bal: "GetBalance st (Account_GetID account) = Inr bal"
      and t: "start_time (bal_last_pruned bal) = Inr stime" "GetTime st = Inr ts" "prune_end params ts = Inr etime0"
        "ParseBool (params ! 1) = Some flag"
      and s: "GetPaySumByTime st (Account_GetID account) stime (clamp_end ts etime0 flag) = Inr s" "0 < ps_count s"
      and p: "p = PaySum s" and ws: "ws = prune_writes st ts (Account_GetID account) bal s"
    using payPrune_run [OF assms(2)] by blast
  have wf: "wf_address (shake_of st) addr"
    using resolve_address_wf [OF addr runningD(1) [OF assms(1)]] .
  note A = GetAccount_ok [OF acc ok wf] and B = GetBalance_ok [OF bal ok]
  have st: "stores (world st) (DBalance bal)" "stores (world st) (DAccount account)"
    using A B by (simp_all add: stores_def)
  have clamp: "clamp_end ts etime0 flag = (if flag then min etime0 (ts - 600 * nanos) else etime0)"
    by (simp add: clamp_end_def Let_def min_def)
  obtain rows pays where "query st (CreateQueryPrunePays (Account_GetID account) stime (clamp_end ts etime0 flag)) = Inr rows"
    "take (Suc PaysPruneSize) rows = map (\<lambda>x. Inr (DPay x)) pays" and total: "s = pay_total pays"
    using GetPaySumByTime_read [OF s(1)] .
  then have rows: "query st (CreateQueryPrunePays (bal_id bal) stime (clamp_end ts etime0 flag)) = Inr rows"
    "take 901 rows = map (\<lambda>x. Inr (DPay x)) pays"
    using B(1) by (simp_all add: PaysPruneSize_def)
  have put: "stores (commit ws (world st)) (DBalance (pruned_balance bal ts s))"
    by (simp add: stores_def ws prune_writes_def write_forms log_key_def pruned_balance_def fee_writes_def Let_def)
  have sel: "bal_id (pruned_balance bal ts s) = bal_id bal"
    "bal_last_pruned (pruned_balance bal ts s) = (if ps_end s \<noteq> [] then ps_end s else bal_last_pruned bal)"
    by (simp_all add: pruned_balance_def)
  have book: "book_of (commit ws (world st)) = charge (stamp_id st ts) (code_of (bal_id bal)) (ps_fee s)
      (add_balance (bal_id bal) (ps_sum s - ps_fee s) (book_of (world st)))"
    using book_of_prune [OF st(1), of st ts s] by (simp only: ws B(1))
  show ?thesis
    by (intro exI [of _ kid] exI [of _ account] exI [of _ bal] exI [of _ "pruned_balance bal ts s"] exI [of _ stime]
        exI [of _ "clamp_end ts etime0 flag"] exI [of _ etime0] exI [of _ flag] exI [of _ ts] exI [of _ s]
        exI [of _ rows] exI [of _ pays] conjI)
      (fact k st B(1) t clamp rows total s(2) p put sel book)+
qed

theorem payPrune_refines_witness:
  "\<exists>p ws. payPrune (demo kidB) [''TKN'', ''true''] = Inr (p, ws) \<and> p = PaySum (pay_total [demo_pay])"
proof -
  obtain p ws where "payPrune (demo kidB) [''TKN'', ''true''] = Inr (p, ws)"
    using demo_prune by blast
  then show ?thesis
    using payPrune_refines [OF demo_running, of kidB "[''TKN'', ''true'']" p ws]
    by (auto simp: demo take_Cons')
qed

text \<open>C31: the loop over the rows of a prune stops at the limit: it sums the amounts and the fees of the first
  900 pays, counts them, names the first and the last of them, and reports more exactly when the query
  has further rows.\<close>

theorem GetPaySumByTime_prefix:
  assumes "query st (CreateQueryPrunePays i s e) = Inr (map (\<lambda>x. Inr (DPay x)) pays)"
  shows "\<exists>r. GetPaySumByTime st i s e = Inr r \<and> ps_count r = min 900 (length pays) \<and>
    ps_sum r = (\<Sum>x\<leftarrow>take 900 pays. pay_amount x) \<and> ps_fee r = (\<Sum>x\<leftarrow>take 900 pays. pay_fee x) \<and>
    (ps_has_more r \<longleftrightarrow> 900 < length pays) \<and>
    (pays \<noteq> [] \<longrightarrow> ps_start r = pay_id (hd pays) \<and> ps_end r = pay_id (last (take 900 pays)))"
  using GetPaySumByTime_rows [OF assms]
  by (cases pays) (auto simp: pay_total_def PaysPruneSize_def last_or_def Let_def last_map)

theorem GetPaySumByTime_prefix_witness:
  "\<exists>r. GetPaySumByTime (demo kidB) idB t0 t1 = Inr r \<and> ps_count r = 1 \<and> ps_sum r = 100 \<and> ps_fee r = 10"
  using GetPaySumByTime_prefix [of "demo kidB" idB t0 t1 "[demo_pay]"] by (auto simp: demo demo_pay_def)

end
