(* ===== verification/Callbacks.thy ===== *)
theory Callbacks
  imports Demo
begin

text \<open>
  Properties of the contract callbacks (\<open>Chaincode\<close>, \<open>TransferTx\<close>, \<open>PayTx\<close>): who may call them, which
  pending balances a contract reaches, what an unknown document does, and the pending balances that
  nobody can reach any more.
\<close>

section \<open>Deleted pending balances\<close>

lemma commit_gone: "L k \<noteq> None \<Longrightarrow> commit ws L k = None \<Longrightarrow> Del k \<in> set ws"
proof (induction ws arbitrary: L)
  case (Cons w ws)
  show ?case
  proof (cases "apply_write w L k")
    case None
    then show ?thesis
      using Cons.prems(1) by (cases w) (auto split: if_splits)
  next
    case (Some d)
    then show ?thesis
      using Cons.IH [of "apply_write w L"] Cons.prems(2) by simp
  qed
qed simp

lemmas form_defs = supply_writes_def receive_writes_def transfer_pending_writes_def deposit_writes_def
  withdraw_writes_def fee_writes_def create_writes_def write_forms put_account_def put_holder_def put_token_def
  put_pay_def

lemma Burn_dels: "Burn st t bal n = Inr (t', l, ws) \<Longrightarrow> Del k \<notin> set ws"
  by (auto simp: form_defs Let_def dest!: Burn_run split: if_splits)

lemma Mint_dels: "Mint st t bal n = Inr (t', l, ws) \<Longrightarrow> Del k \<notin> set ws"
  by (auto simp: form_defs Let_def dest!: Mint_run)

lemma CreateToken_dels: "CreateToken st c d m s policy hs = Inr (t, ws) \<Longrightarrow> Del k \<notin> set ws"
  by (auto simp: form_defs Let_def dest!: CreateToken_run split: if_splits)

lemma CreateJoint_dels: "CreateJointAccount st c hs = Inr (a, b, ws) \<Longrightarrow> Del k \<notin> set ws"
  by (auto simp: form_defs Let_def dest!: CreateJointAccount_run)

text \<open>What a callback may delete of the pending balances.\<close>

definition settles_own :: "stub \<Rightarrow> string \<Rightarrow> state_op list \<Rightarrow> bool" where
  "settles_own st cid ws \<longleftrightarrow>
     (\<forall>pid. Del (PendingKey pid) \<in> set ws \<longrightarrow>
        (\<exists>pb. GetPendingBalance st pid = Inr pb \<and> own_pending pb cid))"

lemma settles_own_none: "(\<And>pid. Del (PendingKey pid) \<notin> set ws) \<Longrightarrow> settles_own st cid ws"
  by (simp add: settles_own_def)

lemma money_settles:
  assumes "running st"
  shows "cancelTransfer st cid doc = Inr (p, ws) \<Longrightarrow> settles_own st cid ws"
    "executeTransfer st cid doc = Inr (p, ws) \<Longrightarrow> settles_own st cid ws"
    "executePay st cid doc = Inr (p, ws) \<Longrightarrow> settles_own st cid ws"
proof -
  have P: "GetPendingBalance st pid = Inr pb \<Longrightarrow> GetPendingBalance st (pb_id pb) = Inr pb" for pid pb
    using GetPendingBalance_ok(1) [OF _ runningD(2) [OF assms]] by auto
  show "cancelTransfer st cid doc = Inr (p, ws) \<Longrightarrow> settles_own st cid ws"
    by (auto simp: settles_own_def form_defs Let_def dest!: cancelTransfer_run dest: P)
  show "executeTransfer st cid doc = Inr (p, ws) \<Longrightarrow> settles_own st cid ws"
    by (auto simp: settles_own_def form_defs Let_def dest!: executeTransfer_run dest: P split: if_splits)
  show "executePay st cid doc = Inr (p, ws) \<Longrightarrow> settles_own st cid ws"
    by (auto simp: settles_own_def form_defs Let_def dest!: executePay_run dest: P)
qed

lemma other_settles:
  "executeAccountCreate st cid doc = Inr (p, ws) \<Longrightarrow> settles_own st cid ws"
  "executeAccountHolderAdd st cid doc = Inr (p, ws) \<Longrightarrow> settles_own st cid ws"
  "executeAccountHolderRemove st cid doc = Inr (p, ws) \<Longrightarrow> settles_own st cid ws"
  "executeTokenBurn st cid doc = Inr (p, ws) \<Longrightarrow> settles_own st cid ws"
  "executeTokenCreate st cid doc = Inr (p, ws) \<Longrightarrow> settles_own st cid ws"
  "executeTokenMint st cid doc = Inr (p, ws) \<Longrightarrow> settles_own st cid ws"
  "contractVoid st cid doc = Inr (p, ws) \<Longrightarrow> settles_own st cid ws"
  by (auto simp: settles_own_def contractVoid_def run put_account_def put_holder_def
      dest!: executeAccountCreate_run executeAccountHolderAdd_run executeAccountHolderRemove_run executeTokenBurn_run
        executeTokenCreate_run executeTokenMint_run AddHolder_run RemoveHolder_run
      dest: Burn_dels Mint_dels CreateToken_dels CreateJoint_dels)

lemma callback_settles:
  assumes "running st" "contractCallback st i params = Inr (p, ws)"
  shows "settles_own st (params ! 0) ws"
proof -
  obtain doc dtype fns where r: "map_of ctrRoutes dtype = Some fns" "i < length fns"
    "(fns ! i) st (params ! 0) doc = Inr (p, ws)"
    using contractCallback_run [OF assms(2)] by blast
  have "fns ! i \<in> {contractVoid, cancelTransfer, executeAccountCreate, executeAccountHolderAdd,
      executeAccountHolderRemove, executePay, executeTokenBurn, executeTokenCreate, executeTokenMint, executeTransfer}"
    using ctr_cases [OF r(1)] r(2) by (auto simp: ctrRoutes_def less_Suc_eq)
  then show ?thesis
    using money_settles [OF assms(1)] other_settles r(3) unfolding insert_iff empty_iff
    by (elim disjE) metis+
qed

section \<open>Access\<close>

text \<open>C6: only the contract chaincode settles pending balances by a callback, and only those held for the
  contract it calls back for: when a pending balance is gone after a successful \<open>contract/execute\<close> or
  \<open>contract/cancel\<close>, the transaction was signed for \<open>kiesnet-contract\<close> or \<open>kiesnet-cc-contract\<close> and the
  pending balance is of the contract type with the identifier the callback names.\<close>

theorem callback_settles_own:
  assumes "running st" and "Invoke st fn params = Inr (p, ws)" and "fn \<in> {''contract/execute'', ''contract/cancel''}"
    and "world st (PendingKey pid) = Some (DPending pb)" and "commit ws (world st) (PendingKey pid) = None"
  shows "caller_cc st \<in> {Inr ''kiesnet-contract'', Inr ''kiesnet-cc-contract''} \<and>
    pb_type pb = PendingBalanceTypeContract \<and> pb_rid pb = params ! 0"
proof -
  have "\<exists>i. contractCallback st i params = Inr (p, ws)"
    using assms(2,3) by (auto simp: Invoke_def routes_def contractExecute_def contractCancel_def)
  then obtain i where i: "contractCallback st i params = Inr (p, ws)" ..
  have "Del (PendingKey pid) \<in> set ws"
    using assms(4,5) by (intro commit_gone [of "world st"]) simp_all
  then obtain pb' where "GetPendingBalance st pid = Inr pb'" "own_pending pb' (params ! 0)"
    using callback_settles [OF assms(1) i] by (auto simp: settles_own_def)
  then show ?thesis
    using contractCallback_run [OF i] assms(4) by (auto simp: run own_pending_def)
qed

theorem callback_settles_own_witness:
  "\<exists>p ws. Invoke (demo kidA) ''contract/execute'' [''c1'', demo_text] = Inr (p, ws) \<and>
     commit ws demo_ledger (PendingKey ''e1'') = None \<and> pb_rid demo_escrow = ''c1''"
proof -
  obtain p ws where i: "Invoke (demo kidA) ''contract/execute'' [''c1'', demo_text] = Inr (p, ws)"
    and "commit ws demo_ledger (PendingKey ''e1'') = None"
    using demo_callback by blast
  then show ?thesis
    using callback_settles_own [OF demo_running i, of "''e1''" demo_escrow] by (simp add: demo)
qed

text \<open>C32: a callback with a document of a type that the chaincode does not know makes it panic: the routes
  give a nil slice for it, which is indexed before the test for a missing handler.\<close>

theorem unknown_contract_panics:
  assumes "length params = 2" and "caller_cc st = Inr ''kiesnet-contract''" and "kid_GetID st True = Inr kid"
    and "parse_doc (params ! 1) = Some (JStr dtype # doc)" and "map_of ctrRoutes dtype = None"
  shows "Invoke st ''contract/execute'' params = Inl Panic"
  using assms
  by (simp add: Invoke_def routes_def contractExecute_def contractCallback_def ccid_GetID_def str_at_def)

lemma parse_bogus: "parse_doc (json_print (JArr [JStr ''bogus''])) = Some [JStr ''bogus'']"
  unfolding parse_doc_def by (subst json_parse_print) simp_all

theorem unknown_contract_panics_witness:
  "Invoke (demo kidA) ''contract/execute'' [''c1'', json_print (JArr [JStr ''bogus''])] = Inl Panic"
  by (rule unknown_contract_panics [where kid = kidA and dtype = "''bogus''" and doc = "[]"])
    (simp_all add: demo parse_bogus ctrRoutes_def del: json_print.simps)

text \<open>C33: an amount that is time-locked beyond the year 9999 is lost. The chaincode accepts such a pending time
  and stores it, but the printed time does not parse again, so every later operation on that pending
  balance fails: its withdrawal, and its cancellation and execution by a contract.\<close>

theorem far_pending_stuck:
  assumes "world st (PendingKey pid) = Some (DPending pb)" and "pb_pending pb = Some t" and "9999 < time_year t"
  shows "balancePendingWithdraw st [pid] \<noteq> Inr r \<and> cancelTransfer st cid (ty # JStr pid # doc) \<noteq> Inr r \<and>
    executeTransfer st cid (ty # JStr pid # doc) \<noteq> Inr r \<and> executePay st cid (ty # JStr pid # doc) \<noteq> Inr r"
proof (intro conjI)
  have g: "GetPendingBalance st pid \<noteq> Inr pb'" for pb'
    using assms by (auto simp: run readable_pending_def readable_time_def)
  obtain p ws where r: "r = (p, ws)"
    by (cases r)
  show "balancePendingWithdraw st [pid] \<noteq> Inr r"
    using g balancePendingWithdraw_run [of st "[pid]" p ws] by (auto simp: r)
  show "cancelTransfer st cid (ty # JStr pid # doc) \<noteq> Inr r"
    using g cancelTransfer_run [of st cid "ty # JStr pid # doc" p ws] by (auto simp: r)
  show "executeTransfer st cid (ty # JStr pid # doc) \<noteq> Inr r"
    using g executeTransfer_run [of st cid "ty # JStr pid # doc" p ws] by (auto simp: r)
  show "executePay st cid (ty # JStr pid # doc) \<noteq> Inr r"
    using g executePay_run [of st cid "ty # JStr pid # doc" p ws] by (auto simp: r)
qed

theorem far_pending_stuck_witness:
  "\<exists>p ws. transfer (demo kidA) [[], idB, ''100'', [], ''253402300800''] = Inr (p, ws) \<and>
     (\<forall>kid L r. L (PendingKey ''tx'') = commit ws demo_ledger (PendingKey ''tx'') \<longrightarrow>
        balancePendingWithdraw ((demo kid)\<lparr>world := L\<rparr>) [''tx''] \<noteq> Inr r)"
proof -
  obtain p ws pb where "transfer (demo kidA) [[], idB, ''100'', [], ''253402300800''] = Inr (p, ws)"
    and pb: "commit ws demo_ledger (PendingKey ''tx'') = Some (DPending pb)" "pb_pending pb = Some t9"
    using demo_lock by blast
  moreover have "9999 < time_year t9"
    by (simp add: t9_year)
  ultimately show ?thesis
    using far_pending_stuck [OF _ pb(2), THEN conjunct1] by auto
qed

end
