(* ===== verification/Transfers.thy ===== *)
theory Transfers
  imports Demo
begin

text \<open>
  Properties of the transfer handlers (\<open>TransferTx\<close>, \<open>BalanceTx\<close>) over the account book: what a
  transfer, its cancellation and its execution do to the balances and pending balances, who may cause
  them, and what the contract chaincode can reach.
\<close>

section \<open>Transfers\<close>

text \<open>The abstract transfer of \<open>n\<close> from \<open>s\<close> to \<open>r\<close>, with its fee: at once, under a time lock, or held
  for the signers of a contract.\<close>

datatype transfer_mode = Now | Locked | Escrowed

fun transfer_book :: "transfer_mode \<Rightarrow> string \<Rightarrow> string \<Rightarrow> string \<Rightarrow> string \<Rightarrow> amount \<Rightarrow> amount \<Rightarrow> book \<Rightarrow> book" where
  "transfer_book Now tx fid s r n fee bk =
     charge fid (code_of s) fee (add_balance s (- (n + fee)) (add_balance r n bk))"
| "transfer_book Locked tx fid s r n fee bk =
     charge fid (code_of s) fee (add_balance s (- (n + fee)) (hold tx r n bk))"
| "transfer_book Escrowed tx fid s r n fee bk = add_balance s (- (n + fee)) (hold tx s (n + fee) bk)"

definition transfer_mode_of :: "time \<Rightarrow> string \<times> time option \<times> int \<times> stringset \<Rightarrow> transfer_mode" where
  "transfer_mode_of ts opts =
     (case opts of (memo, pt, expiry, signers) \<Rightarrow>
        if Set_Size signers > 1 then Escrowed else if is_later pt ts then Locked else Now)"

lemma transfer_ids:
  assumes "running st" "transfer_checked st params kid n sAddr rAddr sender receiver sBal rBal fee"
  shows "bal_id sBal = Address_String sAddr" "bal_id rBal = ToUpper (params ! 1)" "bal_id sBal \<noteq> bal_id rBal"
    "code_of (bal_id sBal) = adr_code sAddr" "adr_code rAddr = adr_code sAddr"
    "stores (world st) (DBalance sBal)" "stores (world st) (DBalance rBal)"
    "stores (world st) (DAccount sender)" "Account_GetID sender = bal_id sBal"
    "stores (world st) (DAccount receiver)" "Account_GetID receiver = bal_id rBal"
proof -
  let ?sh = "shake_of st"
  note sh = runningD(1) [OF assms(1)] and ok = runningD(2) [OF assms(1)]
  note c = assms(2) [unfolded transfer_checked_def]
  have r: "wf_address ?sh rAddr" "Address_String rAddr = ToUpper (params ! 1)"
    using c ParseAddress_run by auto
  then have s: "wf_address ?sh sAddr" "adr_code sAddr = adr_code rAddr"
    using c transfer_sender_run [of st kid rAddr _ sAddr] sh by auto
  have a: "Account_GetID sender = Address_String sAddr" "Account_GetID receiver = Address_String rAddr"
    "stores (world st) (DAccount sender)" "stores (world st) (DAccount receiver)"
    using GetAccount_ok(1,2) [OF _ ok s(1), of sender] GetAccount_ok(1,2) [OF _ ok r(1), of receiver] c
    by (simp_all add: stores_def)
  have sb: "GetBalance st (Account_GetID sender) = Inr sBal" and rb: "GetBalance st (Account_GetID receiver) = Inr rBal"
    using c by auto
  note b = GetBalance_ok [OF sb ok] GetBalance_ok [OF rb ok]
  show "bal_id sBal = Address_String sAddr" "bal_id rBal = ToUpper (params ! 1)"
    "stores (world st) (DBalance sBal)" "stores (world st) (DBalance rBal)"
    "stores (world st) (DAccount sender)" "Account_GetID sender = bal_id sBal"
    "stores (world st) (DAccount receiver)" "Account_GetID receiver = bal_id rBal" "adr_code rAddr = adr_code sAddr"
    using a b r s by (simp_all add: stores_def)
  show "bal_id sBal \<noteq> bal_id rBal"
    using a b Address_String_inject [OF s(1) r(1)] c by auto
  show "code_of (bal_id sBal) = adr_code sAddr"
    using a b s by (simp add: code_of_String)
qed

lemma transfer_move_book:
  assumes "transfer_move st params sBal rBal sender receiver n fee opts = Inr (l, ws)"
    "stores (world st) (DBalance sBal)" "stores (world st) (DBalance rBal)" "bal_id sBal \<noteq> bal_id rBal"
  shows "\<exists>ts. GetTime st = Inr ts \<and>
    book_of (commit ws (world st)) = transfer_book (transfer_mode_of ts opts) (txid st) (stamp_id st ts)
      (bal_id sBal) (bal_id rBal) n fee (book_of (world st))"
proof -
  obtain memo pt expiry signers where o: "opts = (memo, pt, expiry, signers)"
    by (cases opts)
  obtain ts where ts: "GetTime st = Inr ts"
    and ws: "if Set_Size signers > 1
     then Set_Size signers \<le> 128 \<and>
       (\<exists>con cid ex. Contract_GetID con = Inr cid \<and> Contract_GetExpiryTime con = Inr ex \<and>
          ws = deposit_writes ts sBal (deposit_pending ts (txid st) (bal_id sBal) cid n (Some fee) memo ex))
     else ws = transfer_writes st ts sBal rBal n fee memo pt"
    using transfer_move_run [OF assms(1) [unfolded o]] by blast
  then have "book_of (commit ws (world st)) = transfer_book (transfer_mode_of ts opts) (txid st) (stamp_id st ts)
      (bal_id sBal) (bal_id rBal) n fee (book_of (world st))"
    using assms(2-4)
    by (auto simp: o transfer_mode_of_def book_of_transfer book_of_deposit split: if_splits)
  with ts show ?thesis
    by blast
qed

lemma transfer_book_balance:
  assumes "s \<noteq> r"
  shows "bk_balance (transfer_book mode tx fid s r n fee bk) i =
    (if i = s then map_option (\<lambda>m. m - (n + fee)) (bk_balance bk i)
     else if i = r \<and> mode = Now then map_option (\<lambda>m. m + n) (bk_balance bk i) else bk_balance bk i)"
  using assms by (cases mode) (auto intro: option.map_cong0)

definition transfer_spec :: "stub \<Rightarrow> string list \<Rightarrow> string \<Rightarrow> book \<Rightarrow> bool" where
  "transfer_spec st params s bk' \<longleftrightarrow>
     (\<exists>kid sender opts n fee m token ts.
        kid_GetID st True = Inr kid \<and> stores (world st) (DAccount sender) \<and> Account_GetID sender = s \<and>
        HasHolder sender kid \<and> \<not> IsSuspended sender \<and>
        transfer_options st (code_of s) params (account_signers kid sender) = Inr opts \<and>
        NewAmount (params ! 2) = Inr n \<and> 0 < n \<and> s \<noteq> ToUpper (params ! 1) \<and>
        code_of s = code_of (ToUpper (params ! 1)) \<and>
        GetToken st (code_of s) = Inr token \<and> fee = fee_spec token s ''transfer'' n \<and>
        bk_balance (book_of (world st)) s = Some m \<and> n + fee \<le> m \<and> GetTime st = Inr ts \<and>
        bk' = transfer_book (transfer_mode_of ts opts) (txid st) (stamp_id st ts) s (ToUpper (params ! 1)) n fee (book_of (world st)))"

text \<open>C1: a successful transfer refines the abstract transfer: from one account to another one of the same
  token, a positive amount that with the fee of the token's policy is covered by the balance of the sender, whose
  account is not suspended and has the invoker as a holder. The ledger after it abstracts to the book with
  that amount moved, time-locked or held, as the options and the signers say, the fee charged and nothing
  else changed.\<close>

theorem transfer_refines:
  assumes "running st" and "transfer st params = Inr (p, ws)"
  shows "\<exists>s. transfer_spec st params s (book_of (commit ws (world st)))"
proof -
  obtain kid n sAddr rAddr sender receiver sBal rBal fee opts l
    where c: "transfer_checked st params kid n sAddr rAddr sender receiver sBal rBal fee"
      and o: "transfer_options st (adr_code rAddr) params (account_signers kid sender) = Inr opts"
      and m: "transfer_move st params sBal rBal sender receiver n fee opts = Inr (l, ws)"
    using transfer_run [OF assms(2)] by blast
  note ids = transfer_ids [OF assms(1) c]
  obtain token where t: "GetToken st (adr_code sAddr) = Inr token"
    and fee: "fee = fee_spec token (Address_String sAddr) ''transfer'' n"
    using c CalcFee_value unfolding transfer_checked_def by metis
  have "ParseAddress (shake_of st) (params ! 1) = Inr rAddr"
    using c by (simp add: transfer_checked_def)
  note r = ParseAddress_run [OF this]
  have codes: "code_of (ToUpper (params ! 1)) = adr_code sAddr"
    using code_of_String [OF r(1)] r(2) ids(5) by simp
  obtain ts where ts: "GetTime st = Inr ts" "book_of (commit ws (world st)) = transfer_book (transfer_mode_of ts opts)
      (txid st) (stamp_id st ts) (bal_id sBal) (bal_id rBal) n fee (book_of (world st))"
    using transfer_move_book [OF m ids(6,7,3)] by blast
  have "transfer_spec st params (bal_id sBal) (book_of (commit ws (world st)))"
    unfolding transfer_spec_def ids(4)
    by (intro exI [of _ kid] exI [of _ sender] exI [of _ opts] exI [of _ n] exI [of _ fee]
        exI [of _ "bal_amount sBal"] exI [of _ token] exI [of _ ts])
      (use ts ids c o t fee codes book_of_sel(1) [OF ids(6)] in \<open>auto simp: transfer_checked_def\<close>)
  then show ?thesis ..
qed

theorem transfer_refines_witness:
  "\<exists>p ws s. transfer (demo kidA) [[], idB, ''100''] = Inr (p, ws) \<and>
     transfer_spec (demo kidA) [[], idB, ''100''] s (book_of (commit ws demo_ledger))"
proof -
  obtain p ws where "transfer (demo kidA) [[], idB, ''100''] = Inr (p, ws)"
    using demo_transfer by blast
  then show ?thesis
    using transfer_refines [OF demo_running, of kidA "[[], idB, ''100'']" p ws] by (auto simp: demo)
qed

text \<open>C4: a transfer cannot touch other people's money: the only balance it lowers is that of an account
  that is not suspended and has the invoker among its holders, and it lowers it to no less than zero.\<close>

theorem transfer_debits_own:
  assumes "running st" and "transfer st params = Inr (p, ws)"
    and "bk_balance (book_of (world st)) i = Some m" and "bk_balance (book_of (commit ws (world st))) i = Some m'"
    and "m' < m"
  shows "0 \<le> m' \<and> (\<exists>kid a. kid_GetID st True = Inr kid \<and> stores (world st) (DAccount a) \<and>
    Account_GetID a = i \<and> HasHolder a kid \<and> \<not> IsSuspended a)"
proof -
  obtain kid n sAddr rAddr sender receiver sBal rBal fee opts l
    where c: "transfer_checked st params kid n sAddr rAddr sender receiver sBal rBal fee"
      and mv: "transfer_move st params sBal rBal sender receiver n fee opts = Inr (l, ws)"
    using transfer_run [OF assms(2)] by blast
  note ids = transfer_ids [OF assms(1) c] and t = transfer_move_book [OF mv]
  have n: "0 < n" "n + fee \<le> bal_amount sBal"
    using c by (simp_all add: transfer_checked_def)
  have "i = bal_id sBal" "m' = m - (n + fee)"
    using t [OF ids(6,7,3)] assms(3-5) n(1) by (auto simp: transfer_book_balance [OF ids(3)] split: if_splits)
  then show ?thesis
    using ids c n assms(3) book_of_sel(1) [OF ids(6)] by (auto simp: transfer_checked_def)
qed

theorem transfer_debits_own_witness:
  "\<exists>p ws. transfer (demo kidA) [[], idB, ''100''] = Inr (p, ws) \<and>
     bk_balance (book_of (commit ws demo_ledger)) idA = Some 899 \<and>
     (\<exists>kid a. kid_GetID (demo kidA) True = Inr kid \<and> Account_GetID a = idA \<and> HasHolder a kid)"
proof -
  obtain p ws where "transfer (demo kidA) [[], idB, ''100''] = Inr (p, ws)"
    and b: "bk_balance (book_of (commit ws demo_ledger)) idA = Some 899"
    using demo_transfer by blast
  moreover have "bk_balance (book_of demo_ledger) idA = Some 1000"
    by (simp add: book_of_def demo)
  ultimately show ?thesis
    using transfer_debits_own [OF demo_running, of kidA "[[], idB, ''100'']" p ws idA 1000 899] by (auto simp: demo)
qed

section \<open>Settling a held transfer\<close>

text \<open>C22: what a multi-signature transfer or pay has held, a cancellation by its contract gives back. After
  \<open>Deposit\<close> was committed, \<open>cancelTransfer\<close> for that contract succeeds and the two transactions together
  leave the book as it was: every balance, pending balance, supply, pay and fee.\<close>

theorem deposit_cancel_roundtrip:
  assumes "running st" "GetBalance st i = Inr b" "world st (PendingKey pid) = None"
    and dep: "Deposit st pid b con n fee memo = Inr (l, ws)"
    and con: "Contract_GetID con = Inr cid" "Contract_GetExpiryTime con = Inr ex"
    and times: "GetTime st = Inr ts" "readable_time (Some ts)" "readable_time (Some ex)"
    and st': "world st' = commit ws (world st)" "GetTime st' = Inr ts'"
      "\<And>k. get_fault st' k = None" "\<And>k. put_fault st' k = None"
  shows "\<exists>ws'. cancelTransfer st' cid (ty # JStr pid # rest) = Inr (NoPayload, ws') \<and>
    book_of (commit ws' (world st')) = book_of (world st)"
proof -
  note b = GetBalance_ok [OF assms(2) runningD(2) [OF assms(1)]]
  define pb where "pb = deposit_pending ts pid (bal_id b) cid n fee memo ex"
  define b' where "b' = with_amount b (bal_amount b - (n + fee_or_zero fee)) ts"
  have ws: "ws = deposit_writes ts b pb"
    using Deposit_run [OF dep] con times(1) by (auto simp: pb_def)
  have pb: "pb_id pb = pid" "pb_account pb = bal_id b" "pb_amount pb = n" "pb_fee pb = fee"
    "own_pending pb cid" "readable_pending pb"
    using times by (simp_all add: pb_def own_pending_def readable_pending_def deposit_pending_def NewPendingBalance_def)
  have w: "world st' (PendingKey pid) = Some (DPending pb)" "world st' (BalanceKey (bal_id b)) = Some (DBalance b')"
    using st'(1) pb(1-4) b by (simp_all add: ws deposit_writes_def write_forms log_key_def b'_def Let_def)
  have got: "GetPendingBalance st' pid = Inr pb" "GetBalance st' (bal_id b) = Inr b'"
    using w st'(3) pb(6) by (simp_all add: run)
  then have "\<exists>ws'. cancelTransfer st' cid (ty # JStr pid # rest) = Inr (NoPayload, ws')"
    using st' pb by (simp add: cancelTransfer_def Withdraw_def str_at_def PutBalance_def PutBalanceLog_def
        PutState_def DelState_def Success_def Let_def)
  then obtain ws' where c: "cancelTransfer st' cid (ty # JStr pid # rest) = Inr (NoPayload, ws')"
    by blast
  have ws': "ws' = withdraw_writes ts' b' pb"
    using cancelTransfer_run [OF c] got st'(2) pb(2) by auto
  have "stores (world st') (DBalance b')" "bal_id b' = bal_id b"
    using w by (simp_all add: stores_def b'_def)
  then have "book_of (commit ws' (world st')) =
      release pid (add_balance (bal_id b) (n + fee_or_zero fee) (book_of (world st')))"
    using book_of_withdraw [of "world st'" b' ts' pb] pb by (simp add: ws')
  also have "\<dots> = book_of (world st)"
  proof -
    have "stores (world st) (DBalance b)"
      using b by (simp add: stores_def)
    then have "book_of (world st') =
        add_balance (bal_id b) (- (n + fee_or_zero fee)) (hold pid (bal_id b) (n + fee_or_zero fee) (book_of (world st)))"
      using book_of_deposit [of "world st" b pb ts] pb st'(1) by (simp add: ws Let_def)
    moreover have "bk_balance (book_of (world st)) (bal_id b) = Some (bal_amount b)"
      "bk_pending (book_of (world st)) pid = None"
      using b assms(3) by (simp_all add: book_of_def)
    ultimately show ?thesis
      by (simp add: book_ops fun_upd_idem)
  qed
  finally show ?thesis
    using c by blast
qed

theorem deposit_cancel_roundtrip_witness:
  "\<exists>l ws ws'. Deposit (demo kidA) ''tx'' (demo_balance idA 1000) demo_con 10 (Some 1) [] = Inr (l, ws) \<and>
     cancelTransfer ((demo kidA)\<lparr>world := commit ws demo_ledger\<rparr>) ''c9'' [JStr ''transfer'', JStr ''tx''] =
       Inr (NoPayload, ws') \<and>
     book_of (commit ws' (commit ws demo_ledger)) = book_of demo_ledger"
proof -
  obtain l ws where dep: "Deposit (demo kidA) ''tx'' (demo_balance idA 1000) demo_con 10 (Some 1) [] = Inr (l, ws)"
    using demo_deposit by blast
  let ?st = "(demo kidA)\<lparr>world := commit ws demo_ledger\<rparr>"
  have "\<exists>ws'. cancelTransfer ?st ''c9'' [JStr ''transfer'', JStr ''tx''] = Inr (NoPayload, ws') \<and>
      book_of (commit ws' (world ?st)) = book_of (world (demo kidA))"
    by (rule deposit_cancel_roundtrip [OF demo_running _ _ dep, where i = idA and cid = "''c9''" and ts = t1 and ex = t1 and ts' = t1])
      (simp_all add: demo)
  then show ?thesis
    using dep by (auto simp: demo)
qed

text \<open>C11: when the contract executes, the held amount goes to the receiver named in the document, at once or
  under the time lock, the fee that was held is charged and the pending balance is gone. Only a pending
  balance of the calling contract can be executed.\<close>

theorem executeTransfer_refines:
  assumes "running st" and "executeTransfer st cid doc = Inr (p, ws)"
  shows "\<exists>pid r pb ts pt. doc ! 1 = JStr pid \<and> doc ! 3 = JStr r \<and> stores (world st) (DPending pb) \<and> pb_id pb = pid \<and>
    pb_type pb = PendingBalanceTypeContract \<and> pb_rid pb = cid \<and> GetTime st = Inr ts \<and>
    bk_balance (book_of (world st)) r \<noteq> None \<and>
    book_of (commit ws (world st)) =
      release pid (charge (stamp_id st ts) (code_of (pb_account pb)) (fee_or_zero (pb_fee pb))
        (if is_later pt ts then hold (txid st) r (pb_amount pb) (book_of (world st))
         else add_balance r (pb_amount pb) (book_of (world st))))"
proof -
  note ok = runningD(2) [OF assms(1)]
  obtain pid pb r rBal pt ts where d: "doc ! 1 = JStr pid" "doc ! 3 = JStr r"
    and pb: "GetPendingBalance st pid = Inr pb" "own_pending pb cid" and b: "GetBalance st r = Inr rBal"
    and ts: "GetTime st = Inr ts" and ws: "ws = transfer_pending_writes st ts pb rBal pt"
    using executeTransfer_run [OF assms(2)] by blast
  note B = GetBalance_ok [OF b ok] and P = GetPendingBalance_ok [OF pb(1) ok]
  have st: "stores (world st) (DBalance rBal)" "stores (world st) (DPending pb)"
    using B P by (simp_all add: stores_def)
  have "bk_balance (book_of (world st)) r \<noteq> None"
    using book_of_sel(1) [OF st(1)] B(1) by simp
  moreover have "pb_type pb = PendingBalanceTypeContract" "pb_rid pb = cid"
    using pb(2) by (simp_all add: own_pending_def)
  ultimately show ?thesis
    using d ts st P(1) B(1) book_of_transfer_pending [OF st(1), of st ts pb pt] unfolding ws by blast
qed

theorem executeTransfer_refines_witness:
  "\<exists>p ws pb. executeTransfer (demo kidA) ''c1'' demo_transfer_doc = Inr (p, ws) \<and>
     demo_ledger (PendingKey ''e1'') = Some (DPending pb) \<and> pb_rid pb = ''c1''"
proof -
  obtain p ws where "executeTransfer (demo kidA) ''c1'' demo_transfer_doc = Inr (p, ws)"
    using demo_execute by blast
  then show ?thesis
    using executeTransfer_refines [OF demo_running, of kidA "''c1''" demo_transfer_doc p ws]
    by (auto simp: stores_def demo)
qed

text \<open>C20: the owner takes back a pending balance with \<open>balance/pending/withdraw\<close> only when its pending time is
  not after the transaction time and the invoker holds the owner's account, which is not suspended; the
  whole amount with the held fee returns to the owner and nothing else changes.\<close>

theorem balancePendingWithdraw_refines:
  assumes "running st" and "balancePendingWithdraw st params = Inr (p, ws)"
  shows "\<exists>pb pt ts kid a. stores (world st) (DPending pb) \<and> pb_id pb = params ! 0 \<and> pb_pending pb = Some pt \<and>
    GetTime st = Inr ts \<and> pt \<le> ts \<and> kid_GetID st True = Inr kid \<and> stores (world st) (DAccount a) \<and>
    Account_GetID a = ToUpper (pb_account pb) \<and> HasHolder a kid \<and> \<not> IsSuspended a \<and>
    book_of (commit ws (world st)) =
      release (params ! 0) (add_balance (pb_account pb) (pb_amount pb + fee_or_zero (pb_fee pb)) (book_of (world st)))"
proof -
  note ok = runningD(2) [OF assms(1)]
  obtain ts kid pb pt addr account bal where ts: "GetTime st = Inr ts" "pb_pending pb = Some pt" "pt \<le> ts"
    and k: "kid_GetID st True = Inr kid" "HasHolder account kid" "\<not> IsSuspended account"
    and pb: "GetPendingBalance st (params ! 0) = Inr pb" and a: "ParseAddress (shake_of st) (pb_account pb) = Inr addr"
    and acc: "GetAccount st addr = Inr account" and b: "GetBalance st (pb_account pb) = Inr bal"
    and ws: "ws = withdraw_writes ts bal pb"
    using balancePendingWithdraw_run [OF assms(2)] by blast
  note A = GetAccount_ok [OF acc ok ParseAddress_run(1) [OF a]] and B = GetBalance_ok [OF b ok]
    and P = GetPendingBalance_ok [OF pb ok]
  have st: "stores (world st) (DBalance bal)" "stores (world st) (DPending pb)" "stores (world st) (DAccount account)"
    using A B P by (simp_all add: stores_def)
  show ?thesis
    using ts k st P(1) A(1) B(1) ParseAddress_run(2) [OF a] book_of_withdraw [OF st(1), of ts pb] unfolding ws
    by auto
qed

theorem balancePendingWithdraw_refines_witness:
  "\<exists>p ws. balancePendingWithdraw (demo kidA) [''e1''] = Inr (p, ws) \<and>
     book_of (commit ws demo_ledger) = release ''e1'' (add_balance idA 11 (book_of demo_ledger))"
proof -
  obtain p ws where "balancePendingWithdraw (demo kidA) [''e1''] = Inr (p, ws)"
    using demo_withdraw by blast
  then show ?thesis
    using balancePendingWithdraw_refines [OF demo_running, of kidA "[''e1'']" p ws]
    by (auto simp: demo stores_def)
qed

end
