(* ===== verification/Spec2Isabelle.thy ===== *)
theory Spec2Isabelle
  imports Progress Pays Callbacks Transfers
begin

text \<open>
  A verification of kiesnet-token, a chaincode (smart contract) of Hyperledger Fabric that issues tokens and
  keeps accounts, balances, time-locked and contract-held amounts, pays, refunds and fees on a ledger.

  \<^bold>\<open>The program.\<close> \<open>main.go\<close> dispatches a transaction by its function name to a handler (\<open>account_tx.go\<close>,
  \<open>balance_tx.go\<close>, \<open>contract_tx.go\<close>, \<open>fee_tx.go\<close>, \<open>pay_tx.go\<close>, \<open>token_tx.go\<close>, \<open>transfer_tx.go\<close>). A
  handler checks its parameters and calls a stub (\<open>account_stub.go\<close>, \<open>balance_stub.go\<close>, \<open>fee_stub.go\<close>,
  \<open>last_pruend_fee_id_stub.go\<close>, \<open>pay_stub.go\<close>, \<open>token_stub.go\<close>), which reads and writes documents of the
  ledger (\<open>account.go\<close>, \<open>balance.go\<close>, \<open>fee.go\<close>, \<open>pay.go\<close>, \<open>token.go\<close>) under text keys. What several
  holders must sign goes to another chaincode as a contract; that chaincode calls back (\<open>contract/execute\<close>,
  \<open>contract/cancel\<close>) and the amount, held meanwhile as a pending balance, is settled.

  \<^bold>\<open>The model.\<close> A handler is a function from a \<open>stub\<close> and the parameters to a response: \<open>Inl\<close> a failure (an
  error answer or a panic), or \<open>Inr\<close> the payload and the list of writes in the order of the code. \<open>commit\<close> applies
  the writes to the ledger, a map from keys to documents, and \<open>settle\<close> is what the platform does with an
  answer. The \<open>stub\<close> record holds what the platform and other chaincodes answer: the committed state, faults of reading
  and writing, the transaction's identifier and time, the peer's clock, the answers of invoked chaincodes, the rows
  of database queries, and the hash SHAKE-256. These are arbitrary parameters, so every theorem holds for
  any of their values; the hash is relied on for its output length only (\<open>shake_ok\<close>).

  \<^bold>\<open>Theories and the code they model.\<close>
    \<^item> \<open>Prelude\<close>: chains of fallible steps (\<open>attempt\<close>, \<open>require\<close>), their run rules, sums over maps.
    \<^item> \<open>GoStrings\<close>, \<open>Utf8\<close>, \<open>Json\<close>: what the code uses of \<open>strings\<close>, \<open>strconv\<close>, \<open>encoding/hex\<close>, \<open>unicode/utf8\<close>,
      \<open>encoding/json\<close>.
    \<^item> \<open>TxTime\<close>: the package \<open>txtime\<close>. \<open>StringSet\<close>: the package \<open>stringset\<close>. \<open>Shim\<close>: the platform's stub and
      the packages \<open>kid\<close>, \<open>contract\<close>, \<open>ccid\<close>.
    \<^item> \<open>Errors\<close>: \<open>errors.go\<close>. \<open>Amount\<close>: \<open>amount.go\<close>. \<open>Address\<close>: \<open>address.go\<close>. \<open>Docs\<close>: the documents and their keys.
      \<open>Queries\<close>: \<open>queries.go\<close> and \<open>query_result.go\<close>.
      \<open>Wire\<close>: the JSON of the documents, by the tags of the structs, in both directions. The stubs keep a document with
      the bytes it was marshalled from; \<open>clean_doc\<close> is what its text is read back as.
    \<^item> \<open>TokenStore\<close>, \<open>FeeStub\<close>, \<open>BalanceStub\<close>, \<open>BalanceMoves\<close>, \<open>AccountStub\<close>, \<open>TokenStub\<close>, \<open>PayStub\<close>: the stub files.
    \<^item> \<open>Handlers\<close>, \<open>TransferTx\<close>, \<open>PayTx\<close>, \<open>BalanceTx\<close>, \<open>AccountTx\<close>, \<open>TokenTx\<close>, \<open>FeeTx\<close>: the transaction files.
    \<^item> \<open>Chaincode\<close>: \<open>contract_tx.go\<close> and the dispatch of \<open>main.go\<close>.

  Each operation comes with a \<open>_run\<close> lemma: a successful run as the conjunction of what it read and checked, with its
  writes in closed form (\<open>transfer_writes\<close>, \<open>deposit_writes\<close> and others). Interfaces are locales: \<open>doc_writer\<close> and \<open>doc_store\<close>
  for the putters and getters of each kind of document, \<open>string_set\<close> for the set operations, all interpreted on
  the model's own definitions.

  \<^bold>\<open>Invariants and abstraction.\<close> \<open>Conservation\<close> gives every document a value and shows what each closed form does to
  the total. \<open>Invariant\<close> states \<open>ledger_ok\<close> and the condition on single writes that keeps it; \<open>Steps\<close>,
  \<open>AccountSteps\<close> and \<open>TokenSteps\<close> show both for every handler, \<open>Dispatch\<close> for \<open>Invoke\<close>, and defines the reachable
  ledgers. \<open>Book\<close> is the abstract specification: an account book of balances, pending amounts, supplies, pays and
  fees with a few operations; \<open>book_of\<close> abstracts a ledger to it. \<open>Demo\<close> is a concrete stub on which the witnesses
  run the chaincode.

  \<^bold>\<open>Properties.\<close>
    \<^item> \<open>Transfers\<close>, \<open>Pays\<close>, \<open>Tokens\<close>, \<open>Fees\<close>, \<open>Accounts\<close>: each successful handler refines its operation on the
      account book, under conditions that name who may do it and how much.
    \<^item> \<open>Callbacks\<close>: who settles pending balances, and two ways in which the chaincode gets stuck or panics.
    \<^item> \<open>Holders\<close>: the index of holders agrees with the accounts on every reachable ledger.
    \<^item> \<open>Suspension\<close>: the balance of a suspended account is frozen, but for the fees of a fee target.
    \<^item> \<open>Texts\<close>: addresses, contract documents and identifiers survive their text.
    \<^item> \<open>Ledgers\<close>: conservation of money, what holds of every reachable ledger, what its documents are read back as, and
      read-only functions.
    \<^item> \<open>Marks\<close>, \<open>Panics\<close>: no transaction panics, by one rule per construct of a chain (\<open>quiet\<close>).
    \<^item> \<open>Progress\<close>: where the ledger does not fail, covered transfers and due withdrawals go through.

  \<^bold>\<open>Assumptions.\<close> \<open>running\<close> is the ledger invariant, which every transaction keeps from the empty ledger on. \<open>fresh_tx\<close> is
  the uniqueness of transaction identifiers, which the platform guarantees. \<open>trusted_call\<close> is what is relied on of
  the contract chaincode: that it calls back with documents that this chaincode made (\<open>made_doc\<close> lists their forms); \<open>contract_answers\<close> that its
  answers have the two fields that are read. \<open>honest\<close> is what is relied on of the platform: long transaction
  identifiers, and queries that answer with documents of the ledger. Prunes are left out of conservation, since they credit amounts whose documents stay in the ledger as history.

  \<^bold>\<open>Bounds and fuel.\<close> \<open>json_parse\<close> runs on fuel of twice the length of the text plus two, enough for every text
  (\<open>json_parse_fuel\<close> in \<open>JsonFuel\<close>: more fuel reads no more); all other recursion is structural or proved to terminate. Amounts are
  unbounded as in \<open>big.Int\<close>; times, parsed integers and \<open>UnixNano\<close> keep their 64 bits.

  \<^bold>\<open>Not modelled.\<close> The start of the process and \<open>Init\<close>; the logger; the order in which Go visits a map, for which a set is
  a list in order of insertion; Unicode beyond single bytes in case conversion; the JSON text of answers
  other than query results and accounts, represented by the value that is marshalled; texts of documents that the chaincode did not write. Third-party packages and the database are
  parameters.
\<close>

end
